(* ===== verification/Prelude.thy ===== *)
theory Prelude
  imports Complex_Main "HOL-Library.Char_ord" "HOL-Library.List_Lexorder"
    "HOL-Library.Product_Lexorder"
begin

text \<open>
  Shared vocabulary of the development: the Python values an evidence mapping holds, the
  dictionary and string operations the components use, Python's rounding, and the generic
  lemmas on them.  Strings are character lists; the code's text is read as Latin-1,
  with its white space; case mapping and digits are those of ASCII.  Floats are modelled by real numbers:
  NaN and the infinities do not occur in the modelled computations.
\<close>

named_theorems dict_simps \<open>laws of the association-list dictionaries\<close>
named_theorems mono_rules \<open>monotonicity of the scoring building blocks\<close>

section \<open>Python values\<close>

datatype pyval =
    PyNone
  | PyBool bool
  | PyInt int
  | PyFloat real
  | PyStr string
  | PyList "pyval list"
  | PyDict "(string \<times> pyval) list"

section \<open>Characters and strings\<close>

definition char_code :: "char \<Rightarrow> nat" where
  "char_code c = of_char c"

definition is_digit :: "char \<Rightarrow> bool" where
  "is_digit c \<longleftrightarrow> 48 \<le> char_code c \<and> char_code c \<le> 57"

definition digit_value :: "char \<Rightarrow> nat" where
  "digit_value c = char_code c - 48"

definition is_lower_char :: "char \<Rightarrow> bool" where
  "is_lower_char c \<longleftrightarrow> 97 \<le> char_code c \<and> char_code c \<le> 122"

definition is_upper_char :: "char \<Rightarrow> bool" where
  "is_upper_char c \<longleftrightarrow> 65 \<le> char_code c \<and> char_code c \<le> 90"

definition to_upper :: "char \<Rightarrow> char" where
  "to_upper c = (if is_lower_char c then char_of (char_code c - 32) else c)"

definition to_lower :: "char \<Rightarrow> char" where
  "to_lower c = (if is_upper_char c then char_of (char_code c + 32) else c)"

definition py_upper :: "string \<Rightarrow> string" where
  "py_upper s = map to_upper s"

definition py_lower :: "string \<Rightarrow> string" where
  "py_lower s = map to_lower s"

text \<open>\<open>str.isspace\<close> on ASCII: tab, line feed, vertical tab, form feed, carriage return,
  the four separators and the space.\<close>

definition is_space :: "char \<Rightarrow> bool" where
  "is_space c \<longleftrightarrow> char_code c \<in> {9, 10, 11, 12, 13, 28, 29, 30, 31, 32, 133, 160}"

definition py_lstrip :: "string \<Rightarrow> string" where
  "py_lstrip s = dropWhile is_space s"

definition py_strip :: "string \<Rightarrow> string" where
  "py_strip s = rev (dropWhile is_space (rev (dropWhile is_space s)))"

definition starts_with :: "string \<Rightarrow> string \<Rightarrow> bool" where
  "starts_with s p \<longleftrightarrow> take (length p) s = p"

fun has_substring :: "string \<Rightarrow> string \<Rightarrow> bool" where
  "has_substring p [] = (p = [])"
| "has_substring p (c # s) = (starts_with (c # s) p \<or> has_substring p s)"

text \<open>\<open>s.split(sep)\<close> for a one-character separator: always at least one piece.\<close>

fun py_split :: "char \<Rightarrow> string \<Rightarrow> string list" where
  "py_split sep [] = [[]]"
| "py_split sep (c # s) =
     (if c = sep then [] # py_split sep s
      else (case py_split sep s of [] \<Rightarrow> [[c]] | p # ps \<Rightarrow> (c # p) # ps))"

text \<open>The characters outside ASCII that the texts of the program use, as their UTF-8 bytes.\<close>

definition em_dash :: string where
  "em_dash = [CHR 0xE2, CHR 0x80, CHR 0x94]"

definition en_dash :: string where
  "en_dash = [CHR 0xE2, CHR 0x80, CHR 0x93]"

definition at_least_sign :: string where
  "at_least_sign = [CHR 0xE2, CHR 0x89, CHR 0xA5]"

definition section_sign :: string where
  "section_sign = [CHR 0xC2, CHR 0xA7]"

lemma find_SomeD: "find P xs = Some x \<Longrightarrow> x \<in> set xs \<and> P x"
  by (induction xs) (auto split: if_splits)

definition py_or_str :: "string option \<Rightarrow> string" where
  "py_or_str v = (case v of None \<Rightarrow> [] | Some s \<Rightarrow> s)"

lemma py_split_not_Nil [simp]: "py_split sep s \<noteq> []"
  by (induction s) (auto split: list.splits)

lemma py_split_no_sep: "sep \<notin> set s \<Longrightarrow> py_split sep s = [s]"
  by (induction s) auto

lemma py_split_append: "sep \<notin> set a \<Longrightarrow> py_split sep (a @ sep # b) = a # py_split sep b"
  by (induction a) auto

fun join_with :: "char \<Rightarrow> string list \<Rightarrow> string" where
  "join_with sep [] = []"
| "join_with sep [t] = t"
| "join_with sep (t # u # ts) = t @ sep # join_with sep (u # ts)"

lemma py_split_join: "ts \<noteq> [] \<Longrightarrow> \<forall>t \<in> set ts. sep \<notin> set t \<Longrightarrow> py_split sep (join_with sep ts) = ts"
  by (induction sep ts rule: join_with.induct) (simp_all add: py_split_no_sep py_split_append)

lemma py_split_pieces_no_sep: "p \<in> set (py_split sep s) \<Longrightarrow> sep \<notin> set p"
proof (induction s arbitrary: p)
  case Nil
  then show ?case by simp
next
  case (Cons c s)
  then show ?case by (cases "py_split sep s") (auto split: if_splits)
qed

section \<open>Decimal numbers\<close>

text \<open>\<open>str(n)\<close> for a non-negative integer, and for any integer.\<close>

fun nat_str :: "nat \<Rightarrow> string" where
  "nat_str n = (if n < 10 then [char_of (48 + n)]
                else nat_str (n div 10) @ [char_of (48 + n mod 10)])"

declare nat_str.simps [simp del]

definition int_str :: "int \<Rightarrow> string" where
  "int_str i = (if i < 0 then CHR ''-'' # nat_str (nat (- i)) else nat_str (nat i))"

definition digits_value :: "string \<Rightarrow> nat" where
  "digits_value s = foldl (\<lambda>n c. 10 * n + digit_value c) 0 s"

definition all_digits :: "string \<Rightarrow> bool" where
  "all_digits s \<longleftrightarrow> s \<noteq> [] \<and> list_all is_digit s"

lemma char_code_char_of [simp]: "n < 256 \<Longrightarrow> char_code (char_of (n :: nat)) = n"
  by (simp add: char_code_def)

lemma is_digit_digit_char [simp]: "d < 10 \<Longrightarrow> is_digit (char_of (48 + d :: nat))"
  by (simp add: is_digit_def)

lemma digit_value_digit_char [simp]: "d < 10 \<Longrightarrow> digit_value (char_of (48 + d :: nat)) = d"
  by (simp add: digit_value_def)

lemma all_digits_nat_str: "all_digits (nat_str n)"
proof (induction n rule: nat_str.induct)
  case (1 n)
  show ?case
  proof (cases "n < 10")
    case True
    then show ?thesis by (subst nat_str.simps) (simp add: all_digits_def)
  next
    case False
    with 1 show ?thesis by (subst nat_str.simps) (simp add: all_digits_def)
  qed
qed

lemma digits_value_nat_str: "digits_value (nat_str n) = n"
proof (induction n rule: nat_str.induct)
  case (1 n)
  show ?case
  proof (cases "n < 10")
    case True
    then show ?thesis by (subst nat_str.simps) (simp add: digits_value_def)
  next
    case False
    with 1 show ?thesis by (subst nat_str.simps) (simp add: digits_value_def)
  qed
qed

text \<open>\<open>int(s)\<close> on a string: surrounding whitespace, an optional sign, digits that may be
  grouped by single underscores.\<close>

fun grouped_digits :: "string \<Rightarrow> string option" where
  "grouped_digits [] = None"
| "grouped_digits [c] = (if is_digit c then Some [c] else None)"
| "grouped_digits (c # d # s) =
     (if \<not> is_digit c then None
      else if d = CHR ''_'' then map_option (\<lambda>r. c # r) (grouped_digits s)
      else map_option (\<lambda>r. c # r) (grouped_digits (d # s)))"

definition py_int_of_string :: "string \<Rightarrow> int option" where
  "py_int_of_string s =
     (case py_strip s of
        [] \<Rightarrow> None
      | c # r \<Rightarrow>
          (if c = CHR ''-'' then map_option (\<lambda>d. - int (digits_value d)) (grouped_digits r)
           else if c = CHR ''+'' then map_option (\<lambda>d. int (digits_value d)) (grouped_digits r)
           else map_option (\<lambda>d. int (digits_value d)) (grouped_digits (c # r))))"

section \<open>Rounding\<close>

text \<open>\<open>int(x)\<close> on a float truncates towards zero; \<open>round(x)\<close> rounds to the nearest
  integer, ties to even.\<close>

definition py_trunc :: "real \<Rightarrow> int" where
  "py_trunc x = (if 0 \<le> x then \<lfloor>x\<rfloor> else \<lceil>x\<rceil>)"

definition py_round :: "real \<Rightarrow> int" where
  "py_round x =
     (let f = \<lfloor>x\<rfloor>; d = x - of_int f in
      if d < 1 / 2 then f
      else if 1 / 2 < d then f + 1
      else if even f then f else f + 1)"

lemma py_round_of_int [simp]: "py_round (of_int n) = n"
  by (simp add: py_round_def)

lemma py_round_numeral [simp]:
  "py_round 0 = 0" "py_round 1 = 1" "py_round (numeral k) = numeral k"
  using py_round_of_int [of 0] py_round_of_int [of 1] py_round_of_int [of "numeral k"]
  by simp_all

lemma py_round_floor_cases: "py_round x = \<lfloor>x\<rfloor> \<or> py_round x = \<lfloor>x\<rfloor> + 1"
  by (auto simp: py_round_def Let_def)

lemma py_round_near: "\<bar>x - of_int n\<bar> < 1 / 2 \<Longrightarrow> py_round x = n"
proof -
  assume a: "\<bar>x - of_int n\<bar> < 1 / 2"
  show "py_round x = n"
  proof (cases "of_int n \<le> x")
    case True
    with a have "\<lfloor>x\<rfloor> = n" by (intro floor_unique) linarith+
    with a True show ?thesis by (simp add: py_round_def Let_def)
  next
    case False
    with a have "\<lfloor>x\<rfloor> = n - 1" by (intro floor_unique) (auto simp: abs_if split: if_splits)
    with a False show ?thesis by (simp add: py_round_def Let_def)
  qed
qed

lemma py_round_mono [mono_rules]: "x \<le> y \<Longrightarrow> py_round x \<le> py_round y"
proof -
  assume le: "x \<le> y"
  then have fl: "\<lfloor>x\<rfloor> \<le> \<lfloor>y\<rfloor>" by (rule floor_mono)
  show ?thesis
  proof (cases "\<lfloor>x\<rfloor> = \<lfloor>y\<rfloor>")
    case True
    with le show ?thesis by (auto simp: py_round_def Let_def)
  next
    case False
    with fl have "\<lfloor>x\<rfloor> + 1 \<le> \<lfloor>y\<rfloor>" by linarith
    with py_round_floor_cases [of x] py_round_floor_cases [of y] show ?thesis by linarith
  qed
qed

lemma py_round_bounds: "of_int a \<le> x \<Longrightarrow> x \<le> of_int b \<Longrightarrow> a \<le> py_round x \<and> py_round x \<le> b"
  using py_round_mono [of "of_int a" x] py_round_mono [of x "of_int b"] by simp

section \<open>Coercions\<close>

text \<open>\<open>int(v)\<close> with the exceptions of the source's \<open>_as_int\<close> turned into 0 is defined in
  the component that declares it; this is the part of \<open>int(v)\<close> that returns.\<close>

definition py_int :: "pyval \<Rightarrow> int option" where
  "py_int v =
     (case v of
        PyNone \<Rightarrow> None
      | PyBool b \<Rightarrow> Some (if b then 1 else 0)
      | PyInt n \<Rightarrow> Some n
      | PyFloat x \<Rightarrow> Some (py_trunc x)
      | PyStr s \<Rightarrow> py_int_of_string s
      | PyList _ \<Rightarrow> None
      | PyDict _ \<Rightarrow> None)"

text \<open>Truth value, \<open>str(v)\<close> (given the text of floats, lists and dictionaries) and
  \<open>a or b\<close>.\<close>

definition py_truthy :: "pyval \<Rightarrow> bool" where
  "py_truthy v =
     (case v of
        PyNone \<Rightarrow> False
      | PyBool b \<Rightarrow> b
      | PyInt n \<Rightarrow> n \<noteq> 0
      | PyFloat x \<Rightarrow> x \<noteq> 0
      | PyStr s \<Rightarrow> s \<noteq> []
      | PyList l \<Rightarrow> l \<noteq> []
      | PyDict d \<Rightarrow> d \<noteq> [])"

definition py_or :: "pyval \<Rightarrow> pyval \<Rightarrow> pyval" where
  "py_or a b = (if py_truthy a then a else b)"

definition py_str :: "(pyval \<Rightarrow> string) \<Rightarrow> pyval \<Rightarrow> string" where
  "py_str repr v =
     (case v of
        PyNone \<Rightarrow> ''None''
      | PyBool b \<Rightarrow> if b then ''True'' else ''False''
      | PyInt n \<Rightarrow> int_str n
      | PyStr s \<Rightarrow> s
      | _ \<Rightarrow> repr v)"

section \<open>Dictionaries\<close>

text \<open>A Python dictionary is an association list with distinct keys in insertion order.
  Storing under a present key keeps its position.\<close>

fun dict_put :: "'k \<Rightarrow> 'v \<Rightarrow> ('k \<times> 'v) list \<Rightarrow> ('k \<times> 'v) list" where
  "dict_put k v [] = [(k, v)]"
| "dict_put k v ((k', v') # d) = (if k' = k then (k, v) # d else (k', v') # dict_put k v d)"

fun dict_del :: "'k \<Rightarrow> ('k \<times> 'v) list \<Rightarrow> ('k \<times> 'v) list" where
  "dict_del k [] = []"
| "dict_del k ((k', v') # d) = (if k' = k then d else (k', v') # dict_del k d)"

definition dict_get :: "('k \<times> 'v) list \<Rightarrow> 'k \<Rightarrow> 'v \<Rightarrow> 'v" where
  "dict_get d k v = (case map_of d k of None \<Rightarrow> v | Some x \<Rightarrow> x)"

definition dict_ok :: "('k \<times> 'v) list \<Rightarrow> bool" where
  "dict_ok d \<longleftrightarrow> distinct (map fst d)"

lemma map_of_dict_put [dict_simps]: "map_of (dict_put k v d) = (map_of d)(k \<mapsto> v)"
  by (induction d) auto

lemma fst_dict_put: "fst ` set (dict_put k v d) = insert k (fst ` set d)"
  by (induction k v d rule: dict_put.induct) (simp_all add: insert_commute)

lemma fst_dict_del: "fst ` set (dict_del k d) \<subseteq> fst ` set d"
  by (induction k d rule: dict_del.induct) (simp_all add: subset_insertI2 subset_insertI insert_mono)

lemma dict_ok_put [dict_simps]: "dict_ok d \<Longrightarrow> dict_ok (dict_put k v d)"
proof (induction d)
  case Nil
  then show ?case by (simp add: dict_ok_def)
next
  case (Cons p d)
  obtain k' v' where p: "p = (k', v')" by (cases p)
  show ?case
  proof (cases "k' = k")
    case True
    with Cons.prems p show ?thesis by (simp add: dict_ok_def)
  next
    case False
    with Cons p fst_dict_put [of k v d] show ?thesis by (auto simp: dict_ok_def)
  qed
qed

lemma dict_ok_del [dict_simps]: "dict_ok d \<Longrightarrow> dict_ok (dict_del k d)"
proof (induction d)
  case (Cons p d)
  then show ?case using fst_dict_del [of k d] by (cases p) (auto simp: dict_ok_def)
qed (simp add: dict_ok_def)

lemma map_of_dict_del [dict_simps]: "dict_ok d \<Longrightarrow> map_of (dict_del k d) = (map_of d)(k := None)"
proof (induction d)
  case (Cons p d)
  obtain k' v' where p: "p = (k', v')" by (cases p)
  show ?case
  proof (cases "k' = k")
    case True
    with Cons.prems p have "map_of d k = None"
      by (simp add: dict_ok_def map_of_eq_None_iff)
    with True p show ?thesis by (auto simp: fun_eq_iff)
  next
    case False
    with Cons p show ?thesis by (auto simp: dict_ok_def fun_eq_iff)
  qed
qed simp

lemma dict_put_new: "k \<notin> fst ` set d \<Longrightarrow> dict_put k v d = d @ [(k, v)]"
  by (induction k v d rule: dict_put.induct) auto

lemma set_dict_put_distinct:
  "distinct (map fst d) \<Longrightarrow> set (dict_put k v d) = insert (k, v) {p \<in> set d. fst p \<noteq> k}"
  by (induction d) (auto simp: image_iff split: if_splits, force)

lemma distinct_dict_put: "distinct (map fst d) \<Longrightarrow> distinct (map fst (dict_put k v d))"
  using dict_ok_put [of d k v] by (simp add: dict_ok_def)

lemma length_dict_put: "length (dict_put k v d) \<le> Suc (length d)"
  by (induction d) auto

lemma dict_get_put [dict_simps]:
  "dict_get (dict_put k v d) k' x = (if k' = k then v else dict_get d k' x)"
  by (simp add: dict_get_def dict_simps)

section \<open>Lists\<close>

lemma sum_list_mono_pointwise:
  fixes f g :: "'a \<Rightarrow> real"
  shows "(\<And>x. x \<in> set xs \<Longrightarrow> f x \<le> g x) \<Longrightarrow> sum_list (map f xs) \<le> sum_list (map g xs)"
  by (rule sum_list_mono)

lemma distinct_keys_unique:
  "distinct (map f xs) \<Longrightarrow> x \<in> set xs \<Longrightarrow> y \<in> set xs \<Longrightarrow> f x = f y \<Longrightarrow> x = y"
  by (metis distinct_map inj_onD)

section \<open>Errors as values\<close>

definition bind_err :: "'e + 'a \<Rightarrow> ('a \<Rightarrow> 'e + 'b) \<Rightarrow> 'e + 'b" where
  "bind_err m f = (case m of Inl e \<Rightarrow> Inl e | Inr x \<Rightarrow> f x)"

fun err_fold :: "('a \<Rightarrow> 's \<Rightarrow> 'e + 's) \<Rightarrow> 'a list \<Rightarrow> 's \<Rightarrow> 'e + 's" where
  "err_fold f [] s = Inr s"
| "err_fold f (x # xs) s = bind_err (f x s) (err_fold f xs)"

lemma bind_err_simps [simp]: "bind_err (Inl e) f = Inl e" "bind_err (Inr x) f = f x"
  by (simp_all add: bind_err_def)

lemma bind_err_Inr: "bind_err m f = Inr y \<longleftrightarrow> (\<exists>x. m = Inr x \<and> f x = Inr y)"
  by (cases m) simp_all

text \<open>A loop that stops at the first error: what every step keeps holds at the end.\<close>

lemma err_fold_invariant:
  assumes "err_fold f xs s = Inr t" and "P s"
    and "\<And>x s t. x \<in> set xs \<Longrightarrow> P s \<Longrightarrow> f x s = Inr t \<Longrightarrow> P t"
  shows "P t"
  using assms
proof (induction xs arbitrary: s)
  case (Cons x xs)
  then obtain u where "f x s = Inr u" "err_fold f xs u = Inr t" by (auto simp: bind_err_Inr)
  with Cons show ?case by (meson list.set_intros)
qed simp

text \<open>A loop whose steps never fail under an invariant never fails.\<close>

lemma err_fold_returns:
  assumes "P s" and "\<And>x s. x \<in> set xs \<Longrightarrow> P s \<Longrightarrow> \<exists>t. f x s = Inr t \<and> P t"
  shows "\<exists>t. err_fold f xs s = Inr t \<and> P t"
  using assms
proof (induction xs arbitrary: s)
  case (Cons x xs)
  then obtain u where u: "f x s = Inr u" "P u" by (meson list.set_intros(1))
  with Cons show ?case by (simp add: u)
qed simp

text \<open>\<open>dict.fromkeys(xs)\<close>: the elements of a list in the order of their first occurrence.\<close>

definition first_occurrences :: "'a list \<Rightarrow> 'a list" where
  "first_occurrences xs = rev (remdups (rev xs))"

lemma first_occurrences [simp]:
  "set (first_occurrences xs) = set xs" "distinct (first_occurrences xs)"
  by (simp_all add: first_occurrences_def)

section \<open>Counters and ratios\<close>

text \<open>\<open>d[k] += 1\<close> on a dictionary of counters, and a sequence of increments.\<close>

definition bump :: "string \<Rightarrow> (string \<times> int) list \<Rightarrow> (string \<times> int) list" where
  "bump k c = dict_put k (dict_get c k 0 + 1) c"

definition bump_all :: "string list \<Rightarrow> (string \<times> int) list \<Rightarrow> (string \<times> int) list" where
  "bump_all ks c = foldl (\<lambda>c k. bump k c) c ks"

lemma bump_all_get: "dict_get (bump_all ks c) k 0 = dict_get c k 0 + int (count_list ks k)"
proof (induction ks arbitrary: c)
  case Nil
  then show ?case by (simp add: bump_all_def)
next
  case (Cons x ks)
  have "bump_all (x # ks) c = bump_all ks (bump x c)" by (simp add: bump_all_def)
  with Cons show ?case by (simp add: bump_def dict_simps)
qed

text \<open>\<open>round(x, 4)\<close>.\<close>

definition round4 :: "real \<Rightarrow> real" where
  "round4 x = of_int (py_round (x * 10000)) / 10000"

end
