(* ===== verification/Severity_Bands.thy ===== *)
theory Severity_Bands
  imports Prelude
begin

text \<open>
  The readiness-band table of \<open>quirk/severity_bands.py\<close>: band order, score thresholds, the
  CRITICAL allowance per band, the band of a numeric score and the severity cap on a band.
  Bands are the strings the code uses; the fail-fast \<open>ValueError\<close> is the \<open>Inl\<close> branch.
\<close>

section \<open>The table\<close>

datatype band_error = ValueError string

definition band_order :: "string list" where
  "band_order = [''EXCELLENT'', ''GOOD'', ''MODERATE'', ''FAIR'', ''POOR'']"

definition band_thresholds :: "(string \<times> int) list" where
  "band_thresholds = [(''EXCELLENT'', 85), (''GOOD'', 70), (''MODERATE'', 55), (''FAIR'', 35)]"

definition band_critical_allowance :: "(string \<times> int option) list" where
  "band_critical_allowance =
     [(''EXCELLENT'', Some 0), (''GOOD'', Some 0), (''MODERATE'', Some 0), (''FAIR'', None),
      (''POOR'', None)]"

section \<open>Operations\<close>

definition band_for_score :: "int \<Rightarrow> string" where
  "band_for_score score =
     (if dict_get band_thresholds ''EXCELLENT'' 0 \<le> score then ''EXCELLENT''
      else if dict_get band_thresholds ''GOOD'' 0 \<le> score then ''GOOD''
      else if dict_get band_thresholds ''MODERATE'' 0 \<le> score then ''MODERATE''
      else if dict_get band_thresholds ''FAIR'' 0 \<le> score then ''FAIR''
      else ''POOR'')"

text \<open>\<open>BAND_CRITICAL_ALLOWANCE.get(candidate)\<close>: a missing key and the value None both read
  as None, that is, unrestricted.\<close>

definition band_allowance :: "string \<Rightarrow> int option" where
  "band_allowance b = dict_get band_critical_allowance b None"

text \<open>The search of \<open>cap_band_for_severity\<close>: the candidates from the numeric band downwards,
  and the last band when none admits the count.\<close>

fun first_admitting :: "int \<Rightarrow> string list \<Rightarrow> string" where
  "first_admitting n [] = last band_order"
| "first_admitting n (candidate # rest) =
     (case band_allowance candidate of
        None \<Rightarrow> candidate
      | Some allowance \<Rightarrow> if n \<le> allowance then candidate else first_admitting n rest)"

definition cap_band_for_severity :: "string \<Rightarrow> int \<Rightarrow> band_error + string" where
  "cap_band_for_severity numeric_band critical_count =
     (if numeric_band \<notin> set band_order then Inl (ValueError numeric_band)
      else if critical_count \<le> 0 then Inr numeric_band
      else Inr (first_admitting critical_count
                  (dropWhile (\<lambda>b. b \<noteq> numeric_band) band_order)))"

definition cap_reason :: "string \<Rightarrow> string \<Rightarrow> int \<Rightarrow> int \<Rightarrow> string option" where
  "cap_reason numeric_band capped_band critical_count score =
     (if capped_band = numeric_band then None
      else Some (''Band capped at '' @ capped_band @ '': '' @ int_str critical_count
                 @ '' CRITICAL finding(s) open (score '' @ int_str score @ ''/100).''))"

section \<open>How favourable a band is\<close>

text \<open>The position in \<open>BAND_ORDER\<close>: 0 is the most favourable band.\<close>

definition band_index :: "string \<Rightarrow> nat" where
  "band_index b = length (takeWhile (\<lambda>c. c \<noteq> b) band_order)"

named_theorems band_simps \<open>evaluation of the band table\<close>

lemmas band_table [band_simps] =
  band_order_def band_thresholds_def band_critical_allowance_def band_allowance_def
  band_index_def dict_get_def

lemma band_for_score_alt [band_simps]:
  "band_for_score s =
     (if 85 \<le> s then ''EXCELLENT'' else if 70 \<le> s then ''GOOD'' else if 55 \<le> s then ''MODERATE''
      else if 35 \<le> s then ''FAIR'' else ''POOR'')"
  by (simp add: band_for_score_def band_thresholds_def dict_get_def)

lemma band_for_score_in_order: "band_for_score s \<in> set band_order"
  by (simp add: band_simps)

lemma band_in_order_cases:
  "b \<in> set band_order \<Longrightarrow>
     b = ''EXCELLENT'' \<or> b = ''GOOD'' \<or> b = ''MODERATE'' \<or> b = ''FAIR'' \<or> b = ''POOR''"
  by (simp add: band_order_def)

lemma cap_band_eq:
  "b \<in> set band_order \<Longrightarrow>
   cap_band_for_severity b n =
     Inr (if 0 < n \<and> b \<in> {''EXCELLENT'', ''GOOD'', ''MODERATE''} then ''FAIR'' else b)"
  by (drule band_in_order_cases) (auto simp: cap_band_for_severity_def band_simps)

lemma cap_band_invalid [simp]:
  "b \<notin> set band_order \<Longrightarrow> cap_band_for_severity b n = Inl (ValueError b)"
  by (simp add: cap_band_for_severity_def)

section \<open>The properties of the cap\<close>

text \<open>A higher score never lands in a less favourable band.\<close>

theorem band_for_score_monotone:
  assumes "s \<le> t"
  shows "band_index (band_for_score t) \<le> band_index (band_for_score s)"
  using assms by (auto simp: band_simps)

theorem band_for_score_monotone_witness:
  "band_index (band_for_score 72) \<le> band_index (band_for_score 36)"
  by (rule band_for_score_monotone) simp

text \<open>The severity cap returns the least destructive band that admits the CRITICAL count
  and is no more favourable than the numeric band: it admits the count, it never promotes, and
  every band between the numeric band and the result refuses the count.\<close>

theorem cap_band_least_destructive:
  assumes "b \<in> set band_order"
  shows "\<exists>c. cap_band_for_severity b n = Inr c \<and> c \<in> set band_order
           \<and> band_index b \<le> band_index c
           \<and> (band_allowance c = None \<or> (\<exists>a. band_allowance c = Some a \<and> n \<le> a) \<or> n \<le> 0)
           \<and> (\<forall>d \<in> set band_order. band_index b \<le> band_index d \<and> band_index d < band_index c
                \<longrightarrow> (\<exists>a. band_allowance d = Some a \<and> a < n))"
proof -
  have "0 < n \<and> b \<in> {''EXCELLENT'', ''GOOD'', ''MODERATE''} \<or> \<not> (0 < n \<and> b \<in> {''EXCELLENT'', ''GOOD'', ''MODERATE''})"
    by blast
  then show ?thesis
    using band_in_order_cases [OF assms] cap_band_eq [OF assms, of n]
    by (auto simp: band_simps)
qed

theorem cap_band_least_destructive_witness:
  "\<exists>c. cap_band_for_severity ''GOOD'' 2 = Inr c \<and> c \<in> set band_order
     \<and> band_index ''GOOD'' \<le> band_index c
     \<and> (band_allowance c = None \<or> (\<exists>a. band_allowance c = Some a \<and> 2 \<le> a) \<or> (2::int) \<le> 0)
     \<and> (\<forall>d \<in> set band_order. band_index ''GOOD'' \<le> band_index d \<and> band_index d < band_index c
          \<longrightarrow> (\<exists>a. band_allowance d = Some a \<and> a < 2))"
  by (rule cap_band_least_destructive) (simp add: band_order_def)

section \<open>The band interface\<close>

text \<open>
  The scoring engine reads the bands through two operations: the band of a score, and the top
  score of a band.  What it relies on is that a score not above the top of a band is not in a
  more favourable band, and that a band with an unrestricted allowance is its own severity cap.
\<close>

locale band_interface =
  fixes band :: "int \<Rightarrow> 'b" and top_score :: "'b \<Rightarrow> int" and rank :: "'b \<Rightarrow> nat"
    and cap :: "'b \<Rightarrow> int \<Rightarrow> 'e + 'b" and unrestricted :: "'b \<Rightarrow> bool"
  assumes top_rank: "s \<le> top_score (band t) \<Longrightarrow> rank (band t) \<le> rank (band s)"
    and cap_none: "n \<le> 0 \<Longrightarrow> cap (band s) n = Inr (band s)"
    and cap_unrestricted: "unrestricted (band s) \<Longrightarrow> cap (band s) n = Inr (band s)"
    and unrestricted_down:
      "unrestricted (band s) \<Longrightarrow> rank (band s) \<le> rank (band t) \<Longrightarrow> unrestricted (band t)"
begin

text \<open>If every score under an open CRITICAL finding is held at or below the top of an
  unrestricted band, the severity cap never changes the band.\<close>

lemma cap_is_noop:
  assumes "n \<le> 0 \<or> (unrestricted (band t) \<and> s \<le> top_score (band t))"
  shows "cap (band s) n = Inr (band s)"
proof (cases "n \<le> 0")
  case True
  then show ?thesis by (rule cap_none)
next
  case False
  with assms have u: "unrestricted (band t)" and le: "s \<le> top_score (band t)" by auto
  from top_rank [OF le] u have "unrestricted (band s)" by (rule unrestricted_down [rotated])
  then show ?thesis by (rule cap_unrestricted)
qed

end

end
