(* ===== verification/Score_Weights.thy ===== *)
theory Score_Weights
  imports Severity_Bands
begin

text \<open>
  The calibration side of \<open>quirk/intelligence/scoring.py\<close>: the weight table, the profile
  multipliers, the coercion of evidence values, the count curve, the ceilings and the
  weighted-impact aggregation.  Floats are real numbers; \<open>** 0.5\<close> is the square root.
\<close>

section \<open>Weights and profiles\<close>

definition score_weights :: "(string \<times> real) list" where
  "score_weights =
   [(''hygiene_plaintext_http_ratio'', 18), (''hygiene_http_on_tls_ratio'', 16),
    (''hygiene_scan_error_rate'', 6), (''modern_tls_legacy_versions_ratio'', 14),
    (''modern_tls_unknown_ratio'', 6), (''modern_tls_scan_error_rate'', 5),
    (''identity_expired_ratio'', 14), (''identity_expiring_ratio'', 7),
    (''identity_self_signed_ratio'', 9), (''identity_mtls_ratio_bonus'', 6),
    (''identity_kerberos_weak_etype_ratio'', 10), (''identity_saml_weak_signing_ratio'', 8),
    (''identity_dnssec_weak_algo_ratio'', 8), (''identity_smime_weak_signing_count'', 2),
    (''identity_smime_expired_count'', 2), (''identity_smime_weak_key_count'', 2),
    (''identity_adcs_weak_template_count'', 2), (''identity_adcs_misconfig_count'', 2),
    (''identity_adcs_weak_signing_count'', 2), (''identity_adcs_coverage_gap_count'', 2),
    (''dar_db_plaintext_ratio'', 12), (''dar_db_weak_ssl_ratio'', 6),
    (''dar_storage_unencrypted_ratio'', 12), (''dar_storage_aws_managed_ratio'', 4),
    (''dar_vault_weak_ratio'', 8), (''dar_k8s_unencrypted_ratio'', 10),
    (''dar_k8s_inaccessible_ratio'', 4), (''motion_email_plaintext_ratio'', 12),
    (''motion_email_weak_cipher_ratio'', 6), (''motion_broker_plaintext_ratio'', 14),
    (''motion_broker_weak_tls_ratio'', 8), (''motion_broker_weak_cipher_ratio'', 6),
    (''agility_unknown_ratio'', 6), (''agility_rsa_only_penalty'', 8),
    (''agility_unverified_key_type_penalty'', 8), (''agility_pqc_hybrid_bonus'', 8),
    (''agility_weak_jwt_alg_ratio'', 6), (''agility_openapi_plaintext_ratio'', 4),
    (''agility_codesign_weak_algo_ratio'', 6), (''agility_fuzz_crypto_posture_ratio'', 4)]"

definition profile_multipliers :: "(string \<times> (string \<times> real) list) list" where
  "profile_multipliers =
   [(''strict'', [(''agility_'', 14 / 10), (''identity_'', 14 / 10), (''dar_'', 14 / 10), (''motion_'', 14 / 10)]),
    (''balanced'', [(''agility_'', 1), (''identity_'', 1), (''dar_'', 1), (''motion_'', 1)]),
    (''lenient'', [(''agility_'', 7 / 10), (''identity_'', 7 / 10), (''dar_'', 7 / 10), (''motion_'', 7 / 10)])]"

definition scale_prefix :: "(string \<times> real) list \<Rightarrow> string \<times> real \<Rightarrow> (string \<times> real) list" where
  "scale_prefix w pf = map (\<lambda>(k, x). (k, if starts_with k (fst pf) then x * snd pf else x)) w"

definition profile_name :: "string option \<Rightarrow> string" where
  "profile_name profile =
     (let prof = py_lower (if py_or_str profile = [] then ''balanced'' else py_or_str profile) in
      if prof \<in> fst ` set profile_multipliers then prof else ''balanced'')"

text \<open>The head of \<open>compute_readiness_score\<close>: a copy of the table, scaled by the profile, then
  overridden by the caller's calibration weights (typed as a mapping to floats).\<close>

definition effective_weights :: "string option \<Rightarrow> (string \<times> real) list \<Rightarrow> (string \<times> real) list" where
  "effective_weights profile weights =
     foldl (\<lambda>w (k, v). dict_put k v w)
       (foldl scale_prefix score_weights (dict_get profile_multipliers (profile_name profile) []))
       weights"

text \<open>\<open>w[key]\<close>.  Every key the engine reads is in the table and stays there, so the KeyError
  branch does not occur (lemma \<open>wt_present\<close>).\<close>

definition wt :: "(string \<times> real) list \<Rightarrow> string \<Rightarrow> real" where
  "wt w k = dict_get w k 0"

section \<open>Coercions and the count curve\<close>

definition as_int :: "pyval \<Rightarrow> int" where
  "as_int v = (case py_int v of None \<Rightarrow> 0 | Some n \<Rightarrow> n)"

definition prevalence_curve_exponent :: real where
  "prevalence_curve_exponent = 1 / 2"

definition n_ref :: int where
  "n_ref = 40"

definition count_curve :: "int \<Rightarrow> real" where
  "count_curve count =
     (if count \<le> 0 then 0 else min 1 (of_int count / of_int n_ref) powr prevalence_curve_exponent)"

definition clamp :: "real \<Rightarrow> real \<Rightarrow> real \<Rightarrow> real" where
  "clamp v lo hi = min hi (max lo v)"

definition rating_of :: "int \<Rightarrow> string" where
  "rating_of score = band_for_score score"

section \<open>Ceilings\<close>

definition deep_critical_ceiling :: int where
  "deep_critical_ceiling = 25"

definition deep_critical_count :: int where
  "deep_critical_count = 5"

definition top_of_band :: "string \<Rightarrow> int" where
  "top_of_band b =
     (let values = map snd band_thresholds;
          higher = filter (\<lambda>v. dict_get band_thresholds b (-1) < v) values in
      if b \<notin> fst ` set band_thresholds then foldl min (hd values) (tl values) - 1
      else if higher \<noteq> [] then foldl min (hd higher) (tl higher) - 1
      else 100)"

definition plural_s :: "int \<Rightarrow> string" where
  "plural_s n = (if 1 < n then ''s'' else [])"

definition consequence_ceiling :: "int \<Rightarrow> int \<Rightarrow> (int \<times> string) option" where
  "consequence_ceiling critical_count high_count =
     (if deep_critical_count \<le> critical_count then
        Some (deep_critical_ceiling, int_str critical_count @ '' open CRITICAL findings'')
      else if 1 \<le> critical_count then
        Some (top_of_band ''POOR'',
              int_str critical_count @ '' open CRITICAL finding'' @ plural_s critical_count)
      else if 3 \<le> high_count then
        Some (top_of_band ''FAIR'', int_str high_count @ '' open HIGH findings'')
      else if 1 \<le> high_count then
        Some (top_of_band ''MODERATE'',
              int_str high_count @ '' open HIGH finding'' @ plural_s high_count)
      else None)"

definition pqc_readiness_ceiling :: "int \<Rightarrow> (int \<times> string) option" where
  "pqc_readiness_ceiling pqc_hybrid_count =
     (if 0 < pqc_hybrid_count then None
      else Some (top_of_band ''GOOD'', ''no post-quantum key exchange observed''))"

section \<open>Aggregating the impacts of one domain\<close>

definition score_cap :: real where
  "score_cap = 25"

definition apply_weighted_impacts :: "(string \<times> real) list \<Rightarrow> int \<times> (string \<times> int) list" where
  "apply_weighted_impacts impacts =
     (let total = score_cap + sum_list (map snd impacts);
          score = py_round (clamp total 0 score_cap) in
      (score, map (\<lambda>(label, points). (label, py_round points))
                (filter (\<lambda>(label, points). py_round points \<noteq> 0) impacts)))"

section \<open>Lemmas\<close>

lemma count_curve_sqrt:
  "count_curve n = (if n \<le> 0 then 0 else sqrt (min 1 (of_int n / 40)))"
  by (simp add: count_curve_def prevalence_curve_exponent_def n_ref_def powr_half_sqrt)

lemma top_of_band_values [band_simps]:
  "top_of_band ''EXCELLENT'' = 100" "top_of_band ''GOOD'' = 84" "top_of_band ''MODERATE'' = 69"
  "top_of_band ''FAIR'' = 54" "top_of_band ''POOR'' = 34"
  by (simp_all add: top_of_band_def band_thresholds_def dict_get_def)

lemma consequence_ceiling_alt:
  "map_option fst (consequence_ceiling c h) =
     (if 5 \<le> c then Some 25 else if 1 \<le> c then Some 34 else if 3 \<le> h then Some 54
      else if 1 \<le> h then Some 69 else None)"
  by (simp add: consequence_ceiling_def deep_critical_ceiling_def deep_critical_count_def band_simps)

lemma pqc_readiness_ceiling_alt:
  "map_option fst (pqc_readiness_ceiling n) = (if 0 < n then None else Some 84)"
  by (simp add: pqc_readiness_ceiling_def band_simps)

lemma apply_weighted_impacts_bounds:
  "0 \<le> fst (apply_weighted_impacts xs) \<and> fst (apply_weighted_impacts xs) \<le> 25"
  using py_round_bounds [of 0 "clamp (score_cap + sum_list (map snd xs)) 0 score_cap" 25]
  by (simp add: apply_weighted_impacts_def Let_def clamp_def score_cap_def)

lemma apply_weighted_impacts_mono [mono_rules]:
  "sum_list (map snd xs) \<le> sum_list (map snd ys) \<Longrightarrow>
   fst (apply_weighted_impacts xs) \<le> fst (apply_weighted_impacts ys)"
  by (auto simp: apply_weighted_impacts_def Let_def clamp_def intro!: py_round_mono)

section \<open>The response-curve interface\<close>

text \<open>
  The engine turns a weakness count into a penalty factor through a curve.  What the domains
  rely on is that it is 0 at 0, grows with the count, and saturates at 1.
\<close>

locale response_curve =
  fixes curve :: "int \<Rightarrow> real"
  assumes curve_zero: "n \<le> 0 \<Longrightarrow> curve n = 0"
    and curve_mono: "m \<le> n \<Longrightarrow> curve m \<le> curve n"
    and curve_le_1: "curve n \<le> 1"
begin

lemma curve_nonneg: "0 \<le> curve n"
proof (cases "n \<le> 0")
  case True
  then show ?thesis by (simp add: curve_zero)
next
  case False
  then have "curve 0 \<le> curve n" by (intro curve_mono) simp
  then show ?thesis by (simp add: curve_zero)
qed

lemma penalty_antimono: "m \<le> n \<Longrightarrow> 0 \<le> x \<Longrightarrow> - curve n * x \<le> - curve m * x"
  using curve_mono [of m n] by (simp add: mult_right_mono)

lemma penalty_bounds: "0 \<le> x \<Longrightarrow> - x \<le> - curve n * x \<and> - curve n * x \<le> 0"
  using curve_nonneg [of n] curve_le_1 [of n]
  by (simp add: mult_left_le_one_le)

end

interpretation cc: response_curve count_curve
proof (unfold_locales, goal_cases)
  case (1 n)
  then show ?case by (simp add: count_curve_sqrt)
next
  case (2 m n)
  have "min 1 (real_of_int m / 40) \<le> min 1 (real_of_int n / 40)"
    using 2 by (simp add: min_le_iff_disj divide_right_mono)
  with 2 show ?case
    by (auto simp: count_curve_sqrt intro!: real_sqrt_le_mono)
next
  case (3 n)
  show ?case by (simp add: count_curve_sqrt)
qed

interpretation bands: band_interface band_for_score top_of_band band_index
  cap_band_for_severity "\<lambda>b. b \<in> {''FAIR'', ''POOR''}"
proof (unfold_locales, goal_cases)
  case (1 s t)
  then show ?case by (auto simp: band_simps split: if_splits)
next
  case (2 n s)
  then show ?case by (simp add: cap_band_eq band_for_score_in_order)
next
  case (3 s n)
  then show ?case by (auto simp: cap_band_eq band_for_score_in_order)
next
  case (4 s t)
  then show ?case by (auto simp: band_simps split: if_splits)
qed

lemma map_fst_scale_prefix [simp]: "map fst (scale_prefix w pf) = map fst w"
  by (simp add: scale_prefix_def split_def comp_def)

lemma map_fst_scale_prefixes: "map fst (foldl scale_prefix w pfs) = map fst w"
  by (induction pfs arbitrary: w) simp_all

lemma dict_put_keys_mono: "fst ` set w \<subseteq> fst ` set (dict_put k v w)"
  by (simp add: fst_dict_put subset_insertI)

lemma wt_present:
  "k \<in> fst ` set score_weights \<Longrightarrow> k \<in> fst ` set (effective_weights p ws)"
proof -
  have step: "fst ` set w \<subseteq> fst ` set (foldl (\<lambda>w (k, v). dict_put k v w) w ws)" for w :: "(string \<times> real) list"
  proof (induction ws arbitrary: w)
    case (Cons kv ws)
    obtain k v where "kv = (k, v)" by (cases kv)
    then show ?case using Cons.IH [of "dict_put k v w"] dict_put_keys_mono [of w k v] by auto
  qed simp
  have keep: "fst ` set (foldl scale_prefix score_weights pfs) = fst ` set score_weights" for pfs
    using arg_cong [OF map_fst_scale_prefixes [of score_weights pfs], of set] by simp
  assume "k \<in> fst ` set score_weights"
  then show "k \<in> fst ` set (effective_weights p ws)"
    unfolding effective_weights_def by (intro subsetD [OF step]) (simp only: keep)
qed

definition weights_ok :: "(string \<times> real) list \<Rightarrow> bool" where
  "weights_ok w \<longleftrightarrow> (\<forall>p \<in> set w. 0 \<le> snd p)"

lemma wt_nonneg [mono_rules]: "weights_ok w \<Longrightarrow> 0 \<le> wt w k"
  by (fastforce simp: wt_def dict_get_def weights_ok_def split: option.splits dest: map_of_SomeD)

lemma scale_prefix_ok: "weights_ok w \<Longrightarrow> 0 \<le> snd pf \<Longrightarrow> weights_ok (scale_prefix w pf)"
  by (auto simp: weights_ok_def scale_prefix_def)

lemma scale_prefixes_ok:
  "weights_ok w \<Longrightarrow> weights_ok pfs \<Longrightarrow> weights_ok (foldl scale_prefix w pfs)"
proof (induction pfs arbitrary: w)
  case (Cons pf pfs)
  from Cons.prems(2) have pf: "0 \<le> snd pf" and pfs: "weights_ok pfs"
    by (simp_all add: weights_ok_def)
  from Cons.IH [OF scale_prefix_ok [OF Cons.prems(1) pf] pfs] show ?case by simp
qed simp

lemma profile_multiplier_ok: "weights_ok (dict_get profile_multipliers p [])"
  by (simp add: weights_ok_def dict_get_def profile_multipliers_def)

lemma dict_put_set: "set (dict_put k v w) \<subseteq> insert (k, v) (set w)"
  by (induction k v w rule: dict_put.induct) auto

lemma dict_put_ok: "weights_ok w \<Longrightarrow> 0 \<le> v \<Longrightarrow> weights_ok (dict_put k v w)"
  using dict_put_set [of k v w] by (force simp: weights_ok_def)

lemma effective_weights_ok:
  assumes "weights_ok ws"
  shows "weights_ok (effective_weights p ws)"
proof -
  have "weights_ok (foldl (\<lambda>w (k, v). dict_put k v w) w ws)" if "weights_ok w" for w
    using that assms
  proof (induction ws arbitrary: w)
    case (Cons kv ws)
    obtain k v where kv: "kv = (k, v)" by (cases kv)
    from Cons.prems(2) kv have v: "0 \<le> v" and ws: "weights_ok ws"
      by (simp_all add: weights_ok_def)
    from Cons.IH [OF dict_put_ok [OF Cons.prems(1) v] ws] show ?case
      by (simp add: kv)
  qed simp
  moreover have "weights_ok score_weights" by (simp add: weights_ok_def score_weights_def)
  ultimately show ?thesis
    by (simp add: effective_weights_def scale_prefixes_ok profile_multiplier_ok)
qed

text \<open>The comment above the table still gives the sum 275.\<close>

lemma score_weights_sum: "sum_list (map snd score_weights) = 293"
  by (simp add: score_weights_def)

end
