(* ===== verification/Scoring.thy ===== *)
theory Scoring
  imports Score_Weights
begin

text \<open>
  \<open>compute_readiness_score\<close> of \<open>quirk/intelligence/scoring.py\<close>, in the order of the code:
  reading the evidence mapping, the impacts of the six domains, the assessed predicates, the
  exclude-and-rescale headline, the ceilings, the rating and the disclosure.
\<close>

type_synonym evidence = "(string \<times> pyval) list"

section \<open>Reading the evidence\<close>

definition sub_mapping :: "evidence \<Rightarrow> string \<Rightarrow> evidence" where
  "sub_mapping e k = (case dict_get e k (PyDict []) of PyDict d \<Rightarrow> d | _ \<Rightarrow> [])"

definition count_at :: "evidence \<Rightarrow> string \<Rightarrow> int" where
  "count_at d k = max 0 (as_int (dict_get d k (PyInt 0)))"

definition raw_count_at :: "evidence \<Rightarrow> string \<Rightarrow> int" where
  "raw_count_at d k = as_int (dict_get d k (PyInt 0))"

definition scored_severity_counts :: "evidence \<Rightarrow> evidence" where
  "scored_severity_counts e =
     (case dict_get e ''scored_finding_severity_counts'' PyNone of
        PyDict d \<Rightarrow> d
      | _ \<Rightarrow> sub_mapping e ''finding_severity_counts'')"

definition protocol_counts_of :: "evidence \<Rightarrow> evidence" where
  "protocol_counts_of e = sub_mapping e ''protocol_counts''"

definition cert_obs_of :: "evidence \<Rightarrow> evidence" where
  "cert_obs_of e = sub_mapping e ''certificate_observations''"

definition cert_keys_of :: "evidence \<Rightarrow> evidence" where
  "cert_keys_of e = sub_mapping e ''cert_key_type_counts''"

definition cert_denom :: "evidence \<Rightarrow> int" where
  "cert_denom e = count_at (cert_obs_of e) ''certs_observed''"

definition endpoint_denom :: "evidence \<Rightarrow> int" where
  "endpoint_denom e =
     (let endpoints = count_at (sub_mapping e ''totals'') ''endpoints'' in
      max 0 (as_int (dict_get e ''assessable_endpoint_count'' (PyInt endpoints))))"

definition scan_error_penalty :: "evidence \<Rightarrow> real" where
  "scan_error_penalty e = count_curve (count_at (sub_mapping e ''scan_error'') ''count'')"

definition unknown_count :: "evidence \<Rightarrow> int" where
  "unknown_count e = count_at (protocol_counts_of e) ''UNKNOWN''"

definition legacy_tls_count :: "evidence \<Rightarrow> int" where
  "legacy_tls_count e =
     max 0 (as_int (dict_get e ''legacy_tls_count''
                      (dict_get (scored_severity_counts e) ''LOW'' (PyInt 0))))"

definition classical_key_count :: "evidence \<Rightarrow> int" where
  "classical_key_count e = count_at (cert_keys_of e) ''RSA'' + count_at (cert_keys_of e) ''ECDSA''"

definition pqc_cert_count :: "evidence \<Rightarrow> int" where
  "pqc_cert_count e = count_at (cert_keys_of e) ''PQC''"

definition pqc_hybrid_count :: "evidence \<Rightarrow> int" where
  "pqc_hybrid_count e = count_at e ''pqc_hybrid_endpoint_count''"

section \<open>The impacts of the six domains\<close>

type_synonym weights = "(string \<times> real) list"
type_synonym impacts = "(string \<times> real) list"

definition hygiene_impacts :: "weights \<Rightarrow> evidence \<Rightarrow> impacts" where
  "hygiene_impacts w e =
   [(''Plaintext HTTP exposure'',
       - count_curve (count_at e ''plaintext_http_count'') * wt w ''hygiene_plaintext_http_ratio''),
    (''HTTP on TLS-designated ports'',
       - count_curve (count_at e ''http_on_tls_port_count'') * wt w ''hygiene_http_on_tls_ratio''),
    (''Scan errors'', - scan_error_penalty e * wt w ''hygiene_scan_error_rate'')]"

definition modern_tls_impacts :: "weights \<Rightarrow> evidence \<Rightarrow> impacts" where
  "modern_tls_impacts w e =
   [(''Legacy TLS versions present'',
       - count_curve (legacy_tls_count e) * wt w ''modern_tls_legacy_versions_ratio''),
    (''Unknown open services'', - count_curve (unknown_count e) * wt w ''modern_tls_unknown_ratio''),
    (''Assessment visibility blockers'', - scan_error_penalty e * wt w ''modern_tls_scan_error_rate'')]"

definition identity_trust_impacts :: "weights \<Rightarrow> evidence \<Rightarrow> impacts" where
  "identity_trust_impacts w e =
   [(''Expired certificates'',
       - count_curve (count_at (cert_obs_of e) ''expired_count'') * wt w ''identity_expired_ratio''),
    (''Expiring certificates'',
       - count_curve (count_at (cert_obs_of e) ''expiring_count'') * wt w ''identity_expiring_ratio''),
    (''Self-signed certificates'',
       - count_curve (count_at (cert_obs_of e) ''self_signed_count'') * wt w ''identity_self_signed_ratio''),
    (''mTLS enforcement signals'',
       if 0 < count_at e ''mtls_present_count'' then wt w ''identity_mtls_ratio_bonus'' else 0),
    (''RC4/DES Kerberos etypes detected'',
       - count_curve (count_at e ''identity_weak_etype_count'') * wt w ''identity_kerberos_weak_etype_ratio''),
    (''Weak SAML signing key'',
       - count_curve (count_at e ''saml_weak_signing_count'') * wt w ''identity_saml_weak_signing_ratio''),
    (''Weak DNSSEC signing algorithm'',
       - count_curve (count_at e ''dnssec_weak_algo_count'') * wt w ''identity_dnssec_weak_algo_ratio''),
    (''Weak S/MIME signing'',
       - count_curve (count_at e ''smime_weak_signing_count'') * wt w ''identity_smime_weak_signing_count''),
    (''Expired S/MIME cert'',
       - count_curve (count_at e ''smime_expired_count'') * wt w ''identity_smime_expired_count''),
    (''Weak S/MIME key'',
       - count_curve (count_at e ''smime_weak_key_count'') * wt w ''identity_smime_weak_key_count''),
    (''Weak AD CS template'',
       - count_curve (count_at e ''adcs_weak_template_count'') * wt w ''identity_adcs_weak_template_count''),
    (''AD CS template misconfig'',
       - count_curve (count_at e ''adcs_misconfig_count'') * wt w ''identity_adcs_misconfig_count''),
    (''Weak AD CS signing algo'',
       - count_curve (count_at e ''adcs_weak_signing_count'') * wt w ''identity_adcs_weak_signing_count''),
    (''AD CS coverage gap (ESC4/5/7/8)'',
       - count_curve (count_at e ''adcs_coverage_gap_count'') * wt w ''identity_adcs_coverage_gap_count'')]"

text \<open>The key-type branch of the agility domain: a flat classical-key penalty, else the
  penalty for certificates whose key type was not determined.\<close>

definition key_type_impacts :: "weights \<Rightarrow> evidence \<Rightarrow> impacts" where
  "key_type_impacts w e =
     (if 0 < classical_key_count e then
        [(''Quantum-vulnerable certificate keys (RSA/ECDSA/EdDSA)'', - wt w ''agility_rsa_only_penalty'')]
      else if pqc_cert_count e < cert_denom e then
        [(''Certificate key types undetermined'', - wt w ''agility_unverified_key_type_penalty'')]
      else [])"

definition pqc_credit_impacts :: "weights \<Rightarrow> evidence \<Rightarrow> impacts" where
  "pqc_credit_impacts w e =
     (if 0 < pqc_hybrid_count e \<or> 0 < pqc_cert_count e then
        [(''Post-quantum key exchange or certificate key'', wt w ''agility_pqc_hybrid_bonus'')]
      else [])"

definition agility_impacts :: "weights \<Rightarrow> evidence \<Rightarrow> impacts" where
  "agility_impacts w e =
   [(''Unknown service inventory'', - count_curve (unknown_count e) * wt w ''agility_unknown_ratio'')]
   @ key_type_impacts w e @ pqc_credit_impacts w e
   @ [(''Bearer token weak algorithm'',
         - count_curve (count_at e ''bearer_token_weak_alg_count'') * wt w ''agility_weak_jwt_alg_ratio''),
      (''OpenAPI plaintext servers (http://)'',
         - count_curve (count_at e ''openapi_plaintext_server_count'') * wt w ''agility_openapi_plaintext_ratio''),
      (''Code-signing cert weak algorithm'',
         - count_curve (count_at e ''codesign_weak_algo_count'') * wt w ''agility_codesign_weak_algo_ratio''),
      (''Active REST fuzz crypto-posture findings'',
         - count_curve (count_at e ''fuzz_finding_count'') * wt w ''agility_fuzz_crypto_posture_ratio'')]"

definition dar_impacts :: "weights \<Rightarrow> evidence \<Rightarrow> impacts" where
  "dar_impacts w e =
   [(''Database plaintext connections'',
       - count_curve (count_at e ''dar_db_plaintext_count'') * wt w ''dar_db_plaintext_ratio''),
    (''Database weak SSL configuration'',
       - count_curve (count_at e ''dar_db_weak_ssl_count'') * wt w ''dar_db_weak_ssl_ratio''),
    (''Object storage unencrypted'',
       - count_curve (count_at e ''dar_storage_unencrypted_count'') * wt w ''dar_storage_unencrypted_ratio''),
    (''Object storage platform-managed keys'',
       - count_curve (count_at e ''dar_storage_aws_managed_count'') * wt w ''dar_storage_aws_managed_ratio''),
    (''Kubernetes etcd unencrypted'',
       - count_curve (count_at e ''dar_k8s_unencrypted_count'') * wt w ''dar_k8s_unencrypted_ratio''),
    (''Kubernetes etcd encryption inaccessible'',
       - count_curve (count_at e ''dar_k8s_inaccessible_count'') * wt w ''dar_k8s_inaccessible_ratio''),
    (''Vault weak crypto posture'',
       - count_curve (count_at e ''dar_vault_weak_count'') * wt w ''dar_vault_weak_ratio'')]"

text \<open>The email numerator folds missing STARTTLS into plaintext; it is the one count the code
  does not clamp at 0 before the curve.\<close>

definition motion_impacts :: "weights \<Rightarrow> evidence \<Rightarrow> impacts" where
  "motion_impacts w e =
   [(''Email plaintext or missing STARTTLS'',
       - count_curve (raw_count_at e ''motion_email_plaintext_count''
                      + raw_count_at e ''motion_email_starttls_missing_count'')
         * wt w ''motion_email_plaintext_ratio''),
    (''Weak cipher on email TLS'',
       - count_curve (count_at e ''motion_email_weak_cipher_count'') * wt w ''motion_email_weak_cipher_ratio''),
    (''Plaintext broker listeners'',
       - count_curve (count_at e ''motion_broker_plaintext_count'') * wt w ''motion_broker_plaintext_ratio''),
    (''Weak TLS on brokers'',
       - count_curve (count_at e ''motion_broker_weak_tls_count'') * wt w ''motion_broker_weak_tls_ratio''),
    (''Weak cipher on broker TLS'',
       - count_curve (count_at e ''motion_broker_weak_cipher_count'') * wt w ''motion_broker_weak_cipher_ratio'')]"

section \<open>Which domains were assessed\<close>

definition motion_protocol_keys :: "string list" where
  "motion_protocol_keys =
     [''SMTP-STARTTLS'', ''SMTPS'', ''IMAPS'', ''IMAP-STARTTLS'', ''POP3S'', ''POP3-STARTTLS'',
      ''KAFKA-PLAIN'', ''KAFKA-TLS'', ''AMQP-PLAIN'', ''AMQPS'', ''AMQPS/AZURE-SERVICEBUS'',
      ''HTTPS/AWS-SQS'', ''REDIS-PLAIN'', ''REDIS-TLS'']"

definition dar_protocol_keys :: "string list" where
  "dar_protocol_keys =
     [''POSTGRESQL'', ''MYSQL'', ''RDS'', ''S3'', ''AZURE_BLOB'', ''KUBERNETES'', ''VAULT'']"

definition identity_protocol_keys :: "string list" where
  "identity_protocol_keys = [''KERBEROS'', ''SAML'', ''DNSSEC'', ''SMIME'', ''ADCS'']"

definition endpoints_assessed :: "int \<Rightarrow> bool" where
  "endpoints_assessed endpoints \<longleftrightarrow> 0 < endpoints"

definition identity_assessed :: "evidence \<Rightarrow> evidence \<Rightarrow> int \<Rightarrow> int \<Rightarrow> bool" where
  "identity_assessed cert_obs protocol_counts placeholders kerberos_errors \<longleftrightarrow>
     (if 0 < raw_count_at cert_obs ''certs_observed'' then True
      else 0 < sum_list (map
             (\<lambda>k. let value = count_at protocol_counts k in
                  if k = ''KERBEROS''
                  then max 0 (value - max 0 placeholders - max 0 kerberos_errors)
                  else value)
             identity_protocol_keys))"

definition dar_assessed :: "evidence \<Rightarrow> bool" where
  "dar_assessed protocol_counts \<longleftrightarrow>
     0 < sum_list (map (raw_count_at protocol_counts) dar_protocol_keys)"

definition motion_assessed :: "evidence \<Rightarrow> bool" where
  "motion_assessed protocol_counts \<longleftrightarrow>
     0 < sum_list (map (raw_count_at protocol_counts) motion_protocol_keys)"

section \<open>The category table\<close>

record category =
  cat_name :: string
  cat_score :: int
  cat_ok :: bool
  cat_drivers :: "(string \<times> int) list"

definition category_of :: "string \<Rightarrow> bool \<Rightarrow> impacts \<Rightarrow> category" where
  "category_of name ok imps =
     \<lparr>cat_name = name, cat_score = fst (apply_weighted_impacts imps), cat_ok = ok,
      cat_drivers = snd (apply_weighted_impacts imps)\<rparr>"

definition category_table :: "weights \<Rightarrow> evidence \<Rightarrow> category list" where
  "category_table w e =
     (let endpoints_ok = endpoints_assessed (endpoint_denom e);
          identity_ok = identity_assessed (cert_obs_of e) (protocol_counts_of e)
                          (count_at e ''kerberos_placeholder_count'')
                          (count_at e ''kerberos_scan_error_count'') in
      [category_of ''hygiene'' endpoints_ok (hygiene_impacts w e),
       category_of ''modern_tls'' endpoints_ok (modern_tls_impacts w e),
       category_of ''identity_trust'' identity_ok (identity_trust_impacts w e),
       category_of ''agility_signals'' endpoints_ok (agility_impacts w e),
       category_of ''data_at_rest'' (dar_assessed (protocol_counts_of e)) (dar_impacts w e),
       category_of ''data_in_motion'' (motion_assessed (protocol_counts_of e)) (motion_impacts w e)])"

section \<open>Headline, ceiling, rating\<close>

definition assessed_scores :: "category list \<Rightarrow> int list" where
  "assessed_scores table = map cat_score (filter cat_ok table)"

definition computed_headline :: "int list \<Rightarrow> int" where
  "computed_headline scores =
     py_round (of_int (sum_list scores) / (of_nat (length scores) * 25) * 100)"

text \<open>\<open>min\<close> over the applicable (ceiling, reason) pairs, by the pair order.\<close>

definition lowest_ceiling :: "evidence \<Rightarrow> (int \<times> string) option" where
  "lowest_ceiling e =
     (let sev = scored_severity_counts e;
          candidates = [consequence_ceiling (count_at sev ''CRITICAL'') (count_at sev ''HIGH''),
                        pqc_readiness_ceiling (pqc_hybrid_count e)];
          applicable = List.map_filter (\<lambda>c. c) candidates in
      case applicable of [] \<Rightarrow> None | c # cs \<Rightarrow> Some (foldl min c cs))"

text \<open>Compression of [0, 100] onto [0, ceiling], applied over the whole range.\<close>

definition compress :: "int option \<Rightarrow> int \<Rightarrow> int" where
  "compress limit total_score =
     (case limit of None \<Rightarrow> total_score | Some c \<Rightarrow> py_round (of_int c * of_int total_score / 100))"

record score_result =
  r_score :: "int option"
  r_rating :: string
  r_cap_reason :: "string option"
  r_subscores :: "(string \<times> int option) list"
  r_drivers :: "(string \<times> int) list"
  r_domains_assessed :: nat
  r_domains_total :: nat
  r_score_divisor :: "real option"
  r_coverage_disclosure :: string
  r_scoring_version :: string
  r_scoring_version_note :: string

text \<open>\<open>sorted(all_drivers, key=lambda x: (-abs(x[1]), x[0]))[:5]\<close> over assessed domains.\<close>

definition top_drivers :: "category list \<Rightarrow> (string \<times> int) list" where
  "top_drivers table =
     take 5 (sort_key (\<lambda>d. (- \<bar>snd d\<bar>, fst d)) (concat (map cat_drivers (filter cat_ok table))))"

definition cap_disclosure :: "(int \<times> string) option \<Rightarrow> int \<Rightarrow> int \<Rightarrow> string option \<Rightarrow> string option" where
  "cap_disclosure limit computed total_score band_reason =
     (case limit of
        None \<Rightarrow> band_reason
      | Some (_, reason) \<Rightarrow>
          Some (reason @ '' '' @ em_dash @ '' score limited to '' @ int_str total_score
                @ '' (computed '' @ int_str computed @ '')''))"

definition scoring_version :: string where
  "scoring_version = ''4.0''"

definition scoring_version_note :: string where
  "scoring_version_note =
     ''scoring v4 '' @ em_dash @ '' not comparable with v3 or earlier scores''"

definition rate_assessed :: "evidence \<Rightarrow> int list \<Rightarrow> band_error + (int \<times> string \<times> string option)" where
  "rate_assessed e scores =
     (let computed = computed_headline scores;
          limit = lowest_ceiling e;
          total_score = compress (map_option fst limit) computed;
          numeric_band = rating_of total_score;
          critical_count = count_at (scored_severity_counts e) ''CRITICAL'' in
      case cap_band_for_severity numeric_band critical_count of
        Inl err \<Rightarrow> Inl err
      | Inr rating \<Rightarrow>
          Inr (total_score, rating,
               cap_disclosure limit computed total_score
                 (cap_reason numeric_band rating critical_count total_score)))"

definition compute_readiness_score ::
    "evidence \<Rightarrow> string option \<Rightarrow> (string \<times> real) list \<Rightarrow> band_error + score_result" where
  "compute_readiness_score e profile weights =
     (let w = effective_weights profile weights;
          table = category_table w e;
          scores = assessed_scores table;
          result = (\<lambda>score rating reason divisor.
            \<lparr>r_score = score, r_rating = rating, r_cap_reason = reason,
             r_subscores = map (\<lambda>c. (cat_name c, if cat_ok c then Some (cat_score c) else None)) table,
             r_drivers = top_drivers table,
             r_domains_assessed = length scores, r_domains_total = length table,
             r_score_divisor = divisor,
             r_coverage_disclosure = nat_str (length scores) @ '' of '' @ nat_str (length table)
                                     @ '' domains assessed'',
             r_scoring_version = scoring_version,
             r_scoring_version_note = scoring_version_note\<rparr>) in
      if scores = [] then Inr (result None ''NOT_ASSESSED'' None None)
      else case rate_assessed e scores of
             Inl err \<Rightarrow> Inl err
           | Inr (total_score, rating, reason) \<Rightarrow>
               Inr (result (Some total_score) rating reason (Some (of_nat (length scores) * 25 / 100))))"

end
