(* ===== verification/Scoring_Facts.thy ===== *)
theory Scoring_Facts
  imports Scoring
begin

text \<open>
  Lemmas on the readiness score: the value of the lowest ceiling, the range of the headline,
  monotonicity of every domain in the weakness counts, and the fact that the severity cap on
  the band is never reached because the ceiling acts first.
\<close>

section \<open>Shape of the table\<close>

lemma category_of_simps [simp]:
  "cat_name (category_of n ok xs) = n" "cat_ok (category_of n ok xs) = ok"
  "cat_score (category_of n ok xs) = fst (apply_weighted_impacts xs)"
  "cat_drivers (category_of n ok xs) = snd (apply_weighted_impacts xs)"
  by (simp_all add: category_of_def)

lemma category_table_length [simp]: "length (category_table w e) = 6"
  by (simp add: category_table_def Let_def)

lemma category_scores_bounds:
  "c \<in> set (category_table w e) \<Longrightarrow> 0 \<le> cat_score c \<and> cat_score c \<le> 25"
  using apply_weighted_impacts_bounds by (auto simp: category_table_def Let_def)

lemma assessed_scores_bounds:
  "s \<in> set (assessed_scores (category_table w e)) \<Longrightarrow> 0 \<le> s \<and> s \<le> 25"
  using category_scores_bounds by (auto simp: assessed_scores_def)

lemma assessed_scores_length: "length (assessed_scores (category_table w e)) \<le> 6"
  using length_filter_le [of cat_ok "category_table w e"] by (simp add: assessed_scores_def)

section \<open>The headline\<close>

lemma sum_list_bounds:
  fixes xs :: "int list"
  shows "(\<And>x. x \<in> set xs \<Longrightarrow> 0 \<le> x \<and> x \<le> 25) \<Longrightarrow>
    0 \<le> sum_list xs \<and> sum_list xs \<le> 25 * int (length xs)"
proof (induction xs)
  case (Cons x xs)
  from Cons.IH Cons.prems have "0 \<le> sum_list xs \<and> sum_list xs \<le> 25 * int (length xs)" by simp
  with Cons.prems [of x] show ?case by simp
qed simp

lemma headline_exact:
  "xs \<noteq> [] \<Longrightarrow>
   of_int (sum_list xs) / (of_nat (length xs) * 25) * 100 =
     (of_int (4 * sum_list xs) / of_nat (length xs) :: real)"
  by (simp add: field_simps)

lemma computed_headline_bounds:
  assumes "xs \<noteq> []" and "\<And>x. x \<in> set xs \<Longrightarrow> 0 \<le> x \<and> x \<le> 25"
  shows "0 \<le> computed_headline xs \<and> computed_headline xs \<le> 100"
proof -
  have s: "0 \<le> sum_list xs" "sum_list xs \<le> 25 * int (length xs)"
    using sum_list_bounds [of xs] assms(2) by blast+
  have n: "0 < real (length xs)" using assms(1) by simp
  from s(2) have "real_of_int (sum_list xs) \<le> real_of_int (25 * int (length xs))"
    by (simp only: of_int_le_iff)
  then have "of_int (sum_list xs) \<le> 25 * real (length xs)" by simp
  then have "of_int (4 * sum_list xs) / real (length xs) \<le> of_int 100"
    using n by (simp add: pos_divide_le_eq)
  moreover have "of_int 0 \<le> of_int (4 * sum_list xs) / real (length xs)"
    using s(1) n by simp
  ultimately show ?thesis
    using py_round_bounds [of 0 "of_int (4 * sum_list xs) / real (length xs)" 100]
    by (simp add: computed_headline_def headline_exact assms(1))
qed

lemma sum_list_all2_le:
  fixes xs ys :: "int list"
  shows "list_all2 (\<le>) xs ys \<Longrightarrow> sum_list xs \<le> sum_list ys"
  by (induction rule: list_all2_induct) auto

lemma computed_headline_mono:
  assumes "list_all2 (\<le>) xs ys"
  shows "computed_headline xs \<le> computed_headline ys"
proof -
  from assms have len: "length xs = length ys" by (rule list_all2_lengthD)
  from sum_list_all2_le [OF assms]
  have "real_of_int (sum_list xs) \<le> of_int (sum_list ys)" by simp
  then show ?thesis
    unfolding computed_headline_def len
    by (intro py_round_mono mult_right_mono divide_right_mono) auto
qed

section \<open>The ceiling\<close>

lemma lowest_ceiling_value:
  "map_option fst (lowest_ceiling e) =
    (let c = count_at (scored_severity_counts e) ''CRITICAL'';
         h = count_at (scored_severity_counts e) ''HIGH'' in
     if 5 \<le> c then Some 25 else if 1 \<le> c then Some 34 else if 3 \<le> h then Some 54
     else if 1 \<le> h then Some 69 else if 0 < pqc_hybrid_count e then None else Some 84)"
  by (auto simp: lowest_ceiling_def Let_def consequence_ceiling_def pqc_readiness_ceiling_def
      deep_critical_ceiling_def deep_critical_count_def band_simps map_filter_simps min_def
      less_eq_prod_def)

lemma compress_mono:
  assumes "a \<le> b" and "0 \<le> a" and "case k' of None \<Rightarrow> True | Some x \<Rightarrow> 0 \<le> x \<and> x \<le> 100"
    and "case (k, k') of (None, None) \<Rightarrow> True | (Some x, None) \<Rightarrow> 0 \<le> x \<and> x \<le> 100
           | (Some x, Some y) \<Rightarrow> 0 \<le> x \<and> x \<le> y | (None, Some y) \<Rightarrow> False"
  shows "compress k a \<le> compress k' b"
proof (cases k)
  case None
  with assms show ?thesis by (cases k') (auto simp: compress_def)
next
  case (Some x)
  show ?thesis
  proof (cases k')
    case None
    with Some assms have x: "0 \<le> x" "x \<le> 100" by auto
    have "x * a \<le> 100 * b" using x assms(1,2) by (intro mult_mono) auto
    then have "real_of_int x * of_int a / 100 \<le> of_int b"
      by (metis (mono_tags, opaque_lifting) divide_le_eq_numeral1(1) mult.commute of_int_le_iff of_int_mult of_int_numeral)
    then have "py_round (of_int x * of_int a / 100) \<le> py_round (of_int b)" by (rule py_round_mono)
    with None Some show ?thesis by (simp add: compress_def)
  next
    case (Some y)
    with \<open>k = Some x\<close> assms have x: "0 \<le> x" "x \<le> y" by auto
    have "x * a \<le> y * b" using x assms(1,2) by (intro mult_mono) auto
    then have "real_of_int x * of_int a \<le> of_int y * of_int b"
      by (metis of_int_le_iff of_int_mult)
    then have "py_round (of_int x * of_int a / 100) \<le> py_round (of_int y * of_int b / 100)"
      by (intro py_round_mono divide_right_mono) auto
    with Some \<open>k = Some x\<close> show ?thesis by (simp add: compress_def)
  qed
qed

lemma compress_bounds:
  assumes "0 \<le> t" "t \<le> 100" and "\<And>x. k = Some x \<Longrightarrow> 0 \<le> x \<and> x \<le> 100"
  shows "0 \<le> compress k t \<and> compress k t \<le> 100 \<and> (\<forall>x. k = Some x \<longrightarrow> compress k t \<le> x)"
proof (cases k)
  case None
  with assms show ?thesis by (simp add: compress_def)
next
  case (Some x)
  with assms have x: "0 \<le> x" "x \<le> 100" by auto
  have "real_of_int x * of_int t \<le> of_int x * 100"
    using x assms by (intro mult_left_mono) auto
  moreover have "0 \<le> real_of_int x * of_int t" using x assms by simp
  ultimately have "0 \<le> compress k t \<and> compress k t \<le> x"
    using Some py_round_bounds [of 0 "of_int x * of_int t / 100" x] by (simp add: compress_def)
  with x Some show ?thesis by auto
qed

lemma lowest_ceiling_range:
  "map_option fst (lowest_ceiling e) = Some x \<Longrightarrow> 25 \<le> x \<and> x \<le> 84"
  by (auto simp: lowest_ceiling_value Let_def split: if_splits)

section \<open>Rating an assessed scan\<close>

definition final_total :: "evidence \<Rightarrow> int list \<Rightarrow> int" where
  "final_total e scores = compress (map_option fst (lowest_ceiling e)) (computed_headline scores)"

lemma final_total_bounds:
  assumes "xs \<noteq> []" and "\<And>x. x \<in> set xs \<Longrightarrow> 0 \<le> x \<and> x \<le> 25"
  shows "0 \<le> final_total e xs \<and> final_total e xs \<le> 100 \<and>
    (\<forall>x. map_option fst (lowest_ceiling e) = Some x \<longrightarrow> final_total e xs \<le> x)"
proof -
  have "0 \<le> x \<and> x \<le> 100" if "map_option fst (lowest_ceiling e) = Some x" for x
    using lowest_ceiling_range [OF that] by simp
  with computed_headline_bounds [OF assms] show ?thesis
    unfolding final_total_def by (intro compress_bounds) auto
qed

lemma final_total_table_bounds:
  assumes "assessed_scores (category_table w e0) \<noteq> []"
  shows "0 \<le> final_total e (assessed_scores (category_table w e0))
    \<and> final_total e (assessed_scores (category_table w e0)) \<le> 100
    \<and> (\<forall>x. map_option fst (lowest_ceiling e) = Some x \<longrightarrow>
          final_total e (assessed_scores (category_table w e0)) \<le> x)"
  by (rule final_total_bounds [OF assms assessed_scores_bounds])

text \<open>The ceiling holds every score with an open CRITICAL at or below the top of POOR, so the
  severity cap on the band never changes it.\<close>

lemma rate_assessed_eq:
  assumes "xs \<noteq> []" and "\<And>x. x \<in> set xs \<Longrightarrow> 0 \<le> x \<and> x \<le> 25"
  shows "rate_assessed e xs =
    Inr (final_total e xs, band_for_score (final_total e xs),
         cap_disclosure (lowest_ceiling e) (computed_headline xs) (final_total e xs) None)"
proof -
  let ?c = "count_at (scored_severity_counts e) ''CRITICAL''"
  have "?c \<le> 0 \<or> ({''FAIR'', ''POOR''} \<inter> {band_for_score 0} \<noteq> {} \<and>
          final_total e xs \<le> top_of_band (band_for_score 0))"
  proof (cases "1 \<le> ?c")
    case True
    then have "\<exists>x. map_option fst (lowest_ceiling e) = Some x \<and> x \<le> 34"
      by (cases "5 \<le> ?c") (simp_all add: lowest_ceiling_value)
    with final_total_bounds [OF assms, of e] have "final_total e xs \<le> 34" by auto
    then show ?thesis by (simp add: band_simps)
  qed simp
  then have "cap_band_for_severity (band_for_score (final_total e xs)) ?c
      = Inr (band_for_score (final_total e xs))"
    by (intro bands.cap_is_noop [where t = 0]) auto
  then show ?thesis
    by (simp add: rate_assessed_def Let_def rating_of_def cap_reason_def flip: final_total_def)
qed

lemma compute_unassessed:
  assumes "assessed_scores (category_table (effective_weights p ws) e) = []"
  shows "\<exists>r. compute_readiness_score e p ws = Inr r \<and> r_score r = None \<and>
    r_rating r = ''NOT_ASSESSED'' \<and> r_cap_reason r = None \<and> r_domains_assessed r = 0"
  using assms by (simp add: compute_readiness_score_def Let_def)

lemma compute_assessed:
  assumes "assessed_scores (category_table (effective_weights p ws) e) \<noteq> []"
  shows "\<exists>r. compute_readiness_score e p ws = Inr r \<and>
    r_score r = Some (final_total e (assessed_scores (category_table (effective_weights p ws) e))) \<and>
    r_rating r = band_for_score (final_total e (assessed_scores (category_table (effective_weights p ws) e))) \<and>
    r_cap_reason r = cap_disclosure (lowest_ceiling e)
       (computed_headline (assessed_scores (category_table (effective_weights p ws) e)))
       (final_total e (assessed_scores (category_table (effective_weights p ws) e))) None \<and>
    r_domains_assessed r = length (assessed_scores (category_table (effective_weights p ws) e))"
proof -
  have "rate_assessed e (assessed_scores (category_table (effective_weights p ws) e)) =
    Inr (final_total e (assessed_scores (category_table (effective_weights p ws) e)),
      band_for_score (final_total e (assessed_scores (category_table (effective_weights p ws) e))),
      cap_disclosure (lowest_ceiling e)
       (computed_headline (assessed_scores (category_table (effective_weights p ws) e)))
       (final_total e (assessed_scores (category_table (effective_weights p ws) e))) None)"
    by (rule rate_assessed_eq [OF assms assessed_scores_bounds])
  with assms show ?thesis by (simp add: compute_readiness_score_def Let_def)
qed

lemma compute_frame:
  assumes "compute_readiness_score e p ws = Inr r"
  shows "r_drivers r = top_drivers (category_table (effective_weights p ws) e)"
    and "r_subscores r = map (\<lambda>c. (cat_name c, if cat_ok c then Some (cat_score c) else None))
           (category_table (effective_weights p ws) e)"
    and "r_domains_assessed r = length (assessed_scores (category_table (effective_weights p ws) e))"
    and "r_domains_total r = 6"
  using assms
  by (auto simp: compute_readiness_score_def Let_def split: if_splits sum.splits prod.splits)

lemma compute_score_cases:
  assumes "compute_readiness_score e p ws = Inr r"
  shows "r_score r =
    (if assessed_scores (category_table (effective_weights p ws) e) = [] then None
     else Some (final_total e (assessed_scores (category_table (effective_weights p ws) e))))"
  using assms compute_unassessed [of p ws e] compute_assessed [of p ws e] by auto

end
