(* ===== verification/Scoring_Monotone.thy ===== *)
theory Scoring_Monotone
  imports Scoring_Facts
begin

text \<open>
  Monotonicity of the readiness score: an evidence mapping that is at least as weak as another
  in every counter the engine reads never scores higher.  The order is split by domain, so that
  each domain has one lemma.
\<close>

section \<open>The weakness order\<close>

definition weakness_keys :: "string list" where
  "weakness_keys =
     [''plaintext_http_count'', ''http_on_tls_port_count'', ''identity_weak_etype_count'',
      ''saml_weak_signing_count'', ''dnssec_weak_algo_count'', ''smime_weak_signing_count'',
      ''smime_expired_count'', ''smime_weak_key_count'', ''adcs_weak_template_count'',
      ''adcs_misconfig_count'', ''adcs_weak_signing_count'', ''adcs_coverage_gap_count'',
      ''dar_db_plaintext_count'', ''dar_db_weak_ssl_count'', ''dar_storage_unencrypted_count'',
      ''dar_storage_aws_managed_count'', ''dar_k8s_unencrypted_count'',
      ''dar_k8s_inaccessible_count'', ''dar_vault_weak_count'',
      ''motion_email_weak_cipher_count'', ''motion_broker_plaintext_count'',
      ''motion_broker_weak_tls_count'', ''motion_broker_weak_cipher_count'',
      ''bearer_token_weak_alg_count'', ''openapi_plaintext_server_count'',
      ''codesign_weak_algo_count'', ''fuzz_finding_count'']"

definition cert_weakness_keys :: "string list" where
  "cert_weakness_keys = [''expired_count'', ''expiring_count'', ''self_signed_count'']"

definition key_type_penalised :: "evidence \<Rightarrow> bool" where
  "key_type_penalised e \<longleftrightarrow> 0 < classical_key_count e \<or> pqc_cert_count e < cert_denom e"

definition pqc_credited :: "evidence \<Rightarrow> bool" where
  "pqc_credited e \<longleftrightarrow> 0 < pqc_hybrid_count e \<or> 0 < pqc_cert_count e"

definition scan_error_total :: "evidence \<Rightarrow> int" where
  "scan_error_total e = count_at (sub_mapping e ''scan_error'') ''count''"

definition email_plaintext_total :: "evidence \<Rightarrow> int" where
  "email_plaintext_total e = raw_count_at e ''motion_email_plaintext_count''
     + raw_count_at e ''motion_email_starttls_missing_count''"

definition assessed_flags :: "evidence \<Rightarrow> bool list" where
  "assessed_flags e =
     [endpoints_assessed (endpoint_denom e),
      identity_assessed (cert_obs_of e) (protocol_counts_of e)
        (count_at e ''kerberos_placeholder_count'') (count_at e ''kerberos_scan_error_count''),
      dar_assessed (protocol_counts_of e), motion_assessed (protocol_counts_of e)]"

definition counters_le :: "evidence \<Rightarrow> evidence \<Rightarrow> bool" where
  "counters_le e e' \<longleftrightarrow>
     (\<forall>k \<in> set weakness_keys. count_at e k \<le> count_at e' k) \<and>
     (\<forall>k \<in> set cert_weakness_keys. count_at (cert_obs_of e) k \<le> count_at (cert_obs_of e') k) \<and>
     scan_error_total e \<le> scan_error_total e' \<and> unknown_count e \<le> unknown_count e' \<and>
     legacy_tls_count e \<le> legacy_tls_count e' \<and>
     email_plaintext_total e \<le> email_plaintext_total e'"

definition credits_ge :: "evidence \<Rightarrow> evidence \<Rightarrow> bool" where
  "credits_ge e e' \<longleftrightarrow>
     (0 < count_at e' ''mtls_present_count'' \<longrightarrow> 0 < count_at e ''mtls_present_count'') \<and>
     (pqc_credited e' \<longrightarrow> pqc_credited e) \<and>
     (0 < pqc_hybrid_count e' \<longrightarrow> 0 < pqc_hybrid_count e) \<and>
     (key_type_penalised e \<longrightarrow> key_type_penalised e')"

definition severities_le :: "evidence \<Rightarrow> evidence \<Rightarrow> bool" where
  "severities_le e e' \<longleftrightarrow>
     count_at (scored_severity_counts e) ''CRITICAL'' \<le> count_at (scored_severity_counts e') ''CRITICAL'' \<and>
     count_at (scored_severity_counts e) ''HIGH'' \<le> count_at (scored_severity_counts e') ''HIGH''"

definition at_least_as_weak :: "evidence \<Rightarrow> evidence \<Rightarrow> bool" where
  "at_least_as_weak e e' \<longleftrightarrow>
     counters_le e e' \<and> credits_ge e e' \<and> severities_le e e' \<and> assessed_flags e = assessed_flags e'"

section \<open>One lemma per domain\<close>

lemma counters_leD:
  "counters_le e e' \<Longrightarrow> k \<in> set weakness_keys \<Longrightarrow> count_at e k \<le> count_at e' k"
  "counters_le e e' \<Longrightarrow> k \<in> set cert_weakness_keys \<Longrightarrow>
     count_at (cert_obs_of e) k \<le> count_at (cert_obs_of e') k"
  "counters_le e e' \<Longrightarrow> unknown_count e \<le> unknown_count e'"
  "counters_le e e' \<Longrightarrow> legacy_tls_count e \<le> legacy_tls_count e'"
  by (simp_all add: counters_le_def)

lemma scan_error_penalty_mono:
  "counters_le e e' \<Longrightarrow> 0 \<le> x \<Longrightarrow> - scan_error_penalty e' * x \<le> - scan_error_penalty e * x"
  by (simp only: scan_error_penalty_def)
    (rule cc.penalty_antimono, simp_all add: counters_le_def scan_error_total_def)

lemmas impact_sum = list.map sum_list.Cons sum_list.Nil snd_conv

lemma weakness_member [simp]:
  "''plaintext_http_count'' \<in> set weakness_keys" "''http_on_tls_port_count'' \<in> set weakness_keys"
  "''identity_weak_etype_count'' \<in> set weakness_keys" "''saml_weak_signing_count'' \<in> set weakness_keys"
  "''dnssec_weak_algo_count'' \<in> set weakness_keys" "''smime_weak_signing_count'' \<in> set weakness_keys"
  "''smime_expired_count'' \<in> set weakness_keys" "''smime_weak_key_count'' \<in> set weakness_keys"
  "''adcs_weak_template_count'' \<in> set weakness_keys" "''adcs_misconfig_count'' \<in> set weakness_keys"
  "''adcs_weak_signing_count'' \<in> set weakness_keys" "''adcs_coverage_gap_count'' \<in> set weakness_keys"
  "''dar_db_plaintext_count'' \<in> set weakness_keys" "''dar_db_weak_ssl_count'' \<in> set weakness_keys"
  "''dar_storage_unencrypted_count'' \<in> set weakness_keys"
  "''dar_storage_aws_managed_count'' \<in> set weakness_keys"
  "''dar_k8s_unencrypted_count'' \<in> set weakness_keys" "''dar_k8s_inaccessible_count'' \<in> set weakness_keys"
  "''dar_vault_weak_count'' \<in> set weakness_keys" "''motion_email_weak_cipher_count'' \<in> set weakness_keys"
  "''motion_broker_plaintext_count'' \<in> set weakness_keys"
  "''motion_broker_weak_tls_count'' \<in> set weakness_keys"
  "''motion_broker_weak_cipher_count'' \<in> set weakness_keys"
  "''bearer_token_weak_alg_count'' \<in> set weakness_keys"
  "''openapi_plaintext_server_count'' \<in> set weakness_keys"
  "''codesign_weak_algo_count'' \<in> set weakness_keys" "''fuzz_finding_count'' \<in> set weakness_keys"
  by (simp_all add: weakness_keys_def)

lemma cert_weakness_member [simp]:
  "''expired_count'' \<in> set cert_weakness_keys" "''expiring_count'' \<in> set cert_weakness_keys"
  "''self_signed_count'' \<in> set cert_weakness_keys"
  by (simp_all add: cert_weakness_keys_def)

lemma key_type_sum:
  assumes "wt w ''agility_rsa_only_penalty'' = wt w ''agility_unverified_key_type_penalty''"
  shows "sum_list (map snd (key_type_impacts w e)) =
    (if key_type_penalised e then - wt w ''agility_rsa_only_penalty'' else 0)"
  using assms by (auto simp: key_type_impacts_def key_type_penalised_def)

lemma pqc_credit_sum:
  "sum_list (map snd (pqc_credit_impacts w e)) =
    (if pqc_credited e then wt w ''agility_pqc_hybrid_bonus'' else 0)"
  by (auto simp: pqc_credit_impacts_def pqc_credited_def)

lemma plain_domains_antimono:
  assumes w_ok: "weights_ok w" and worse: "counters_le e e'"
  shows "sum_list (map snd (hygiene_impacts w e')) \<le> sum_list (map snd (hygiene_impacts w e))"
    and "sum_list (map snd (modern_tls_impacts w e')) \<le> sum_list (map snd (modern_tls_impacts w e))"
    and "sum_list (map snd (dar_impacts w e')) \<le> sum_list (map snd (dar_impacts w e))"
    and "sum_list (map snd (motion_impacts w e')) \<le> sum_list (map snd (motion_impacts w e))"
proof -
  show "sum_list (map snd (hygiene_impacts w e')) \<le> sum_list (map snd (hygiene_impacts w e))"
    unfolding hygiene_impacts_def impact_sum by (intro add_mono cc.penalty_antimono wt_nonneg [OF w_ok] order_refl counters_leD [OF worse]
      scan_error_penalty_mono [OF worse]) simp_all
  show "sum_list (map snd (modern_tls_impacts w e')) \<le> sum_list (map snd (modern_tls_impacts w e))"
    unfolding modern_tls_impacts_def impact_sum by (intro add_mono cc.penalty_antimono wt_nonneg [OF w_ok] order_refl counters_leD [OF worse]
      scan_error_penalty_mono [OF worse])
  show "sum_list (map snd (dar_impacts w e')) \<le> sum_list (map snd (dar_impacts w e))"
    unfolding dar_impacts_def impact_sum by (intro add_mono cc.penalty_antimono wt_nonneg [OF w_ok] order_refl counters_leD [OF worse]
      scan_error_penalty_mono [OF worse]) simp_all
  show "sum_list (map snd (motion_impacts w e')) \<le> sum_list (map snd (motion_impacts w e))"
    unfolding motion_impacts_def impact_sum email_plaintext_total_def [symmetric]
    by (intro add_mono cc.penalty_antimono wt_nonneg [OF w_ok] order_refl counters_leD [OF worse]
      scan_error_penalty_mono [OF worse]) (use worse in \<open>simp_all add: counters_le_def\<close>)
qed

lemma identity_antimono:
  assumes w_ok: "weights_ok w" and worse: "counters_le e e'"
    and mtls: "0 < count_at e' ''mtls_present_count'' \<longrightarrow> 0 < count_at e ''mtls_present_count''"
  shows "sum_list (map snd (identity_trust_impacts w e')) \<le> sum_list (map snd (identity_trust_impacts w e))"
proof -
  have "(if 0 < count_at e' ''mtls_present_count'' then wt w ''identity_mtls_ratio_bonus'' else 0)
    \<le> (if 0 < count_at e ''mtls_present_count'' then wt w ''identity_mtls_ratio_bonus'' else 0)"
    using mtls wt_nonneg [OF w_ok] by auto
  then show ?thesis
    unfolding identity_trust_impacts_def impact_sum by (intro add_mono cc.penalty_antimono wt_nonneg [OF w_ok] order_refl counters_leD [OF worse]
      scan_error_penalty_mono [OF worse]) simp_all
qed

lemma agility_antimono:
  assumes w_ok: "weights_ok w" and worse: "counters_le e e'"
    and pen: "wt w ''agility_rsa_only_penalty'' = wt w ''agility_unverified_key_type_penalty''"
    and cr: "pqc_credited e' \<longrightarrow> pqc_credited e" "key_type_penalised e \<longrightarrow> key_type_penalised e'"
  shows "sum_list (map snd (agility_impacts w e')) \<le> sum_list (map snd (agility_impacts w e))"
proof -
  note steps = add_mono cc.penalty_antimono wt_nonneg [OF w_ok] order_refl counters_leD [OF worse]
  have kt: "sum_list (map snd (key_type_impacts w e')) \<le> sum_list (map snd (key_type_impacts w e))"
    using cr(2) wt_nonneg [OF w_ok] by (auto simp: key_type_sum [OF pen])
  have pc: "sum_list (map snd (pqc_credit_impacts w e')) \<le> sum_list (map snd (pqc_credit_impacts w e))"
    using cr(1) wt_nonneg [OF w_ok] by (auto simp: pqc_credit_sum)
  show ?thesis
    unfolding agility_impacts_def map_append sum_list_append impact_sum
    by (intro steps kt pc) simp_all
qed

section \<open>The whole score\<close>

lemma category_scores_antimono:
  assumes w_ok: "weights_ok w"
    and pen: "wt w ''agility_rsa_only_penalty'' = wt w ''agility_unverified_key_type_penalty''"
    and weak: "at_least_as_weak e e'"
  shows "list_all2 (\<lambda>c d. cat_ok c = cat_ok d \<and> cat_score c \<le> cat_score d)
    (category_table w e') (category_table w e)"
proof -
  from weak have worse: "counters_le e e'" and cr: "credits_ge e e'"
    and flags: "assessed_flags e = assessed_flags e'"
    by (simp_all add: at_least_as_weak_def)
  note plain = plain_domains_antimono [OF w_ok worse]
  have ident: "sum_list (map snd (identity_trust_impacts w e')) \<le> sum_list (map snd (identity_trust_impacts w e))"
    using cr by (intro identity_antimono [OF w_ok worse]) (simp add: credits_ge_def)
  have agil: "sum_list (map snd (agility_impacts w e')) \<le> sum_list (map snd (agility_impacts w e))"
    using cr by (intro agility_antimono [OF w_ok worse pen]) (simp_all add: credits_ge_def)
  from flags show ?thesis
    by (simp add: category_table_def Let_def assessed_flags_def apply_weighted_impacts_mono
        plain ident agil)
qed

lemma assessed_scores_antimono:
  "list_all2 (\<lambda>c d. cat_ok c = cat_ok d \<and> cat_score c \<le> cat_score d) cs ds \<Longrightarrow>
   list_all2 (\<le>) (assessed_scores cs) (assessed_scores ds)"
  by (induction rule: list_all2_induct) (auto simp: assessed_scores_def)

lemma lowest_ceiling_antimono:
  assumes "severities_le e e'" and "0 < pqc_hybrid_count e' \<longrightarrow> 0 < pqc_hybrid_count e"
  shows "case (map_option fst (lowest_ceiling e'), map_option fst (lowest_ceiling e)) of
      (None, None) \<Rightarrow> True | (Some x, None) \<Rightarrow> 0 \<le> x \<and> x \<le> 100
    | (Some x, Some y) \<Rightarrow> 0 \<le> x \<and> x \<le> y | (None, Some y) \<Rightarrow> False"
  using assms unfolding lowest_ceiling_value severities_le_def Let_def by simp linarith?

lemma final_total_antimono:
  assumes weak: "at_least_as_weak e e'"
    and scores: "list_all2 (\<le>) xs' xs" and ne: "xs' \<noteq> []"
    and rng: "\<And>x. x \<in> set xs' \<Longrightarrow> 0 \<le> x \<and> x \<le> 25"
  shows "final_total e' xs' \<le> final_total e xs"
  unfolding final_total_def
proof (rule compress_mono)
  show "computed_headline xs' \<le> computed_headline xs" by (rule computed_headline_mono [OF scores])
  show "0 \<le> computed_headline xs'" using computed_headline_bounds [OF ne rng] by simp
  show "case map_option fst (lowest_ceiling e) of None \<Rightarrow> True | Some x \<Rightarrow> 0 \<le> x \<and> x \<le> 100"
    using lowest_ceiling_range [of e] by (force split: option.splits)
  show "case (map_option fst (lowest_ceiling e'), map_option fst (lowest_ceiling e)) of
      (None, None) \<Rightarrow> True | (Some x, None) \<Rightarrow> 0 \<le> x \<and> x \<le> 100
    | (Some x, Some y) \<Rightarrow> 0 \<le> x \<and> x \<le> y | (None, Some y) \<Rightarrow> False"
    using weak by (intro lowest_ceiling_antimono) (simp_all add: at_least_as_weak_def credits_ge_def)
qed

definition opt_int_le :: "int option \<Rightarrow> int option \<Rightarrow> bool" where
  "opt_int_le a b \<longleftrightarrow> (case (a, b) of (None, None) \<Rightarrow> True | (Some x, Some y) \<Rightarrow> x \<le> y | _ \<Rightarrow> False)"

lemma score_antimono:
  assumes w_ok: "weights_ok (effective_weights p ws)"
    and pen: "wt (effective_weights p ws) ''agility_rsa_only_penalty''
                = wt (effective_weights p ws) ''agility_unverified_key_type_penalty''"
    and weak: "at_least_as_weak e e'"
    and r: "compute_readiness_score e p ws = Inr r" "compute_readiness_score e' p ws = Inr r'"
  shows "opt_int_le (r_score r') (r_score r)"
proof -
  let ?s = "\<lambda>e. assessed_scores (category_table (effective_weights p ws) e)"
  have le: "list_all2 (\<le>) (?s e') (?s e)"
    by (rule assessed_scores_antimono [OF category_scores_antimono [OF w_ok pen weak]])
  then have same: "?s e' = [] \<longleftrightarrow> ?s e = []"
    by (metis list_all2_Nil list_all2_Nil2)
  show ?thesis
  proof (cases "?s e' = []")
    case True
    with same show ?thesis
      by (simp add: opt_int_le_def compute_score_cases [OF r(1)] compute_score_cases [OF r(2)])
  next
    case False
    with same final_total_antimono [OF weak le False assessed_scores_bounds] show ?thesis
      by (simp add: opt_int_le_def compute_score_cases [OF r(1)] compute_score_cases [OF r(2)])
  qed
qed

lemma profile_penalties_equal:
  "wt (effective_weights p []) ''agility_rsa_only_penalty''
     = wt (effective_weights p []) ''agility_unverified_key_type_penalty''"
proof -
  have pick: "(if x \<in> {a, b, c} then x else b) \<in> {a, b, c}" for x a b c :: string by simp
  have "profile_name p \<in> {''strict'', ''balanced'', ''lenient''}"
    unfolding profile_name_def Let_def profile_multipliers_def list.set image_insert image_empty fst_conv
    by (rule pick)
  then consider "profile_name p = ''strict''" | "profile_name p = ''balanced''" | "profile_name p = ''lenient''"
    by blast
  then show ?thesis
    by cases (simp_all add: effective_weights_def profile_multipliers_def dict_get_def
        score_weights_def scale_prefix_def wt_def starts_with_def)
qed

lemma profile_weights_ok: "weights_ok (effective_weights p [])"
  by (rule effective_weights_ok) (simp add: weights_ok_def)

end
