(* ===== verification/Scoring_Properties.thy ===== *)
theory Scoring_Properties
  imports Scoring_Monotone
begin

text \<open>
  The properties of the readiness score: totality and range, the ceilings, monotonicity in the
  weakness counters, independence of the number of healthy endpoints, the key-type rule, the
  exclusion of unassessed domains, and the insensitivity of the headline to float error.
\<close>

section \<open>Updating one evidence key\<close>

lemma count_at_put: "count_at (dict_put k v e) k' = (if k' = k then max 0 (as_int v) else count_at e k')"
  by (simp add: count_at_def dict_simps)

lemma raw_count_at_put: "k' \<noteq> k \<Longrightarrow> raw_count_at (dict_put k v e) k' = raw_count_at e k'"
  by (simp add: raw_count_at_def dict_simps)

lemma sub_mapping_put: "k' \<noteq> k \<Longrightarrow> sub_mapping (dict_put k v e) k' = sub_mapping e k'"
  by (simp add: sub_mapping_def dict_simps)

lemma scored_severity_counts_put:
  "k \<noteq> ''scored_finding_severity_counts'' \<Longrightarrow> k \<noteq> ''finding_severity_counts'' \<Longrightarrow>
   scored_severity_counts (dict_put k v e) = scored_severity_counts e"
  by (simp add: scored_severity_counts_def dict_simps sub_mapping_put split: pyval.split)

lemmas put_simps = count_at_put raw_count_at_put sub_mapping_put scored_severity_counts_put dict_simps

definition structural_keys :: "string list" where
  "structural_keys =
     [''totals'', ''protocol_counts'', ''certificate_observations'', ''cert_key_type_counts'',
      ''scan_error'', ''scored_finding_severity_counts'', ''finding_severity_counts'',
      ''legacy_tls_count'', ''assessable_endpoint_count'', ''pqc_hybrid_endpoint_count'',
      ''mtls_present_count'', ''kerberos_placeholder_count'', ''kerberos_scan_error_count'',
      ''motion_email_plaintext_count'', ''motion_email_starttls_missing_count'']"

lemma structural_put:
  assumes "k \<notin> set structural_keys"
  shows "assessed_flags (dict_put k v e) = assessed_flags e"
    and "scored_severity_counts (dict_put k v e) = scored_severity_counts e"
    and "cert_obs_of (dict_put k v e) = cert_obs_of e"
    and "unknown_count (dict_put k v e) = unknown_count e"
    and "scan_error_total (dict_put k v e) = scan_error_total e"
    and "legacy_tls_count (dict_put k v e) = legacy_tls_count e"
    and "email_plaintext_total (dict_put k v e) = email_plaintext_total e"
    and "pqc_hybrid_count (dict_put k v e) = pqc_hybrid_count e"
    and "classical_key_count (dict_put k v e) = classical_key_count e"
    and "pqc_cert_count (dict_put k v e) = pqc_cert_count e"
    and "cert_denom (dict_put k v e) = cert_denom e"
    and "count_at (dict_put k v e) ''mtls_present_count'' = count_at e ''mtls_present_count''"
  using assms
  by (auto simp: structural_keys_def assessed_flags_def cert_obs_of_def
      unknown_count_def scan_error_total_def legacy_tls_count_def email_plaintext_total_def
      pqc_hybrid_count_def classical_key_count_def pqc_cert_count_def cert_denom_def
      cert_keys_of_def protocol_counts_of_def endpoint_denom_def Let_def
      put_simps)

lemma weakness_not_structural: "k \<in> set weakness_keys \<Longrightarrow> k \<notin> set structural_keys"
  by (auto simp: weakness_keys_def structural_keys_def)

lemma raise_one_weakness:
  assumes "k \<in> set weakness_keys" and "count_at e k \<le> n"
  shows "at_least_as_weak e (dict_put k (PyInt n) e)"
proof -
  note frame = structural_put [OF weakness_not_structural [OF assms(1)]]
  have "as_int (PyInt n) = n" by (simp add: as_int_def py_int_def)
  then have "counters_le e (dict_put k (PyInt n) e)"
    using assms(2) by (auto simp: counters_le_def frame count_at_put)
  then show ?thesis
    by (simp add: at_least_as_weak_def credits_ge_def severities_le_def frame pqc_credited_def
        key_type_penalised_def)
qed

lemma compute_total: "\<exists>r. compute_readiness_score e p ws = Inr r"
  using compute_unassessed [of p ws e] compute_assessed [of p ws e] by blast

section \<open>Properties\<close>

text \<open>C4: scoring always returns, whatever the evidence, profile and weight overrides.  A scan
  that assessed nothing has no score; otherwise the score is between 0 and 100 and the rating is
  exactly the band of that score: the number and the label never disagree.\<close>

theorem score_total_bounded_congruent:
  "\<exists>r. compute_readiness_score e p ws = Inr r \<and>
     (case r_score r of
        None \<Rightarrow> r_domains_assessed r = 0 \<and> r_rating r = ''NOT_ASSESSED'' \<and> r_cap_reason r = None
      | Some s \<Rightarrow> 0 < r_domains_assessed r \<and> 0 \<le> s \<and> s \<le> 100 \<and> r_rating r = band_for_score s)"
proof (cases "assessed_scores (category_table (effective_weights p ws) e) = []")
  case True
  from compute_unassessed [OF this] show ?thesis by fastforce
next
  case False
  from compute_assessed [OF False] final_total_table_bounds [OF False, of e] False
  show ?thesis by fastforce
qed

text \<open>C6: the consequence ceilings bind in absolute terms: an estate with five open CRITICAL
  findings never scores above 25, with one never above 34, with three HIGH never above 54, with
  one HIGH never above 69, and without an observed post-quantum key exchange never above 84.\<close>

theorem consequence_ceilings_bind:
  "\<exists>r. compute_readiness_score e p ws = Inr r \<and>
     (case r_score r of None \<Rightarrow> True | Some s \<Rightarrow>
        s \<le> (if 5 \<le> count_at (scored_severity_counts e) ''CRITICAL'' then 25
             else if 1 \<le> count_at (scored_severity_counts e) ''CRITICAL'' then 34
             else if 3 \<le> count_at (scored_severity_counts e) ''HIGH'' then 54
             else if 1 \<le> count_at (scored_severity_counts e) ''HIGH'' then 69
             else if 0 < pqc_hybrid_count e then 100 else 84))"
proof (cases "assessed_scores (category_table (effective_weights p ws) e) = []")
  case True
  from compute_unassessed [OF this] show ?thesis by fastforce
next
  case False
  let ?s = "final_total e (assessed_scores (category_table (effective_weights p ws) e))"
  have b: "?s \<le> 100" "\<And>x. map_option fst (lowest_ceiling e) = Some x \<Longrightarrow> ?s \<le> x"
    using final_total_table_bounds [OF False, of e] by blast+
  have "?s \<le> (if 5 \<le> count_at (scored_severity_counts e) ''CRITICAL'' then 25
             else if 1 \<le> count_at (scored_severity_counts e) ''CRITICAL'' then 34
             else if 3 \<le> count_at (scored_severity_counts e) ''HIGH'' then 54
             else if 1 \<le> count_at (scored_severity_counts e) ''HIGH'' then 69
             else if 0 < pqc_hybrid_count e then 100 else 84)"
    using b unfolding lowest_ceiling_value Let_def by (simp split: if_splits)
  with compute_assessed [OF False] show ?thesis by fastforce
qed

text \<open>C5: monotonicity in full generality: evidence that is at least as weak in every counter
  the engine reads (more weaknesses, more CRITICAL and HIGH findings, no new credit, the same
  domains assessed) never scores higher, under every calibration profile.\<close>

theorem weaker_evidence_never_scores_higher:
  assumes "at_least_as_weak e e'"
  shows "\<exists>r r'. compute_readiness_score e p [] = Inr r \<and> compute_readiness_score e' p [] = Inr r' \<and>
    opt_int_le (r_score r') (r_score r)"
  using compute_total [of e p "[]"] compute_total [of e' p "[]"]
    score_antimono [OF profile_weights_ok profile_penalties_equal assms] by blast

theorem weaker_evidence_never_scores_higher_witness:
  "\<exists>r r'. compute_readiness_score [(''assessable_endpoint_count'', PyInt 3)] (Some ''strict'') [] = Inr r \<and>
     compute_readiness_score [(''assessable_endpoint_count'', PyInt 3), (''plaintext_http_count'', PyInt 10)]
       (Some ''strict'') [] = Inr r' \<and> opt_int_le (r_score r') (r_score r)"
proof (rule weaker_evidence_never_scores_higher)
  show "at_least_as_weak [(''assessable_endpoint_count'', PyInt 3)]
    [(''assessable_endpoint_count'', PyInt 3), (''plaintext_http_count'', PyInt 10)]"
    using raise_one_weakness [of "''plaintext_http_count''" "[(''assessable_endpoint_count'', PyInt 3)]" 10]
    by (simp add: count_at_def dict_get_def as_int_def py_int_def)
qed

text \<open>Raising any single top-level weakness counter of an evidence mapping never raises the
  score: there is no counter a scanner could inflate to look better.\<close>

theorem raising_a_weakness_never_raises_score:
  assumes "k \<in> set weakness_keys" and "count_at e k \<le> n"
  shows "\<exists>r r'. compute_readiness_score e p [] = Inr r \<and>
    compute_readiness_score (dict_put k (PyInt n) e) p [] = Inr r' \<and> opt_int_le (r_score r') (r_score r)"
  using compute_total [of e p "[]"] compute_total [of "dict_put k (PyInt n) e" p "[]"]
    score_antimono [OF profile_weights_ok profile_penalties_equal raise_one_weakness [OF assms]] by blast

theorem raising_a_weakness_never_raises_score_witness:
  "\<exists>r r'. compute_readiness_score [(''saml_weak_signing_count'', PyInt 2), (''assessable_endpoint_count'', PyInt 9)] None [] = Inr r \<and>
     compute_readiness_score (dict_put ''saml_weak_signing_count'' (PyInt 7)
        [(''saml_weak_signing_count'', PyInt 2), (''assessable_endpoint_count'', PyInt 9)]) None [] = Inr r' \<and>
     opt_int_le (r_score r') (r_score r)"
  by (rule raising_a_weakness_never_raises_score)
    (simp_all add: count_at_def dict_get_def as_int_def py_int_def)

lemma impacts_ignore_endpoint_count:
  "category_table w (dict_put ''assessable_endpoint_count'' v e)
     = (let t = category_table w e;
            ok = endpoints_assessed (max 0 (as_int v)) in
        [(t ! 0)\<lparr>cat_ok := ok\<rparr>, (t ! 1)\<lparr>cat_ok := ok\<rparr>, t ! 2, (t ! 3)\<lparr>cat_ok := ok\<rparr>, t ! 4, t ! 5])"
  by (simp add: category_table_def Let_def category_of_def hygiene_impacts_def modern_tls_impacts_def
      identity_trust_impacts_def agility_impacts_def key_type_impacts_def pqc_credit_impacts_def
      dar_impacts_def motion_impacts_def cert_obs_of_def
      unknown_count_def legacy_tls_count_def scan_error_penalty_def
      pqc_hybrid_count_def classical_key_count_def pqc_cert_count_def cert_denom_def
      cert_keys_of_def protocol_counts_of_def endpoint_denom_def
      put_simps)

lemma ceiling_ignores_endpoint_count:
  "lowest_ceiling (dict_put ''assessable_endpoint_count'' v e) = lowest_ceiling e"
  "scored_severity_counts (dict_put ''assessable_endpoint_count'' v e) = scored_severity_counts e"
  by (simp_all add: lowest_ceiling_def Let_def pqc_hybrid_count_def put_simps)

text \<open>Observing more healthy endpoints never changes the result: the number of assessable
  endpoints is only a gate, so any two positive counts give the same score, rating, subscores
  and drivers.\<close>

theorem healthy_endpoints_do_not_dilute:
  assumes "0 < m" and "0 < n"
  shows "compute_readiness_score (dict_put ''assessable_endpoint_count'' (PyInt m) e) p ws
       = compute_readiness_score (dict_put ''assessable_endpoint_count'' (PyInt n) e) p ws"
proof -
  have table: "category_table w (dict_put ''assessable_endpoint_count'' (PyInt m) e)
      = category_table w (dict_put ''assessable_endpoint_count'' (PyInt n) e)" for w
    using assms by (simp add: impacts_ignore_endpoint_count Let_def endpoints_assessed_def
        as_int_def py_int_def)
  show ?thesis
    unfolding compute_readiness_score_def rate_assessed_def table ceiling_ignores_endpoint_count ..
qed

theorem healthy_endpoints_do_not_dilute_witness:
  "compute_readiness_score (dict_put ''assessable_endpoint_count'' (PyInt 17) [(''plaintext_http_count'', PyInt 5)]) None []
   = compute_readiness_score (dict_put ''assessable_endpoint_count'' (PyInt 500) [(''plaintext_http_count'', PyInt 5)]) None []"
  by (rule healthy_endpoints_do_not_dilute) simp_all

lemma key_counts_put:
  "sub_mapping (dict_put ''cert_key_type_counts'' (PyDict d) e) ''cert_key_type_counts'' = d"
  by (simp add: sub_mapping_def dict_simps)

text \<open>Not looking never pays.  With the same certificates observed and the same number of
  post-quantum certificate keys, a scan that leaves the type of some certificate key
  undetermined never scores above one that determined the keys, classical or not.\<close>

theorem undetermined_key_types_never_pay:
  assumes "count_at d ''PQC'' = count_at d' ''PQC''"
    and "count_at d ''PQC'' < count_at (cert_obs_of e) ''certs_observed''"
  shows "\<exists>r r'. compute_readiness_score (dict_put ''cert_key_type_counts'' (PyDict d) e) p [] = Inr r \<and>
    compute_readiness_score (dict_put ''cert_key_type_counts'' (PyDict d') e) p [] = Inr r' \<and>
    opt_int_le (r_score r) (r_score r')"
proof -
  let ?e = "dict_put ''cert_key_type_counts'' (PyDict d) e"
  let ?e' = "dict_put ''cert_key_type_counts'' (PyDict d') e"
  have "at_least_as_weak ?e' ?e"
    using assms
    by (auto simp: at_least_as_weak_def counters_le_def credits_ge_def severities_le_def
        assessed_flags_def cert_obs_of_def unknown_count_def
        scan_error_total_def legacy_tls_count_def email_plaintext_total_def pqc_credited_def
        key_type_penalised_def pqc_hybrid_count_def classical_key_count_def pqc_cert_count_def
        cert_denom_def cert_keys_of_def protocol_counts_of_def endpoint_denom_def Let_def
        key_counts_put put_simps weakness_keys_def)
  then show ?thesis
    using compute_total [of ?e p "[]"] compute_total [of ?e' p "[]"]
      score_antimono [OF profile_weights_ok profile_penalties_equal, of ?e' ?e p] by blast
qed

theorem undetermined_key_types_never_pay_witness:
  "\<exists>r r'. compute_readiness_score (dict_put ''cert_key_type_counts'' (PyDict [(''UNKNOWN'', PyInt 40)])
       [(''certificate_observations'', PyDict [(''certs_observed'', PyInt 40)])]) None [] = Inr r \<and>
     compute_readiness_score (dict_put ''cert_key_type_counts'' (PyDict [(''RSA'', PyInt 40)])
       [(''certificate_observations'', PyDict [(''certs_observed'', PyInt 40)])]) None [] = Inr r' \<and>
     opt_int_le (r_score r) (r_score r')"
  by (rule undetermined_key_types_never_pay)
    (simp_all add: count_at_def cert_obs_of_def sub_mapping_def dict_get_def as_int_def py_int_def)

text \<open>The headline, the subscores and the explanation read the same assessed set: an
  unassessed domain shows no subscore, is absent from the divisor, and supplies no driver.\<close>

theorem unassessed_domains_are_silent:
  assumes "compute_readiness_score e p ws = Inr r"
  shows "map fst (r_subscores r) =
      [''hygiene'', ''modern_tls'', ''identity_trust'', ''agility_signals'', ''data_at_rest'', ''data_in_motion'']
    \<and> length (filter (\<lambda>s. snd s \<noteq> None) (r_subscores r)) = r_domains_assessed r
    \<and> (\<forall>d \<in> set (r_drivers r). \<exists>c \<in> set (category_table (effective_weights p ws) e).
          d \<in> set (cat_drivers c) \<and> (cat_name c, Some (cat_score c)) \<in> set (r_subscores r))"
proof -
  note fr = compute_frame [OF assms]
  have names: "map fst (r_subscores r) = map cat_name (category_table (effective_weights p ws) e)"
    by (simp add: fr comp_def)
  have count: "length (filter (\<lambda>s. snd s \<noteq> None)
      (map (\<lambda>c. (cat_name c, if cat_ok c then Some (cat_score c) else None)) cs))
      = length (filter cat_ok cs)" for cs
    by (induction cs) auto
  have "\<exists>c \<in> set (category_table (effective_weights p ws) e).
      d \<in> set (cat_drivers c) \<and> (cat_name c, Some (cat_score c)) \<in> set (r_subscores r)"
    if "d \<in> set (r_drivers r)" for d
    using that in_set_takeD by (fastforce simp: fr top_drivers_def image_iff)
  with names show ?thesis
    by (simp add: fr(2,3) count assessed_scores_def) (simp add: category_table_def Let_def)
qed

theorem unassessed_domains_are_silent_witness:
  "\<exists>r. compute_readiness_score [(''protocol_counts'', PyDict [(''S3'', PyInt 1)])] None [] = Inr r \<and>
     length (filter (\<lambda>s. snd s \<noteq> None) (r_subscores r)) = r_domains_assessed r"
proof -
  obtain r where r: "compute_readiness_score [(''protocol_counts'', PyDict [(''S3'', PyInt 1)])] None [] = Inr r"
    using compute_total by blast
  with unassessed_domains_are_silent [OF r] show ?thesis by blast
qed

lemma nearest_multiple:
  fixes s m :: int
  assumes "1 \<le> m" "m \<le> 6"
  shows "\<exists>k. 10 * \<bar>4 * s - m * k\<bar> \<le> 4 * m"
proof -
  consider "m = 1" | "m = 2" | "m = 3" | "m = 4" | "m = 5" | "m = 6" using assms by linarith
  then show ?thesis
  proof cases
    case 1 then show ?thesis by (intro exI [of _ "4 * s"]) simp
  next
    case 2 then show ?thesis by (intro exI [of _ "2 * s"]) simp
  next
    case 3 
    have "\<bar>4 * s - 3 * ((4 * s + 1) div 3)\<bar> \<le> 1" by linarith
    with 3 show ?thesis by (intro exI [of _ "(4 * s + 1) div 3"]) simp
  next
    case 4 then show ?thesis by (intro exI [of _ s]) simp
  next
    case 5
    have "\<bar>4 * s - 5 * ((4 * s + 2) div 5)\<bar> \<le> 2" by linarith
    with 5 show ?thesis by (intro exI [of _ "(4 * s + 2) div 5"]) simp
  next
    case 6
    have "\<bar>4 * s - 6 * ((2 * s + 1) div 3)\<bar> \<le> 2" by linarith
    with 6 show ?thesis by (intro exI [of _ "(2 * s + 1) div 3"]) simp
  qed
qed
lemma quotient_bound:
  fixes d n :: real
  assumes "0 < n" and "10 * \<bar>d\<bar> \<le> 4 * n"
  shows "\<bar>d / n\<bar> \<le> 2 / 5"
  using assms by (simp add: abs_divide pos_divide_le_eq)

text \<open>The headline does not depend on float rounding: for up to six domains the exact quotient
  is never within a tenth of a rounding tie, so any evaluation with an error below 1/10 rounds to
  the same integer.\<close>

theorem headline_rounding_robust:
  assumes "scores \<noteq> []" and "length scores \<le> 6"
    and "\<bar>x - of_int (sum_list scores) / (of_nat (length scores) * 25) * 100\<bar> < 1 / 10"
  shows "py_round x = computed_headline scores"
proof -
  let ?S = "sum_list scores" and ?n = "int (length scores)"
  let ?q = "of_int (4 * ?S) / of_nat (length scores) :: real"
  have "1 \<le> ?n" "?n \<le> 6" using assms(1,2) by (simp_all add: Suc_le_eq)
  from nearest_multiple [OF this, of ?S] obtain k where k: "10 * \<bar>4 * ?S - ?n * k\<bar> \<le> 4 * ?n"
    by blast
  have np: "0 < real (length scores)" using assms(1) by simp
  have eq: "?q - of_int k = of_int (4 * ?S - ?n * k) / real (length scores)"
    using np by (simp add: field_simps)
  from k have "real_of_int (10 * \<bar>4 * ?S - ?n * k\<bar>) \<le> of_int (4 * ?n)"
    by (simp only: of_int_le_iff)
  then have "10 * \<bar>real_of_int (4 * ?S - ?n * k)\<bar> \<le> 4 * real (length scores)" by simp
  then have "\<bar>?q - of_int k\<bar> \<le> 2 / 5" unfolding eq by (rule quotient_bound [OF np])
  moreover have "\<bar>x - ?q\<bar> < 1 / 10" using assms(3) by (simp add: headline_exact [OF assms(1)])
  ultimately have "\<bar>x - of_int k\<bar> < 1 / 2" "\<bar>?q - of_int k\<bar> < 1 / 2" by linarith+
  then show ?thesis
    by (simp add: computed_headline_def headline_exact [OF assms(1)] py_round_near)
qed

theorem headline_rounding_robust_witness:
  "py_round (4 * 43 / 3 + 1 / 100) = computed_headline [20, 21, 2]"
  by (rule headline_rounding_robust) simp_all

text \<open>A limited number always says so: whenever a ceiling applies, the cap reason names the
  finding count that set it, the emitted score and the score it was computed from.\<close>

theorem capped_score_is_disclosed:
  assumes "compute_readiness_score e p ws = Inr r" and "r_score r = Some s"
    and "lowest_ceiling e = Some (c, reason)"
  shows "\<exists>computed. s = py_round (of_int c * of_int computed / 100) \<and>
    r_cap_reason r = Some (reason @ '' '' @ em_dash @ '' score limited to '' @ int_str s
                           @ '' (computed '' @ int_str computed @ '')'')"
proof -
  let ?xs = "assessed_scores (category_table (effective_weights p ws) e)"
  have ne: "?xs \<noteq> []" using assms(1,2) by (auto simp: compute_score_cases)
  with assms compute_assessed [OF ne] show ?thesis
    by (auto simp: cap_disclosure_def final_total_def compress_def intro!: exI [of _ "computed_headline ?xs"])
qed

lemma lowest_ceiling_no_pqc: "lowest_ceiling [(''assessable_endpoint_count'', PyInt 1)]
    = Some (84, ''no post-quantum key exchange observed'')"
  by (simp add: lowest_ceiling_def Let_def scored_severity_counts_def sub_mapping_def dict_get_def
      count_at_def as_int_def py_int_def pqc_hybrid_count_def consequence_ceiling_def
      deep_critical_count_def pqc_readiness_ceiling_def band_simps map_filter_simps)

theorem capped_score_is_disclosed_witness:
  "\<exists>r s computed. compute_readiness_score [(''assessable_endpoint_count'', PyInt 1)] None [] = Inr r \<and>
     r_score r = Some s \<and> s = py_round (of_int 84 * of_int computed / 100)"
proof -
  let ?e = "[(''assessable_endpoint_count'', PyInt 1)]"
  have "assessed_scores (category_table (effective_weights None []) ?e) \<noteq> []"
    by (simp add: assessed_scores_def category_table_def Let_def endpoints_assessed_def
        endpoint_denom_def dict_get_def as_int_def py_int_def)
  from compute_assessed [OF this] obtain r s
    where r: "compute_readiness_score ?e None [] = Inr r" "r_score r = Some s" by blast
  from capped_score_is_disclosed [OF r lowest_ceiling_no_pqc] r show ?thesis by blast
qed

end
