(* ===== verification/Models.thy ===== *)
theory Models
  imports Prelude "HOL-Library.Option_ord"
begin

text \<open>
  The persisted rows of \<open>quirk/models.py\<close> that the closure subsystem reads and writes, the
  database as one list per table in row-id order, and the three query shapes the code uses:
  \<open>filter(...).all()\<close>, \<open>one_or_none()\<close> and \<open>order_by(... desc).first()\<close>.  Timestamps
  are integers.  Nullable text columns are \<open>option\<close>s; the nullable columns every writer sets
  (\<open>slug\<close>, \<open>scan_run_id\<close>, the timestamps) are not.  A JSON text column is the value it
  parses to, None standing for NULL, empty and malformed text.
\<close>

section \<open>Rows\<close>

record crypto_endpoint =
  ep_host :: string
  ep_port :: int
  ep_protocol :: "string option"
  ep_scan_run_id :: string
  ep_scan_error :: "string option"
  ep_tls_blocker_reason :: "string option"
  ep_tls_version :: "string option"
  ep_cipher_suite :: "string option"
  ep_cert_sig_alg :: "string option"
  ep_cert_pubkey_alg :: "string option"
  ep_service_detail :: "string option"
  ep_tls_capabilities_json :: "string option"
  ep_ssh_audit_json :: "string option"
  ep_jwt_scan_json :: "string option"
  ep_container_scan_json :: "string option"
  ep_source_scan_json :: "string option"
  ep_kerberos_scan_json :: "string option"
  ep_saml_scan_json :: "string option"
  ep_dnssec_scan_json :: "string option"
  ep_smime_scan_json :: "string option"
  ep_codesign_scan_json :: "string option"
  ep_email_scan_json :: "string option"
  ep_broker_scan_json :: "string option"

record remediation_item =
  it_id :: nat
  it_slug :: string
  it_scan_run_id :: string
  it_title :: "string option"
  it_phase :: "string option"
  it_priority :: "int option"
  it_constituency :: "string option"
  it_state :: string
  it_first_seen :: "string option"
  it_created_at :: int

record item_fingerprint =
  fp_id :: nat
  fp_item_id :: "nat option"
  fp_slug :: string
  fp_scan_run_id :: string
  fp_fingerprint :: string
  fp_host :: "string option"
  fp_port :: "int option"
  fp_title :: "string option"
  fp_state :: string
  fp_observed_at :: int

record closure_event =
  ev_slug :: string
  ev_fingerprint :: "string option"
  ev_scan_run_id :: string
  ev_prior_scan_run_id :: "string option"
  ev_type :: string
  ev_from_state :: "string option"
  ev_to_state :: "string option"
  ev_reason :: "string option"
  ev_observed_at :: int

record scope_signature =
  sg_scan_run_id :: string
  sg_version :: "string option"
  sg_port_scope :: "string option"
  sg_profile :: "string option"
  sg_extras_present :: "string list"
  sg_credentials_present :: "string list"
  sg_sensor_set :: "string list"
  sg_target_set_digest :: "string option"
  sg_probe_health :: "pyval option"
  sg_digest :: string
  sg_created_at :: int

record db =
  db_endpoints :: "crypto_endpoint list"
  db_items :: "remediation_item list"
  db_fps :: "item_fingerprint list"
  db_events :: "closure_event list"
  db_signatures :: "scope_signature list"

section \<open>Columns by name\<close>

text \<open>\<open>getattr(endpoint, column, None)\<close> for the text columns a probe family names as its
  evidence field.\<close>

definition ep_column :: "crypto_endpoint \<Rightarrow> string \<Rightarrow> string option" where
  "ep_column e c =
     (if c = ''tls_capabilities_json'' then ep_tls_capabilities_json e
      else if c = ''ssh_audit_json'' then ep_ssh_audit_json e
      else if c = ''service_detail'' then ep_service_detail e
      else if c = ''jwt_scan_json'' then ep_jwt_scan_json e
      else if c = ''container_scan_json'' then ep_container_scan_json e
      else if c = ''source_scan_json'' then ep_source_scan_json e
      else if c = ''tls_version'' then ep_tls_version e
      else if c = ''dnssec_scan_json'' then ep_dnssec_scan_json e
      else if c = ''saml_scan_json'' then ep_saml_scan_json e
      else if c = ''kerberos_scan_json'' then ep_kerberos_scan_json e
      else if c = ''smime_scan_json'' then ep_smime_scan_json e
      else if c = ''codesign_scan_json'' then ep_codesign_scan_json e
      else if c = ''email_scan_json'' then ep_email_scan_json e
      else if c = ''broker_scan_json'' then ep_broker_scan_json e
      else None)"

section \<open>Constraints\<close>

text \<open>The unique constraints of the three tables; a flush that breaks one raises.\<close>

definition fp_key :: "item_fingerprint \<Rightarrow> string \<times> string" where
  "fp_key r = (fp_slug r, fp_fingerprint r)"

definition constraints_ok :: "db \<Rightarrow> bool" where
  "constraints_ok d \<longleftrightarrow>
     distinct (map fp_id (db_fps d)) \<and>
     distinct (map (\<lambda>r. (fp_scan_run_id r, fp_key r)) (db_fps d)) \<and>
     distinct (map it_id (db_items d)) \<and>
     distinct (map (\<lambda>r. (it_slug r, it_scan_run_id r)) (db_items d)) \<and>
     distinct (map sg_scan_run_id (db_signatures d))"

section \<open>Queries\<close>

datatype db_error = MultipleResultsFound | IntegrityError | ValueErrorEvent string

definition one_or_none :: "'a list \<Rightarrow> db_error + 'a option" where
  "one_or_none xs =
     (case xs of [] \<Rightarrow> Inr None | [x] \<Rightarrow> Inr (Some x) | _ \<Rightarrow> Inl MultipleResultsFound)"

text \<open>\<open>order_by(key.desc()).first()\<close>: the first row with the greatest key.\<close>

fun first_max :: "('a \<Rightarrow> 'k::linorder) \<Rightarrow> 'a list \<Rightarrow> 'a option" where
  "first_max key [] = None"
| "first_max key (x # xs) =
     (case first_max key xs of
        None \<Rightarrow> Some x
      | Some y \<Rightarrow> if key y \<le> key x then Some x else Some y)"

lemma first_max_None [simp]: "first_max key xs = None \<longleftrightarrow> xs = []"
  by (cases xs) (auto split: option.splits)

lemma first_max_Some:
  "first_max key xs = Some x \<Longrightarrow> x \<in> set xs \<and> (\<forall>y \<in> set xs. key y \<le> key x)"
proof (induction xs arbitrary: x)
  case (Cons z zs)
  show ?case
  proof (cases "first_max key zs")
    case None
    with Cons.prems show ?thesis by auto
  next
    case (Some y)
    with Cons.IH [OF Some] Cons.prems show ?thesis by (auto split: if_splits)
  qed
qed simp

lemma one_or_none_distinct:
  assumes "distinct (map f xs)" and "\<forall>x \<in> set xs. P x \<longrightarrow> f x = k"
  shows "\<exists>r. one_or_none (filter P xs) = Inr r"
proof -
  have "length (filter P xs) \<le> 1"
  proof (rule ccontr)
    assume "\<not> length (filter P xs) \<le> 1"
    then obtain a b ys where eq: "filter P xs = a # b # ys"
      by (cases "filter P xs"; cases "tl (filter P xs)") auto
    then have "a \<in> set (filter P xs)" "b \<in> set (filter P xs)" by auto
    then have "f a = f b" using assms(2) by auto
    moreover have "distinct (map f (filter P xs))" using assms(1) by (rule distinct_map_filter)
    ultimately show False using eq by simp
  qed
  then show ?thesis
    by (cases "filter P xs"; cases "tl (filter P xs)") (auto simp: one_or_none_def)
qed

lemma one_or_none_Some: "one_or_none xs = Inr (Some x) \<Longrightarrow> xs = [x]"
  by (cases xs; cases "tl xs") (auto simp: one_or_none_def)

section \<open>Row updates by id\<close>

definition fps_of :: "db \<Rightarrow> string \<Rightarrow> item_fingerprint list" where
  "fps_of d scan = filter (\<lambda>r. fp_scan_run_id r = scan) (db_fps d)"

definition endpoints_of :: "db \<Rightarrow> string \<Rightarrow> crypto_endpoint list" where
  "endpoints_of d scan = filter (\<lambda>e. ep_scan_run_id e = scan) (db_endpoints d)"

definition items_of :: "db \<Rightarrow> string \<Rightarrow> remediation_item list" where
  "items_of d scan = filter (\<lambda>i. it_scan_run_id i = scan) (db_items d)"

definition find_fp :: "db \<Rightarrow> nat \<Rightarrow> item_fingerprint option" where
  "find_fp d i = find (\<lambda>r. fp_id r = i) (db_fps d)"

definition set_fp_state :: "nat \<Rightarrow> string \<Rightarrow> db \<Rightarrow> db" where
  "set_fp_state i s d =
     d\<lparr>db_fps := map (\<lambda>r. if fp_id r = i then r\<lparr>fp_state := s\<rparr> else r) (db_fps d)\<rparr>"

definition set_item_state :: "nat \<Rightarrow> string \<Rightarrow> db \<Rightarrow> db" where
  "set_item_state i s d =
     d\<lparr>db_items := map (\<lambda>r. if it_id r = i then r\<lparr>it_state := s\<rparr> else r) (db_items d)\<rparr>"

definition fresh_fp_id :: "db \<Rightarrow> nat" where
  "fresh_fp_id d = Suc (foldr max (map fp_id (db_fps d)) 0)"

definition fresh_item_id :: "db \<Rightarrow> nat" where
  "fresh_item_id d = Suc (foldr max (map it_id (db_items d)) 0)"

definition add_fp :: "item_fingerprint \<Rightarrow> db \<Rightarrow> db" where
  "add_fp r d = d\<lparr>db_fps := db_fps d @ [r]\<rparr>"

definition add_item :: "remediation_item \<Rightarrow> db \<Rightarrow> db" where
  "add_item r d = d\<lparr>db_items := db_items d @ [r]\<rparr>"

definition add_event :: "closure_event \<Rightarrow> db \<Rightarrow> db" where
  "add_event ev d = d\<lparr>db_events := db_events d @ [ev]\<rparr>"

lemma foldr_max_ge: "x \<in> set xs \<Longrightarrow> x \<le> foldr max xs (0::nat)"
  by (induction xs) auto

lemma fresh_fp_id_new: "r \<in> set (db_fps d) \<Longrightarrow> fp_id r < fresh_fp_id d"
  using foldr_max_ge [of "fp_id r" "map fp_id (db_fps d)"] by (simp add: fresh_fp_id_def less_Suc_eq_le)

lemma fresh_item_id_new: "r \<in> set (db_items d) \<Longrightarrow> it_id r < fresh_item_id d"
  using foldr_max_ge [of "it_id r" "map it_id (db_items d)"] by (simp add: fresh_item_id_def less_Suc_eq_le)

end
