(* ===== verification/Remediation.thy ===== *)
theory Remediation
  imports Models
begin

text \<open>
  \<open>quirk/intelligence/remediation.py\<close>: the closed set of roadmap titles and their slugs, what
  constitutes each item, the state vocabulary, and the read-only progress count.
\<close>

section \<open>Identity\<close>

definition remediation_kind_slugs :: "(string \<times> string) list" where
  "remediation_kind_slugs =
   [(''Remove plaintext HTTP exposure'', ''plaintext-http-exposure''),
    (''Triage high-impact findings'', ''high-impact-findings''),
    (''Replace expired certificates'', ''expired-certificates''),
    (''Increase scan coverage'', ''scan-reliability''),
    (''Classify unknown open services'', ''unknown-open-services''),
    (''Renew near-expiry certificates'', ''near-expiry-certificates''),
    (''Migrate self-signed certificates to managed PKI'', ''self-signed-certificates''),
    (''Disable legacy TLS versions'', ''legacy-tls-versions''),
    (''Increase TLS enumeration coverage'', ''tls-enum-coverage''),
    (''Plan post-quantum (PQC/hybrid) certificate adoption'', ''ecdsa-adoption-planning''),
    (''Standardize mTLS lifecycle operations'', ''mtls-lifecycle-operations''),
    (''Assign remediation owners and SLAs'', ''assign-owners-and-slas''),
    (''Automate evidence refresh cadence'', ''automate-evidence-refresh''),
    (''Establish crypto governance review'', ''crypto-governance-review'')]"

definition remediation_excluded_titles :: "string list" where
  "remediation_excluded_titles =
     [''Collect initial asset scope'', ''Run baseline discovery and fingerprinting'',
      ''Establish recurring readiness reporting'']"

definition remediation_constituency :: "(string \<times> string \<times> string list) list" where
  "remediation_constituency =
   [(''plaintext-http-exposure'', ''fingerprint'',
       [''Plaintext HTTP service detected'', ''HTTP on TLS-designated port'',
        ''Plaintext AMQP listener detected'', ''Plaintext Kafka listener detected'',
        ''Plaintext Redis listener (no auth)'']),
    (''expired-certificates'', ''fingerprint'', [''TLS certificate expired'']),
    (''near-expiry-certificates'', ''fingerprint'', [''TLS certificate expiring within 30 days'']),
    (''self-signed-certificates'', ''fingerprint'', [''TLS certificate is self-signed'']),
    (''legacy-tls-versions'', ''fingerprint'',
       [''Legacy TLS versions allowed (TLS 1.0/1.1)'', ''Legacy TLS cipher suites accepted'']),
    (''unknown-open-services'', ''fingerprint'', [''Unknown open service'']),
    (''high-impact-findings'', ''severity'', []),
    (''scan-reliability'', ''evidence_only'', []),
    (''tls-enum-coverage'', ''evidence_only'', []),
    (''ecdsa-adoption-planning'', ''evidence_only'', []),
    (''mtls-lifecycle-operations'', ''evidence_only'', []),
    (''assign-owners-and-slas'', ''evidence_only'', []),
    (''automate-evidence-refresh'', ''evidence_only'', []),
    (''crypto-governance-review'', ''evidence_only'', [])]"

definition slug_for_title :: "string \<Rightarrow> string option" where
  "slug_for_title title = map_of remediation_kind_slugs title"

section \<open>State vocabulary\<close>

definition item_states :: "string list" where
  "item_states = [''open'', ''closed'', ''not_observed'', ''resurfaced'']"

definition default_item_state :: string where
  "default_item_state = ''not_observed''"

definition detected_item_state :: string where
  "detected_item_state = ''open''"

definition resurfaced_state :: string where
  "resurfaced_state = ''resurfaced''"

definition open_like_states :: "string list" where
  "open_like_states = [''open'', ''resurfaced'']"

definition closure_event_types :: "string list" where
  "closure_event_types = [''closed'', ''resurfaced'', ''reclosed'']"

section \<open>Progress\<close>

definition item_progress :: "db \<Rightarrow> string \<Rightarrow> string \<Rightarrow> nat \<times> nat" where
  "item_progress d scan slug =
     (let rows = filter (\<lambda>r. fp_scan_run_id r = scan \<and> fp_slug r = slug) (db_fps d) in
      (length (filter (\<lambda>r. fp_state r = ''closed'') rows), length rows))"

section \<open>Lemmas\<close>

named_theorems state_simps \<open>the state vocabulary\<close>

lemmas state_vocabulary [state_simps] =
  default_item_state_def detected_item_state_def resurfaced_state_def

text \<open>Roadmap titles and slugs are in bijection: no two titles share a slug, every slug has
  a constituency, and the fallback titles have none.\<close>

theorem slugs_are_identities:
  "distinct (map fst remediation_kind_slugs) \<and> distinct (map snd remediation_kind_slugs)
   \<and> set (map snd remediation_kind_slugs) = set (map fst remediation_constituency)
   \<and> list_all (\<lambda>t. slug_for_title t = None) remediation_excluded_titles"
proof (intro conjI)
  show "distinct (map fst remediation_kind_slugs)" by (simp add: remediation_kind_slugs_def)
  show "distinct (map snd remediation_kind_slugs)" by (simp add: remediation_kind_slugs_def)
  show "set (map snd remediation_kind_slugs) = set (map fst remediation_constituency)"
    by (rule equalityI) (simp_all add: remediation_kind_slugs_def remediation_constituency_def)
  show "list_all (\<lambda>t. slug_for_title t = None) remediation_excluded_titles"
    by (simp add: slug_for_title_def remediation_kind_slugs_def remediation_excluded_titles_def)
qed

end
