(* ===== verification/Score_Lift.thy ===== *)
theory Score_Lift
  imports Scoring_Properties Remediation
begin

text \<open>
  \<open>quirk/intelligence/score_lift.py\<close>: what resolving a roadmap item would do to the readiness
  score, by rescoring a copy of the evidence on which the item's counters are zeroed.
\<close>

section \<open>Resolving an item on a copy of the evidence\<close>

text \<open>\<open>_ensure\<close> and the update of the sub-dictionary it returns.\<close>

definition with_sub :: "string \<Rightarrow> (evidence \<Rightarrow> evidence) \<Rightarrow> evidence \<Rightarrow> evidence" where
  "with_sub key f e =
     dict_put key (PyDict (f (case dict_get e key PyNone of PyDict d \<Rightarrow> d | _ \<Rightarrow> []))) e"

definition zero_keys :: "string list \<Rightarrow> evidence \<Rightarrow> evidence" where
  "zero_keys ks d = foldl (\<lambda>d k. dict_put k (PyInt 0) d) d ks"

text \<open>The severity counts are zeroed in both mappings, the scored one only where it exists.\<close>

definition zero_severities :: "string list \<Rightarrow> evidence \<Rightarrow> evidence" where
  "zero_severities ks e =
     (let e1 = with_sub ''finding_severity_counts'' (zero_keys ks) e in
      if map_of e1 ''scored_finding_severity_counts'' = None then e1
      else with_sub ''scored_finding_severity_counts'' (zero_keys ks) e1)"

definition resolve_plaintext_http_exposure :: "evidence \<Rightarrow> evidence" where
  "resolve_plaintext_http_exposure e =
     dict_put ''http_on_tls_port_count'' (PyInt 0) (dict_put ''plaintext_http_count'' (PyInt 0) e)"

definition resolve_high_impact_findings :: "evidence \<Rightarrow> evidence" where
  "resolve_high_impact_findings = zero_severities [''HIGH'', ''CRITICAL'']"

definition resolve_certificates :: "string \<Rightarrow> evidence \<Rightarrow> evidence" where
  "resolve_certificates counter = with_sub ''certificate_observations'' (dict_put counter (PyInt 0))"

definition resolve_scan_reliability :: "evidence \<Rightarrow> evidence" where
  "resolve_scan_reliability =
     with_sub ''scan_error'' (\<lambda>d. dict_put ''count'' (PyInt 0) (dict_put ''rate'' (PyFloat 0) d))"

definition resolve_unknown_open_services :: "evidence \<Rightarrow> evidence" where
  "resolve_unknown_open_services = with_sub ''protocol_counts'' (dict_put ''UNKNOWN'' (PyInt 0))"

definition resolve_legacy_tls_versions :: "evidence \<Rightarrow> evidence" where
  "resolve_legacy_tls_versions = zero_severities [''LOW'']"

definition int_or_zero :: "pyval \<Rightarrow> int" where
  "int_or_zero v = max 0 (case py_int (py_or v (PyInt 0)) of None \<Rightarrow> 0 | Some n \<Rightarrow> n)"

definition migrated_keys :: "int \<Rightarrow> evidence \<Rightarrow> evidence" where
  "migrated_keys certs_observed d =
     (let classical = int_or_zero (dict_get d ''RSA'' (PyInt 0)) + int_or_zero (dict_get d ''ECDSA'' (PyInt 0)) in
      dict_put ''PQC'' (PyInt (max 1 (max classical certs_observed)))
        (dict_put ''ECDSA'' (PyInt 0) (dict_put ''RSA'' (PyInt 0) d)))"

definition resolve_ecdsa_adoption_planning :: "evidence \<Rightarrow> evidence" where
  "resolve_ecdsa_adoption_planning e =
     with_sub ''cert_key_type_counts''
       (migrated_keys
          (case dict_get e ''certificate_observations'' PyNone of
             PyDict obs \<Rightarrow> int_or_zero (dict_get obs ''certs_observed'' (PyInt 0))
           | _ \<Rightarrow> 0)) e"

definition deltas :: "(string \<times> (evidence \<Rightarrow> evidence)) list" where
  "deltas =
   [(''plaintext-http-exposure'', resolve_plaintext_http_exposure),
    (''high-impact-findings'', resolve_high_impact_findings),
    (''expired-certificates'', resolve_certificates ''expired_count''),
    (''near-expiry-certificates'', resolve_certificates ''expiring_count''),
    (''self-signed-certificates'', resolve_certificates ''self_signed_count''),
    (''scan-reliability'', resolve_scan_reliability),
    (''unknown-open-services'', resolve_unknown_open_services),
    (''legacy-tls-versions'', resolve_legacy_tls_versions),
    (''ecdsa-adoption-planning'', resolve_ecdsa_adoption_planning)]"

section \<open>Lifts and the projection\<close>

definition slugs_for_items :: "string option list \<Rightarrow> string list" where
  "slugs_for_items titles =
     List.map_filter (\<lambda>t. case t of None \<Rightarrow> None | Some s \<Rightarrow> slug_for_title s) titles"

definition add_lift ::
    "evidence \<Rightarrow> string option \<Rightarrow> weights \<Rightarrow> int \<Rightarrow> string \<Rightarrow> (string \<times> int) list
     \<Rightarrow> band_error + (string \<times> int) list" where
  "add_lift e profile ws base_score slug lifts =
     (case map_of deltas slug of
        None \<Rightarrow> Inr lifts
      | Some mutator \<Rightarrow>
          bind_err (compute_readiness_score (mutator e) profile ws) (\<lambda>projected.
            case r_score projected of
              None \<Rightarrow> Inr lifts
            | Some p \<Rightarrow> Inr (if 0 < p - base_score then dict_put slug (p - base_score) lifts else lifts)))"

definition compute_item_lifts ::
    "evidence \<Rightarrow> string option list \<Rightarrow> string option \<Rightarrow> weights \<Rightarrow> band_error + (string \<times> int) list" where
  "compute_item_lifts e titles profile ws =
     bind_err (compute_readiness_score e profile ws) (\<lambda>base.
       case r_score base of
         None \<Rightarrow> Inr []
       | Some b \<Rightarrow> err_fold (add_lift e profile ws b) (first_occurrences (slugs_for_items titles)) [])"

definition resolve_all :: "string list \<Rightarrow> evidence \<Rightarrow> evidence" where
  "resolve_all slugs e =
     foldl (\<lambda>e slug. case map_of deltas slug of None \<Rightarrow> e | Some mutator \<Rightarrow> mutator e) e slugs"

definition compute_projected_score ::
    "evidence \<Rightarrow> string option list \<Rightarrow> string option \<Rightarrow> weights \<Rightarrow> band_error + int option" where
  "compute_projected_score e titles profile ws =
     bind_err (compute_readiness_score e profile ws) (\<lambda>base.
       case r_score base of
         None \<Rightarrow> Inr None
       | Some _ \<Rightarrow>
           bind_err (compute_readiness_score (resolve_all (first_occurrences (slugs_for_items titles)) e) profile ws)
             (\<lambda>projected. Inr (r_score projected)))"

section \<open>Lemmas\<close>

lemma sub_with_sub: "sub_mapping (with_sub k f e) k' = (if k' = k then f (sub_mapping e k) else sub_mapping e k')"
  by (simp add: with_sub_def sub_mapping_def dict_simps) (simp add: dict_get_def split: option.split)

lemma get_with_sub: "k' \<noteq> k \<Longrightarrow> dict_get (with_sub k f e) k' v = dict_get e k' v"
  by (simp add: with_sub_def dict_simps)

lemma counts_with_sub:
  "k' \<noteq> k \<Longrightarrow> count_at (with_sub k f e) k' = count_at e k'"
  "k' \<noteq> k \<Longrightarrow> raw_count_at (with_sub k f e) k' = raw_count_at e k'"
  by (simp_all add: count_at_def raw_count_at_def get_with_sub)

lemma int_or_zero_count: "int_or_zero (dict_get d k (PyInt 0)) = count_at d k"
  by (auto simp: int_or_zero_def count_at_def as_int_def py_or_def py_truthy_def py_int_def
      py_int_of_string_def py_strip_def py_trunc_def split: pyval.split option.split)

text \<open>The parts of the weakness order, unfolded together.\<close>

lemmas order_defs = at_least_as_weak_def counters_le_def credits_ge_def severities_le_def assessed_flags_def
  scan_error_total_def unknown_count_def legacy_tls_count_def email_plaintext_total_def
  pqc_credited_def key_type_penalised_def pqc_hybrid_count_def classical_key_count_def pqc_cert_count_def
  cert_denom_def cert_obs_of_def cert_keys_of_def protocol_counts_of_def endpoint_denom_def Let_def

lemma count_zero_le: "max 0 (as_int (PyInt 0)) \<le> count_at d k"
  by (simp add: as_int_def py_int_def count_at_def)

lemma at_least_as_weak_refl [simp]: "at_least_as_weak e e"
  by (simp add: at_least_as_weak_def counters_le_def credits_ge_def severities_le_def)

lemma at_least_as_weak_trans:
  "at_least_as_weak a b \<Longrightarrow> at_least_as_weak b c \<Longrightarrow> at_least_as_weak a c"
  unfolding at_least_as_weak_def counters_le_def credits_ge_def severities_le_def
  by (auto intro: order_trans)

lemma weak_keys_plain:
  "k \<in> set weakness_keys \<Longrightarrow> k \<notin> {''protocol_counts'', ''certificate_observations'', ''cert_key_type_counts'',
     ''scan_error'', ''finding_severity_counts'', ''scored_finding_severity_counts''}"
  by (auto simp: weakness_keys_def)

lemma scored_with_sub:
  assumes "k \<notin> {''finding_severity_counts'', ''scored_finding_severity_counts''}"
  shows "scored_severity_counts (with_sub k f e) = scored_severity_counts e"
proof -
  have scored: "dict_get (with_sub k f e) ''scored_finding_severity_counts'' PyNone =
      dict_get e ''scored_finding_severity_counts'' PyNone"
    by (rule get_with_sub) (use assms in auto)
  have raw: "sub_mapping (with_sub k f e) ''finding_severity_counts'' = sub_mapping e ''finding_severity_counts''"
    using assms by (subst sub_with_sub) auto
  show ?thesis unfolding scored_severity_counts_def scored raw ..
qed

lemma plaintext_weaker: "at_least_as_weak (resolve_plaintext_http_exposure e) e"
proof -
  have k: "k \<notin> set structural_keys" if "k \<in> {''http_on_tls_port_count'', ''plaintext_http_count''}" for k
    using that by (auto simp: structural_keys_def)
  note frame = structural_put [OF k [of "''http_on_tls_port_count''"]] structural_put [OF k [of "''plaintext_http_count''"]]
  have "counters_le (resolve_plaintext_http_exposure e) e"
    using count_zero_le by (auto simp: counters_le_def resolve_plaintext_http_exposure_def frame count_at_put)
  then show ?thesis
    by (simp add: at_least_as_weak_def credits_ge_def severities_le_def pqc_credited_def key_type_penalised_def
        resolve_plaintext_http_exposure_def frame)
qed

lemma certificates_weaker:
  assumes "c \<in> set cert_weakness_keys"
  shows "at_least_as_weak (resolve_certificates c e) e"
proof -
  have "c \<noteq> ''certs_observed''" using assms by (auto simp: cert_weakness_keys_def)
  then show ?thesis
    using count_zero_le weak_keys_plain
    by (auto simp: order_defs resolve_certificates_def sub_with_sub counts_with_sub get_with_sub scored_with_sub
        count_at_put raw_count_at_put identity_assessed_def)
qed

lemma reliability_weaker: "at_least_as_weak (resolve_scan_reliability e) e"
  using count_zero_le weak_keys_plain
  by (auto simp: order_defs resolve_scan_reliability_def sub_with_sub counts_with_sub get_with_sub scored_with_sub
      count_at_put raw_count_at_put)

lemma unknown_weaker: "at_least_as_weak (resolve_unknown_open_services e) e"
  using count_zero_le weak_keys_plain
  by (auto simp: order_defs resolve_unknown_open_services_def sub_with_sub counts_with_sub get_with_sub scored_with_sub
      count_at_put raw_count_at_put identity_assessed_def dar_assessed_def motion_assessed_def
      identity_protocol_keys_def dar_protocol_keys_def motion_protocol_keys_def)

lemma count_put_zero: "count_at (dict_put k (PyInt 0) d) k' = (if k' = k then 0 else count_at d k')"
  by (simp add: count_at_def dict_simps as_int_def py_int_def)

lemma count_zero_keys: "count_at (zero_keys ks d) k = (if k \<in> set ks then 0 else count_at d k)"
proof (induction ks arbitrary: d)
  case Nil then show ?case by (simp add: zero_keys_def)
next
  case (Cons a ks)
  have "zero_keys (a # ks) d = zero_keys ks (dict_put a (PyInt 0) d)" by (simp add: zero_keys_def)
  then show ?case by (simp add: Cons.IH count_put_zero)
qed

text \<open>The scored counts after zeroing: those counts are zero, the others as before, or zero too
  where the scored mapping was there without being one.\<close>

definition zeroed_source :: "evidence \<Rightarrow> evidence" where
  "zeroed_source e =
     (case map_of e ''scored_finding_severity_counts'' of
        None \<Rightarrow> sub_mapping e ''finding_severity_counts''
      | Some v \<Rightarrow> (case v of PyDict d \<Rightarrow> d | _ \<Rightarrow> []))"

lemma map_of_with_sub:
  "map_of (with_sub k f e) =
     (map_of e)(k \<mapsto> PyDict (f (case dict_get e k PyNone of PyDict d \<Rightarrow> d | _ \<Rightarrow> [])))"
  by (simp add: with_sub_def map_of_dict_put)

lemma dict_get_map: "dict_get e k v = (case map_of e k of None \<Rightarrow> v | Some x \<Rightarrow> x)"
  by (simp add: dict_get_def)

lemma scored_zero: "scored_severity_counts (zero_severities ks e) = zero_keys ks (zeroed_source e)"
proof (cases "map_of e ''scored_finding_severity_counts''")
  case None
  then have absent: "map_of (with_sub ''finding_severity_counts'' (zero_keys ks) e)
      ''scored_finding_severity_counts'' = None"
    by (simp add: map_of_with_sub)
  then show ?thesis
    by (simp add: zero_severities_def scored_severity_counts_def dict_get_map [of _ "''scored_finding_severity_counts''"]
        sub_with_sub zeroed_source_def None)
next
  case (Some v)
  then have there: "map_of (with_sub ''finding_severity_counts'' (zero_keys ks) e)
      ''scored_finding_severity_counts'' = Some v"
    by (simp add: map_of_with_sub)
  then show ?thesis
    by (simp add: zero_severities_def scored_severity_counts_def dict_get_map [of _ "''scored_finding_severity_counts''"]
        map_of_with_sub [of "''scored_finding_severity_counts''"] zeroed_source_def Some)
qed

lemma count_nonneg: "0 \<le> count_at d k"
  by (simp add: count_at_def)

lemma count_empty: "count_at [] k = 0"
  by (simp add: count_at_def dict_get_def as_int_def py_int_def)

lemma zeroed_source_le: "count_at (zeroed_source e) k \<le> count_at (scored_severity_counts e) k"
proof (cases "map_of e ''scored_finding_severity_counts''")
  case None
  then show ?thesis by (simp add: zeroed_source_def scored_severity_counts_def dict_get_def)
next
  case (Some v)
  then show ?thesis
    by (cases v) (simp_all add: zeroed_source_def scored_severity_counts_def dict_get_def [of e] count_nonneg count_empty)
qed

lemma count_scored_zero:
  "count_at (scored_severity_counts (zero_severities ks e)) k
     = (if k \<in> set ks then 0 else count_at (zeroed_source e) k)"
  by (simp only: scored_zero count_zero_keys)

lemma zero_severities_frame:
  assumes "k \<notin> {''finding_severity_counts'', ''scored_finding_severity_counts''}"
  shows "dict_get (zero_severities ks e) k v = dict_get e k v"
  using assms by (simp add: zero_severities_def Let_def get_with_sub)

lemma zero_severities_sub:
  assumes "k \<notin> {''finding_severity_counts'', ''scored_finding_severity_counts''}"
  shows "sub_mapping (zero_severities ks e) k = sub_mapping e k"
    and "count_at (zero_severities ks e) k = count_at e k"
    and "raw_count_at (zero_severities ks e) k = raw_count_at e k"
  by (simp_all add: sub_mapping_def count_at_def raw_count_at_def zero_severities_frame [OF assms])

lemma count_scored_zero_le:
  "count_at (scored_severity_counts (zero_severities ks e)) k \<le> count_at (scored_severity_counts e) k"
  unfolding count_scored_zero using zeroed_source_le count_nonneg by auto

lemma legacy_zero_le: "legacy_tls_count (zero_severities ks e) \<le> legacy_tls_count e"
proof (cases "map_of e ''legacy_tls_count''")
  case None
  then show ?thesis
    using count_scored_zero_le [of ks e "''LOW''"]
    by (simp add: legacy_tls_count_def zero_severities_frame dict_get_map [of e "''legacy_tls_count''"] count_at_def)
next
  case (Some v)
  then show ?thesis
    by (simp add: legacy_tls_count_def zero_severities_frame dict_get_map [of e "''legacy_tls_count''"])
qed

lemma zero_severities_flags:
  "assessed_flags (zero_severities ks e) = assessed_flags e"
  "cert_obs_of (zero_severities ks e) = cert_obs_of e"
  "scan_error_total (zero_severities ks e) = scan_error_total e"
  "unknown_count (zero_severities ks e) = unknown_count e"
  "email_plaintext_total (zero_severities ks e) = email_plaintext_total e"
  "pqc_credited (zero_severities ks e) = pqc_credited e"
  "pqc_hybrid_count (zero_severities ks e) = pqc_hybrid_count e"
  "key_type_penalised (zero_severities ks e) = key_type_penalised e"
  "count_at (zero_severities ks e) ''mtls_present_count'' = count_at e ''mtls_present_count''"
  by (simp_all add: assessed_flags_def scan_error_total_def unknown_count_def email_plaintext_total_def
      pqc_credited_def key_type_penalised_def pqc_hybrid_count_def classical_key_count_def pqc_cert_count_def
      cert_denom_def cert_obs_of_def cert_keys_of_def protocol_counts_of_def endpoint_denom_def
      zero_severities_sub zero_severities_frame)

lemma severities_weaker: "at_least_as_weak (zero_severities ks e) e"
  unfolding at_least_as_weak_def counters_le_def credits_ge_def severities_le_def zero_severities_flags
  using weak_keys_plain count_scored_zero_le legacy_zero_le by (simp add: zero_severities_sub)

lemma migrated_counts:
  "count_at (migrated_keys n d) ''RSA'' = 0" "count_at (migrated_keys n d) ''ECDSA'' = 0"
  "max 1 n \<le> count_at (migrated_keys n d) ''PQC''"
  by (simp_all add: migrated_keys_def Let_def count_at_def dict_simps as_int_def py_int_def)

lemma ecdsa_weaker: "at_least_as_weak (resolve_ecdsa_adoption_planning e) e"
proof -
  let ?n = "case dict_get e ''certificate_observations'' PyNone of
             PyDict obs \<Rightarrow> int_or_zero (dict_get obs ''certs_observed'' (PyInt 0)) | _ \<Rightarrow> 0"
  have n: "?n = cert_denom e"
    by (simp add: cert_denom_def cert_obs_of_def sub_mapping_def dict_get_def int_or_zero_count [unfolded dict_get_def]
        count_empty split: option.split pyval.split)
  define e' where "e' = with_sub ''cert_key_type_counts'' (migrated_keys (cert_denom e)) e"
  have e': "resolve_ecdsa_adoption_planning e = e'"
    by (simp add: resolve_ecdsa_adoption_planning_def n e'_def)
  have keys: "cert_keys_of e' = migrated_keys (cert_denom e) (cert_keys_of e)"
    and denom: "cert_denom e' = cert_denom e"
    by (simp_all add: e'_def cert_keys_of_def cert_denom_def cert_obs_of_def sub_with_sub)
  have zero: "classical_key_count e' = 0" and some: "max 1 (cert_denom e) \<le> pqc_cert_count e'"
    using migrated_counts by (simp_all add: classical_key_count_def pqc_cert_count_def keys)
  have credit: "pqc_credited e'" "\<not> key_type_penalised e'"
    using zero some by (auto simp: pqc_credited_def key_type_penalised_def denom)
  have frame: "assessed_flags e' = assessed_flags e" "cert_obs_of e' = cert_obs_of e"
    "scan_error_total e' = scan_error_total e" "unknown_count e' = unknown_count e"
    "email_plaintext_total e' = email_plaintext_total e" "pqc_hybrid_count e' = pqc_hybrid_count e"
    "count_at e' ''mtls_present_count'' = count_at e ''mtls_present_count''"
    "scored_severity_counts e' = scored_severity_counts e" "legacy_tls_count e' = legacy_tls_count e"
    by (simp_all add: e'_def assessed_flags_def scan_error_total_def unknown_count_def email_plaintext_total_def
        pqc_hybrid_count_def cert_obs_of_def protocol_counts_of_def endpoint_denom_def legacy_tls_count_def
        sub_with_sub counts_with_sub get_with_sub scored_with_sub)
  have "count_at e' k = count_at e k" if "k \<in> set weakness_keys" for k
    using weak_keys_plain [OF that] by (simp add: e'_def counts_with_sub)
  then show ?thesis
    unfolding e' at_least_as_weak_def counters_le_def credits_ge_def severities_le_def frame
    using credit by simp
qed

lemma deltas_weaker: "map_of deltas slug = Some m \<Longrightarrow> at_least_as_weak (m e) e"
  by (auto simp: deltas_def resolve_high_impact_findings_def resolve_legacy_tls_versions_def cert_weakness_keys_def
      plaintext_weaker certificates_weaker reliability_weaker unknown_weaker severities_weaker ecdsa_weaker
      split: if_splits)

lemma resolve_all_Cons:
  "resolve_all (s # slugs) e = resolve_all slugs (case map_of deltas s of None \<Rightarrow> e | Some m \<Rightarrow> m e)"
  by (simp add: resolve_all_def)

lemma resolve_all_weaker: "at_least_as_weak (resolve_all slugs e) e"
proof (induction slugs arbitrary: e)
  case Nil
  then show ?case by (simp add: resolve_all_def)
next
  case (Cons s slugs)
  have "at_least_as_weak (case map_of deltas s of None \<Rightarrow> e | Some m \<Rightarrow> m e) e"
    by (simp add: deltas_weaker split: option.split)
  with Cons show ?case unfolding resolve_all_Cons by (rule at_least_as_weak_trans)
qed

definition lift_of :: "evidence \<Rightarrow> string option \<Rightarrow> weights \<Rightarrow> string \<Rightarrow> int \<Rightarrow> bool" where
  "lift_of e profile ws slug d \<longleftrightarrow>
     (\<exists>m base resolved b.
        map_of deltas slug = Some m \<and> compute_readiness_score e profile ws = Inr base \<and>
        compute_readiness_score (m e) profile ws = Inr resolved \<and>
        r_score base = Some b \<and> r_score resolved = Some (b + d) \<and> 0 < d)"

lemma lift_of_unique: "lift_of e p ws slug d \<Longrightarrow> lift_of e p ws slug d' \<Longrightarrow> d = d'"
  by (auto simp: lift_of_def)

lemma add_lift_step:
  assumes base: "compute_readiness_score e p ws = Inr base" "r_score base = Some b"
  shows "\<exists>lifts'. add_lift e p ws b slug lifts = Inr lifts' \<and>
    (\<forall>s d. map_of lifts' s = Some d \<longleftrightarrow>
       (if s = slug \<and> (\<exists>d. lift_of e p ws slug d) then lift_of e p ws slug d else map_of lifts s = Some d))"
proof (cases "map_of deltas slug")
  case None
  then show ?thesis by (simp add: add_lift_def lift_of_def)
next
  case (Some m)
  obtain r where r: "compute_readiness_score (m e) p ws = Inr r" using compute_total by blast
  have lift: "lift_of e p ws slug d \<longleftrightarrow> r_score r = Some (b + d) \<and> 0 < d" for d
    by (simp add: lift_of_def Some base r)
  show ?thesis
  proof (cases "r_score r")
    case None
    then show ?thesis by (simp add: add_lift_def Some r lift)
  next
    case (Some q)
    then have q: "lift_of e p ws slug d \<longleftrightarrow> d = q - b \<and> 0 < d" for d
      by (auto simp: lift)
    have "add_lift e p ws b slug lifts = Inr (if 0 < q - b then dict_put slug (q - b) lifts else lifts)"
      by (simp add: add_lift_def \<open>map_of deltas slug = Some m\<close> r Some)
    then show ?thesis by (auto simp: q map_of_dict_put)
  qed
qed

lemma add_lifts:
  assumes base: "compute_readiness_score e p ws = Inr base" "r_score base = Some b"
  shows "\<exists>lifts'. err_fold (add_lift e p ws b) slugs lifts = Inr lifts' \<and>
    (\<forall>s d. map_of lifts' s = Some d \<longleftrightarrow>
       (if s \<in> set slugs \<and> (\<exists>d. lift_of e p ws s d) then lift_of e p ws s d else map_of lifts s = Some d))"
proof (induction slugs arbitrary: lifts)
  case Nil
  then show ?case by simp
next
  case (Cons x xs)
  from add_lift_step [OF base, of x lifts] obtain l1 where l1: "add_lift e p ws b x lifts = Inr l1"
    "\<forall>s d. map_of l1 s = Some d \<longleftrightarrow>
       (if s = x \<and> (\<exists>d. lift_of e p ws x d) then lift_of e p ws x d else map_of lifts s = Some d)"
    by blast
  from Cons [of l1] obtain l2 where l2: "err_fold (add_lift e p ws b) xs l1 = Inr l2"
    "\<forall>s d. map_of l2 s = Some d \<longleftrightarrow>
       (if s \<in> set xs \<and> (\<exists>d. lift_of e p ws s d) then lift_of e p ws s d else map_of l1 s = Some d)"
    by blast
  have "err_fold (add_lift e p ws b) (x # xs) lifts = Inr l2" by (simp add: l1 l2)
  moreover have "map_of l2 s = Some d \<longleftrightarrow>
      (if s \<in> set (x # xs) \<and> (\<exists>d. lift_of e p ws s d) then lift_of e p ws s d else map_of lifts s = Some d)" for s d
    using l1(2) l2(2) by (cases "s = x") auto
  ultimately show ?case by blast
qed

lemma item_lifts_exact:
  "\<exists>lifts. compute_item_lifts e titles p ws = Inr lifts \<and>
     (\<forall>slug d. map_of lifts slug = Some d \<longleftrightarrow> slug \<in> set (slugs_for_items titles) \<and> lift_of e p ws slug d)"
proof -
  obtain base where base: "compute_readiness_score e p ws = Inr base" using compute_total by blast
  show ?thesis
  proof (cases "r_score base")
    case None
    then show ?thesis by (auto simp: compute_item_lifts_def base lift_of_def)
  next
    case (Some b)
    from add_lifts [OF base this, of "first_occurrences (slugs_for_items titles)" "[]"] show ?thesis
      by (auto simp: compute_item_lifts_def base Some)
  qed
qed

section \<open>Properties\<close>

text \<open>The lifts shown beside the roadmap are exactly the true ones: a slug has the lift
  \<open>d\<close> if and only if it is the slug of one of the items, it is one of the modelable kinds, and
  rescoring the evidence with that item resolved gives a score exactly \<open>d > 0\<close> points higher.
  The computation itself never fails.\<close>

theorem item_lifts_are_true_rescores:
  "\<exists>lifts. compute_item_lifts e titles p ws = Inr lifts \<and>
     (\<forall>slug d. map_of lifts slug = Some d \<longleftrightarrow> slug \<in> set (slugs_for_items titles) \<and> lift_of e p ws slug d)"
  by (rule item_lifts_exact)

text \<open>Resolving the items of a roadmap together, in any combination and under every
  calibration profile, never lowers the projected score, and a scan without a score has no
  projection.\<close>

theorem projection_never_lowers:
  "\<exists>base projected. compute_readiness_score e p [] = Inr base \<and>
     compute_projected_score e titles p [] = Inr projected \<and> opt_int_le (r_score base) projected"
proof -
  let ?e = "resolve_all (first_occurrences (slugs_for_items titles)) e"
  obtain base resolved where r: "compute_readiness_score e p [] = Inr base" "compute_readiness_score ?e p [] = Inr resolved"
    using compute_total by blast
  have le: "opt_int_le (r_score base) (r_score resolved)"
    by (rule score_antimono [OF profile_weights_ok profile_penalties_equal resolve_all_weaker r(2,1)])
  then show ?thesis
    by (cases "r_score base") (auto simp: compute_projected_score_def r opt_int_le_def split: option.splits)
qed

lemma legacy_both_ways:
  assumes "map_of e ''legacy_tls_count'' = Some v"
    and "case map_of e ''scored_finding_severity_counts'' of None \<Rightarrow> True | Some w \<Rightarrow> (\<exists>d. w = PyDict d)"
  shows "at_least_as_weak e (resolve_legacy_tls_versions e)"
proof -
  have source: "zeroed_source e = scored_severity_counts e"
    using assms(2) by (auto simp: zeroed_source_def scored_severity_counts_def dict_get_map [of e] split: option.splits)
  have counts: "count_at (scored_severity_counts (zero_severities [''LOW''] e)) k = count_at (scored_severity_counts e) k"
    if "k \<in> {''HIGH'', ''CRITICAL''}" for k
    using that by (auto simp: count_scored_zero source)
  have "legacy_tls_count (zero_severities [''LOW''] e) = legacy_tls_count e"
    by (simp add: legacy_tls_count_def zero_severities_frame dict_get_map [of e "''legacy_tls_count''"] assms(1))
  then show ?thesis
    unfolding resolve_legacy_tls_versions_def at_least_as_weak_def counters_le_def credits_ge_def severities_le_def
      zero_severities_flags
    using weak_keys_plain counts by (simp add: zero_severities_sub)
qed

text \<open>The item \<open>legacy-tls-versions\<close> shows no lift on evidence that carries the counter
  \<open>legacy_tls_count\<close>: its mutator zeroes the LOW findings, which the score reads only where that
  counter is missing.\<close>

lemma legacy_lift_absent:
  assumes "map_of e ''legacy_tls_count'' = Some v"
    and "case map_of e ''scored_finding_severity_counts'' of None \<Rightarrow> True | Some w \<Rightarrow> (\<exists>d. w = PyDict d)"
  shows "\<exists>lifts. compute_item_lifts e titles p [] = Inr lifts \<and> map_of lifts ''legacy-tls-versions'' = None"
proof -
  have "\<not> lift_of e p [] ''legacy-tls-versions'' d" for d
  proof
    assume "lift_of e p [] ''legacy-tls-versions'' d"
    then obtain base resolved b where r: "compute_readiness_score e p [] = Inr base"
      "compute_readiness_score (resolve_legacy_tls_versions e) p [] = Inr resolved"
      "r_score base = Some b" "r_score resolved = Some (b + d)" "0 < d"
      by (auto simp: lift_of_def deltas_def)
    from score_antimono [OF profile_weights_ok profile_penalties_equal legacy_both_ways [OF assms] r(1,2)] r(3-)
    show False by (simp add: opt_int_le_def)
  qed
  moreover obtain lifts where "compute_item_lifts e titles p [] = Inr lifts"
    "\<And>slug d. map_of lifts slug = Some d \<Longrightarrow> lift_of e p [] slug d"
    using item_lifts_exact by blast
  ultimately show ?thesis by (cases "map_of lifts ''legacy-tls-versions''") auto
qed

end
