(* ===== verification/Weak_Crypto.thy ===== *)
theory Weak_Crypto
  imports Prelude
begin

text \<open>
  \<open>quirk/util/weak_crypto.py\<close>: the token predicates on cipher names and TLS versions, and
  \<open>quirk/dashboard/api/finding_title_bridge.py\<close>: the translation of dashboard titles to the
  report's titles, longest prefix first.  A None argument is the empty string.
\<close>

section \<open>Cipher and version predicates\<close>

definition weak_cipher_tokens :: "string list" where
  "weak_cipher_tokens =
     [''DES'', ''3DES'', ''CBC3'', ''RC4'', ''MD5'', ''NULL'', ''EXPORT'', ''ANON'', ''DES-CBC'', ''IDEA'',
      ''SHA1'', ''SHA-1'']"

definition legacy_tls_versions :: "string list" where
  "legacy_tls_versions = [''TLSV1'', ''TLSV1.0'', ''TLSV1.1'', ''SSLV3'']"

definition weak_classification_tokens :: "string list" where
  "weak_classification_tokens = [''RC4'', ''3DES'', ''CBC3'', ''NULL'', ''EXPORT'', ''MD5'']"

definition is_weak_cipher :: "string \<Rightarrow> bool" where
  "is_weak_cipher cipher \<longleftrightarrow>
     cipher \<noteq> [] \<and> list_ex (\<lambda>t. has_substring t (py_upper cipher)) weak_cipher_tokens"

definition is_legacy_tls_version :: "string \<Rightarrow> bool" where
  "is_legacy_tls_version v \<longleftrightarrow> v \<noteq> [] \<and> py_upper v \<in> set legacy_tls_versions"

definition is_pfs_cipher :: "string \<Rightarrow> bool" where
  "is_pfs_cipher cipher \<longleftrightarrow>
     cipher \<noteq> [] \<and> (has_substring ''ECDHE'' (py_upper cipher) \<or> has_substring ''DHE'' (py_upper cipher))"

definition has_legacy_tls_versions_signal :: "string \<Rightarrow> string \<Rightarrow> bool" where
  "has_legacy_tls_versions_signal tls_version tls_supported_versions \<longleftrightarrow>
     (let ver = py_strip tls_version; supported = py_strip tls_supported_versions in
      if ver \<in> {''TLSv1'', ''TLSv1.1''} then True
      else if supported = [] then False
      else list_ex (\<lambda>v. py_strip v \<in> {''TLSv1'', ''TLSv1.1''}) (py_split CHR '','' supported))"

definition is_weak_cipher_classification :: "string \<Rightarrow> bool" where
  "is_weak_cipher_classification cipher \<longleftrightarrow>
     cipher \<noteq> [] \<and> list_ex (\<lambda>t. has_substring t (py_upper cipher)) weak_classification_tokens"

text \<open>The narrow classification implies the wide one.\<close>

lemma classification_is_weak: "is_weak_cipher_classification c \<Longrightarrow> is_weak_cipher c"
  by (auto simp: is_weak_cipher_classification_def is_weak_cipher_def weak_classification_tokens_def
      weak_cipher_tokens_def)

section \<open>Dashboard titles\<close>

definition dashboard_title_bridge :: "(string \<times> string) list" where
  "dashboard_title_bridge =
   [(''Unencrypted HTTP service'', ''Plaintext HTTP service detected''),
    (''Legacy TLS version: '', ''Legacy TLS versions allowed (TLS 1.0/1.1)''),
    (''Certificate expired'', ''TLS certificate expired''),
    (''Certificate expiring in '', ''TLS certificate expiring within 30 days''),
    (''TLS certificate uses undersized RSA key'', ''TLS certificate uses undersized RSA key''),
    (''TLS certificate is self-signed'', ''TLS certificate is self-signed''),
    (''TLS certificate issued by untrusted CA'', ''TLS certificate issued by untrusted CA''),
    (''JWKS fetched with TLS certificate verification disabled'',
     ''JWKS fetched with TLS certificate verification disabled'')]"

definition canonical_cli_title :: "string \<Rightarrow> string option" where
  "canonical_cli_title title =
     map_option snd
       (find (\<lambda>p. starts_with title (fst p))
          (sort_key (\<lambda>p. - int (length (fst p))) dashboard_title_bridge))"

end
