(* ===== verification/Evidence.thy ===== *)
theory Evidence
  imports Scoring_Properties Score_Lift Models Weak_Crypto
begin

text \<open>
  \<open>quirk/intelligence/evidence.py\<close>: from the rows the scanners persisted and the findings of
  the evaluator to the evidence mapping the scoring engine reads.  The loop over the rows is the
  left fold of \<open>count_endpoint\<close>, whose body lists the counters a row increments in the order of
  the code.  Timestamps are microseconds since 1970 in UTC, so that no time zone remains to be
  normalised; findings are records of the fields the code reads.
\<close>

section \<open>Rows and findings\<close>

record scanned_endpoint = crypto_endpoint +
  ep_scanned_at :: "int option"
  ep_severity :: "string option"
  ep_cert_subject :: "string option"
  ep_cert_issuer :: "string option"
  ep_cert_pubkey_size :: "int option"
  ep_cert_not_after :: "int option"
  ep_tls_supported_versions :: "string option"
  ep_scan_error_category :: "string option"
  ep_tls_legacy_suites_present :: "bool option"
  ep_chain_verified :: "bool option"
  ep_tls_pfs_supported :: "bool option"

record finding_row =
  fi_title :: "string option"
  fi_host :: "string option"
  fi_port :: "int option"
  fi_severity :: "string option"
  fi_category :: "string option"

definition proto_of :: "scanned_endpoint \<Rightarrow> string" where
  "proto_of e = py_upper (py_or_str (ep_protocol e))"

definition detail_of :: "scanned_endpoint \<Rightarrow> string" where
  "detail_of e = py_or_str (ep_service_detail e)"

text \<open>Truth of an optional text: present and not empty.\<close>

definition truthy_text :: "string option \<Rightarrow> bool" where
  "truthy_text v \<longleftrightarrow> py_or_str v \<noteq> []"

definition pqc_cert_key_tokens :: "string list" where
  "pqc_cert_key_tokens =
     [''ML-DSA'', ''MLDSA'', ''SLH-DSA'', ''SLHDSA'', ''DILITHIUM'', ''FALCON'', ''FN-DSA'', ''FNDSA'', ''SPHINCS'']"

definition non_asset_protocols :: "string list" where
  "non_asset_protocols = [''ADVISORY'', ''CLOSED'']"

definition email_probe_protocols :: "string list" where
  "email_probe_protocols = [''SMTP-STARTTLS'', ''SMTPS'', ''IMAP-STARTTLS'', ''IMAPS'', ''POP3-STARTTLS'', ''POP3S'']"

definition no_response_blockers :: "string list" where
  "no_response_blockers = [''CONNECTION_REFUSED'', ''TIMEOUT'']"

definition is_unanswered_email_probe :: "scanned_endpoint \<Rightarrow> bool" where
  "is_unanswered_email_probe e \<longleftrightarrow>
     proto_of e \<in> set email_probe_protocols \<and>
     py_or_str (ep_tls_blocker_reason e) \<in> set no_response_blockers \<and>
     py_or_str (ep_tls_version e) = []"

definition protocol_keys :: "string list" where
  "protocol_keys =
     [''TLS'', ''HTTP'', ''SSH'', ''UNKNOWN'', ''KERBEROS'', ''SAML'', ''DNSSEC'', ''POSTGRESQL'', ''MYSQL'',
      ''RDS'', ''S3'', ''AZURE_BLOB'', ''KUBERNETES'', ''VAULT'', ''CONTAINER'', ''SOURCE'', ''AWS'', ''AZURE'',
      ''GCP'', ''CLOUD_SQL'', ''BEARER_TOKEN'', ''OPENAPI'', ''CODE_SIGNING'', ''REST_FUZZ'',
      ''SMTP-STARTTLS'', ''SMTPS'', ''IMAPS'', ''IMAP-STARTTLS'', ''POP3S'', ''POP3-STARTTLS'', ''KAFKA-PLAIN'',
      ''KAFKA-TLS'', ''AMQP-PLAIN'', ''AMQPS'', ''AMQPS/AZURE-SERVICEBUS'', ''HTTPS/AWS-SQS'', ''REDIS-PLAIN'',
      ''REDIS-TLS'', ''SMIME'', ''ADCS'']"

section \<open>Reference time\<close>

definition later_scan :: "int option \<Rightarrow> scanned_endpoint \<Rightarrow> int option" where
  "later_scan latest e =
     (case ep_scanned_at e of
        None \<Rightarrow> latest
      | Some v \<Rightarrow> (case latest of None \<Rightarrow> Some v | Some l \<Rightarrow> if l < v then Some v else latest))"

definition resolve_reference_utc :: "scanned_endpoint list \<Rightarrow> int option \<Rightarrow> int" where
  "resolve_reference_utc eps reference =
     (case reference of
        Some t \<Rightarrow> t
      | None \<Rightarrow> (case foldl later_scan None eps of None \<Rightarrow> 0 | Some l \<Rightarrow> l))"

text \<open>\<open>datetime.isoformat\<close> and the trailing Z: the proleptic Gregorian date of a day number, and
  the time of day with the microseconds only when there are any.\<close>

definition pad :: "nat \<Rightarrow> nat \<Rightarrow> string" where
  "pad w n = (let s = nat_str n in replicate (w - length s) CHR ''0'' @ s)"

definition civil_date :: "int \<Rightarrow> int \<times> int \<times> int" where
  "civil_date days =
     (let z = days + 719468; era = z div 146097; doe = z - era * 146097;
          yoe = (doe - doe div 1460 + doe div 36524 - doe div 146096) div 365;
          doy = doe - (365 * yoe + yoe div 4 - yoe div 100);
          mp = (5 * doy + 2) div 153;
          month = (if mp < 10 then mp + 3 else mp - 9) in
      (yoe + era * 400 + (if month \<le> 2 then 1 else 0), month, doy - (153 * mp + 2) div 5 + 1))"

definition to_iso_z :: "int \<Rightarrow> string" where
  "to_iso_z t =
     (let secs = t div 1000000; micros = t mod 1000000; s = secs mod 86400 in
      case civil_date (secs div 86400) of (y, m, d) \<Rightarrow>
        pad 4 (nat y) @ ''-'' @ pad 2 (nat m) @ ''-'' @ pad 2 (nat d) @ ''T''
        @ pad 2 (nat (s div 3600)) @ '':'' @ pad 2 (nat (s mod 3600 div 60)) @ '':'' @ pad 2 (nat (s mod 60))
        @ (if micros = 0 then [] else ''.'' @ pad 6 (nat micros)) @ ''Z'')"

section \<open>Targets of findings\<close>

definition cli_title_of :: "finding_row \<Rightarrow> string" where
  "cli_title_of f =
     (let raw = py_or_str (fi_title f) in
      case canonical_cli_title raw of None \<Rightarrow> raw | Some t \<Rightarrow> if t = [] then raw else t)"

definition target_of :: "finding_row \<Rightarrow> string \<times> int" where
  "target_of f = (py_or_str (fi_host f), case fi_port f of None \<Rightarrow> 0 | Some p \<Rightarrow> p)"

definition finding_targets :: "finding_row list \<Rightarrow> string \<Rightarrow> (string \<times> int) list" where
  "finding_targets fs wanted = remdups (map target_of (filter (\<lambda>f. cli_title_of f = wanted) fs))"

definition score_neutral_categories :: "string list" where
  "score_neutral_categories = [''config_advisory'']"

definition counted_findings :: "finding_row list \<Rightarrow> finding_row list" where
  "counted_findings fs = filter (\<lambda>f. fi_category f \<noteq> Some ''coverage_gap'') fs"

definition severity_of :: "finding_row \<Rightarrow> string" where
  "severity_of f =
     py_upper (case fi_severity f of None \<Rightarrow> ''INFO'' | Some s \<Rightarrow> if s = [] then ''INFO'' else s)"

definition severity_names :: "string list" where
  "severity_names = [''CRITICAL'', ''HIGH'', ''MEDIUM'', ''LOW'', ''INFO'']"

definition severity_counts :: "finding_row list \<Rightarrow> evidence" where
  "severity_counts fs =
     map (\<lambda>s. (s, PyInt (int (length (filter (\<lambda>f. severity_of f = s) fs))))) severity_names"

definition score_neutral :: "finding_row \<Rightarrow> bool" where
  "score_neutral f \<longleftrightarrow> fi_category f \<in> Some ` set score_neutral_categories"

definition scored_counts :: "finding_row list \<Rightarrow> evidence" where
  "scored_counts fs = severity_counts (filter (\<lambda>f. \<not> score_neutral f) fs)"

section \<open>What one row increments\<close>

definition is_kerberos_placeholder :: "scanned_endpoint \<Rightarrow> bool" where
  "is_kerberos_placeholder e \<longleftrightarrow>
     proto_of e = ''KERBEROS'' \<and> \<not> truthy_text (ep_scan_error e) \<and> \<not> has_substring ''etype:'' (detail_of e)"

definition mark :: "bool \<Rightarrow> string \<Rightarrow> string list" where
  "mark b k = (if b then [k] else [])"

text \<open>The increments that do not depend on the protocol branch: signals, errors and coverage.\<close>

definition coverage_marks :: "scanned_endpoint \<Rightarrow> string list" where
  "coverage_marks e =
     (let proto = proto_of e; failed = truthy_text (ep_scan_error e) in
      mark (has_substring ''pqc-hybrid-detected'' (detail_of e)) ''pqc_hybrid_endpoint_count''
      @ mark (proto = ''TLS'' \<and> py_or_str (ep_tls_supported_versions e) \<noteq> []) ''tls_enum_success_count''
      @ mark (proto = ''TLS'' \<and> has_legacy_tls_versions_signal (py_or_str (ep_tls_version e))
                (py_or_str (ep_tls_supported_versions e))) ''legacy_tls_count''
      @ mark failed ''scan_error_count''
      @ mark (is_kerberos_placeholder e) ''kerberos_placeholder_count''
      @ mark (proto = ''KERBEROS'' \<and> failed) ''kerberos_scan_error_count''
      @ mark (proto \<notin> set non_asset_protocols) ''assessable_endpoint_count''
      @ mark (proto \<notin> set non_asset_protocols \<and> proto \<noteq> ''UNKNOWN'' \<and> \<not> failed \<and> \<not> is_kerberos_placeholder e)
          ''assessed_crypto_count'')"

definition certificate_marks :: "int \<Rightarrow> int \<Rightarrow> scanned_endpoint \<Rightarrow> string list" where
  "certificate_marks ref cutoff e =
     (let subject = py_strip (py_or_str (ep_cert_subject e)); issuer = py_strip (py_or_str (ep_cert_issuer e)) in
      (case ep_cert_not_after e of
         None \<Rightarrow> []
       | Some na \<Rightarrow> [''certs_observed'']
           @ (if na < ref then [''cert_expired_count'']
              else mark (na \<le> cutoff) ''cert_expiring_count''))
      @ mark (subject \<noteq> [] \<and> issuer \<noteq> [] \<and> subject = issuer) ''cert_self_signed_count'')"

text \<open>The bucket of the certificate key type; the post-quantum names are tested first and only
  a row with a certificate earns that bucket.\<close>

definition is_pqc_name :: "string \<Rightarrow> bool" where
  "is_pqc_name key_alg \<longleftrightarrow>
     list_ex (\<lambda>t. has_substring t (map (\<lambda>c. if c = CHR ''_'' then CHR ''-'' else c) key_alg)) pqc_cert_key_tokens"

definition key_marks :: "scanned_endpoint \<Rightarrow> string list" where
  "key_marks e =
     (let key_alg = py_upper (py_or_str (ep_cert_pubkey_alg e)) in
      if is_pqc_name key_alg then mark (ep_cert_not_after e \<noteq> None) ''PQC''
      else if starts_with key_alg ''RSA'' then [''RSA'']
      else if starts_with key_alg ''EC'' \<or> starts_with key_alg ''ECDSA'' then [''ECDSA'']
      else if list_ex (starts_with key_alg) [''ED25519'', ''ED448'', ''EDDSA''] then [''ECDSA'']
      else [])"

text \<open>The serial of a SAML certificate: the first \<open>serial=\<close> token of the detail.\<close>

fun serial_token :: "string list \<Rightarrow> string option" where
  "serial_token [] = None"
| "serial_token (t # ts) =
     (if starts_with (py_strip t) ''serial=''
      then (let v = py_lower (py_strip (drop 7 (py_strip t))) in if v = [] then None else Some v)
      else serial_token ts)"

definition saml_cert_serial :: "string \<Rightarrow> string option" where
  "saml_cert_serial detail = serial_token (py_split CHR ''|'' detail)"

type_synonym saml_key = "string \<times> int \<times> string"

definition saml_key_of :: "scanned_endpoint \<Rightarrow> saml_key option" where
  "saml_key_of e = map_option (\<lambda>s. (ep_host e, ep_port e, s)) (saml_cert_serial (detail_of e))"

definition small_key :: "int option \<Rightarrow> bool" where
  "small_key bits \<longleftrightarrow> (case bits of None \<Rightarrow> False | Some n \<Rightarrow> n < 2048)"

definition saml_weak :: "scanned_endpoint \<Rightarrow> bool" where
  "saml_weak e \<longleftrightarrow>
     is_weak_cipher (py_upper (py_or_str (ep_cert_pubkey_alg e))) \<or> small_key (ep_cert_pubkey_size e)"

definition saml_repeated :: "saml_key list \<Rightarrow> scanned_endpoint \<Rightarrow> bool" where
  "saml_repeated seen e \<longleftrightarrow> (case saml_key_of e of None \<Rightarrow> False | Some k \<Rightarrow> k \<in> set seen)"

definition saml_marks :: "saml_key list \<Rightarrow> scanned_endpoint \<Rightarrow> string list" where
  "saml_marks seen e = mark (\<not> saml_repeated seen e \<and> saml_weak e) ''saml_weak_signing_count''"

definition kerberos_marks :: "scanned_endpoint \<Rightarrow> string list" where
  "kerberos_marks e =
     (let parts = py_split CHR '':'' (detail_of e) in
      mark (4 \<le> length parts \<and> last parts \<in> {''CRITICAL'', ''HIGH''}) ''identity_weak_etype_count'')"

definition dnssec_weak_algs :: "string list" where
  "dnssec_weak_algs = [''RSASHA1'', ''RSASHA1-NSEC3-SHA1'', ''RSAMD5'', ''DSA'', ''DSA-NSEC3-SHA1'', ''SHA1-DS'']"

definition dnssec_marks :: "scanned_endpoint \<Rightarrow> string list" where
  "dnssec_marks e =
     (let alg = py_upper (py_or_str (ep_cert_pubkey_alg e)) in
      mark (alg \<in> set dnssec_weak_algs \<or> alg = ''NONE'') ''dnssec_weak_algo_count'')"

definition smime_marks :: "scanned_endpoint \<Rightarrow> string list" where
  "smime_marks e =
     mark (is_weak_cipher (py_or_str (ep_cert_sig_alg e))
           \<or> is_weak_cipher (py_upper (py_or_str (ep_cert_pubkey_alg e)))) ''smime_weak_signing_count''
     @ mark (case ep_cert_pubkey_size e of None \<Rightarrow> False | Some n \<Rightarrow> 0 < n \<and> n < 2048) ''smime_weak_key_count''
     @ mark (has_substring ''expired=true'' (py_lower (detail_of e))) ''smime_expired_count''"

definition adcs_marks :: "scanned_endpoint \<Rightarrow> string list" where
  "adcs_marks e =
     (let detail = py_lower (detail_of e) in
      if has_substring ''weak-signing-alg'' detail \<or> is_weak_cipher (py_or_str (ep_cert_sig_alg e))
        then [''adcs_weak_signing_count'']
      else if list_ex (\<lambda>t. has_substring t detail) [''esc1-'', ''esc2-'', ''esc3-''] then [''adcs_weak_template_count'']
      else if has_substring ''esc6-'' detail then [''adcs_misconfig_count'']
      else mark (starts_with detail ''coverage-gap|'') ''adcs_coverage_gap_count'')"

definition dar_marks :: "string \<Rightarrow> scanned_endpoint \<Rightarrow> string list" where
  "dar_marks proto e =
     (let sd = detail_of e; scan_err = py_or_str (ep_scan_error e) in
      if proto = ''POSTGRESQL'' then
        (if ep_scan_error e = Some ''insufficient-privilege'' then []
         else mark (has_substring ''ssl-off'' sd) ''dar_db_plaintext_count'')
      else if proto = ''MYSQL'' then
        (if has_substring ''ssl-off'' sd then [''dar_db_plaintext_count'']
         else mark (has_substring ''-weak'' sd) ''dar_db_weak_ssl_count'')
      else if proto = ''RDS'' then mark (has_substring ''RDS/none'' sd) ''dar_db_plaintext_count''
      else if proto = ''S3'' then
        (if has_substring ''S3/unencrypted'' sd then [''dar_storage_unencrypted_count'']
         else mark (has_substring ''S3/sse-kms-aws'' sd) ''dar_storage_aws_managed_count'')
      else if proto = ''AZURE_BLOB'' then
        mark (has_substring ''BLOB/platform-managed'' sd \<or> has_substring ''BLOB/unknown'' sd)
          ''dar_storage_aws_managed_count''
      else if proto = ''KUBERNETES'' then
        (if has_substring ''/unencrypted'' sd then [''dar_k8s_unencrypted_count'']
         else mark (scan_err = ''insufficient-rbac-privileges'' \<or> scan_err = ''encryption-config-inaccessible''
                    \<or> has_substring ''encryption-config-inaccessible'' sd \<or> has_substring ''/platform-managed'' sd)
                ''dar_k8s_inaccessible_count'')
      else if proto = ''VAULT'' then
        mark (py_upper (py_or_str (ep_severity e)) = ''HIGH'') ''dar_vault_weak_count''
      else [])"

definition api_marks :: "string \<Rightarrow> scanned_endpoint \<Rightarrow> string list" where
  "api_marks proto e =
     (if proto = ''BEARER_TOKEN'' then
        (let alg = py_or_str (ep_cert_pubkey_alg e) in
         mark (alg \<noteq> [] \<and> py_lower alg \<noteq> ''none'') ''bearer_token_weak_alg_count'')
      else if proto = ''OPENAPI'' then
        (let detail = py_lower (detail_of e) in
         mark (has_substring ''http-server'' detail \<or> has_substring ''plaintext'' detail)
           ''openapi_plaintext_server_count'')
      else if proto = ''CODE_SIGNING'' then
        mark (''weak'' \<in> set (py_split CHR ''|'' (py_lower (detail_of e)))) ''codesign_weak_algo_count''
      else if proto = ''REST_FUZZ'' then
        mark (py_upper (py_or_str (ep_severity e)) \<in> {''CRITICAL'', ''HIGH''}) ''fuzz_finding_count''
      else [])"

definition weak_broker_cipher :: "string \<Rightarrow> bool" where
  "weak_broker_cipher cipher \<longleftrightarrow>
     cipher \<noteq> [] \<and>
     (starts_with cipher ''TLS_RSA_WITH_'' \<or> is_weak_cipher cipher
      \<or> ((has_substring ''AES128-SHA'' cipher \<or> has_substring ''AES256-SHA'' cipher)
         \<and> \<not> has_substring ''ECDHE'' cipher \<and> \<not> has_substring ''DHE'' cipher))"

definition motion_marks :: "string \<Rightarrow> scanned_endpoint \<Rightarrow> string list" where
  "motion_marks proto e =
     (let cipher = py_upper (py_or_str (ep_cipher_suite e)); tls_v = py_or_str (ep_tls_version e) in
      if proto \<in> {''KAFKA-PLAIN'', ''AMQP-PLAIN'', ''REDIS-PLAIN''} then [''motion_broker_plaintext_count'']
      else if proto \<in> {''KAFKA-TLS'', ''AMQPS'', ''AMQPS/AZURE-SERVICEBUS'', ''HTTPS/AWS-SQS'', ''REDIS-TLS''} then
        mark (is_legacy_tls_version (py_upper tls_v)) ''motion_broker_weak_tls_count''
        @ mark (weak_broker_cipher cipher) ''motion_broker_weak_cipher_count''
      else if proto \<in> {''SMTP-STARTTLS'', ''IMAP-STARTTLS'', ''POP3-STARTTLS''} then
        (if tls_v = [] then [''motion_email_starttls_missing_count'']
         else mark (cipher \<noteq> [] \<and> (starts_with cipher ''TLS_RSA_WITH_'' \<or> is_weak_cipher cipher))
                ''motion_email_weak_cipher_count'')
      else if proto \<in> {''SMTPS'', ''IMAPS'', ''POP3S''} then
        (if tls_v = [] then [''motion_email_plaintext_count'']
         else mark (cipher \<noteq> [] \<and> (starts_with cipher ''TLS_RSA_WITH_'' \<or> has_substring ''3DES'' cipher
                                        \<or> has_substring ''RC4'' cipher))
                ''motion_email_weak_cipher_count'')
      else [])"

text \<open>The chain of protocol branches.\<close>

definition protocol_marks :: "saml_key list \<Rightarrow> scanned_endpoint \<Rightarrow> string list" where
  "protocol_marks seen e =
     (let proto = proto_of e in
      if proto = ''KERBEROS'' then kerberos_marks e
      else if proto = ''SAML'' then saml_marks seen e
      else if proto = ''DNSSEC'' then dnssec_marks e
      else if proto = ''SMIME'' then smime_marks e
      else if proto = ''ADCS'' then adcs_marks e
      else if proto \<in> {''POSTGRESQL'', ''MYSQL'', ''RDS'', ''S3'', ''AZURE_BLOB'', ''KUBERNETES'', ''VAULT''}
        then dar_marks proto e
      else if proto \<in> {''BEARER_TOKEN'', ''OPENAPI'', ''CODE_SIGNING'', ''REST_FUZZ''} then api_marks proto e
      else motion_marks proto e)"

section \<open>The loop\<close>

record evidence_tally =
  tl_protocols :: "(string \<times> int) list"
  tl_keys :: "(string \<times> int) list"
  tl_counts :: "(string \<times> int) list"
  tl_mtls :: "(string \<times> int) list"
  tl_saml :: "saml_key list"

definition empty_tally :: evidence_tally where
  "empty_tally =
     \<lparr>tl_protocols = map (\<lambda>k. (k, 0)) protocol_keys, tl_keys = [(''RSA'', 0), (''ECDSA'', 0), (''PQC'', 0)],
      tl_counts = [], tl_mtls = [], tl_saml = []\<rparr>"

definition count_endpoint :: "int \<Rightarrow> int \<Rightarrow> evidence_tally \<Rightarrow> scanned_endpoint \<Rightarrow> evidence_tally" where
  "count_endpoint ref cutoff t e =
     (if is_unanswered_email_probe e then t
      else t\<lparr>tl_protocols := (if proto_of e \<in> set protocol_keys then bump (proto_of e) (tl_protocols t)
                             else tl_protocols t),
             tl_keys := bump_all (key_marks e) (tl_keys t),
             tl_counts := bump_all (coverage_marks e @ certificate_marks ref cutoff e
                                    @ protocol_marks (tl_saml t) e) (tl_counts t),
             tl_mtls := (if py_or_str (ep_tls_blocker_reason e) = ''MTLS_REQUIRED''
                         then List.insert (ep_host e, ep_port e) (tl_mtls t) else tl_mtls t),
             tl_saml := (if proto_of e = ''SAML'' \<and> \<not> saml_repeated (tl_saml t) e
                         then (case saml_key_of e of None \<Rightarrow> tl_saml t | Some k \<Rightarrow> k # tl_saml t)
                         else tl_saml t)\<rparr>)"

definition tally :: "int \<Rightarrow> int \<Rightarrow> scanned_endpoint list \<Rightarrow> evidence_tally" where
  "tally ref cutoff eps = foldl (count_endpoint ref cutoff) empty_tally eps"

section \<open>The mapping\<close>

definition ratio :: "int \<Rightarrow> nat \<Rightarrow> pyval" where
  "ratio n denom = PyFloat (if denom = 0 then 0 else round4 (of_int n / of_nat denom))"

definition counts_dict :: "(string \<times> int) list \<Rightarrow> pyval" where
  "counts_dict c = PyDict (map (\<lambda>(k, n). (k, PyInt n)) c)"

text \<open>The counters of the loop by name, and the twenty-odd totals and ratios of the result.\<close>

definition count_of :: "evidence_tally \<Rightarrow> string \<Rightarrow> int" where
  "count_of t k = dict_get (tl_counts t) k 0"

definition plain_counters :: "string list" where
  "plain_counters =
     [''identity_weak_etype_count'', ''saml_weak_signing_count'', ''dnssec_weak_algo_count'',
      ''smime_weak_signing_count'', ''smime_expired_count'', ''smime_weak_key_count'',
      ''adcs_weak_template_count'', ''adcs_misconfig_count'', ''adcs_weak_signing_count'',
      ''adcs_coverage_gap_count'', ''dar_db_plaintext_count'', ''dar_db_weak_ssl_count'',
      ''dar_storage_unencrypted_count'', ''dar_storage_aws_managed_count'', ''dar_k8s_unencrypted_count'',
      ''dar_k8s_inaccessible_count'', ''dar_vault_weak_count'', ''motion_email_starttls_missing_count'',
      ''motion_email_plaintext_count'', ''motion_email_weak_cipher_count'', ''motion_broker_plaintext_count'',
      ''motion_broker_weak_tls_count'', ''motion_broker_weak_cipher_count'', ''pqc_hybrid_endpoint_count'',
      ''bearer_token_weak_alg_count'', ''openapi_plaintext_server_count'', ''codesign_weak_algo_count'',
      ''fuzz_finding_count'']"

definition ratio_fields :: "(string \<times> string) list" where
  "ratio_fields =
     [(''identity_kerberos_weak_etype_ratio'', ''identity_weak_etype_count''),
      (''identity_saml_weak_signing_ratio'', ''saml_weak_signing_count''),
      (''identity_dnssec_weak_algo_ratio'', ''dnssec_weak_algo_count''),
      (''dar_db_plaintext_ratio'', ''dar_db_plaintext_count''),
      (''dar_db_weak_ssl_ratio'', ''dar_db_weak_ssl_count''),
      (''dar_storage_unencrypted_ratio'', ''dar_storage_unencrypted_count''),
      (''dar_storage_aws_managed_ratio'', ''dar_storage_aws_managed_count''),
      (''dar_k8s_unencrypted_ratio'', ''dar_k8s_unencrypted_count''),
      (''dar_k8s_inaccessible_ratio'', ''dar_k8s_inaccessible_count''),
      (''dar_vault_weak_ratio'', ''dar_vault_weak_count''),
      (''motion_email_weak_cipher_ratio'', ''motion_email_weak_cipher_count''),
      (''motion_broker_plaintext_ratio'', ''motion_broker_plaintext_count''),
      (''motion_broker_weak_tls_ratio'', ''motion_broker_weak_tls_count''),
      (''motion_broker_weak_cipher_ratio'', ''motion_broker_weak_cipher_count''),
      (''agility_weak_jwt_alg_ratio'', ''bearer_token_weak_alg_count''),
      (''agility_openapi_plaintext_ratio'', ''openapi_plaintext_server_count''),
      (''agility_codesign_weak_algo_ratio'', ''codesign_weak_algo_count''),
      (''agility_fuzz_crypto_posture_ratio'', ''fuzz_finding_count'')]"

text \<open>The entries of the result, the totals and observations first, then the counters and the
  ratios; the result is read by key, so its order is not kept.\<close>

definition summary_of :: "int \<Rightarrow> int \<Rightarrow> nat \<Rightarrow> finding_row list \<Rightarrow> evidence_tally \<Rightarrow> evidence" where
  "summary_of ref days endpoints fs t =
     (let tls_total = dict_get (tl_protocols t) ''TLS'' 0;
          enum_ratio = (if tls_total = 0 then 1
                        else round4 (of_int (count_of t ''tls_enum_success_count'') / of_int tls_total)) in
      [(''evidence_schema_version'', PyStr ''1.4.0''),
       (''reference_utc'', PyStr (to_iso_z ref)),
       (''expiring_within_days'', PyInt (max 0 days)),
       (''totals'', PyDict [(''endpoints'', PyInt (int endpoints)), (''findings'', PyInt (int (length fs)))]),
       (''protocol_counts'', counts_dict (tl_protocols t)),
       (''assessed_crypto_count'', PyInt (count_of t ''assessed_crypto_count'')),
       (''assessable_endpoint_count'', PyInt (count_of t ''assessable_endpoint_count'')),
       (''kerberos_placeholder_count'', PyInt (count_of t ''kerberos_placeholder_count'')),
       (''kerberos_scan_error_count'', PyInt (count_of t ''kerberos_scan_error_count'')),
       (''plaintext_http_count'', PyInt (int (length (finding_targets fs ''Plaintext HTTP service detected'')))),
       (''http_on_tls_port_count'', PyInt (int (length (finding_targets fs ''HTTP on TLS-designated port'')))),
       (''mtls_present_count'',
          PyInt (int (length (List.union (finding_targets fs ''mTLS required'') (tl_mtls t))))),
       (''legacy_tls_count'', PyInt (count_of t ''legacy_tls_count'')),
       (''cert_key_type_counts'', counts_dict (tl_keys t)),
       (''certificate_observations'',
          PyDict [(''certs_observed'', PyInt (count_of t ''certs_observed'')),
                  (''expired_count'', PyInt (count_of t ''cert_expired_count'')),
                  (''expiring_count'', PyInt (count_of t ''cert_expiring_count'')),
                  (''self_signed_count'', PyInt (count_of t ''cert_self_signed_count''))]),
       (''scan_error'', PyDict [(''count'', PyInt (count_of t ''scan_error_count'')),
                                (''rate'', ratio (count_of t ''scan_error_count'') endpoints)]),
       (''tls_enum_coverage_ratio'', PyFloat enum_ratio),
       (''tls_enum_coverage_pct'', PyFloat (of_int (py_round (enum_ratio * 100 * 100)) / 100)),
       (''finding_severity_counts'', PyDict (severity_counts fs)),
       (''scored_finding_severity_counts'', PyDict (scored_counts fs)),
       (''motion_email_plaintext_ratio'',
          ratio (count_of t ''motion_email_plaintext_count'' + count_of t ''motion_email_starttls_missing_count'')
            endpoints)]
      @ map (\<lambda>k. (k, PyInt (count_of t k))) plain_counters
      @ map (\<lambda>(r, k). (r, ratio (count_of t k) endpoints)) ratio_fields)"

definition build_evidence_summary ::
    "scanned_endpoint list \<Rightarrow> finding_row list \<Rightarrow> int \<Rightarrow> int option \<Rightarrow> evidence" where
  "build_evidence_summary eps findings expiring_days reference_utc =
     (let fs = counted_findings findings;
          ref = resolve_reference_utc eps reference_utc;
          cutoff = ref + max 0 expiring_days * 86400000000 in
      summary_of ref expiring_days (length eps) fs (tally ref cutoff eps))"

end
