(* ===== verification/Evidence_Properties.thy ===== *)
theory Evidence_Properties
  imports Evidence
begin

text \<open>
  What the score makes of the evidence that \<open>Evidence\<close> builds: which entries it reads, and the
  end-to-end consequences for rows and findings.
\<close>

section \<open>The entries the score reads\<close>











section \<open>What depends on the number of rows\<close>





lemma summary_lookups:
  "map_of (summary_of ref days n fs t) ''assessable_endpoint_count'' = Some (PyInt (count_of t ''assessable_endpoint_count''))"
  "map_of (summary_of ref days n fs t) ''legacy_tls_count'' = Some (PyInt (count_of t ''legacy_tls_count''))"
  "map_of (summary_of ref days n fs t) ''scored_finding_severity_counts'' = Some (PyDict (scored_counts fs))"
  "map_of (summary_of ref days n fs t) ''protocol_counts'' = Some (counts_dict (tl_protocols t))"
  "map_of (summary_of ref days n fs t) ''plaintext_http_count''
     = Some (PyInt (int (length (finding_targets fs ''Plaintext HTTP service detected''))))"
  "map_of (summary_of ref days n fs t) ''http_on_tls_port_count''
     = Some (PyInt (int (length (finding_targets fs ''HTTP on TLS-designated port''))))"
  "map_of (summary_of ref days n fs t) ''mtls_present_count''
     = Some (PyInt (int (length (List.union (finding_targets fs ''mTLS required'') (tl_mtls t)))))"
  "map_of (summary_of ref days n fs t) ''scan_error''
     = Some (PyDict [(''count'', PyInt (count_of t ''scan_error_count'')), (''rate'', ratio (count_of t ''scan_error_count'') n)])"
  "map_of (summary_of ref days n fs t) ''certificate_observations''
     = Some (PyDict [(''certs_observed'', PyInt (count_of t ''certs_observed'')),
          (''expired_count'', PyInt (count_of t ''cert_expired_count'')),
          (''expiring_count'', PyInt (count_of t ''cert_expiring_count'')),
          (''self_signed_count'', PyInt (count_of t ''cert_self_signed_count''))])"
  by (simp_all add: summary_of_def Let_def)



section \<open>Rows that say nothing\<close>



text \<open>The legacy TLS item of the roadmap can never show a lift on a real scan: whatever rows
  and findings the evidence was built from, the lifts have no entry for it.\<close>

theorem no_legacy_tls_lift_on_scans:
  "\<exists>lifts. compute_item_lifts (build_evidence_summary eps fs days reference) titles p [] = Inr lifts \<and>
     map_of lifts ''legacy-tls-versions'' = None"
  by (rule legacy_lift_absent) (simp_all add: build_evidence_summary_def Let_def summary_lookups)

section \<open>Scans that reached nothing\<close>

definition reached_nothing :: "scanned_endpoint \<Rightarrow> bool" where
  "reached_nothing e \<longleftrightarrow>
     is_unanswered_email_probe e \<or> (proto_of e \<in> set non_asset_protocols \<and> ep_cert_not_after e = None)"

definition row_marks :: "int \<Rightarrow> int \<Rightarrow> saml_key list \<Rightarrow> scanned_endpoint \<Rightarrow> string list" where
  "row_marks ref cutoff seen e = coverage_marks e @ certificate_marks ref cutoff e @ protocol_marks seen e"

lemma count_of_step:
  "count_of (count_endpoint ref cutoff t e) k =
     count_of t k + (if is_unanswered_email_probe e then 0 else int (count_list (row_marks ref cutoff (tl_saml t) e) k))"
  by (simp add: count_endpoint_def count_of_def bump_all_get row_marks_def)

lemma mark_count [simp]: "count_list (mark b k) k' = (if b \<and> k = k' then 1 else 0)"
  by (simp add: mark_def)

lemma silent_marks:
  assumes "proto_of e \<in> set non_asset_protocols" and "ep_cert_not_after e = None"
  shows "count_list (row_marks ref cutoff seen e) ''assessable_endpoint_count'' = 0"
    and "count_list (row_marks ref cutoff seen e) ''certs_observed'' = 0"
    and "proto_of e \<notin> set protocol_keys"
proof -
  from assms(1) have "proto_of e = ''ADVISORY'' \<or> proto_of e = ''CLOSED''"
    by (simp add: non_asset_protocols_def)
  then show "count_list (row_marks ref cutoff seen e) ''assessable_endpoint_count'' = 0"
    "count_list (row_marks ref cutoff seen e) ''certs_observed'' = 0" "proto_of e \<notin> set protocol_keys"
    using assms(2)
    by (elim disjE; simp add: row_marks_def coverage_marks_def certificate_marks_def protocol_marks_def
        motion_marks_def non_asset_protocols_def protocol_keys_def Let_def is_kerberos_placeholder_def)+
qed

lemma silent_tally:
  assumes "list_all reached_nothing eps"
  shows "tl_protocols (foldl (count_endpoint ref cutoff) t eps) = tl_protocols t
    \<and> count_of (foldl (count_endpoint ref cutoff) t eps) ''assessable_endpoint_count'' = count_of t ''assessable_endpoint_count''
    \<and> count_of (foldl (count_endpoint ref cutoff) t eps) ''certs_observed'' = count_of t ''certs_observed''"
  using assms
proof (induction eps arbitrary: t)
  case (Cons e eps)
  let ?t = "count_endpoint ref cutoff t e"
  from Cons.prems have e: "reached_nothing e" and eps: "list_all reached_nothing eps" by simp_all
  have "tl_protocols ?t = tl_protocols t"
    using e silent_marks(3) by (auto simp: reached_nothing_def count_endpoint_def)
  moreover have "count_of ?t k = count_of t k" if "k = ''assessable_endpoint_count'' \<or> k = ''certs_observed''" for k
    using e that silent_marks(1,2) by (auto simp: reached_nothing_def count_of_step)
  ultimately show ?case using Cons.IH [OF eps, of ?t] by simp
qed simp

lemma protocol_read_zero: "raw_count_at (map (\<lambda>k. (k, PyInt 0)) ks) k = 0"
  by (induction ks) (simp_all add: raw_count_at_def dict_get_def as_int_def py_int_def)

lemma protocol_count_zero: "count_at (map (\<lambda>k. (k, PyInt 0)) ks) k = 0"
  using protocol_read_zero [of ks k] by (simp add: raw_count_at_def count_at_def)

lemma sum_zero: "(\<And>x. f x = (0::int)) \<Longrightarrow> sum_list (map f xs) = 0"
  by (induction xs) simp_all

lemma silent_table:
  assumes "list_all reached_nothing eps"
  shows "assessed_scores (category_table w (build_evidence_summary eps fs days reference)) = []"
proof -
  let ?e = "build_evidence_summary eps fs days reference"
  obtain t ref where e: "?e = summary_of ref days (length eps) (counted_findings fs) t"
    and t: "tl_protocols t = map (\<lambda>k. (k, 0)) protocol_keys" "count_of t ''assessable_endpoint_count'' = 0"
      "count_of t ''certs_observed'' = 0"
    using silent_tally [OF assms, of _ _ empty_tally]
    by (simp add: build_evidence_summary_def Let_def tally_def empty_tally_def count_of_def dict_get_def)
  have "endpoint_denom ?e = 0"
    by (simp add: endpoint_denom_def dict_get_def e summary_lookups t as_int_def py_int_def)
  moreover have p: "protocol_counts_of ?e = map (\<lambda>k. (k, PyInt 0)) protocol_keys"
    by (simp add: protocol_counts_of_def sub_mapping_def dict_get_def e summary_lookups counts_dict_def t o_def)
  moreover have "raw_count_at (cert_obs_of ?e) ''certs_observed'' = 0"
    by (simp add: cert_obs_of_def sub_mapping_def dict_get_def e summary_lookups raw_count_at_def as_int_def
        py_int_def t)
  ultimately show ?thesis
    by (simp add: assessed_scores_def category_table_def Let_def category_of_def endpoints_assessed_def
        identity_assessed_def dar_assessed_def motion_assessed_def protocol_read_zero protocol_count_zero
        sum_zero)
qed

text \<open>C8: a scan that reached nothing has no score: if every row is a scanner self-report, a
  closed port or an unanswered mail probe and none carries a certificate, then whatever findings
  are passed, whatever the profile and weights, the result is not assessed; it is never a perfect
  score on no evidence.\<close>

theorem nothing_reached_no_score:
  assumes "list_all reached_nothing eps"
  shows "\<exists>r. compute_readiness_score (build_evidence_summary eps fs days reference) p ws = Inr r \<and>
    r_score r = None \<and> r_rating r = ''NOT_ASSESSED''"
  using compute_unassessed [OF silent_table [OF assms]] by blast

definition closed_row :: scanned_endpoint where
  "closed_row =
     \<lparr>ep_host = ''10.0.0.9'', ep_port = 443, ep_protocol = Some ''closed'', ep_scan_run_id = ''A'',
      ep_scan_error = Some ''timed out'', ep_tls_blocker_reason = None, ep_tls_version = None,
      ep_cipher_suite = None, ep_cert_sig_alg = None, ep_cert_pubkey_alg = None, ep_service_detail = None,
      ep_tls_capabilities_json = None, ep_ssh_audit_json = None, ep_jwt_scan_json = None,
      ep_container_scan_json = None, ep_source_scan_json = None, ep_kerberos_scan_json = None,
      ep_saml_scan_json = None, ep_dnssec_scan_json = None, ep_smime_scan_json = None,
      ep_codesign_scan_json = None, ep_email_scan_json = None, ep_broker_scan_json = None,
      ep_scanned_at = Some 0, ep_severity = None, ep_cert_subject = None, ep_cert_issuer = None,
      ep_cert_pubkey_size = None, ep_cert_not_after = None, ep_tls_supported_versions = None,
      ep_scan_error_category = None, ep_tls_legacy_suites_present = None, ep_chain_verified = None,
      ep_tls_pfs_supported = None\<rparr>"

theorem nothing_reached_no_score_witness:
  "\<exists>r. compute_readiness_score (build_evidence_summary [closed_row] [] 30 None) (Some ''strict'') [] = Inr r \<and>
    r_score r = None \<and> r_rating r = ''NOT_ASSESSED''"
proof (rule nothing_reached_no_score)
  have "proto_of closed_row = ''CLOSED''" by code_simp
  then show "list_all reached_nothing [closed_row]"
    by (simp add: reached_nothing_def non_asset_protocols_def) (simp add: closed_row_def)
qed

section \<open>More findings\<close>

definition finding_fields :: "string list" where
  "finding_fields =
     [''totals'', ''plaintext_http_count'', ''http_on_tls_port_count'', ''mtls_present_count'',
      ''finding_severity_counts'', ''scored_finding_severity_counts'']"

lemma findings_frame:
  "k \<notin> set finding_fields \<Longrightarrow> map_of (summary_of ref days n fs t) k = map_of (summary_of ref days n fs' t) k"
  by (simp add: summary_of_def Let_def finding_fields_def)

lemma findings_frame_counts:
  assumes "k \<notin> set finding_fields"
  shows "count_at (summary_of ref days n fs t) k = count_at (summary_of ref days n fs' t) k"
    and "raw_count_at (summary_of ref days n fs t) k = raw_count_at (summary_of ref days n fs' t) k"
    and "sub_mapping (summary_of ref days n fs t) k = sub_mapping (summary_of ref days n fs' t) k"
  by (simp_all add: count_at_def raw_count_at_def sub_mapping_def dict_get_def findings_frame [OF assms, of _ _ _ fs _ fs'])

definition fewer_findings :: "finding_row list \<Rightarrow> finding_row list \<Rightarrow> bool" where
  "fewer_findings fs fs' \<longleftrightarrow>
     set (finding_targets fs ''Plaintext HTTP service detected'') \<subseteq> set (finding_targets fs' ''Plaintext HTTP service detected'') \<and>
     set (finding_targets fs ''HTTP on TLS-designated port'') \<subseteq> set (finding_targets fs' ''HTTP on TLS-designated port'') \<and>
     finding_targets fs ''mTLS required'' = finding_targets fs' ''mTLS required'' \<and>
     (\<forall>s. length (filter (\<lambda>f. severity_of f = s) (filter (\<lambda>f. \<not> score_neutral f) fs))
         \<le> length (filter (\<lambda>f. severity_of f = s) (filter (\<lambda>f. \<not> score_neutral f) fs')))"

lemma targets_length: "set xs \<subseteq> set ys \<Longrightarrow> distinct xs \<Longrightarrow> length xs \<le> length (ys :: 'a list)"
  by (metis card_length card_mono distinct_card finite_set order_trans)

lemma targets_distinct: "distinct (finding_targets fs w)"
  by (simp add: finding_targets_def)

lemma scored_count_at:
  "s \<in> set severity_names \<Longrightarrow>
   count_at (scored_counts fs) s = int (length (filter (\<lambda>f. severity_of f = s) (filter (\<lambda>f. \<not> score_neutral f) fs)))"
  unfolding severity_names_def
  by (auto simp: scored_counts_def severity_counts_def severity_names_def count_at_def dict_get_def as_int_def
      py_int_def)

lemma summary_scored: "scored_severity_counts (summary_of ref days n fs t) = scored_counts fs"
  by (simp add: scored_severity_counts_def dict_get_def summary_lookups)

lemma more_findings_weaker:
  assumes "fewer_findings fs fs'"
  shows "at_least_as_weak (summary_of ref days n fs t) (summary_of ref days n fs' t)"
proof -
  let ?a = "summary_of ref days n fs t" and ?b = "summary_of ref days n fs' t"
  note frame = findings_frame_counts [of _ ref days n fs t fs']
  have parts: "cert_obs_of ?a = cert_obs_of ?b" "protocol_counts_of ?a = protocol_counts_of ?b"
    "cert_keys_of ?a = cert_keys_of ?b" "pqc_hybrid_count ?a = pqc_hybrid_count ?b"
    "scan_error_total ?a = scan_error_total ?b" "email_plaintext_total ?a = email_plaintext_total ?b"
    by (simp_all add: cert_obs_of_def protocol_counts_of_def cert_keys_of_def pqc_hybrid_count_def
        scan_error_total_def email_plaintext_total_def frame finding_fields_def)
  have legacy: "legacy_tls_count ?a = legacy_tls_count ?b"
    by (simp add: legacy_tls_count_def dict_get_def summary_lookups)
  have mtls: "count_at ?a ''mtls_present_count'' = count_at ?b ''mtls_present_count''"
    using assms by (simp add: count_at_def dict_get_def summary_lookups fewer_findings_def)
  have flags: "assessed_flags ?a = assessed_flags ?b"
    by (simp add: assessed_flags_def parts endpoint_denom_def dict_get_def summary_lookups frame finding_fields_def)
  have "count_at ?a k \<le> count_at ?b k" if "k \<in> set weakness_keys" for k
  proof (cases "k = ''plaintext_http_count'' \<or> k = ''http_on_tls_port_count''")
    case True
    then show ?thesis
      using assms targets_length [OF _ targets_distinct]
      by (auto simp: count_at_def dict_get_def summary_lookups as_int_def py_int_def fewer_findings_def)
  next
    case False
    moreover have "k \<noteq> ''mtls_present_count'' \<and> k \<noteq> ''totals'' \<and> k \<noteq> ''finding_severity_counts''
        \<and> k \<noteq> ''scored_finding_severity_counts''"
      using that by (auto simp: weakness_keys_def)
    ultimately show ?thesis by (simp add: frame finding_fields_def)
  qed
  moreover have "severities_le ?a ?b"
    using assms by (simp add: severities_le_def summary_scored scored_count_at severity_names_def fewer_findings_def)
  ultimately show ?thesis
    by (simp add: at_least_as_weak_def counters_le_def credits_ge_def parts legacy mtls flags unknown_count_def
        pqc_credited_def key_type_penalised_def classical_key_count_def pqc_cert_count_def cert_denom_def)
qed

lemma fewer_without:
  assumes "cli_title_of f \<noteq> ''mTLS required''"
  shows "fewer_findings (counted_findings (as @ bs)) (counted_findings (as @ f # bs))"
  using assms by (auto simp: fewer_findings_def counted_findings_def finding_targets_def)

text \<open>C7: finding more never looks better: adding any finding to those of a scan (other than the
  notice that mutual TLS is required, which is a credit) never raises the score, whatever the rows
  scanned and under every calibration profile.\<close>

theorem more_findings_never_raise_the_score:
  assumes "cli_title_of f \<noteq> ''mTLS required''"
  shows "\<exists>r r'. compute_readiness_score (build_evidence_summary eps (as @ bs) days reference) p [] = Inr r \<and>
    compute_readiness_score (build_evidence_summary eps (as @ f # bs) days reference) p [] = Inr r' \<and>
    opt_int_le (r_score r') (r_score r)"
proof -
  let ?e = "build_evidence_summary eps (as @ bs) days reference"
    and ?e' = "build_evidence_summary eps (as @ f # bs) days reference"
  have "at_least_as_weak ?e ?e'"
    unfolding build_evidence_summary_def Let_def by (rule more_findings_weaker [OF fewer_without [OF assms]])
  with compute_total [of ?e p "[]"] compute_total [of ?e' p "[]"] show ?thesis
    using score_antimono [OF profile_weights_ok profile_penalties_equal] by blast
qed

theorem more_findings_never_raise_the_score_witness:
  "\<exists>r r'. compute_readiness_score (build_evidence_summary [closed_row] ([] @ []) 30 None) None [] = Inr r \<and>
    compute_readiness_score (build_evidence_summary [closed_row]
      ([] @ \<lparr>fi_title = Some ''Unencrypted HTTP service'', fi_host = Some ''10.0.0.9'', fi_port = Some 80,
             fi_severity = Some ''high'', fi_category = None\<rparr> # []) 30 None) None [] = Inr r' \<and>
    opt_int_le (r_score r') (r_score r)"
proof (rule more_findings_never_raise_the_score)
  show "cli_title_of \<lparr>fi_title = Some ''Unencrypted HTTP service'', fi_host = Some ''10.0.0.9'', fi_port = Some 80,
      fi_severity = Some ''high'', fi_category = None\<rparr> \<noteq> ''mTLS required''"
    by code_simp
qed

end
