(* ===== verification/Evidence_Counts.thy ===== *)
theory Evidence_Counts
  imports Evidence_Properties
begin

text \<open>
  What the weakness counters of the evidence mean: no row increments a counter twice, so each
  counter is the number of rows that show its weakness.
\<close>

definition shows_weakness :: "int \<Rightarrow> int \<Rightarrow> string \<Rightarrow> scanned_endpoint \<Rightarrow> bool" where
  "shows_weakness ref cutoff k e \<longleftrightarrow> \<not> is_unanswered_email_probe e \<and> k \<in> set (row_marks ref cutoff [] e)"

section \<open>The names a row can increment\<close>

text \<open>The counters named are among the given ones, and none is named twice.\<close>

definition once_among :: "string list \<Rightarrow> string list \<Rightarrow> bool" where
  "once_among names xs \<longleftrightarrow> set xs \<subseteq> set names \<and> distinct xs"

lemma once_among_nil [simp]: "once_among names []"
  by (simp add: once_among_def)

lemma once_among_one [simp]: "once_among names [k] \<longleftrightarrow> k \<in> set names"
  by (simp add: once_among_def)

lemma once_among_mark [simp]: "once_among names (mark b k) \<longleftrightarrow> (b \<longrightarrow> k \<in> set names)"
  by (simp add: once_among_def mark_def)

lemma in_mark [simp]: "x \<in> set (mark b k) \<longleftrightarrow> b \<and> x = k"
  by (auto simp: mark_def)

lemma once_among_mark_append:
  "once_among names (mark b k @ ys) \<longleftrightarrow> (b \<longrightarrow> k \<in> set names \<and> k \<notin> set ys) \<and> once_among names ys"
  by (auto simp: once_among_def mark_def)

lemma once_among_if [simp]:
  "once_among names (if b then xs else ys) \<longleftrightarrow> (if b then once_among names xs else once_among names ys)"
  by simp

definition coverage_names :: "string list" where
  "coverage_names = [''pqc_hybrid_endpoint_count'', ''tls_enum_success_count'', ''legacy_tls_count'', ''scan_error_count'',
     ''kerberos_placeholder_count'', ''kerberos_scan_error_count'', ''assessable_endpoint_count'',
     ''assessed_crypto_count'']"

definition certificate_names :: "string list" where
  "certificate_names = [''certs_observed'', ''cert_expired_count'', ''cert_expiring_count'', ''cert_self_signed_count'']"

definition branch_names :: "string list" where
  "branch_names = filter (\<lambda>k. k \<noteq> ''pqc_hybrid_endpoint_count'') plain_counters"

lemma names_disjoint:
  "set coverage_names \<inter> set certificate_names = {}" "set coverage_names \<inter> set branch_names = {}"
  "set certificate_names \<inter> set branch_names = {}"
  by (simp_all add: coverage_names_def certificate_names_def branch_names_def plain_counters_def)

lemma coverage_once: "once_among coverage_names (coverage_marks e)"
  by (simp add: coverage_marks_def coverage_names_def Let_def once_among_mark_append)

lemma certificate_once: "once_among certificate_names (certificate_marks ref cutoff e)"
  by (cases "ep_cert_not_after e")
    (simp_all add: certificate_marks_def certificate_names_def Let_def once_among_def mark_def)

lemma branch_once:
  "once_among branch_names (kerberos_marks e)" "once_among branch_names (saml_marks seen e)"
  "once_among branch_names (dnssec_marks e)" "once_among branch_names (smime_marks e)"
  "once_among branch_names (adcs_marks e)"
  by (simp_all add: kerberos_marks_def saml_marks_def dnssec_marks_def smime_marks_def adcs_marks_def Let_def
      once_among_mark_append branch_names_def plain_counters_def)

lemma branch_once_protocol:
  "once_among branch_names (dar_marks proto e)" "once_among branch_names (api_marks proto e)"
  "once_among branch_names (motion_marks proto e)"
  by (simp_all add: dar_marks_def api_marks_def motion_marks_def Let_def once_among_mark_append
      branch_names_def plain_counters_def)

lemma protocol_once: "once_among branch_names (protocol_marks seen e)"
  by (simp add: protocol_marks_def Let_def branch_once branch_once_protocol)

lemma row_marks_distinct: "distinct (row_marks ref cutoff seen e)"
  using coverage_once [of e] certificate_once [of ref cutoff e] protocol_once [of seen e] names_disjoint
  by (simp add: row_marks_def once_among_def) blast

section \<open>Counters are numbers of rows\<close>

lemma row_marks_saml:
  "k \<noteq> ''saml_weak_signing_count'' \<Longrightarrow> k \<in> set (row_marks ref cutoff seen e) \<longleftrightarrow> k \<in> set (row_marks ref cutoff [] e)"
  by (simp add: row_marks_def protocol_marks_def Let_def saml_marks_def)

lemma count_distinct: "distinct xs \<Longrightarrow> count_list xs k = (if k \<in> set xs then 1 else 0)"
  by (induction xs) (auto simp: count_list_0_iff)

lemma count_of_tally:
  assumes "k \<noteq> ''saml_weak_signing_count''"
  shows "count_of (foldl (count_endpoint ref cutoff) t eps) k
    = count_of t k + int (length (filter (shows_weakness ref cutoff k) eps))"
proof (induction eps arbitrary: t)
  case (Cons e eps)
  then show ?case
    using row_marks_saml [OF assms, of ref cutoff "tl_saml t" e]
    by (simp add: count_of_step count_distinct [OF row_marks_distinct] shows_weakness_def)
qed simp

lemma map_of_middle:
  "k \<notin> fst ` set xs \<Longrightarrow> k \<notin> fst ` set zs \<Longrightarrow> map_of (xs @ ys @ zs) k = map_of ys k"
  by (simp add: map_of_append map_add_def map_of_eq_None_iff [THEN iffD2] split: option.split)

lemma plain_counters_names:
  "list_all (\<lambda>k. k \<notin> set (map fst ratio_fields) \<and> k \<notin> set
     [''evidence_schema_version'', ''reference_utc'', ''expiring_within_days'', ''totals'', ''protocol_counts'',
      ''assessed_crypto_count'', ''assessable_endpoint_count'', ''kerberos_placeholder_count'',
      ''kerberos_scan_error_count'', ''plaintext_http_count'', ''http_on_tls_port_count'', ''mtls_present_count'',
      ''legacy_tls_count'', ''cert_key_type_counts'', ''certificate_observations'', ''scan_error'',
      ''tls_enum_coverage_ratio'', ''tls_enum_coverage_pct'', ''finding_severity_counts'',
      ''scored_finding_severity_counts'', ''motion_email_plaintext_ratio'']) plain_counters"
  by code_simp

lemma summary_counter:
  assumes "k \<in> set plain_counters"
  shows "map_of (summary_of ref days n fs t) k = Some (PyInt (count_of t k))"
proof -
  note names = plain_counters_names [unfolded list_all_iff, rule_format, OF assms]
  have "map_of (map (\<lambda>k. (k, PyInt (count_of t k))) plain_counters) k = Some (PyInt (count_of t k))"
    using assms by (simp add: map_of_map_restrict)
  moreover have "map_of (summary_of ref days n fs t) k
      = map_of (map (\<lambda>k. (k, PyInt (count_of t k))) plain_counters) k"
    unfolding summary_of_def Let_def
  proof (rule map_of_middle, goal_cases)
    case 1
    then show ?case using names by simp
  next
    case 2
    have "fst ` set (map (\<lambda>(r, c). (r, ratio (count_of t c) n)) ratio_fields) = set (map fst ratio_fields)"
      by (simp add: image_image case_prod_beta)
    then show ?case using names by (simp only: simp_thms)
  qed
  ultimately show ?thesis by simp
qed

text \<open>Each weakness counter of the evidence is exactly the number of scanned rows that show the
  weakness: no row is counted twice, none that shows it is missed, and an unanswered mail probe is
  never counted (the SAML counter, which counts certificates, not rows, is apart).\<close>

theorem counters_count_rows:
  assumes "k \<in> set plain_counters" and "k \<noteq> ''saml_weak_signing_count''"
  shows "map_of (build_evidence_summary eps fs days reference) k
    = Some (PyInt (int (length (filter
        (shows_weakness (resolve_reference_utc eps reference)
           (resolve_reference_utc eps reference + max 0 days * 86400000000) k) eps))))"
  using count_of_tally [OF assms(2), of _ _ empty_tally eps]
  by (simp add: build_evidence_summary_def Let_def summary_counter [OF assms(1)] tally_def empty_tally_def
      count_of_def dict_get_def)

theorem counters_count_rows_witness:
  "map_of (build_evidence_summary [closed_row] [] 30 None) ''dar_db_plaintext_count''
    = Some (PyInt (int (length (filter
        (shows_weakness (resolve_reference_utc [closed_row] None)
           (resolve_reference_utc [closed_row] None + max 0 30 * 86400000000) ''dar_db_plaintext_count'')
        [closed_row]))))"
  by (rule counters_count_rows) (simp_all add: plain_counters_def)

section \<open>Mail rows\<close>

text \<open>The two mail branches do not test the same ciphers: a NULL cipher is weak on a STARTTLS
  row and passes unnoticed on an implicit-TLS one.\<close>

definition null_mail :: "string \<Rightarrow> scanned_endpoint" where
  "null_mail label =
     closed_row\<lparr>ep_protocol := Some label, ep_scan_error := None, ep_tls_version := Some ''TLSv1.2'',
                ep_cipher_suite := Some ''ECDHE-RSA-NULL-SHA''\<rparr>"

lemma starttls_null_cipher_counted:
  "motion_marks ''SMTP-STARTTLS'' (null_mail ''SMTP-STARTTLS'') = [''motion_email_weak_cipher_count'']"
  by code_simp

lemma smtps_null_cipher_not_counted: "motion_marks ''SMTPS'' (null_mail ''SMTPS'') = []"
  by code_simp

end
