(* ===== verification/Scope_Signature.thy ===== *)
theory Scope_Signature
  imports Models
begin

text \<open>
  \<open>quirk/intelligence/scope_signature.py\<close>: the probe-family table and its reverse index, the
  evidence predicates, and the assessment of probe health.  The closure computation reads this
  module only through \<open>family_for_protocol\<close>, \<open>endpoint_has_family_evidence\<close> and
  \<open>probe_family_rechecked\<close>.
\<close>

section \<open>Configuration read by the module\<close>

record scope_cfg =
  cfg_enabled :: "string \<Rightarrow> bool"   \<comment> \<open>\<open>bool(getattr(cfg.connectors, attr, False))\<close>\<close>
  cfg_tls_enum_mode :: string

section \<open>Probe families\<close>

record family_spec =
  fs_enable_attr :: "string option"
  fs_evidence_field :: string
  fs_timing_key :: string
  fs_protocols :: "string list"
  fs_disabled_extra :: "(scope_cfg \<Rightarrow> bool) option"
  fs_no_targets_is_recheck :: bool

definition plain_family :: "string option \<Rightarrow> string \<Rightarrow> string \<Rightarrow> string list \<Rightarrow> family_spec" where
  "plain_family en ev tk ps =
     \<lparr>fs_enable_attr = en, fs_evidence_field = ev, fs_timing_key = tk, fs_protocols = ps,
      fs_disabled_extra = None, fs_no_targets_is_recheck = False\<rparr>"

definition tls_not_deep :: "scope_cfg \<Rightarrow> bool" where
  "tls_not_deep cfg \<longleftrightarrow> cfg_tls_enum_mode cfg \<noteq> ''deep''"

definition family_specs :: "(string \<times> family_spec) list" where
  "family_specs =
   [(''tls'', (plain_family None ''tls_capabilities_json'' ''tls_scanning'' [''TLS''])
       \<lparr>fs_disabled_extra := Some tls_not_deep\<rparr>),
    (''ssh'', plain_family None ''ssh_audit_json'' ''ssh_scanning'' [''SSH'']),
    (''http'', (plain_family None ''service_detail'' ''fingerprinting'' [''HTTP''])
       \<lparr>fs_no_targets_is_recheck := True\<rparr>),
    (''jwt'', plain_family (Some ''enable_jwt'') ''jwt_scan_json'' ''jwt_scanning'' [''JWT'']),
    (''container'', plain_family (Some ''enable_container'') ''container_scan_json'' ''container_scanning'' [''CONTAINER'']),
    (''source'', plain_family (Some ''enable_source'') ''source_scan_json'' ''source_scanning'' [''SOURCE'']),
    (''database'', plain_family (Some ''enable_db'') ''tls_version'' ''db_scanning'' [''POSTGRESQL'', ''MYSQL'']),
    (''dnssec'', plain_family (Some ''enable_dnssec'') ''dnssec_scan_json'' ''dnssec_scanning'' [''DNSSEC'']),
    (''saml'', plain_family (Some ''enable_saml'') ''saml_scan_json'' ''saml_scanning'' [''SAML'']),
    (''kerberos'', plain_family (Some ''enable_kerberos'') ''kerberos_scan_json'' ''kerberos_scanning'' [''KERBEROS'']),
    (''smime'', plain_family (Some ''enable_smime'') ''smime_scan_json'' ''smime_scanning'' [''SMIME'']),
    (''codesign'', plain_family (Some ''enable_codesign'') ''codesign_scan_json'' ''codesign_scanning'' [''CODE_SIGNING'']),
    (''email'', plain_family (Some ''enable_email'') ''email_scan_json'' ''email_scanning''
       [''SMTP-STARTTLS'', ''SMTPS'', ''IMAP-STARTTLS'', ''IMAPS'', ''POP3-STARTTLS'', ''POP3S'']),
    (''broker'', plain_family (Some ''enable_broker'') ''broker_scan_json'' ''broker_scanning''
       [''KAFKA-TLS'', ''KAFKA-PLAIN'', ''AMQP-PLAIN'', ''REDIS-TLS'', ''REDIS-PLAIN''])]"

text \<open>The reverse index is built from the table.\<close>

definition protocol_to_family :: "(string \<times> string) list" where
  "protocol_to_family =
     foldl (\<lambda>d (p, f). dict_put p f d) []
       (concat (map (\<lambda>(f, spec). map (\<lambda>p. (p, f)) (fs_protocols spec)) family_specs))"

definition family_for_protocol :: "string option \<Rightarrow> string option" where
  "family_for_protocol p = (case p of None \<Rightarrow> None | Some q \<Rightarrow> map_of protocol_to_family q)"

definition spec_of :: "string option \<Rightarrow> family_spec option" where
  "spec_of family = (case family of None \<Rightarrow> None | Some f \<Rightarrow> if f = [] then None else map_of family_specs f)"

section \<open>Evidence\<close>

definition has_evidence :: "string option \<Rightarrow> bool" where
  "has_evidence v =
     (case v of
        None \<Rightarrow> False
      | Some s \<Rightarrow> (let stripped = py_strip s in
          \<not> (stripped = [] \<or> py_lower stripped \<in> {''null'', ''{}'', ''[]''})))"

definition endpoint_has_family_evidence :: "crypto_endpoint \<Rightarrow> string option \<Rightarrow> bool" where
  "endpoint_has_family_evidence e family =
     (case spec_of family of
        None \<Rightarrow> False
      | Some spec \<Rightarrow> has_evidence (ep_column e (fs_evidence_field spec)))"

definition probe_family_rechecked :: "(string \<times> pyval) list \<Rightarrow> string option \<Rightarrow> bool" where
  "probe_family_rechecked health family =
     (case spec_of family of
        None \<Rightarrow> False
      | Some spec \<Rightarrow>
          (case dict_get health (py_or_str family) PyNone of
             PyDict entry \<Rightarrow>
               (case dict_get entry ''status'' PyNone of
                  PyStr status \<Rightarrow>
                    (if status = ''healthy'' then True
                     else if status = ''no_targets'' then fs_no_targets_is_recheck spec
                     else False)
                | _ \<Rightarrow> False)
           | _ \<Rightarrow> False))"

section \<open>Probe health\<close>

definition family_disabled :: "scope_cfg \<Rightarrow> family_spec \<Rightarrow> bool" where
  "family_disabled cfg spec \<longleftrightarrow>
     (case fs_enable_attr spec of None \<Rightarrow> False | Some a \<Rightarrow> \<not> cfg_enabled cfg a)
     \<or> (case fs_disabled_extra spec of None \<Rightarrow> False | Some g \<Rightarrow> g cfg)"

definition health_entry :: "string \<Rightarrow> string \<Rightarrow> nat \<Rightarrow> nat \<Rightarrow> pyval" where
  "health_entry status field seen evidenced =
     PyDict [(''status'', PyStr status), (''evidence_field'', PyStr field),
             (''endpoints_seen'', PyInt (int seen)),
             (''endpoints_with_evidence'', PyInt (int evidenced))]"

definition seen_by :: "family_spec \<Rightarrow> crypto_endpoint list \<Rightarrow> crypto_endpoint list" where
  "seen_by spec eps =
     filter (\<lambda>e. case ep_protocol e of None \<Rightarrow> False | Some p \<Rightarrow> p \<in> set (fs_protocols spec)) eps"

definition assess_family ::
    "scope_cfg \<Rightarrow> crypto_endpoint list \<Rightarrow> string list \<Rightarrow> family_spec \<Rightarrow> pyval" where
  "assess_family cfg eps timings spec =
     (if family_disabled cfg spec \<or> fs_timing_key spec \<notin> set timings then
        health_entry ''not_run'' (fs_evidence_field spec) 0 0
      else
        let seen = seen_by spec eps;
            evidenced = filter (\<lambda>e. has_evidence (ep_column e (fs_evidence_field spec))) seen;
            status = (if 0 < length evidenced then ''healthy''
                      else if length seen = 0 then ''no_targets''
                      else ''unhealthy'') in
        health_entry status (fs_evidence_field spec) (length seen) (length evidenced))"

text \<open>\<open>timings\<close> is the key set of \<open>run_stats["timings_sec"]\<close>, empty when absent.\<close>

definition assess_probe_health ::
    "scope_cfg \<Rightarrow> crypto_endpoint list \<Rightarrow> string list \<Rightarrow> (string \<times> pyval) list" where
  "assess_probe_health cfg eps timings =
     map (\<lambda>(f, spec). (f, assess_family cfg eps timings spec)) family_specs"

section \<open>Lemmas\<close>

lemma family_specs_names: "distinct (map fst family_specs)"
  by (simp add: family_specs_def)

lemma protocols_disjoint:
  "distinct (concat (map (\<lambda>(f, spec). fs_protocols spec) family_specs))"
  by (simp add: family_specs_def plain_family_def)

lemma spec_of_Some: "spec_of (Some f) = Some spec \<Longrightarrow> (f, spec) \<in> set family_specs"
  by (auto simp: spec_of_def split: if_splits dest: map_of_SomeD)

lemma map_of_assess:
  "map_of (assess_probe_health cfg eps timings) f
     = map_option (assess_family cfg eps timings) (map_of family_specs f)"
  by (simp add: assess_probe_health_def map_of_map)

lemma status_assess:
  "(case assess_family cfg eps timings spec of PyDict entry \<Rightarrow> dict_get entry ''status'' PyNone | _ \<Rightarrow> PyNone)
   = PyStr (if family_disabled cfg spec \<or> fs_timing_key spec \<notin> set timings then ''not_run''
            else if \<exists>e \<in> set (seen_by spec eps). has_evidence (ep_column e (fs_evidence_field spec)) then ''healthy''
            else if seen_by spec eps = [] then ''no_targets'' else ''unhealthy'')"
  by (auto simp: assess_family_def health_entry_def dict_get_def Let_def filter_empty_conv)

text \<open>A family counts as rechecked exactly when it ran and either produced evidence somewhere,
  or is the one family for which finding no target is itself a recheck.\<close>

lemma rechecked_assess:
  assumes "spec_of (Some f) = Some spec"
  shows "probe_family_rechecked (assess_probe_health cfg eps timings) (Some f) \<longleftrightarrow>
    \<not> family_disabled cfg spec \<and> fs_timing_key spec \<in> set timings \<and>
    ((\<exists>e \<in> set (seen_by spec eps). has_evidence (ep_column e (fs_evidence_field spec)))
     \<or> (seen_by spec eps = [] \<and> fs_no_targets_is_recheck spec))"
proof -
  have m: "map_of family_specs f = Some spec"
    using assms by (simp add: spec_of_def split: if_splits)
  have "probe_family_rechecked (assess_probe_health cfg eps timings) (Some f) =
    (case assess_family cfg eps timings spec of
       PyDict entry \<Rightarrow> (case dict_get entry ''status'' PyNone of
          PyStr status \<Rightarrow> (if status = ''healthy'' then True
             else if status = ''no_targets'' then fs_no_targets_is_recheck spec else False)
        | _ \<Rightarrow> False) | _ \<Rightarrow> False)"
    by (simp add: probe_family_rechecked_def assms dict_get_def map_of_assess m py_or_str_def)
  then show ?thesis
    by (auto simp: assess_family_def health_entry_def dict_get_def Let_def filter_empty_conv)
qed

section \<open>The registry as the closure computation sees it\<close>

text \<open>What \<open>closure.py\<close> relies on: classification of a protocol, evidence of a family on
  a row, and the recheck predicate.  Only a named family carries evidence or can be rechecked,
  and an empty health record rechecks nothing.\<close>

locale probe_registry =
  fixes classify :: "string option \<Rightarrow> string option"
    and evidences :: "crypto_endpoint \<Rightarrow> string option \<Rightarrow> bool"
    and rechecked :: "(string \<times> pyval) list \<Rightarrow> string option \<Rightarrow> bool"
  assumes unclassified: "classify None = None"
    and evidence_named: "evidences e f \<Longrightarrow> f \<noteq> None"
    and recheck_named: "rechecked h f \<Longrightarrow> f \<noteq> None"
    and recheck_recorded: "\<not> rechecked [] f"
begin

lemma all_rechecked_named: "list_all (rechecked h) fs \<Longrightarrow> None \<notin> set fs"
  using recheck_named by (auto simp: list_all_iff)

lemma rechecked_protocol: "rechecked h (classify p) \<Longrightarrow> p \<noteq> None"
  using recheck_named unclassified by metis

lemma no_health_no_recheck: "list_all (rechecked []) fs \<Longrightarrow> fs = []"
  using recheck_recorded by (cases fs) simp_all

end

interpretation families: probe_registry family_for_protocol endpoint_has_family_evidence probe_family_rechecked
proof
  show "family_for_protocol None = None" by (simp add: family_for_protocol_def)
  show "endpoint_has_family_evidence e f \<Longrightarrow> f \<noteq> None" for e f
    by (cases f) (simp_all add: endpoint_has_family_evidence_def spec_of_def)
  show "probe_family_rechecked h f \<Longrightarrow> f \<noteq> None" for h f
    by (cases f) (simp_all add: probe_family_rechecked_def spec_of_def)
  show "\<not> probe_family_rechecked [] f" for f
    by (auto simp: probe_family_rechecked_def dict_get_def split: option.splits)
qed

end
