(* ===== verification/Closure.thy ===== *)
theory Closure
  imports Scope_Signature Remediation
begin

text \<open>
  \<open>quirk/intelligence/closure.py\<close>: selection of the prior scan, the comparability ladder, the
  per-row verdict with its clauses in the order of the code, the three loops of
  \<open>compute_closure\<close> (prior rows, resurfacing, item rollup) as state passing over the database,
  and the exception guard.

  The session runs with \<open>autoflush=False\<close>: queries issued inside the loops filter the rows as
  they were when the computation began, while attribute reads on the loaded objects see the
  changes made in memory.  The model keeps both: \<open>cx_db0\<close> is the stored database the queries
  read, \<open>cs_db\<close> the objects.
\<close>

section \<open>Constants\<close>

definition scope_signature_version :: string where
  "scope_signature_version = ''2.0.0''"

definition closed_state :: string where
  "closed_state = ''closed''"

definition not_observed_state :: string where
  "not_observed_state = default_item_state"

definition two_sided_reason :: string where
  "two_sided_reason = ''two_sided_verified''"

definition resurface_reason :: string where
  "resurface_reason = ''detected_after_closure''"

definition fingerprint_reclass_protocols :: "string list" where
  "fingerprint_reclass_protocols = [''SSH'', ''TLS'']"

definition counter_keys :: "string list" where
  "counter_keys =
     [''closed'', ''resurfaced'', ''reclosed'', ''items_closed'', ''refused_no_prior'',
      ''refused_missing_signature'', ''refused_signature_version_gap'',
      ''refused_missing_target_set_digest'', ''refused_scope_mismatch'', ''refused_probe'',
      ''refused_absent_endpoint'', ''refused_missing_snapshot'', ''unchanged'']"

type_synonym counters = "(string \<times> int) list"

definition zero_counters :: counters where
  "zero_counters = map (\<lambda>k. (k, 0)) counter_keys"

section \<open>Which scan, and is it comparable\<close>

definition select_prior_scan_run_id :: "db \<Rightarrow> string \<Rightarrow> string option" where
  "select_prior_scan_run_id d current =
     map_option sg_scan_run_id
       (first_max sg_created_at (filter (\<lambda>s. sg_scan_run_id s \<noteq> current) (db_signatures d)))"

definition truthy :: "string option \<Rightarrow> bool" where
  "truthy v \<longleftrightarrow> v \<noteq> None \<and> v \<noteq> Some []"

definition signatures_of :: "db \<Rightarrow> string \<Rightarrow> scope_signature list" where
  "signatures_of d scan = filter (\<lambda>s. sg_scan_run_id s = scan) (db_signatures d)"

definition comparability :: "scope_signature option \<Rightarrow> scope_signature option \<Rightarrow> bool \<times> string" where
  "comparability current_sig prior_sig =
     (case (current_sig, prior_sig) of
        (Some cur, Some pri) \<Rightarrow>
          (if sg_version cur \<noteq> Some scope_signature_version
              \<or> sg_version pri \<noteq> Some scope_signature_version then (False, ''signature_version_gap'')
           else if \<not> truthy (sg_target_set_digest cur) \<or> \<not> truthy (sg_target_set_digest pri)
             then (False, ''missing_target_set_digest'')
           else if sg_digest cur \<noteq> sg_digest pri then (False, ''scope_mismatch'')
           else (True, ''comparable''))
      | _ \<Rightarrow> (False, ''missing_signature''))"

definition scans_are_comparable ::
    "db \<Rightarrow> string \<Rightarrow> string option \<Rightarrow> db_error + (bool \<times> string)" where
  "scans_are_comparable d current prior =
     (if \<not> truthy prior then Inr (False, ''no_prior_scan'')
      else bind_err (one_or_none (signatures_of d current)) (\<lambda>current_sig.
           bind_err (one_or_none (signatures_of d (py_or_str prior))) (\<lambda>prior_sig.
             Inr (comparability current_sig prior_sig))))"

definition load_probe_health :: "scope_signature option \<Rightarrow> (string \<times> pyval) list" where
  "load_probe_health sig =
     (case sig of
        None \<Rightarrow> []
      | Some s \<Rightarrow> (case sg_probe_health s of Some (PyDict h) \<Rightarrow> h | _ \<Rightarrow> []))"

section \<open>What a scan observed at a host:port\<close>

type_synonym host_port = "string option \<times> int option"

definition ep_key :: "crypto_endpoint \<Rightarrow> host_port" where
  "ep_key e = (Some (ep_host e), Some (ep_port e))"

definition fp_place :: "item_fingerprint \<Rightarrow> host_port" where
  "fp_place r = (fp_host r, fp_port r)"

definition at_place :: "host_port \<Rightarrow> crypto_endpoint list \<Rightarrow> crypto_endpoint list" where
  "at_place k eps = filter (\<lambda>e. ep_key e = k) eps"

definition non_asset :: "string option \<Rightarrow> bool" where
  "non_asset p \<longleftrightarrow> p = Some ''ADVISORY'' \<or> p = Some ''CLOSED''"

definition current_present :: "crypto_endpoint list \<Rightarrow> host_port \<Rightarrow> bool" where
  "current_present eps k \<longleftrightarrow> at_place k eps \<noteq> []"

definition row_failed :: "crypto_endpoint \<Rightarrow> bool" where
  "row_failed e \<longleftrightarrow>
     ep_protocol e = Some ''CLOSED''
     \<or> (truthy (ep_tls_blocker_reason e) \<and> \<not> non_asset (ep_protocol e))
     \<or> (\<not> non_asset (ep_protocol e) \<and> ep_scan_error e \<noteq> None)"

definition current_failed :: "crypto_endpoint list \<Rightarrow> host_port \<Rightarrow> bool" where
  "current_failed eps k \<longleftrightarrow> list_ex row_failed (at_place k eps)"

definition row_unclassified :: "crypto_endpoint \<Rightarrow> bool" where
  "row_unclassified e \<longleftrightarrow>
     \<not> non_asset (ep_protocol e) \<and> family_for_protocol (ep_protocol e) = None"

definition current_unclassified :: "crypto_endpoint list \<Rightarrow> host_port \<Rightarrow> bool" where
  "current_unclassified eps k \<longleftrightarrow> list_ex row_unclassified (at_place k eps)"

text \<open>The rows without error: real assets, no scan error, no blocker reason; the live ones are
  those a probe family classifies.\<close>

definition row_clean :: "crypto_endpoint \<Rightarrow> bool" where
  "row_clean e \<longleftrightarrow>
     truthy (ep_protocol e) \<and> \<not> non_asset (ep_protocol e) \<and> ep_scan_error e = None
     \<and> \<not> truthy (ep_tls_blocker_reason e)"

definition row_live :: "crypto_endpoint \<Rightarrow> bool" where
  "row_live e \<longleftrightarrow> row_clean e \<and> family_for_protocol (ep_protocol e) \<noteq> None"

definition current_asset :: "crypto_endpoint list \<Rightarrow> host_port \<Rightarrow> string option list" where
  "current_asset eps k = map ep_protocol (filter row_clean (at_place k eps))"

definition current_live :: "crypto_endpoint list \<Rightarrow> host_port \<Rightarrow> string option list" where
  "current_live eps k = map ep_protocol (filter row_live (at_place k eps))"

definition current_live_families :: "crypto_endpoint list \<Rightarrow> host_port \<Rightarrow> string option list" where
  "current_live_families eps k =
     map (\<lambda>e. family_for_protocol (ep_protocol e)) (filter row_live (at_place k eps))"

definition current_evidenced_families :: "crypto_endpoint list \<Rightarrow> host_port \<Rightarrow> string option list" where
  "current_evidenced_families eps k =
     map (\<lambda>e. family_for_protocol (ep_protocol e))
       (filter (\<lambda>e. row_live e \<and> endpoint_has_family_evidence e (family_for_protocol (ep_protocol e)))
          (at_place k eps))"

text \<open>On an earlier scan a row counts as live without the blocker test.\<close>

definition row_live_earlier :: "crypto_endpoint \<Rightarrow> bool" where
  "row_live_earlier e \<longleftrightarrow>
     truthy (ep_protocol e) \<and> \<not> non_asset (ep_protocol e) \<and> ep_scan_error e = None
     \<and> family_for_protocol (ep_protocol e) \<noteq> None"

definition live_families_at :: "db \<Rightarrow> string \<Rightarrow> host_port \<Rightarrow> string option list" where
  "live_families_at d scan k =
     map (\<lambda>e. family_for_protocol (ep_protocol e))
       (filter row_live_earlier (at_place k (endpoints_of d scan)))"

definition protocols_at :: "db \<Rightarrow> string \<Rightarrow> host_port \<Rightarrow> string option list" where
  "protocols_at d scan k = map ep_protocol (at_place k (endpoints_of d scan))"

section \<open>Detection of a carried row\<close>

definition detection_row :: "db \<Rightarrow> item_fingerprint \<Rightarrow> string \<Rightarrow> item_fingerprint option" where
  "detection_row d row current =
     first_max (\<lambda>r. (fp_observed_at r, fp_id r))
       (filter (\<lambda>r. fp_slug r = fp_slug row \<and> fp_fingerprint r = fp_fingerprint row
                  \<and> fp_state r \<in> set open_like_states \<and> fp_scan_run_id r \<noteq> current) (db_fps d))"

definition detection_protocols ::
    "db \<Rightarrow> item_fingerprint option \<Rightarrow> item_fingerprint \<Rightarrow> string option list" where
  "detection_protocols d detected row =
     (case detected of None \<Rightarrow> [] | Some r \<Rightarrow> protocols_at d (fp_scan_run_id r) (fp_place row))"

section \<open>The recheck decision for one host:port\<close>

definition family_rechecked_here ::
    "string option list \<Rightarrow> string option list \<Rightarrow> string option list
     \<Rightarrow> (string \<times> pyval) list \<Rightarrow> string option list option \<Rightarrow> string option \<Rightarrow> bool" where
  "family_rechecked_here reclass_baseline live_families live_protocols health evidenced fam \<longleftrightarrow>
     probe_family_rechecked health fam \<and>
     (if fam \<in> set live_families
      then (case evidenced of None \<Rightarrow> True | Some ev \<Rightarrow> fam \<in> set ev)
      else fam = Some ''http'' \<and>
           list_ex (\<lambda>p. p \<in> Some ` set fingerprint_reclass_protocols
                      \<and> family_for_protocol p \<notin> set reclass_baseline) live_protocols)"

definition host_port_rechecked ::
    "string option list \<Rightarrow> string option list \<Rightarrow> string option list \<Rightarrow> string option list
     \<Rightarrow> (string \<times> pyval) list \<Rightarrow> string option list option \<Rightarrow> bool" where
  "host_port_rechecked prior_families reclass_baseline live_families live_protocols health evidenced
     \<longleftrightarrow> prior_families \<noteq> [] \<and>
        list_all (family_rechecked_here reclass_baseline live_families live_protocols health evidenced)
          prior_families"

section \<open>The verdict on one prior row\<close>

datatype verdict = Unchanged | RefusedAbsent | RefusedProbe | Close

record closure_ctx =
  cx_scan :: string
  cx_prior :: string
  cx_now :: int
  cx_health :: "(string \<times> pyval) list"
  cx_db0 :: db

definition cx_current :: "closure_ctx \<Rightarrow> crypto_endpoint list" where
  "cx_current cx = endpoints_of (cx_db0 cx) (cx_scan cx)"

definition detected_for :: "closure_ctx \<Rightarrow> item_fingerprint \<Rightarrow> item_fingerprint option" where
  "detected_for cx row =
     (if fp_state row = not_observed_state then detection_row (cx_db0 cx) row (cx_scan cx) else None)"

definition prior_raw :: "closure_ctx \<Rightarrow> item_fingerprint \<Rightarrow> string option list" where
  "prior_raw cx row =
     protocols_at (cx_db0 cx) (cx_prior cx) (fp_place row)
     @ (if fp_state row = not_observed_state
        then detection_protocols (cx_db0 cx) (detected_for cx row) row else [])"

definition prior_set :: "closure_ctx \<Rightarrow> item_fingerprint \<Rightarrow> string option list" where
  "prior_set cx row = filter (\<lambda>p. \<not> non_asset p) (prior_raw cx row)"

definition check_protocols :: "closure_ctx \<Rightarrow> item_fingerprint \<Rightarrow> string option list" where
  "check_protocols cx row =
     (if prior_set cx row \<noteq> [] then prior_set cx row
      else if current_asset (cx_current cx) (fp_place row) \<noteq> []
        then current_asset (cx_current cx) (fp_place row)
      else current_live (cx_current cx) (fp_place row))"

definition check_families :: "closure_ctx \<Rightarrow> item_fingerprint \<Rightarrow> string option list" where
  "check_families cx row = map family_for_protocol (check_protocols cx row)"

definition reclass_baseline_of :: "closure_ctx \<Rightarrow> item_fingerprint \<Rightarrow> string option list" where
  "reclass_baseline_of cx row =
     (if fp_state row \<noteq> not_observed_state then live_families_at (cx_db0 cx) (cx_prior cx) (fp_place row)
      else (case detected_for cx row of
              Some d \<Rightarrow> live_families_at (cx_db0 cx) (fp_scan_run_id d) (fp_place row)
            | None \<Rightarrow> check_families cx row))"

definition closure_verdict ::
    "closure_ctx \<Rightarrow> (string \<times> string) list \<Rightarrow> item_fingerprint \<Rightarrow> verdict" where
  "closure_verdict cx current_fingerprints row =
     (let k = fp_place row; eps = cx_current cx; live = current_live eps k in
      if fp_state row = closed_state then Unchanged
      else if fp_key row \<in> set current_fingerprints then Unchanged
      else if \<not> current_present eps k then RefusedAbsent
      else if live = [] \<or> current_unclassified eps k \<or> current_failed eps k then RefusedProbe
      else if list_ex (\<lambda>p. \<not> truthy p) (prior_raw cx row) then RefusedProbe
      else if fp_state row = not_observed_state \<and> prior_set cx row = [] then RefusedProbe
      else if fp_state row = not_observed_state \<and> detected_for cx row = None then RefusedProbe
      else if None \<in> set (check_families cx row)
              \<or> \<not> host_port_rechecked (check_families cx row) (reclass_baseline_of cx row)
                    (current_live_families eps k) live (cx_health cx)
                    (Some (current_evidenced_families eps k)) then RefusedProbe
      else Close)"

section \<open>Loop state and the two actions of the first loop\<close>

record cstate =
  cs_db :: db
  cs_counters :: counters
  cs_keys :: "(string \<times> string) list"
  cs_items :: "(string \<times> nat) list"
  cs_inserted :: "(string \<times> nat) list"
  cs_closed_slugs :: "string list"
  cs_detecting :: "(string \<times> string) list"

definition write_closure_event :: "closure_event \<Rightarrow> db \<Rightarrow> db_error + db" where
  "write_closure_event ev d =
     (if ev_type ev \<notin> set closure_event_types then Inl (ValueErrorEvent (ev_type ev))
      else Inr (add_event ev d))"

text \<open>A current-scan copy of a prior row, in the given state, linked to the current item of its
  slug when there is one.\<close>

definition current_copy :: "closure_ctx \<Rightarrow> cstate \<Rightarrow> item_fingerprint \<Rightarrow> string \<Rightarrow> item_fingerprint" where
  "current_copy cx s row st =
     \<lparr>fp_id = fresh_fp_id (cs_db s), fp_item_id = map_of (cs_items s) (fp_slug row),
      fp_slug = fp_slug row, fp_scan_run_id = cx_scan cx, fp_fingerprint = fp_fingerprint row,
      fp_host = fp_host row, fp_port = fp_port row, fp_title = fp_title row, fp_state = st,
      fp_observed_at = cx_now cx\<rparr>"

definition insert_copy :: "closure_ctx \<Rightarrow> item_fingerprint \<Rightarrow> string \<Rightarrow> cstate \<Rightarrow> cstate" where
  "insert_copy cx row st s =
     s\<lparr>cs_db := add_fp (current_copy cx s row st) (cs_db s),
       cs_inserted := cs_inserted s @ [(fp_slug row, fresh_fp_id (cs_db s))]\<rparr>"

definition carry_forward :: "closure_ctx \<Rightarrow> item_fingerprint \<Rightarrow> cstate \<Rightarrow> cstate" where
  "carry_forward cx row s =
     (if fp_key row \<in> set (cs_keys s) then s
      else insert_copy cx row not_observed_state (s\<lparr>cs_keys := fp_key row # cs_keys s\<rparr>))"

definition refuse :: "closure_ctx \<Rightarrow> string \<Rightarrow> item_fingerprint \<Rightarrow> cstate \<Rightarrow> cstate" where
  "refuse cx why row s = carry_forward cx row (s\<lparr>cs_counters := bump why (cs_counters s)\<rparr>)"

definition closed_event ::
    "closure_ctx \<Rightarrow> item_fingerprint \<Rightarrow> string \<Rightarrow> closure_event" where
  "closed_event cx row ty =
     \<lparr>ev_slug = fp_slug row, ev_fingerprint = Some (fp_fingerprint row), ev_scan_run_id = cx_scan cx,
      ev_prior_scan_run_id = Some (cx_prior cx), ev_type = ty, ev_from_state = Some (fp_state row),
      ev_to_state = Some closed_state, ev_reason = Some two_sided_reason,
      ev_observed_at = cx_now cx\<rparr>"

definition lineage_state :: "cstate \<Rightarrow> item_fingerprint \<Rightarrow> item_fingerprint option \<Rightarrow> string" where
  "lineage_state s row detected =
     (case detected of
        None \<Rightarrow> fp_state row
      | Some d \<Rightarrow> (case find_fp (cs_db s) (fp_id d) of None \<Rightarrow> fp_state d | Some d' \<Rightarrow> fp_state d'))"

definition close_row :: "closure_ctx \<Rightarrow> item_fingerprint \<Rightarrow> cstate \<Rightarrow> db_error + cstate" where
  "close_row cx row s =
     (let detected = detected_for cx row;
          ty = (if lineage_state s row detected = resurfaced_state then ''reclosed'' else ''closed'');
          d1 = set_fp_state (fp_id row) closed_state (cs_db s) in
      bind_err (write_closure_event (closed_event cx row ty) d1) (\<lambda>d2.
        let d3 = (case detected of None \<Rightarrow> d2 | Some r \<Rightarrow> set_fp_state (fp_id r) closed_state d2);
            s' = s\<lparr>cs_db := d3, cs_counters := bump ty (cs_counters s),
                   cs_closed_slugs := fp_slug row # cs_closed_slugs s,
                   cs_detecting := (case detected of None \<Rightarrow> cs_detecting s
                     | Some r \<Rightarrow> (fp_slug row, fp_scan_run_id r) # cs_detecting s)\<rparr> in
        Inr (insert_copy cx row closed_state s')))"

definition process_prior :: "closure_ctx \<Rightarrow> nat \<Rightarrow> cstate \<Rightarrow> db_error + cstate" where
  "process_prior cx i s =
     (case find_fp (cs_db s) i of
        None \<Rightarrow> Inr s
      | Some row \<Rightarrow>
          (case closure_verdict cx (cs_keys s) row of
             Unchanged \<Rightarrow> Inr (s\<lparr>cs_counters := bump ''unchanged'' (cs_counters s)\<rparr>)
           | RefusedAbsent \<Rightarrow> Inr (refuse cx ''refused_absent_endpoint'' row s)
           | RefusedProbe \<Rightarrow> Inr (refuse cx ''refused_probe'' row s)
           | Close \<Rightarrow> close_row cx row s))"

section \<open>Resurfacing\<close>

definition latest_other_row :: "closure_ctx \<Rightarrow> string \<times> string \<Rightarrow> item_fingerprint option" where
  "latest_other_row cx key =
     first_max (\<lambda>r. (fp_observed_at r, fp_id r))
       (filter (\<lambda>r. fp_key r = key \<and> fp_scan_run_id r \<noteq> cx_scan cx) (db_fps (cx_db0 cx)))"

definition resurfaced_event ::
    "closure_ctx \<Rightarrow> string \<times> string \<Rightarrow> item_fingerprint \<Rightarrow> closure_event" where
  "resurfaced_event cx key latest =
     \<lparr>ev_slug = fst key, ev_fingerprint = Some (snd key), ev_scan_run_id = cx_scan cx,
      ev_prior_scan_run_id = Some (fp_scan_run_id latest), ev_type = ''resurfaced'',
      ev_from_state = Some closed_state, ev_to_state = Some resurfaced_state,
      ev_reason = Some resurface_reason, ev_observed_at = cx_now cx\<rparr>"

definition process_current :: "closure_ctx \<Rightarrow> (string \<times> string) \<times> nat \<Rightarrow> cstate \<Rightarrow> db_error + cstate" where
  "process_current cx kv s =
     (case find_fp (cs_db s) (snd kv) of
        None \<Rightarrow> Inr s
      | Some row \<Rightarrow>
          (if fp_state row \<in> {resurfaced_state, closed_state}
           then Inr (s\<lparr>cs_counters := bump ''unchanged'' (cs_counters s)\<rparr>)
           else (case latest_other_row cx (fst kv) of
                   None \<Rightarrow> Inr s
                 | Some latest \<Rightarrow>
                     (case find_fp (cs_db s) (fp_id latest) of
                        None \<Rightarrow> Inr s
                      | Some latest' \<Rightarrow>
                          (if fp_state latest' \<noteq> closed_state then Inr s
                           else bind_err
                             (write_closure_event (resurfaced_event cx (fst kv) latest')
                                (set_fp_state (fp_id row) resurfaced_state (cs_db s)))
                             (\<lambda>d. Inr (s\<lparr>cs_db := d, cs_counters := bump ''resurfaced'' (cs_counters s)\<rparr>)))))))"

section \<open>Item rollup\<close>

definition items_with :: "db \<Rightarrow> string \<Rightarrow> string \<Rightarrow> remediation_item list" where
  "items_with d slug scan = filter (\<lambda>i. it_slug i = slug \<and> it_scan_run_id i = scan) (db_items d)"

definition fp_states_of :: "db \<Rightarrow> string \<Rightarrow> string \<Rightarrow> string list" where
  "fp_states_of d slug scan =
     map fp_state (filter (\<lambda>r. fp_slug r = slug \<and> fp_scan_run_id r = scan) (db_fps d))"

definition all_closed :: "string list \<Rightarrow> bool" where
  "all_closed states \<longleftrightarrow> states \<noteq> [] \<and> list_all (\<lambda>st. st = closed_state) states"

text \<open>The items of the detecting scans a carried closure flipped: the accumulator is the
  database, whether an item flipped, and the template item.\<close>

type_synonym rollup_acc = "db \<times> bool \<times> remediation_item option"

definition roll_detecting :: "string \<Rightarrow> string \<Rightarrow> rollup_acc \<Rightarrow> db_error + rollup_acc" where
  "roll_detecting slug scan acc =
     (case acc of (d, flipped, template) \<Rightarrow>
        bind_err (one_or_none (items_with d slug scan)) (\<lambda>found.
          case found of
            None \<Rightarrow> Inr acc
          | Some item \<Rightarrow>
              (let template' = (case template of None \<Rightarrow> Some item | Some t \<Rightarrow> Some t) in
               if it_state item = closed_state then Inr (d, flipped, template')
               else if all_closed (fp_states_of d slug scan)
                 then Inr (set_item_state (it_id item) closed_state d, True, template')
               else Inr (d, flipped, template'))))"

definition latest_item :: "closure_ctx \<Rightarrow> db \<Rightarrow> string \<Rightarrow> remediation_item option" where
  "latest_item cx d slug =
     first_max (\<lambda>i. (it_created_at i, it_id i))
       (filter (\<lambda>i. it_slug i = slug \<and> it_scan_run_id i \<noteq> cx_scan cx) (db_items d))"

definition closed_item_from :: "closure_ctx \<Rightarrow> db \<Rightarrow> string \<Rightarrow> remediation_item \<Rightarrow> remediation_item" where
  "closed_item_from cx d slug template =
     \<lparr>it_id = fresh_item_id d, it_slug = slug, it_scan_run_id = cx_scan cx,
      it_title = it_title template, it_phase = it_phase template, it_priority = it_priority template,
      it_constituency = it_constituency template, it_state = closed_state,
      it_first_seen = it_first_seen template, it_created_at = cx_now cx\<rparr>"

definition link_inserted :: "(string \<times> nat) list \<Rightarrow> string \<Rightarrow> nat \<Rightarrow> db \<Rightarrow> db" where
  "link_inserted inserted slug item d =
     d\<lparr>db_fps := map (\<lambda>r. if (slug, fp_id r) \<in> set inserted \<and> fp_item_id r = None
                          then r\<lparr>fp_item_id := Some item\<rparr> else r) (db_fps d)\<rparr>"

definition write_current_item :: "closure_ctx \<Rightarrow> string \<Rightarrow> remediation_item \<Rightarrow> cstate \<Rightarrow> cstate" where
  "write_current_item cx slug template s =
     (let item = closed_item_from cx (cs_db s) slug template in
      s\<lparr>cs_db := link_inserted (cs_inserted s) slug (it_id item) (add_item item (cs_db s)),
        cs_items := dict_put slug (it_id item) (cs_items s)\<rparr>)"

definition detecting_scans_of :: "cstate \<Rightarrow> string \<Rightarrow> string list" where
  "detecting_scans_of s slug =
     sort (remdups (map snd (filter (\<lambda>p. fst p = slug) (cs_detecting s))))"

definition process_slug :: "closure_ctx \<Rightarrow> string \<Rightarrow> cstate \<Rightarrow> db_error + cstate" where
  "process_slug cx slug s =
     bind_err (one_or_none (items_with (cs_db s) slug (cx_prior cx))) (\<lambda>item.
       let every_closed = all_closed (fp_states_of (cs_db s) slug (cx_prior cx));
           flip = (case item of None \<Rightarrow> False | Some i \<Rightarrow> it_state i \<noteq> closed_state \<and> every_closed);
           d1 = (case item of Some i \<Rightarrow> if flip then set_item_state (it_id i) closed_state (cs_db s)
                                        else cs_db s
                 | None \<Rightarrow> cs_db s) in
       bind_err (err_fold (roll_detecting slug) (detecting_scans_of s slug) (d1, flip, item)) (\<lambda>acc.
         case acc of (d2, flipped, template) \<Rightarrow>
           (let s' = s\<lparr>cs_db := d2,
                       cs_counters := (if flipped then bump ''items_closed'' (cs_counters s)
                                       else cs_counters s)\<rparr> in
            if \<not> every_closed \<or> map_of (cs_items s) slug \<noteq> None
               \<or> \<not> (flipped \<or> slug \<in> set (cs_closed_slugs s)) then Inr s'
            else (case (case template of None \<Rightarrow> latest_item cx d2 slug | Some t \<Rightarrow> Some t) of
                    None \<Rightarrow> Inr s'
                  | Some t \<Rightarrow> Inr (write_current_item cx slug t s')))))"

section \<open>The computation\<close>

definition current_fp_rows :: "db \<Rightarrow> string \<Rightarrow> ((string \<times> string) \<times> nat) list" where
  "current_fp_rows d scan = foldl (\<lambda>m r. dict_put (fp_key r) (fp_id r) m) [] (fps_of d scan)"

definition current_items :: "db \<Rightarrow> string \<Rightarrow> (string \<times> nat) list" where
  "current_items d scan = foldl (\<lambda>m i. dict_put (it_slug i) (it_id i) m) [] (items_of d scan)"

definition start_state :: "db \<Rightarrow> string \<Rightarrow> cstate" where
  "start_state d scan =
     \<lparr>cs_db = d, cs_counters = zero_counters, cs_keys = map fst (current_fp_rows d scan),
      cs_items = current_items d scan, cs_inserted = [], cs_closed_slugs = [], cs_detecting = []\<rparr>"

text \<open>\<open>touched_slugs\<close> is a Python set; its slugs are visited here in one fixed order.\<close>

definition touched_slugs :: "db \<Rightarrow> string \<Rightarrow> string list" where
  "touched_slugs d prior = remdups (map fp_slug (fps_of d prior))"

definition run_loops :: "closure_ctx \<Rightarrow> cstate \<Rightarrow> db_error + cstate" where
  "run_loops cx s0 =
     bind_err (err_fold (process_prior cx) (map fp_id (fps_of (cx_db0 cx) (cx_prior cx))) s0) (\<lambda>s1.
     bind_err (err_fold (process_current cx) (current_fp_rows (cx_db0 cx) (cx_scan cx)) s1) (\<lambda>s2.
       err_fold (process_slug cx) (touched_slugs (cx_db0 cx) (cx_prior cx)) s2))"

text \<open>A flush or the commit raises when a unique constraint is broken; rows are never deleted,
  so checking once at the end finds the same violations.\<close>

definition commit :: "cstate \<Rightarrow> db_error + cstate" where
  "commit s = (if constraints_ok (cs_db s) then Inr s else Inl IntegrityError)"

definition closure_ctx_of ::
    "int \<Rightarrow> db \<Rightarrow> string \<Rightarrow> string \<Rightarrow> scope_signature option \<Rightarrow> closure_ctx" where
  "closure_ctx_of now d scan prior current_sig =
     \<lparr>cx_scan = scan, cx_prior = prior, cx_now = now,
      cx_health = load_probe_health current_sig, cx_db0 = d\<rparr>"

definition closure_body :: "int \<Rightarrow> db \<Rightarrow> string \<Rightarrow> db_error + (db \<times> counters)" where
  "closure_body now d scan =
     (case select_prior_scan_run_id d scan of
        None \<Rightarrow> Inr (d, dict_put ''refused_no_prior'' 1 zero_counters)
      | Some prior \<Rightarrow>
          bind_err (scans_are_comparable d scan (Some prior)) (\<lambda>(comparable, reason).
            if \<not> comparable then Inr (d, dict_put (''refused_'' @ reason) 1 zero_counters)
            else bind_err (one_or_none (signatures_of d scan)) (\<lambda>current_sig.
              if current_items d scan = [] \<and> current_fp_rows d scan = [] then
                Inr (d, dict_put ''refused_missing_snapshot'' 1 zero_counters)
              else bind_err (run_loops (closure_ctx_of now d scan prior current_sig)
                               (start_state d scan)) (\<lambda>s.
                     bind_err (commit s) (\<lambda>s'. Inr (cs_db s', cs_counters s'))))))"

text \<open>The guard: every exception is caught, the session is rolled back and zeroed counters are
  returned, so the computation can never fail a scan.\<close>

definition compute_closure :: "int \<Rightarrow> db \<Rightarrow> string \<Rightarrow> string \<Rightarrow> db \<times> counters" where
  "compute_closure now d db_path scan =
     (if db_path = [] \<or> scan = [] then (d, zero_counters)
      else (case closure_body now d scan of
              Inl _ \<Rightarrow> (d, zero_counters)
            | Inr (d', c) \<Rightarrow> (d', c)))"

definition closure_counts :: "db \<Rightarrow> string \<Rightarrow> (string \<times> nat) list" where
  "closure_counts d scan =
     (let count = (\<lambda>st. length (filter (\<lambda>r. fp_state r = st) (fps_of d scan))) in
      map (\<lambda>st. (st, count st)) item_states
      @ [(''open_like'', sum_list (map count open_like_states))])"

end
