(* ===== verification/Closure_Facts.thy ===== *)
theory Closure_Facts
  imports Closure
begin

text \<open>
  Lemmas on the closure computation: how rows evolve, what each action does to the tables, the
  meaning of a closing verdict, and the loop invariants.
\<close>

section \<open>Row evolution\<close>

definition rows_rel :: "(item_fingerprint \<Rightarrow> item_fingerprint \<Rightarrow> bool) \<Rightarrow> db \<Rightarrow> db \<Rightarrow> bool" where
  "rows_rel R d d' \<longleftrightarrow> length (db_fps d) \<le> length (db_fps d') \<and>
     (\<forall>i < length (db_fps d). R (db_fps d ! i) (db_fps d' ! i))"

text \<open>Everything but the state and a missing item link is immutable; a state only moves to
  closed, or to resurfaced on a row of the current scan.\<close>

definition row_evolves :: "string \<Rightarrow> item_fingerprint \<Rightarrow> item_fingerprint \<Rightarrow> bool" where
  "row_evolves scan r r' \<longleftrightarrow>
     r' = r\<lparr>fp_state := fp_state r', fp_item_id := fp_item_id r'\<rparr> \<and>
     (fp_state r' = fp_state r \<or> fp_state r' = closed_state
      \<or> (fp_scan_run_id r = scan \<and> fp_state r' = resurfaced_state)) \<and>
     (fp_item_id r' = fp_item_id r \<or> fp_item_id r = None)"

definition row_maybe_closed :: "item_fingerprint \<Rightarrow> item_fingerprint \<Rightarrow> bool" where
  "row_maybe_closed r r' \<longleftrightarrow> r' = r \<or> r' = r\<lparr>fp_state := closed_state\<rparr>"

definition db_extends :: "string \<Rightarrow> db \<Rightarrow> db \<Rightarrow> bool" where
  "db_extends scan d d' \<longleftrightarrow> rows_rel (row_evolves scan) d d' \<and>
     db_endpoints d' = db_endpoints d \<and> db_signatures d' = db_signatures d \<and>
     (\<exists>evs. db_events d' = db_events d @ evs)"

lemma row_evolves_refl [simp]: "row_evolves scan r r"
  by (simp add: row_evolves_def)

lemma row_evolves_fields:
  "row_evolves scan r r' \<Longrightarrow> fp_id r' = fp_id r \<and> fp_slug r' = fp_slug r \<and>
     fp_scan_run_id r' = fp_scan_run_id r \<and> fp_fingerprint r' = fp_fingerprint r \<and>
     fp_host r' = fp_host r \<and> fp_port r' = fp_port r \<and> fp_observed_at r' = fp_observed_at r \<and>
     fp_title r' = fp_title r"
  by (cases r; cases r') (simp add: row_evolves_def)

lemma row_evolves_trans: "row_evolves scan a b \<Longrightarrow> row_evolves scan b c \<Longrightarrow> row_evolves scan a c"
  by (cases a; cases b; cases c) (auto simp: row_evolves_def)

lemma row_maybe_closed_trans:
  "row_maybe_closed a b \<Longrightarrow> row_maybe_closed b c \<Longrightarrow> row_maybe_closed a c"
  by (auto simp: row_maybe_closed_def)

lemma rows_rel_refl: "(\<And>r. R r r) \<Longrightarrow> rows_rel R d d"
  by (simp add: rows_rel_def)

lemma rows_rel_trans:
  assumes "\<And>a b c. R a b \<Longrightarrow> R b c \<Longrightarrow> R a c"
  shows "rows_rel R d d' \<Longrightarrow> rows_rel R d' d'' \<Longrightarrow> rows_rel R d d''"
  unfolding rows_rel_def by (meson assms less_le_trans order_trans)

lemma db_extends_refl [simp]: "db_extends scan d d"
  by (simp add: db_extends_def rows_rel_refl)

lemma db_extends_trans [trans]:
  assumes "db_extends scan d d'" and "db_extends scan d' d''"
  shows "db_extends scan d d''"
proof -
  from assms have "rows_rel (row_evolves scan) d d'" "rows_rel (row_evolves scan) d' d''"
    by (simp_all add: db_extends_def)
  from rows_rel_trans [OF _ this] row_evolves_trans have "rows_rel (row_evolves scan) d d''"
    by blast
  with assms show ?thesis unfolding db_extends_def by auto
qed

text \<open>The primitive updates.\<close>

named_theorems extends \<open>primitive updates extend the database\<close>

lemma extends_close [extends]: "db_extends scan d (set_fp_state i closed_state d)"
  by (auto simp: db_extends_def rows_rel_def set_fp_state_def row_evolves_def)

lemma extends_add_fp [extends]: "db_extends scan d (add_fp r d)"
  by (auto simp: db_extends_def rows_rel_def add_fp_def nth_append)

lemma extends_add_event [extends]: "db_extends scan d (add_event ev d)"
  by (auto simp: db_extends_def rows_rel_def add_event_def)

lemma extends_item_state [extends]: "db_extends scan d (set_item_state i s d)"
  by (auto simp: db_extends_def rows_rel_def set_item_state_def)

lemma extends_add_item [extends]: "db_extends scan d (add_item i d)"
  by (auto simp: db_extends_def rows_rel_def add_item_def)

lemma extends_link [extends]: "db_extends scan d (link_inserted ins slug item d)"
  by (auto simp: db_extends_def rows_rel_def link_inserted_def row_evolves_def)

lemma extends_resurface:
  assumes "\<And>r. r \<in> set (db_fps d) \<Longrightarrow> fp_id r = i \<Longrightarrow> fp_scan_run_id r = scan"
  shows "db_extends scan d (set_fp_state i resurfaced_state d)"
  using assms
  by (auto simp: db_extends_def rows_rel_def set_fp_state_def row_evolves_def)

lemma write_event_extends:
  "write_closure_event ev d = Inr d' \<Longrightarrow> d' = add_event ev d \<and> db_extends scan d d'"
  using extends_add_event by (auto simp: write_closure_event_def split: if_splits)

section \<open>Finding a row by id\<close>

lemma find_map_of: "find P xs = Some x \<Longrightarrow> x \<in> set xs \<and> P x"
  by (induction xs) (auto split: if_splits)

lemma find_nth_distinct:
  assumes "j < length ys" and "Q (ys ! j)" and "\<And>i. i < j \<Longrightarrow> \<not> Q (ys ! i)"
  shows "find Q ys = Some (ys ! j)"
  using assms
proof (induction ys arbitrary: j)
  case (Cons y ys)
  show ?case
  proof (cases j)
    case 0
    with Cons.prems show ?thesis by simp
  next
    case (Suc k)
    have "\<not> Q y" using Cons.prems(3) [of 0] Suc by simp
    moreover have "find Q ys = Some (ys ! k)"
      using Cons.prems(1,2) Suc Cons.prems(3) [of "Suc _"] by (intro Cons.IH) force+
    ultimately show ?thesis by (simp add: Suc)
  qed
qed simp

lemma find_old_row:
  assumes "distinct (map fp_id (db_fps d0))" and "rows_rel R d0 d"
    and ids: "\<And>a b. R a b \<Longrightarrow> fp_id b = fp_id a" and "r \<in> set (db_fps d0)"
  shows "\<exists>row. find_fp d (fp_id r) = Some row \<and> R r row"
proof -
  from assms(4) obtain j where j: "j < length (db_fps d0)" "db_fps d0 ! j = r"
    by (auto simp: in_set_conv_nth)
  from assms(2) have rel: "\<And>i. i < length (db_fps d0) \<Longrightarrow> R (db_fps d0 ! i) (db_fps d ! i)"
    and len: "length (db_fps d0) \<le> length (db_fps d)" by (auto simp: rows_rel_def)
  have "find (\<lambda>x. fp_id x = fp_id r) (db_fps d) = Some (db_fps d ! j)"
  proof (rule find_nth_distinct)
    show "j < length (db_fps d)" using j len by simp
    show "fp_id (db_fps d ! j) = fp_id r" using ids [OF rel [OF j(1)]] j by simp
    fix i assume "i < j"
    then have "i < length (db_fps d0)" using j by simp
    from ids [OF rel [OF this]] show "fp_id (db_fps d ! i) \<noteq> fp_id r"
      using assms(1) j \<open>i < j\<close> by (auto simp: distinct_conv_nth)
  qed
  with rel [OF j(1)] j show ?thesis by (auto simp: find_fp_def)
qed

section \<open>What a closing verdict means\<close>

definition live_at :: "closure_ctx \<Rightarrow> item_fingerprint \<Rightarrow> crypto_endpoint \<Rightarrow> bool" where
  "live_at cx row e \<longleftrightarrow> e \<in> set (cx_current cx) \<and> ep_key e = fp_place row \<and> row_live e"

definition rechecked_at :: "closure_ctx \<Rightarrow> item_fingerprint \<Rightarrow> string option \<Rightarrow> bool" where
  "rechecked_at cx row fam \<longleftrightarrow> fam \<noteq> None \<and> probe_family_rechecked (cx_health cx) fam \<and>
     ((\<exists>e. live_at cx row e \<and> family_for_protocol (ep_protocol e) = fam
             \<and> endpoint_has_family_evidence e fam)
      \<or> (fam = Some ''http'' \<and>
         (\<exists>e. live_at cx row e \<and> ep_protocol e \<in> Some ` set fingerprint_reclass_protocols)))"

text \<open>The two-sided condition: the fingerprint was present in the prior scan and not yet closed;
  the current scan did not find it, has a live row at its host:port, no failed or unclassified
  row there, and every probe family that reported the place in the prior scan rechecked it
  there.\<close>

definition two_sided :: "closure_ctx \<Rightarrow> item_fingerprint \<Rightarrow> bool" where
  "two_sided cx row \<longleftrightarrow>
     row \<in> set (fps_of (cx_db0 cx) (cx_prior cx)) \<and> fp_state row \<noteq> closed_state \<and>
     (\<forall>r \<in> set (fps_of (cx_db0 cx) (cx_scan cx)). fp_key r \<noteq> fp_key row) \<and>
     (\<exists>e. live_at cx row e) \<and>
     (\<forall>e \<in> set (cx_current cx). ep_key e = fp_place row \<longrightarrow> \<not> row_failed e \<and> \<not> row_unclassified e) \<and>
     (\<forall>e \<in> set (endpoints_of (cx_db0 cx) (cx_prior cx)).
        ep_key e = fp_place row \<and> \<not> non_asset (ep_protocol e) \<longrightarrow>
        rechecked_at cx row (family_for_protocol (ep_protocol e)))"

lemma current_live_iff: "p \<in> set (current_live (cx_current cx) (fp_place row)) \<longleftrightarrow>
    (\<exists>e. live_at cx row e \<and> ep_protocol e = p)"
  by (auto simp: current_live_def at_place_def live_at_def)

lemma evidenced_family:
  "f \<in> set (current_evidenced_families (cx_current cx) (fp_place row)) \<Longrightarrow>
   \<exists>e. live_at cx row e \<and> family_for_protocol (ep_protocol e) = f \<and> endpoint_has_family_evidence e f"
  by (auto simp: current_evidenced_families_def at_place_def live_at_def)

lemma verdict_close_dest:
  assumes "closure_verdict cx keys row = Close"
  shows "fp_state row \<noteq> closed_state" "fp_key row \<notin> set keys"
    "current_live (cx_current cx) (fp_place row) \<noteq> []"
    "\<not> current_unclassified (cx_current cx) (fp_place row)"
    "\<not> current_failed (cx_current cx) (fp_place row)"
    "host_port_rechecked (check_families cx row) (reclass_baseline_of cx row)
       (current_live_families (cx_current cx) (fp_place row))
       (current_live (cx_current cx) (fp_place row)) (cx_health cx)
       (Some (current_evidenced_families (cx_current cx) (fp_place row)))"
  using assms by (auto simp: closure_verdict_def Let_def split: if_splits)

lemma family_rechecked_here_dest:
  assumes "family_rechecked_here base (current_live_families (cx_current cx) (fp_place row))
      (current_live (cx_current cx) (fp_place row)) (cx_health cx)
      (Some (current_evidenced_families (cx_current cx) (fp_place row))) fam"
  shows "rechecked_at cx row fam"
proof -
  have named: "fam \<noteq> None"
    using assms families.recheck_named [of "cx_health cx" fam] by (simp add: family_rechecked_here_def)
  show ?thesis
proof (cases "fam \<in> set (current_live_families (cx_current cx) (fp_place row))")
  case True
  with assms have "fam \<in> set (current_evidenced_families (cx_current cx) (fp_place row))"
    and "probe_family_rechecked (cx_health cx) fam"
    by (auto simp: family_rechecked_here_def)
  with evidenced_family named show ?thesis unfolding rechecked_at_def by blast
next
  case False
  with assms have "fam = Some ''http''" "probe_family_rechecked (cx_health cx) fam"
    and "\<exists>p \<in> set (current_live (cx_current cx) (fp_place row)). p \<in> Some ` set fingerprint_reclass_protocols"
    by (auto simp: family_rechecked_here_def list_ex_iff)
  with current_live_iff named show ?thesis unfolding rechecked_at_def by blast
qed
qed

lemma current_fp_rows_keys:
  "set (map fst (current_fp_rows d scan)) = fp_key ` set (fps_of d scan)"
proof -
  have "fst ` set (foldl (\<lambda>m r. dict_put (fp_key r) (fp_id r) m) m rs)
      = fst ` set m \<union> fp_key ` set rs" for m :: "((string \<times> string) \<times> nat) list" and rs
    by (induction rs arbitrary: m) (auto simp: fst_dict_put)
  then show ?thesis by (simp add: current_fp_rows_def)
qed

lemma verdict_close_two_sided:
  assumes v: "closure_verdict cx keys row = Close"
    and row: "row \<in> set (fps_of (cx_db0 cx) (cx_prior cx))"
    and keys: "fp_key ` set (fps_of (cx_db0 cx) (cx_scan cx)) \<subseteq> set keys"
  shows "two_sided cx row"
proof -
  note d = verdict_close_dest [OF v]
  have live: "\<exists>e. live_at cx row e"
    using d(3) current_live_iff [of _ cx row]
    by (cases "current_live (cx_current cx) (fp_place row)") auto
  have clean: "\<not> row_failed e \<and> \<not> row_unclassified e"
    if "e \<in> set (cx_current cx)" "ep_key e = fp_place row" for e
    using that d(4,5) by (auto simp: current_failed_def current_unclassified_def list_ex_iff at_place_def)
  have "rechecked_at cx row (family_for_protocol (ep_protocol e))"
    if e: "e \<in> set (endpoints_of (cx_db0 cx) (cx_prior cx))" "ep_key e = fp_place row"
      "\<not> non_asset (ep_protocol e)" for e
  proof -
    have "ep_protocol e \<in> set (prior_set cx row)"
      using e by (force simp: prior_set_def prior_raw_def protocols_at_def at_place_def)
    then have mem: "family_for_protocol (ep_protocol e) \<in> set (check_families cx row)"
      by (auto simp: check_families_def check_protocols_def)
    have every: "\<forall>f \<in> set (check_families cx row). family_rechecked_here (reclass_baseline_of cx row)
        (current_live_families (cx_current cx) (fp_place row))
        (current_live (cx_current cx) (fp_place row)) (cx_health cx)
        (Some (current_evidenced_families (cx_current cx) (fp_place row))) f"
      using d(6) by (simp add: host_port_rechecked_def list_all_iff)
    from bspec [OF every mem] show ?thesis by (rule family_rechecked_here_dest)
  qed
  note recheck = this
  have gone: "fp_key r \<noteq> fp_key row" if "r \<in> set (fps_of (cx_db0 cx) (cx_scan cx))" for r
    using that keys d(2) by auto
  show ?thesis unfolding two_sided_def
    by (intro conjI ballI impI live row d(1) gone)
      (use clean recheck in \<open>auto simp: cx_current_def\<close>)
qed

end
