(* ===== verification/Closure_Loops.thy ===== *)
theory Closure_Loops
  imports Closure_Facts
begin

text \<open>
  The invariants of the three loops of \<open>compute_closure\<close>.  The main one relates every stored
  row to its in-memory object: the object is the row, or the row with its state closed, and the
  latter only when the current scan has a row of the same key that it did not have before.
\<close>

section \<open>The invariant\<close>

definition current_keys :: "closure_ctx \<Rightarrow> db \<Rightarrow> (string \<times> string) set" where
  "current_keys cx d = fp_key ` set (fps_of d (cx_scan cx))"

definition row_closed_into ::
    "(string \<times> string) set \<Rightarrow> (string \<times> string) set \<Rightarrow> item_fingerprint \<Rightarrow> item_fingerprint \<Rightarrow> bool" where
  "row_closed_into K C r r' \<longleftrightarrow>
     r' = r \<or> (fp_key r \<notin> K \<and> fp_key r \<in> C \<and> r' = r\<lparr>fp_state := closed_state\<rparr>)"

definition closing_event :: "closure_ctx \<Rightarrow> closure_event \<Rightarrow> bool" where
  "closing_event cx ev \<longleftrightarrow>
     (\<exists>row. two_sided cx row \<and> (ev = closed_event cx row ''closed'' \<or> ev = closed_event cx row ''reclosed''))"

definition loop1_inv :: "closure_ctx \<Rightarrow> cstate \<Rightarrow> bool" where
  "loop1_inv cx s \<longleftrightarrow>
     rows_rel (row_closed_into (current_keys cx (cx_db0 cx)) (current_keys cx (cs_db s))) (cx_db0 cx) (cs_db s) \<and>
     distinct (map fp_id (db_fps (cs_db s))) \<and>
     db_extends (cx_scan cx) (cx_db0 cx) (cs_db s) \<and>
     (\<exists>evs. db_events (cs_db s) = db_events (cx_db0 cx) @ evs \<and> list_all (closing_event cx) evs) \<and>
     current_keys cx (cx_db0 cx) \<subseteq> set (cs_keys s) \<and> set (cs_keys s) \<subseteq> current_keys cx (cs_db s) \<and>
     db_items (cs_db s) = db_items (cx_db0 cx)"

lemma row_closed_into_mono: "row_closed_into K C r r' \<Longrightarrow> C \<subseteq> D \<Longrightarrow> row_closed_into K D r r'"
  by (auto simp: row_closed_into_def)

lemma row_closed_into_id: "row_closed_into K C r r' \<Longrightarrow> fp_id r' = fp_id r"
  by (auto simp: row_closed_into_def)

lemma rows_rel_mono:
  "rows_rel R d d' \<Longrightarrow> (\<And>a b. R a b \<Longrightarrow> S a b) \<Longrightarrow> rows_rel S d d'"
  by (auto simp: rows_rel_def)

lemma current_keys_add_fp:
  "current_keys cx (add_fp r d) =
     (if fp_scan_run_id r = cx_scan cx then insert (fp_key r) (current_keys cx d) else current_keys cx d)"
  by (auto simp: current_keys_def fps_of_def add_fp_def)

lemma current_keys_set_state [simp]: "current_keys cx (set_fp_state i st d) = current_keys cx d"
proof -
  have "fp_key ` set (filter (\<lambda>r. fp_scan_run_id r = scan) (map (\<lambda>r. if fp_id r = i then r\<lparr>fp_state := st\<rparr> else r) rs))
    = fp_key ` set (filter (\<lambda>r. fp_scan_run_id r = scan) rs)" for scan rs
    by (induction rs) (auto simp: fp_key_def)
  then show ?thesis by (simp add: current_keys_def fps_of_def set_fp_state_def)
qed

lemma current_keys_add_event [simp]: "current_keys cx (add_event ev d) = current_keys cx d"
  by (simp add: current_keys_def fps_of_def add_event_def)

section \<open>Updates under the invariant\<close>

lemma ids_set_state [simp]: "map fp_id (db_fps (set_fp_state i st d)) = map fp_id (db_fps d)"
  by (simp add: set_fp_state_def)

lemma ids_add_fp:
  "distinct (map fp_id (db_fps d)) \<Longrightarrow> fp_id r = fresh_fp_id d \<Longrightarrow>
   distinct (map fp_id (db_fps (add_fp r d)))"
  using fresh_fp_id_new by (fastforce simp: add_fp_def)

lemma rows_rel_set_state:
  assumes rel: "rows_rel R d0 d" and dist: "distinct (map fp_id (db_fps d))"
    and row: "row \<in> set (db_fps d)"
    and step: "\<And>r0. r0 \<in> set (db_fps d0) \<Longrightarrow> R r0 row \<Longrightarrow> R r0 (row\<lparr>fp_state := st\<rparr>)"
  shows "rows_rel R d0 (set_fp_state (fp_id row) st d)"
  unfolding rows_rel_def
proof (intro conjI allI impI)
  show "length (db_fps d0) \<le> length (db_fps (set_fp_state (fp_id row) st d))"
    using rel by (simp add: rows_rel_def set_fp_state_def)
  fix i assume i: "i < length (db_fps d0)"
  with rel have len: "i < length (db_fps d)" and R: "R (db_fps d0 ! i) (db_fps d ! i)"
    by (auto simp: rows_rel_def)
  show "R (db_fps d0 ! i) (db_fps (set_fp_state (fp_id row) st d) ! i)"
  proof (cases "fp_id (db_fps d ! i) = fp_id row")
    case True
    have "db_fps d ! i = row"
      by (rule distinct_keys_unique [OF dist _ row True]) (simp add: len)
    with step [of "db_fps d0 ! i"] R i len True show ?thesis by (simp add: set_fp_state_def)
  next
    case False
    with R len show ?thesis by (simp add: set_fp_state_def)
  qed
qed

lemma rows_rel_add_fp: "rows_rel R d0 d \<Longrightarrow> rows_rel R d0 (add_fp r d)"
  by (auto simp: rows_rel_def add_fp_def nth_append)

lemma rows_rel_add_event [simp]: "rows_rel R d0 (add_event ev d) = rows_rel R d0 d"
  by (simp add: rows_rel_def add_event_def)

lemma find_fp_in: "find_fp d i = Some r \<Longrightarrow> r \<in> set (db_fps d) \<and> fp_id r = i"
  unfolding find_fp_def by (rule find_map_of)

lemma current_copy_simps [simp]:
  "fp_id (current_copy cx s row st) = fresh_fp_id (cs_db s)"
  "fp_key (current_copy cx s row st) = fp_key row"
  "fp_scan_run_id (current_copy cx s row st) = cx_scan cx"
  "fp_state (current_copy cx s row st) = st"
  by (simp_all add: current_copy_def fp_key_def)

lemma insert_copy_simps [simp]:
  "cs_db (insert_copy cx row st s) = add_fp (current_copy cx s row st) (cs_db s)"
  "cs_keys (insert_copy cx row st s) = cs_keys s"
  "cs_counters (insert_copy cx row st s) = cs_counters s"
  "cs_items (insert_copy cx row st s) = cs_items s"
  "cs_closed_slugs (insert_copy cx row st s) = cs_closed_slugs s"
  "cs_detecting (insert_copy cx row st s) = cs_detecting s"
  by (simp_all add: insert_copy_def)

lemma current_copy_db_only: "cs_db s = cs_db t \<Longrightarrow> cs_items s = cs_items t \<Longrightarrow>
    current_copy cx s row st = current_copy cx t row st"
  by (simp add: current_copy_def)

lemma loop1_inv_bump: "loop1_inv cx s \<Longrightarrow> loop1_inv cx (s\<lparr>cs_counters := c\<rparr>)"
  by (simp add: loop1_inv_def)

lemma loop1_inv_carry:
  assumes inv: "loop1_inv cx s"
  shows "loop1_inv cx (carry_forward cx row s)"
    and "fp_key row \<in> current_keys cx (cs_db (carry_forward cx row s))"
proof -
  let ?t = "insert_copy cx row not_observed_state (s\<lparr>cs_keys := fp_key row # cs_keys s\<rparr>)"
  have keys: "current_keys cx (cs_db ?t) = insert (fp_key row) (current_keys cx (cs_db s))"
    by (simp add: current_keys_add_fp)
  have "loop1_inv cx ?t" unfolding loop1_inv_def keys
  proof (intro conjI)
    show "rows_rel (row_closed_into (current_keys cx (cx_db0 cx)) (insert (fp_key row) (current_keys cx (cs_db s))))
        (cx_db0 cx) (cs_db ?t)"
      using inv by (auto simp: loop1_inv_def intro!: rows_rel_add_fp
          intro: rows_rel_mono row_closed_into_mono)
    show "distinct (map fp_id (db_fps (cs_db ?t)))"
      using inv by (simp add: loop1_inv_def ids_add_fp)
    show "db_extends (cx_scan cx) (cx_db0 cx) (cs_db ?t)"
      using inv extends_add_fp by (auto simp: loop1_inv_def intro: db_extends_trans)
    show "\<exists>evs. db_events (cs_db ?t) = db_events (cx_db0 cx) @ evs \<and> list_all (closing_event cx) evs"
      using inv by (simp add: loop1_inv_def add_fp_def)
    show "db_items (cs_db ?t) = db_items (cx_db0 cx)"
      using inv by (simp add: loop1_inv_def add_fp_def)
  qed (use inv in \<open>auto simp: loop1_inv_def\<close>)
  with inv show "loop1_inv cx (carry_forward cx row s)" by (simp add: carry_forward_def)
  show "fp_key row \<in> current_keys cx (cs_db (carry_forward cx row s))"
    using inv keys by (auto simp: carry_forward_def loop1_inv_def)
qed

lemma loop1_inv_refuse:
  "loop1_inv cx s \<Longrightarrow>
   loop1_inv cx (refuse cx why row s) \<and> fp_key row \<in> current_keys cx (cs_db (refuse cx why row s))"
  unfolding refuse_def by (intro conjI loop1_inv_carry loop1_inv_bump)

section \<open>Closing a row\<close>

lemma row_close_step:
  "row_closed_into K D r0 x \<Longrightarrow> fp_key x \<notin> K \<Longrightarrow> fp_key x \<in> D \<Longrightarrow>
   row_closed_into K D r0 (x\<lparr>fp_state := closed_state\<rparr>)"
  by (auto simp: row_closed_into_def fp_key_def)

lemma detected_for_dest:
  assumes "detected_for cx row = Some det"
  shows "det \<in> set (db_fps (cx_db0 cx))" "fp_key det = fp_key row" "fp_state det \<in> set open_like_states"
    "fp_scan_run_id det \<noteq> cx_scan cx"
  using assms first_max_Some
  by (fastforce simp: detected_for_def detection_row_def fp_key_def split: if_splits)+

text \<open>What \<open>close_row\<close> produces: the closing event, the row and its detecting row closed, a
  closed copy on the current scan.\<close>

definition closing_type :: "closure_ctx \<Rightarrow> cstate \<Rightarrow> item_fingerprint \<Rightarrow> string" where
  "closing_type cx s row =
     (if lineage_state s row (detected_for cx row) = resurfaced_state then ''reclosed'' else ''closed'')"

definition closed_db :: "closure_ctx \<Rightarrow> item_fingerprint \<Rightarrow> cstate \<Rightarrow> db" where
  "closed_db cx row s =
     (let d2 = add_event (closed_event cx row (closing_type cx s row))
                 (set_fp_state (fp_id row) closed_state (cs_db s)) in
      case detected_for cx row of None \<Rightarrow> d2 | Some r \<Rightarrow> set_fp_state (fp_id r) closed_state d2)"

definition closing_state :: "closure_ctx \<Rightarrow> item_fingerprint \<Rightarrow> cstate \<Rightarrow> cstate" where
  "closing_state cx row s =
     s\<lparr>cs_db := closed_db cx row s, cs_counters := bump (closing_type cx s row) (cs_counters s),
       cs_closed_slugs := fp_slug row # cs_closed_slugs s,
       cs_detecting := (case detected_for cx row of None \<Rightarrow> cs_detecting s
         | Some r \<Rightarrow> (fp_slug row, fp_scan_run_id r) # cs_detecting s)\<rparr>"

lemma closing_type_cases: "closing_type cx s row = ''closed'' \<or> closing_type cx s row = ''reclosed''"
  by (simp add: closing_type_def)

lemma close_row_eq:
  "close_row cx row s = Inr (insert_copy cx row closed_state (closing_state cx row s))"
  using closing_type_cases [of cx s row]
  by (auto simp: close_row_def Let_def write_closure_event_def closure_event_types_def closed_event_def
      closing_state_def closed_db_def closing_type_def split: if_splits)

lemma closed_db_frame [simp]:
  "db_events (closed_db cx row s) = db_events (cs_db s) @ [closed_event cx row (closing_type cx s row)]"
  "db_items (closed_db cx row s) = db_items (cs_db s)"
  "map fp_id (db_fps (closed_db cx row s)) = map fp_id (db_fps (cs_db s))"
  "current_keys cx (closed_db cx row s) = current_keys cx (cs_db s)"
proof -
  have ids: "map fp_id (db_fps (add_event ev d)) = map fp_id (db_fps d)" for ev d
    by (simp add: add_event_def)
  show "db_events (closed_db cx row s) = db_events (cs_db s) @ [closed_event cx row (closing_type cx s row)]"
    "db_items (closed_db cx row s) = db_items (cs_db s)"
    by (auto simp: closed_db_def Let_def set_fp_state_def add_event_def split: option.splits)
  show "map fp_id (db_fps (closed_db cx row s)) = map fp_id (db_fps (cs_db s))"
    "current_keys cx (closed_db cx row s) = current_keys cx (cs_db s)"
    unfolding closed_db_def Let_def
    by (auto simp only: ids ids_set_state current_keys_set_state current_keys_add_event split: option.splits)
qed

lemma closed_db_extends: "db_extends scan (cs_db s) (closed_db cx row s)"
proof -
  let ?d1 = "set_fp_state (fp_id row) closed_state (cs_db s)"
  let ?d2 = "add_event (closed_event cx row (closing_type cx s row)) ?d1"
  have two: "db_extends scan (cs_db s) ?d2"
    by (rule db_extends_trans [OF extends_close extends_add_event])
  show ?thesis
  proof (cases "detected_for cx row")
    case None
    with two show ?thesis by (simp add: closed_db_def Let_def)
  next
    case (Some r)
    with db_extends_trans [OF two extends_close] show ?thesis by (simp add: closed_db_def Let_def)
  qed
qed

lemma closed_db_rows:
  assumes inv: "loop1_inv cx s" and dist0: "distinct (map fp_id (db_fps (cx_db0 cx)))"
    and row: "row \<in> set (db_fps (cs_db s))" and fresh: "fp_key row \<notin> current_keys cx (cx_db0 cx)"
  shows "rows_rel (row_closed_into (current_keys cx (cx_db0 cx)) (insert (fp_key row) (current_keys cx (cs_db s))))
    (cx_db0 cx) (closed_db cx row s)"
proof -
  let ?R = "row_closed_into (current_keys cx (cx_db0 cx)) (insert (fp_key row) (current_keys cx (cs_db s)))"
  let ?d2 = "add_event (closed_event cx row (closing_type cx s row)) (set_fp_state (fp_id row) closed_state (cs_db s))"
  have base: "rows_rel ?R (cx_db0 cx) (cs_db s)"
    using inv by (auto simp: loop1_inv_def intro: rows_rel_mono row_closed_into_mono)
  have dist: "distinct (map fp_id (db_fps (cs_db s)))" using inv by (simp add: loop1_inv_def)
  have step: "?R r0 x \<Longrightarrow> fp_key x = fp_key row \<Longrightarrow> ?R r0 (x\<lparr>fp_state := closed_state\<rparr>)" for r0 x
    using fresh by (intro row_close_step) auto
  have r2: "rows_rel ?R (cx_db0 cx) ?d2"
    using rows_rel_set_state [OF base dist row] step by simp
  have dist2: "distinct (map fp_id (db_fps ?d2))" using dist by (simp add: add_event_def)
  show ?thesis
  proof (cases "detected_for cx row")
    case None
    with r2 show ?thesis by (simp add: closed_db_def Let_def)
  next
    case (Some det)
    note dd = detected_for_dest [OF Some]
    have ids: "\<And>a b. ?R a b \<Longrightarrow> fp_id b = fp_id a" by (rule row_closed_into_id)
    from find_old_row [OF dist0 r2 ids dd(1)] obtain x
      where x: "find_fp ?d2 (fp_id det) = Some x" "?R det x" by blast
    from x(2) dd(2) have "fp_key x = fp_key row" by (auto simp: row_closed_into_def fp_key_def)
    with rows_rel_set_state [OF r2 dist2, of x] find_fp_in [OF x(1)] step
    have "rows_rel ?R (cx_db0 cx) (set_fp_state (fp_id det) closed_state ?d2)" by auto
    with Some show ?thesis by (simp add: closed_db_def Let_def)
  qed
qed

lemma loop1_inv_close:
  assumes inv: "loop1_inv cx s" and dist0: "distinct (map fp_id (db_fps (cx_db0 cx)))"
    and row: "row \<in> set (db_fps (cs_db s))" and two: "two_sided cx row"
    and res: "close_row cx row s = Inr t"
  shows "loop1_inv cx t" and "fp_key row \<in> current_keys cx (cs_db t)"
proof -
  from res have t: "t = insert_copy cx row closed_state (closing_state cx row s)"
    by (simp add: close_row_eq)
  have fresh: "fp_key row \<notin> current_keys cx (cx_db0 cx)"
    using two by (force simp: two_sided_def current_keys_def)
  have db: "cs_db t = add_fp (current_copy cx (closing_state cx row s) row closed_state) (closed_db cx row s)"
    by (simp add: t closing_state_def)
  have keys: "current_keys cx (cs_db t) = insert (fp_key row) (current_keys cx (cs_db s))"
    by (simp add: db current_keys_add_fp)
  have idn: "fp_id (current_copy cx (closing_state cx row s) row closed_state) = fresh_fp_id (closed_db cx row s)"
    by (simp add: closing_state_def)
  have ck: "cs_keys t = cs_keys s" by (simp add: t closing_state_def)
  show "fp_key row \<in> current_keys cx (cs_db t)" by (simp add: keys)
  have ev: "closing_event cx (closed_event cx row (closing_type cx s row))"
    using two closing_type_cases [of cx s row] unfolding closing_event_def by metis
  show "loop1_inv cx t" unfolding loop1_inv_def keys ck
  proof (intro conjI)
    show "rows_rel (row_closed_into (current_keys cx (cx_db0 cx)) (insert (fp_key row) (current_keys cx (cs_db s))))
        (cx_db0 cx) (cs_db t)"
      unfolding db by (rule rows_rel_add_fp [OF closed_db_rows [OF inv dist0 row fresh]])
    show "distinct (map fp_id (db_fps (cs_db t)))"
      unfolding db by (rule ids_add_fp [OF _ idn]) (use inv in \<open>simp add: loop1_inv_def\<close>)
    show "db_extends (cx_scan cx) (cx_db0 cx) (cs_db t)"
    proof -
      have "db_extends (cx_scan cx) (cx_db0 cx) (cs_db s)" using inv by (simp add: loop1_inv_def)
      also have "db_extends (cx_scan cx) (cs_db s) (closed_db cx row s)" by (rule closed_db_extends)
      also have "db_extends (cx_scan cx) (closed_db cx row s) (cs_db t)"
        unfolding db by (rule extends_add_fp)
      finally show ?thesis .
    qed
    show "\<exists>evs. db_events (cs_db t) = db_events (cx_db0 cx) @ evs \<and> list_all (closing_event cx) evs"
      using inv ev by (auto simp: loop1_inv_def db add_fp_def)
    show "db_items (cs_db t) = db_items (cx_db0 cx)"
      using inv by (simp add: loop1_inv_def db add_fp_def)
  qed (use inv in \<open>auto simp: loop1_inv_def\<close>)
qed

section \<open>The first loop\<close>

lemma current_keys_extends:
  assumes "db_extends scan d d'"
  shows "current_keys cx d \<subseteq> current_keys cx d'"
proof
  fix k assume "k \<in> current_keys cx d"
  then obtain r where r: "r \<in> set (db_fps d)" "fp_scan_run_id r = cx_scan cx" "k = fp_key r"
    by (auto simp: current_keys_def fps_of_def)
  then obtain i where i: "i < length (db_fps d)" "db_fps d ! i = r" by (auto simp: in_set_conv_nth)
  with assms have "row_evolves scan r (db_fps d' ! i)" "i < length (db_fps d')"
    by (auto simp: db_extends_def rows_rel_def)
  with r row_evolves_fields [of scan r "db_fps d' ! i"]
  have "db_fps d' ! i \<in> set (fps_of d' (cx_scan cx))" "fp_key (db_fps d' ! i) = k"
    by (simp_all add: fps_of_def fp_key_def)
  then show "k \<in> current_keys cx d'" unfolding current_keys_def by blast
qed

lemma process_prior_step:
  assumes inv: "loop1_inv cx s" and dist0: "distinct (map fp_id (db_fps (cx_db0 cx)))"
    and r0: "r0 \<in> set (fps_of (cx_db0 cx) (cx_prior cx))"
    and res: "process_prior cx (fp_id r0) s = Inr t"
  shows "loop1_inv cx t" and "fp_state r0 = closed_state \<or> fp_key r0 \<in> current_keys cx (cs_db t)"
proof -
  have in0: "r0 \<in> set (db_fps (cx_db0 cx))" using r0 by (simp add: fps_of_def)
  have rel: "rows_rel (row_closed_into (current_keys cx (cx_db0 cx)) (current_keys cx (cs_db s))) (cx_db0 cx) (cs_db s)"
    and keys: "set (cs_keys s) \<subseteq> current_keys cx (cs_db s)" "current_keys cx (cx_db0 cx) \<subseteq> set (cs_keys s)"
    using inv by (auto simp: loop1_inv_def)
  have ids: "\<And>a b. row_closed_into (current_keys cx (cx_db0 cx)) (current_keys cx (cs_db s)) a b \<Longrightarrow>
    fp_id b = fp_id a" by (rule row_closed_into_id)
  from find_old_row [OF dist0 rel ids in0] obtain row
    where row: "find_fp (cs_db s) (fp_id r0) = Some row"
      and R: "row_closed_into (current_keys cx (cx_db0 cx)) (current_keys cx (cs_db s)) r0 row" by blast
  have key: "fp_key row = fp_key r0" using R by (auto simp: row_closed_into_def fp_key_def)
  show "loop1_inv cx t"
    and "fp_state r0 = closed_state \<or> fp_key r0 \<in> current_keys cx (cs_db t)"
  proof (atomize (full), cases "closure_verdict cx (cs_keys s) row")
    case Unchanged
    with res row have t: "t = s\<lparr>cs_counters := bump ''unchanged'' (cs_counters s)\<rparr>"
      by (simp add: process_prior_def)
    have "fp_state row = closed_state \<or> fp_key row \<in> set (cs_keys s)"
      using Unchanged by (auto simp: closure_verdict_def Let_def split: if_splits)
    then show "loop1_inv cx t \<and> (fp_state r0 = closed_state \<or> fp_key r0 \<in> current_keys cx (cs_db t))"
      using R keys key t loop1_inv_bump [OF inv] by (auto simp: row_closed_into_def)
  next
    case RefusedAbsent
    with res row have "t = refuse cx ''refused_absent_endpoint'' row s" by (simp add: process_prior_def)
    then show "loop1_inv cx t \<and> (fp_state r0 = closed_state \<or> fp_key r0 \<in> current_keys cx (cs_db t))"
      using loop1_inv_refuse [OF inv, of _ row] key by simp
  next
    case RefusedProbe
    with res row have "t = refuse cx ''refused_probe'' row s" by (simp add: process_prior_def)
    then show "loop1_inv cx t \<and> (fp_state r0 = closed_state \<or> fp_key r0 \<in> current_keys cx (cs_db t))"
      using loop1_inv_refuse [OF inv, of _ row] key by simp
  next
    case Close
    with res row have c: "close_row cx row s = Inr t" by (simp add: process_prior_def)
    from verdict_close_dest(1) [OF Close] R have "row = r0" by (auto simp: row_closed_into_def)
    with verdict_close_two_sided [OF Close] r0 keys(2) have "two_sided cx row"
      by (simp add: current_keys_def)
    from loop1_inv_close [OF inv dist0 _ this c] find_fp_in [OF row] key
    show "loop1_inv cx t \<and> (fp_state r0 = closed_state \<or> fp_key r0 \<in> current_keys cx (cs_db t))" by auto
  qed
qed

end
