(* ===== verification/Closure_Exact.thy ===== *)
theory Closure_Exact
  imports Closure_Loops
begin

text \<open>
  The first loop computed exactly: under the tables' unique constraints every prior row is
  processed as if it were alone, so the loop never fails, keeps the constraints, and its events
  and counters are those of the rows' verdicts, in the order of the rows.
\<close>

section \<open>Local effect of the updates\<close>

lemma find_fp_set_state_other [simp]:
  "j \<noteq> i \<Longrightarrow> find_fp (set_fp_state i st d) j = find_fp d j"
proof -
  assume "j \<noteq> i"
  then have "find (\<lambda>r. fp_id r = j) (map (\<lambda>r. if fp_id r = i then r\<lparr>fp_state := st\<rparr> else r) rs)
      = find (\<lambda>r. fp_id r = j) rs" for rs :: "item_fingerprint list"
    by (induction rs) auto
  then show ?thesis by (simp add: find_fp_def set_fp_state_def)
qed

lemma find_fp_set_state_same:
  "find_fp d i = Some r \<Longrightarrow> find_fp (set_fp_state i st d) i = Some (r\<lparr>fp_state := st\<rparr>)"
proof -
  have "find (\<lambda>r. fp_id r = i) rs = Some r \<Longrightarrow>
    find (\<lambda>r. fp_id r = i) (map (\<lambda>r. if fp_id r = i then r\<lparr>fp_state := st\<rparr> else r) rs)
      = Some (r\<lparr>fp_state := st\<rparr>)" for rs
    by (induction rs) (auto split: if_splits)
  then show "find_fp d i = Some r \<Longrightarrow> ?thesis" by (simp add: find_fp_def set_fp_state_def)
qed

lemma find_fp_add [simp]: "find_fp d j = Some r \<Longrightarrow> find_fp (add_fp x d) j = Some r"
proof -
  have "find P xs = Some r \<Longrightarrow> find P (xs @ [x]) = Some r" for P and xs :: "item_fingerprint list"
    by (induction xs) auto
  then show "find_fp d j = Some r \<Longrightarrow> ?thesis" by (simp add: find_fp_def add_fp_def)
qed

lemma find_fp_add_event [simp]: "find_fp (add_event ev d) j = find_fp d j"
  by (simp add: find_fp_def add_event_def)

lemma find_fp_member:
  "distinct (map fp_id (db_fps d)) \<Longrightarrow> r \<in> set (db_fps d) \<Longrightarrow> find_fp d (fp_id r) = Some r"
  using find_old_row [of d "(=)" d r] rows_rel_refl [of "(=)" d] by auto

lemma constraints_set_fp_state [simp]: "constraints_ok (set_fp_state i st d) = constraints_ok d"
proof -
  have "map (\<lambda>r. (fp_scan_run_id r, fp_key r)) (db_fps (set_fp_state i st d))
      = map (\<lambda>r. (fp_scan_run_id r, fp_key r)) (db_fps d)"
    by (simp add: set_fp_state_def fp_key_def)
  then show ?thesis by (simp add: constraints_ok_def) (simp add: set_fp_state_def)
qed

lemma constraints_add_event [simp]: "constraints_ok (add_event ev d) = constraints_ok d"
  by (simp add: constraints_ok_def add_event_def)

lemma constraints_add_fp:
  assumes ok: "constraints_ok d" and id: "fp_id r = fresh_fp_id d" and scan: "fp_scan_run_id r = cx_scan cx"
    and new: "fp_key r \<notin> current_keys cx d"
  shows "constraints_ok (add_fp r d)"
proof -
  have "distinct (map fp_id (db_fps (add_fp r d)))"
    using ok by (intro ids_add_fp [OF _ id]) (simp add: constraints_ok_def)
  moreover have "distinct (map (\<lambda>r. (fp_scan_run_id r, fp_key r)) (db_fps (add_fp r d)))"
    using ok new scan by (auto simp: constraints_ok_def add_fp_def current_keys_def fps_of_def)
  ultimately show ?thesis using ok by (simp add: constraints_ok_def add_fp_def)
qed

lemma constraints_closed_db [simp]: "constraints_ok (closed_db cx row s) = constraints_ok (cs_db s)"
  by (auto simp: closed_db_def Let_def split: option.splits)

section \<open>What one prior row contributes\<close>

definition stored_verdict :: "closure_ctx \<Rightarrow> item_fingerprint \<Rightarrow> verdict" where
  "stored_verdict cx row = closure_verdict cx (map fst (current_fp_rows (cx_db0 cx) (cx_scan cx))) row"

text \<open>A closure ends the lineage it detected: reclosed when that lineage had resurfaced.\<close>

definition stored_closing_type :: "closure_ctx \<Rightarrow> item_fingerprint \<Rightarrow> string" where
  "stored_closing_type cx row =
     (if fp_state (case detected_for cx row of None \<Rightarrow> row | Some d \<Rightarrow> d) = resurfaced_state
      then ''reclosed'' else ''closed'')"

definition verdict_counter :: "closure_ctx \<Rightarrow> item_fingerprint \<Rightarrow> string" where
  "verdict_counter cx row =
     (case stored_verdict cx row of
        Unchanged \<Rightarrow> ''unchanged''
      | RefusedAbsent \<Rightarrow> ''refused_absent_endpoint''
      | RefusedProbe \<Rightarrow> ''refused_probe''
      | Close \<Rightarrow> stored_closing_type cx row)"

definition verdict_events :: "closure_ctx \<Rightarrow> item_fingerprint \<Rightarrow> closure_event list" where
  "verdict_events cx row =
     (if stored_verdict cx row = Close then [closed_event cx row (stored_closing_type cx row)] else [])"

definition verdict_slugs :: "closure_ctx \<Rightarrow> item_fingerprint \<Rightarrow> string list" where
  "verdict_slugs cx row = (if stored_verdict cx row = Close then [fp_slug row] else [])"

text \<open>The rows still to visit, as the first visited rows leave them.\<close>

definition pending :: "closure_ctx \<Rightarrow> item_fingerprint list \<Rightarrow> cstate \<Rightarrow> bool" where
  "pending cx rs s \<longleftrightarrow>
     distinct (map fp_key rs) \<and>
     (\<forall>r \<in> set rs. find_fp (cs_db s) (fp_id r) = Some r) \<and>
     (\<forall>r \<in> set rs. \<forall>det. detected_for cx r = Some det \<longrightarrow> find_fp (cs_db s) (fp_id det) = Some det) \<and>
     (\<forall>r \<in> set rs. fp_key r \<in> set (cs_keys s) \<longleftrightarrow> fp_key r \<in> current_keys cx (cx_db0 cx)) \<and>
     (\<forall>r \<in> set rs. fp_key r \<in> current_keys cx (cs_db s) \<longleftrightarrow> fp_key r \<in> current_keys cx (cx_db0 cx))"

lemma closure_verdict_cong:
  "(fp_key row \<in> set keys \<longleftrightarrow> fp_key row \<in> set keys') \<Longrightarrow>
   closure_verdict cx keys row = closure_verdict cx keys' row"
  by (simp only: closure_verdict_def)

lemma stored_verdict_eq:
  "(fp_key row \<in> set keys \<longleftrightarrow> fp_key row \<in> current_keys cx (cx_db0 cx)) \<Longrightarrow>
   closure_verdict cx keys row = stored_verdict cx row"
  unfolding stored_verdict_def
  by (rule closure_verdict_cong) (simp add: current_fp_rows_keys [unfolded set_map] current_keys_def)

lemma verdict_not_unchanged:
  assumes "closure_verdict cx keys row \<noteq> Unchanged"
  shows "fp_key row \<notin> set keys"
proof
  assume "fp_key row \<in> set keys"
  then have "closure_verdict cx keys row = Unchanged" by (simp add: closure_verdict_def Let_def)
  with assms show False ..
qed

section \<open>One step of the first loop\<close>

lemma pending_step:
  assumes p: "pending cx (x # rs) s"
    and rows: "\<And>i r. find_fp (cs_db s) i = Some r \<Longrightarrow> fp_key r \<noteq> fp_key x \<Longrightarrow> find_fp (cs_db t) i = Some r"
    and keys: "\<And>k. k \<noteq> fp_key x \<Longrightarrow> k \<in> set (cs_keys t) \<longleftrightarrow> k \<in> set (cs_keys s)"
    and cur: "\<And>k. k \<noteq> fp_key x \<Longrightarrow> k \<in> current_keys cx (cs_db t) \<longleftrightarrow> k \<in> current_keys cx (cs_db s)"
  shows "pending cx rs t"
proof -
  have "fp_key x \<notin> fp_key ` set rs" using p by (simp add: pending_def)
  then have ne: "fp_key r \<noteq> fp_key x" if "r \<in> set rs" for r using that by (metis image_eqI)
  have det: "find_fp (cs_db t) (fp_id det) = Some det"
    if "r \<in> set rs" "detected_for cx r = Some det" for r det
    using p that ne [OF that(1)] detected_for_dest(2) [OF that(2)]
    by (intro rows) (simp_all add: pending_def)
  show ?thesis unfolding pending_def
  proof (intro conjI ballI allI impI)
    show "distinct (map fp_key rs)" using p by (simp add: pending_def)
    fix r assume r: "r \<in> set rs"
    show "find_fp (cs_db t) (fp_id r) = Some r"
      using p r ne [OF r] by (intro rows) (simp_all add: pending_def)
    show "fp_key r \<in> set (cs_keys t) \<longleftrightarrow> fp_key r \<in> current_keys cx (cx_db0 cx)"
      using p r keys [OF ne [OF r]] by (simp add: pending_def)
    show "fp_key r \<in> current_keys cx (cs_db t) \<longleftrightarrow> fp_key r \<in> current_keys cx (cx_db0 cx)"
      using p r cur [OF ne [OF r]] by (simp add: pending_def)
  qed (use det in blast)
qed

lemma closed_db_find:
  assumes "find_fp (cs_db s) i = Some r" and "fp_key r \<noteq> fp_key row"
    and "find_fp (cs_db s) (fp_id row) = Some row"
    and det: "\<And>det. detected_for cx row = Some det \<Longrightarrow> find_fp (cs_db s) (fp_id det) = Some det"
  shows "find_fp (closed_db cx row s) i = Some r"
proof -
  have "i \<noteq> fp_id row" using assms(1-3) by auto
  moreover have "i \<noteq> fp_id d" if "detected_for cx row = Some d" for d
    using assms(1,2) det [OF that] detected_for_dest(2) [OF that] by auto
  ultimately show ?thesis using assms(1) by (simp add: closed_db_def Let_def split: option.split)
qed

lemma pending_closing_type:
  assumes "pending cx (x # rs) s"
  shows "closing_type cx s x = stored_closing_type cx x"
proof (cases "detected_for cx x")
  case (Some d)
  with assms have "find_fp (cs_db s) (fp_id d) = Some d" by (simp add: pending_def)
  with Some show ?thesis by (simp add: closing_type_def stored_closing_type_def lineage_state_def)
qed (simp add: closing_type_def stored_closing_type_def lineage_state_def)

text \<open>The step: it returns, keeps the constraints and the pending rows, and contributes the
  events, the counter and the closed slug of the row's verdict.\<close>

definition contributes :: "closure_ctx \<Rightarrow> item_fingerprint list \<Rightarrow> cstate \<Rightarrow> cstate \<Rightarrow> bool" where
  "contributes cx rs s t \<longleftrightarrow>
     constraints_ok (cs_db t) \<and>
     db_events (cs_db t) = db_events (cs_db s) @ concat (map (verdict_events cx) rs) \<and>
     cs_counters t = foldl (\<lambda>c r. bump (verdict_counter cx r) c) (cs_counters s) rs \<and>
     cs_closed_slugs t = rev (concat (map (verdict_slugs cx) rs)) @ cs_closed_slugs s \<and>
     cs_items t = cs_items s"

lemma contributes_trans:
  "contributes cx [x] s u \<Longrightarrow> contributes cx rs u t \<Longrightarrow> contributes cx (x # rs) s t"
  by (simp add: contributes_def)

text \<open>Where the step leaves the row, and that it touches no row of another fingerprint.\<close>

definition left_on_scan :: "closure_ctx \<Rightarrow> db \<Rightarrow> item_fingerprint \<Rightarrow> string \<Rightarrow> bool" where
  "left_on_scan cx d row st \<longleftrightarrow>
     (\<exists>i r. find_fp d i = Some r \<and> fp_key r = fp_key row \<and> fp_scan_run_id r = cx_scan cx \<and> fp_state r = st)"

definition row_outcome :: "closure_ctx \<Rightarrow> item_fingerprint \<Rightarrow> db \<Rightarrow> bool" where
  "row_outcome cx row d \<longleftrightarrow>
     (case stored_verdict cx row of
        Unchanged \<Rightarrow> find_fp d (fp_id row) = Some row
      | Close \<Rightarrow> find_fp d (fp_id row) = Some (row\<lparr>fp_state := closed_state\<rparr>) \<and> left_on_scan cx d row closed_state
      | _ \<Rightarrow> find_fp d (fp_id row) = Some row \<and> left_on_scan cx d row not_observed_state)"

definition others_kept :: "item_fingerprint \<Rightarrow> db \<Rightarrow> db \<Rightarrow> bool" where
  "others_kept row d d' \<longleftrightarrow>
     (\<forall>i r. find_fp d i = Some r \<and> fp_key r \<noteq> fp_key row \<longrightarrow> find_fp d' i = Some r)"

lemma row_outcome_kept:
  assumes "row_outcome cx row d" and "others_kept x d d'" and "fp_key row \<noteq> fp_key x"
  shows "row_outcome cx row d'"
proof -
  have left: "left_on_scan cx d row st \<Longrightarrow> left_on_scan cx d' row st" for st
    using assms(2,3) unfolding left_on_scan_def others_kept_def by metis
  have "find_fp d i = Some (row\<lparr>fp_state := st\<rparr>) \<Longrightarrow> find_fp d' i = Some (row\<lparr>fp_state := st\<rparr>)" for i st
    using assms(2,3) by (simp add: others_kept_def fp_key_def)
  moreover have "find_fp d i = Some row \<Longrightarrow> find_fp d' i = Some row" for i
    using assms(2,3) by (simp add: others_kept_def)
  ultimately show ?thesis
    using assms(1) left by (auto simp: row_outcome_def split: verdict.splits)
qed

lemma find_fp_add_new:
  assumes "fp_id r = fresh_fp_id d"
  shows "find_fp (add_fp r d) (fresh_fp_id d) = Some r"
proof -
  have "find (\<lambda>x. fp_id x = fresh_fp_id d) (db_fps d) = None"
    using fresh_fp_id_new by (fastforce simp: find_None_iff)
  moreover have "find P xs = None \<Longrightarrow> P y \<Longrightarrow> find P (xs @ [y]) = Some y" for P and xs :: "item_fingerprint list" and y
    by (induction xs) (auto split: if_splits)
  ultimately show ?thesis using assms by (simp add: find_fp_def add_fp_def)
qed

definition step_effect ::
    "closure_ctx \<Rightarrow> item_fingerprint \<Rightarrow> item_fingerprint list \<Rightarrow> cstate \<Rightarrow> cstate \<Rightarrow> bool" where
  "step_effect cx x rs s t \<longleftrightarrow>
     contributes cx [x] s t \<and> pending cx rs t \<and> others_kept x (cs_db s) (cs_db t) \<and> row_outcome cx x (cs_db t)"

lemma refuse_step:
  assumes p: "pending cx (x # rs) s" and ok: "constraints_ok (cs_db s)"
    and key: "fp_key x \<notin> set (cs_keys s)"
    and v: "stored_verdict cx x = RefusedAbsent \<or> stored_verdict cx x = RefusedProbe"
      "verdict_counter cx x = why"
  shows "step_effect cx x rs s (refuse cx why x s)"
proof -
  let ?s1 = "s\<lparr>cs_counters := bump why (cs_counters s), cs_keys := fp_key x # cs_keys s\<rparr>"
  let ?r = "current_copy cx ?s1 x not_observed_state"
  let ?t = "refuse cx why x s"
  have t: "?t = insert_copy cx x not_observed_state ?s1"
    using key by (simp add: refuse_def carry_forward_def)
  have db: "cs_db ?t = add_fp ?r (cs_db s)" by (simp add: t)
  have "fp_key x \<notin> current_keys cx (cs_db s)" using p key by (simp add: pending_def)
  then have "constraints_ok (cs_db ?t)" unfolding db by (intro constraints_add_fp [OF ok, of _ cx]) simp_all
  moreover have "db_events (cs_db ?t) = db_events (cs_db s)" by (simp add: db add_fp_def)
  moreover have "stored_verdict cx x \<noteq> Close" using v(1) by auto
  ultimately have "contributes cx [x] s ?t"
    using v(2) by (simp add: contributes_def verdict_events_def verdict_slugs_def)
      (simp add: t insert_copy_def)
  moreover have "pending cx rs ?t"
    by (rule pending_step [OF p]) (simp_all add: db current_keys_add_fp, simp_all add: t)
  moreover have "others_kept x (cs_db s) (cs_db ?t)" by (simp add: db others_kept_def)
  moreover have "row_outcome cx x (cs_db ?t)"
  proof -
    have "find_fp (cs_db ?t) (fp_id x) = Some x" using p by (simp add: db pending_def)
    moreover have "find_fp (cs_db ?t) (fresh_fp_id (cs_db s)) = Some ?r"
      unfolding db by (rule find_fp_add_new) simp
    then have "left_on_scan cx (cs_db ?t) x not_observed_state" unfolding left_on_scan_def
      by (intro exI [of _ "fresh_fp_id (cs_db s)"] exI [of _ ?r]) simp
    ultimately show ?thesis using v(1) by (auto simp: row_outcome_def)
  qed
  ultimately show ?thesis by (simp add: step_effect_def)
qed

lemma closed_db_row:
  assumes x: "find_fp (cs_db s) (fp_id x) = Some x"
  shows "find_fp (closed_db cx x s) (fp_id x) = Some (x\<lparr>fp_state := closed_state\<rparr>)"
proof -
  note same = find_fp_set_state_same [OF x, of closed_state]
  show ?thesis
  proof (cases "detected_for cx x")
    case None
    with same show ?thesis by (simp add: closed_db_def Let_def)
  next
    case (Some d)
    with same find_fp_set_state_same [of "add_event ev (set_fp_state (fp_id x) closed_state (cs_db s))" "fp_id x"
        "x\<lparr>fp_state := closed_state\<rparr>" closed_state for ev] show ?thesis
      by (cases "fp_id x = fp_id d") (simp_all add: closed_db_def Let_def)
  qed
qed

lemma close_step:
  assumes p: "pending cx (x # rs) s" and ok: "constraints_ok (cs_db s)"
    and key: "fp_key x \<notin> set (cs_keys s)" and v: "stored_verdict cx x = Close"
  shows "\<exists>t. close_row cx x s = Inr t \<and> step_effect cx x rs s t"
proof -
  let ?s1 = "closing_state cx x s"
  let ?r = "current_copy cx ?s1 x closed_state"
  let ?t = "insert_copy cx x closed_state ?s1"
  have db: "cs_db ?t = add_fp ?r (closed_db cx x s)" by (simp add: closing_state_def)
  have idr: "fp_id ?r = fresh_fp_id (closed_db cx x s)" by (simp add: closing_state_def)
  have ev: "db_events (add_fp r d) = db_events d" for r d by (simp add: add_fp_def)
  have "fp_key x \<notin> current_keys cx (closed_db cx x s)" using p key by (simp add: pending_def)
  then have "constraints_ok (cs_db ?t)" unfolding db
    by (intro constraints_add_fp [of _ _ cx]) (simp_all add: ok closing_state_def)
  moreover have "db_events (cs_db ?t) = db_events (cs_db s) @ [closed_event cx x (stored_closing_type cx x)]"
    unfolding db by (simp add: ev pending_closing_type [OF p])
  ultimately have "contributes cx [x] s ?t"
    using v by (simp add: contributes_def verdict_events_def verdict_slugs_def)
      (simp add: closing_state_def verdict_counter_def pending_closing_type [OF p])
  moreover have kept: "find_fp (cs_db ?t) i = Some r"
    if "find_fp (cs_db s) i = Some r" "fp_key r \<noteq> fp_key x" for i r
    unfolding db using p that by (intro find_fp_add closed_db_find) (simp_all add: pending_def)
  moreover have "pending cx rs ?t"
    by (rule pending_step [OF p kept]) (simp_all add: closing_state_def current_keys_add_fp)
  moreover have "row_outcome cx x (cs_db ?t)"
  proof -
    have "find_fp (cs_db s) (fp_id x) = Some x" using p by (simp add: pending_def)
    from closed_db_row [OF this] have "find_fp (cs_db ?t) (fp_id x) = Some (x\<lparr>fp_state := closed_state\<rparr>)"
      unfolding db by (rule find_fp_add)
    moreover have "find_fp (cs_db ?t) (fresh_fp_id (closed_db cx x s)) = Some ?r"
      unfolding db by (rule find_fp_add_new [OF idr])
    then have "left_on_scan cx (cs_db ?t) x closed_state" unfolding left_on_scan_def
      by (intro exI [of _ "fresh_fp_id (closed_db cx x s)"] exI [of _ ?r]) simp
    ultimately show ?thesis using v by (simp add: row_outcome_def)
  qed
  ultimately show ?thesis using close_row_eq by (auto simp: step_effect_def others_kept_def)
qed

lemma process_prior_exact:
  assumes p: "pending cx (x # rs) s" and ok: "constraints_ok (cs_db s)"
  shows "\<exists>t. process_prior cx (fp_id x) s = Inr t \<and> step_effect cx x rs s t"
proof -
  from p have row: "find_fp (cs_db s) (fp_id x) = Some x"
    and v: "closure_verdict cx (cs_keys s) x = stored_verdict cx x"
    by (auto simp: pending_def intro: stored_verdict_eq)
  show ?thesis
  proof (cases "stored_verdict cx x")
    case Unchanged
    have "pending cx rs (s\<lparr>cs_counters := bump ''unchanged'' (cs_counters s)\<rparr>)"
      by (rule pending_step [OF p]) simp_all
    with Unchanged row v ok show ?thesis
      by (simp add: process_prior_def contributes_def verdict_counter_def verdict_events_def verdict_slugs_def
          step_effect_def others_kept_def row_outcome_def)
  next
    case RefusedAbsent
    with v have "fp_key x \<notin> set (cs_keys s)" by (intro verdict_not_unchanged [of cx]) simp
    from refuse_step [OF p ok this, of "''refused_absent_endpoint''"] RefusedAbsent row v
    show ?thesis by (simp add: process_prior_def verdict_counter_def)
  next
    case RefusedProbe
    with v have "fp_key x \<notin> set (cs_keys s)" by (intro verdict_not_unchanged [of cx]) simp
    from refuse_step [OF p ok this, of "''refused_probe''"] RefusedProbe row v
    show ?thesis by (simp add: process_prior_def verdict_counter_def)
  next
    case Close
    with v have "fp_key x \<notin> set (cs_keys s)" by (intro verdict_not_unchanged [of cx]) simp
    from close_step [OF p ok this Close] Close row v show ?thesis by (simp add: process_prior_def)
  qed
qed

theorem prior_loop_exact:
  "pending cx rs s \<Longrightarrow> constraints_ok (cs_db s) \<Longrightarrow>
   \<exists>t. err_fold (process_prior cx) (map fp_id rs) s = Inr t \<and> contributes cx rs s t \<and>
     (\<forall>x \<in> set rs. row_outcome cx x (cs_db t)) \<and>
     (\<forall>row. fp_key row \<notin> fp_key ` set rs \<longrightarrow> row_outcome cx row (cs_db s) \<longrightarrow> row_outcome cx row (cs_db t))"
proof (induction rs arbitrary: s)
  case Nil
  then show ?case by (simp add: contributes_def)
next
  case (Cons x rs)
  from process_prior_exact [OF Cons.prems] obtain u
    where u: "process_prior cx (fp_id x) s = Inr u" and e: "step_effect cx x rs s u" by blast
  then have c: "contributes cx [x] s u" and p: "pending cx rs u" and k: "others_kept x (cs_db s) (cs_db u)"
    and o: "row_outcome cx x (cs_db u)" by (simp_all add: step_effect_def)
  from Cons.IH [OF p] c obtain t where
    t: "err_fold (process_prior cx) (map fp_id rs) u = Inr t" "contributes cx rs u t"
    and ot: "\<forall>x \<in> set rs. row_outcome cx x (cs_db t)"
    and kt: "\<forall>row. fp_key row \<notin> fp_key ` set rs \<longrightarrow> row_outcome cx row (cs_db u) \<longrightarrow> row_outcome cx row (cs_db t)"
    by (auto simp: contributes_def)
  have "fp_key x \<notin> fp_key ` set rs" using Cons.prems(1) by (simp add: pending_def)
  with kt o have "row_outcome cx x (cs_db t)" by blast
  moreover have "row_outcome cx row (cs_db t)"
    if "fp_key row \<notin> fp_key ` set (x # rs)" "row_outcome cx row (cs_db s)" for row
    using that kt row_outcome_kept [OF that(2) k] by simp
  ultimately show ?case using contributes_trans [OF c t(2)] u t(1) ot by simp
qed

end
