(* ===== verification/Closure_Resurface.thy ===== *)
theory Closure_Resurface
  imports Closure_Exact
begin

text \<open>
  The second loop computed exactly: which rows of the current scan resurface, and the events and
  counters they contribute.  The rows it reads are the stored ones, because the first loop leaves
  every row of a currently detected fingerprint alone.
\<close>

section \<open>The first loop's invariant at its end\<close>

lemma prior_loop_inv:
  assumes dist0: "distinct (map fp_id (db_fps (cx_db0 cx)))" and inv: "loop1_inv cx s"
    and run: "err_fold (process_prior cx) (map fp_id rs) s = Inr t"
    and rs: "set rs \<subseteq> set (fps_of (cx_db0 cx) (cx_prior cx))"
  shows "loop1_inv cx t"
proof (rule err_fold_invariant [OF run, of "loop1_inv cx"])
  show "loop1_inv cx s" by (rule inv)
  fix i u v assume "i \<in> set (map fp_id rs)" and u: "loop1_inv cx u" and v: "process_prior cx i u = Inr v"
  then obtain r where r: "r \<in> set rs" "i = fp_id r" by auto
  with rs have "r \<in> set (fps_of (cx_db0 cx) (cx_prior cx))" by blast
  from process_prior_step(1) [OF u dist0 this] v r(2) show "loop1_inv cx v" by simp
qed

lemma loop1_keeps_current:
  assumes inv: "loop1_inv cx s" and dist0: "distinct (map fp_id (db_fps (cx_db0 cx)))"
    and r: "r \<in> set (db_fps (cx_db0 cx))" and key: "fp_key r \<in> current_keys cx (cx_db0 cx)"
  shows "find_fp (cs_db s) (fp_id r) = Some r"
proof -
  let ?R = "row_closed_into (current_keys cx (cx_db0 cx)) (current_keys cx (cs_db s))"
  have rel: "rows_rel ?R (cx_db0 cx) (cs_db s)" using inv by (simp add: loop1_inv_def)
  have ids: "\<And>a b. ?R a b \<Longrightarrow> fp_id b = fp_id a" by (rule row_closed_into_id)
  from find_old_row [OF dist0 rel ids r] key show ?thesis by (auto simp: row_closed_into_def)
qed

section \<open>What one current row contributes\<close>

definition resurfaced_from :: "closure_ctx \<Rightarrow> item_fingerprint \<Rightarrow> item_fingerprint option" where
  "resurfaced_from cx row =
     (if fp_state row \<in> {resurfaced_state, closed_state} then None
      else (case latest_other_row cx (fp_key row) of
              None \<Rightarrow> None
            | Some latest \<Rightarrow> if fp_state latest = closed_state then Some latest else None))"

definition resurface_events :: "closure_ctx \<Rightarrow> item_fingerprint \<Rightarrow> closure_event list" where
  "resurface_events cx row =
     (case resurfaced_from cx row of
        None \<Rightarrow> [] | Some latest \<Rightarrow> [resurfaced_event cx (fp_key row) latest])"

definition resurface_count :: "closure_ctx \<Rightarrow> counters \<Rightarrow> item_fingerprint \<Rightarrow> counters" where
  "resurface_count cx c row =
     (if fp_state row \<in> {resurfaced_state, closed_state} then bump ''unchanged'' c
      else if resurfaced_from cx row \<noteq> None then bump ''resurfaced'' c else c)"

definition resurfaced_row :: "closure_ctx \<Rightarrow> item_fingerprint \<Rightarrow> item_fingerprint" where
  "resurfaced_row cx row =
     (if resurfaced_from cx row = None then row else row\<lparr>fp_state := resurfaced_state\<rparr>)"

definition waiting :: "closure_ctx \<Rightarrow> item_fingerprint list \<Rightarrow> cstate \<Rightarrow> bool" where
  "waiting cx rs s \<longleftrightarrow>
     distinct (map fp_id rs) \<and> constraints_ok (cs_db s) \<and>
     (\<forall>r \<in> set rs. find_fp (cs_db s) (fp_id r) = Some r \<and> fp_scan_run_id r = cx_scan cx) \<and>
     (\<forall>r \<in> set rs. \<forall>l. latest_other_row cx (fp_key r) = Some l \<longrightarrow> find_fp (cs_db s) (fp_id l) = Some l)"

definition resurfaces :: "closure_ctx \<Rightarrow> item_fingerprint list \<Rightarrow> cstate \<Rightarrow> cstate \<Rightarrow> bool" where
  "resurfaces cx rs s t \<longleftrightarrow>
     constraints_ok (cs_db t) \<and> db_extends (cx_scan cx) (cs_db s) (cs_db t) \<and>
     db_events (cs_db t) = db_events (cs_db s) @ concat (map (resurface_events cx) rs) \<and>
     cs_counters t = foldl (resurface_count cx) (cs_counters s) rs \<and>
     db_items (cs_db t) = db_items (cs_db s) \<and>
     t = s\<lparr>cs_db := cs_db t, cs_counters := cs_counters t\<rparr> \<and>
     (\<forall>i r. find_fp (cs_db s) i = Some r \<longrightarrow>
        find_fp (cs_db t) i = Some (if i \<in> fp_id ` set rs then resurfaced_row cx r else r))"

lemma resurfaces_dest:
  assumes "resurfaces cx rs s t"
  shows "constraints_ok (cs_db t)" "db_extends (cx_scan cx) (cs_db s) (cs_db t)"
    "db_events (cs_db t) = db_events (cs_db s) @ concat (map (resurface_events cx) rs)"
    "cs_counters t = foldl (resurface_count cx) (cs_counters s) rs"
    "db_items (cs_db t) = db_items (cs_db s)"
    "t = s\<lparr>cs_db := cs_db t, cs_counters := cs_counters t\<rparr>"
    "\<And>i r. find_fp (cs_db s) i = Some r \<Longrightarrow>
       find_fp (cs_db t) i = Some (if i \<in> fp_id ` set rs then resurfaced_row cx r else r)"
  using assms unfolding resurfaces_def by blast+

lemma latest_other_dest:
  "latest_other_row cx key = Some l \<Longrightarrow>
   l \<in> set (db_fps (cx_db0 cx)) \<and> fp_key l = key \<and> fp_scan_run_id l \<noteq> cx_scan cx"
  unfolding latest_other_row_def by (drule first_max_Some) simp

section \<open>The step and the loop\<close>

lemma resurfaces_quiet:
  assumes "waiting cx (x # rs) s" and "resurfaced_from cx x = None"
    and "c = resurface_count cx (cs_counters s) x"
  shows "resurfaces cx [x] s (s\<lparr>cs_counters := c\<rparr>) \<and> waiting cx rs (s\<lparr>cs_counters := c\<rparr>)"
proof -
  have "r = x" if "find_fp (cs_db s) (fp_id x) = Some r" for r
    using assms(1) that by (simp add: waiting_def)
  then have "resurfaces cx [x] s (s\<lparr>cs_counters := c\<rparr>)"
    using assms by (auto simp: resurfaces_def resurface_events_def resurfaced_row_def waiting_def)
  moreover have "waiting cx rs (s\<lparr>cs_counters := c\<rparr>)" using assms(1) by (simp add: waiting_def)
  ultimately show ?thesis ..
qed

lemma resurfaces_flip:
  assumes w: "waiting cx (x # rs) s" and src: "resurfaced_from cx x = Some l"
    and t: "t = s\<lparr>cs_db := add_event (resurfaced_event cx (fp_key x) l)
                   (set_fp_state (fp_id x) resurfaced_state (cs_db s)),
                 cs_counters := bump ''resurfaced'' (cs_counters s)\<rparr>"
  shows "resurfaces cx [x] s t \<and> waiting cx rs t"
proof -
  have x: "find_fp (cs_db s) (fp_id x) = Some x" "fp_scan_run_id x = cx_scan cx"
    "fp_id x \<notin> fp_id ` set rs" and ok: "constraints_ok (cs_db s)"
    using w by (auto simp: waiting_def)
  have dist: "distinct (map fp_id (db_fps (cs_db s)))" using ok by (simp add: constraints_ok_def)
  have only: "r = x" if "r \<in> set (db_fps (cs_db s))" "fp_id r = fp_id x" for r
    using find_fp_member [OF dist that(1)] that(2) x(1) by simp
  have state: "fp_state x \<notin> {resurfaced_state, closed_state}"
    using src by (auto simp: resurfaced_from_def split: if_splits)
  have found: "find_fp (cs_db t) i = Some (if i = fp_id x then resurfaced_row cx r else r)"
    if "find_fp (cs_db s) i = Some r" for i r
    using that x(1) src find_fp_set_state_same [OF x(1)]
    by (cases "i = fp_id x") (auto simp: t resurfaced_row_def)
  have "db_extends (cx_scan cx) (cs_db s) (set_fp_state (fp_id x) resurfaced_state (cs_db s))"
    using only x(2) by (intro extends_resurface) auto
  from db_extends_trans [OF this extends_add_event] have ext: "db_extends (cx_scan cx) (cs_db s) (cs_db t)"
    by (simp add: t)
  have "resurfaces cx [x] s t" unfolding resurfaces_def
  proof (intro conjI allI impI)
    show "constraints_ok (cs_db t)" using ok by (simp add: t)
    show "db_extends (cx_scan cx) (cs_db s) (cs_db t)" by (rule ext)
    show "db_events (cs_db t) = db_events (cs_db s) @ concat (map (resurface_events cx) [x])"
      by (simp add: t resurface_events_def src add_event_def set_fp_state_def)
    show "cs_counters t = foldl (resurface_count cx) (cs_counters s) [x]"
      using state by (simp add: t resurface_count_def src)
    show "db_items (cs_db t) = db_items (cs_db s)" by (simp add: t add_event_def set_fp_state_def)
    show "t = s\<lparr>cs_db := cs_db t, cs_counters := cs_counters t\<rparr>" by (simp add: t)
    fix i r assume "find_fp (cs_db s) i = Some r"
    from found [OF this] show "find_fp (cs_db t) i = Some (if i \<in> fp_id ` set [x] then resurfaced_row cx r else r)"
      by simp
  qed
  moreover have "waiting cx rs t" unfolding waiting_def
  proof (intro conjI ballI allI impI)
    show "distinct (map fp_id rs)" using w by (simp add: waiting_def)
    show "constraints_ok (cs_db t)" using ok by (simp add: t)
    fix r assume r: "r \<in> set rs"
    then show "fp_scan_run_id r = cx_scan cx" using w by (simp add: waiting_def)
    have "fp_id r \<noteq> fp_id x" using r x(3) by (metis image_eqI)
    with found [of "fp_id r" r] r w show "find_fp (cs_db t) (fp_id r) = Some r" by (simp add: waiting_def)
    fix l' assume l': "latest_other_row cx (fp_key r) = Some l'"
    then have sl: "find_fp (cs_db s) (fp_id l') = Some l'" using r w by (simp add: waiting_def)
    have "l' \<noteq> x" using x(2) latest_other_dest [OF l'] by blast
    then have "fp_id l' \<noteq> fp_id x" using sl x(1) by (metis option.inject)
    with found [OF sl] show "find_fp (cs_db t) (fp_id l') = Some l'" by simp
  qed
  ultimately show ?thesis ..
qed

lemma process_current_exact:
  assumes w: "waiting cx (x # rs) s"
  shows "\<exists>t. process_current cx (fp_key x, fp_id x) s = Inr t \<and> resurfaces cx [x] s t \<and> waiting cx rs t"
proof (cases "resurfaced_from cx x")
  case None
  have x: "find_fp (cs_db s) (fp_id x) = Some x"
    and l: "\<And>l. latest_other_row cx (fp_key x) = Some l \<Longrightarrow> find_fp (cs_db s) (fp_id l) = Some l"
    using w by (auto simp: waiting_def)
  have "process_current cx (fp_key x, fp_id x) s
      = Inr (s\<lparr>cs_counters := resurface_count cx (cs_counters s) x\<rparr>)"
    using None x l by (cases "latest_other_row cx (fp_key x)")
      (auto simp: process_current_def resurface_count_def resurfaced_from_def split: if_splits)
  with resurfaces_quiet [OF w None refl] show ?thesis by blast
next
  case (Some l)
  have x: "find_fp (cs_db s) (fp_id x) = Some x"
    and l: "\<And>l. latest_other_row cx (fp_key x) = Some l \<Longrightarrow> find_fp (cs_db s) (fp_id l) = Some l"
    using w by (auto simp: waiting_def)
  from Some have src: "latest_other_row cx (fp_key x) = Some l" "fp_state l = closed_state"
    "fp_state x \<notin> {resurfaced_state, closed_state}"
    by (auto simp: resurfaced_from_def split: if_splits option.splits)
  have ty: "ev_type (resurfaced_event cx (fp_key x) l) \<in> set closure_event_types"
    by (simp add: resurfaced_event_def closure_event_types_def)
  from x l [OF src(1)] src ty show ?thesis
    using resurfaces_flip [OF w Some refl]
    by (simp add: process_current_def write_closure_event_def)
qed

lemma resurfaces_trans:
  assumes a: "resurfaces cx [x] s u" and b: "resurfaces cx rs u t" and x: "fp_id x \<notin> fp_id ` set rs"
  shows "resurfaces cx (x # rs) s t"
proof -
  have "find_fp (cs_db t) i = Some (if i \<in> fp_id ` set (x # rs) then resurfaced_row cx r else r)"
    if "find_fp (cs_db s) i = Some r" for i r
  proof -
    have "find_fp (cs_db u) i = Some (if i \<in> fp_id ` set [x] then resurfaced_row cx r else r)"
      using a that by (simp only: resurfaces_def)
    with b have "find_fp (cs_db t) i = Some (if i \<in> fp_id ` set rs
        then resurfaced_row cx (if i \<in> fp_id ` set [x] then resurfaced_row cx r else r)
        else (if i \<in> fp_id ` set [x] then resurfaced_row cx r else r))"
      by (simp only: resurfaces_def)
    with x show ?thesis by (auto split: if_splits)
  qed
  note rows = this
  have rec: "t = s\<lparr>cs_db := cs_db t, cs_counters := cs_counters t\<rparr>"
    using resurfaces_dest(6) [OF a] resurfaces_dest(6) [OF b] by (cases s; cases t; cases u) simp
  show ?thesis unfolding resurfaces_def
  proof (intro conjI allI impI)
    show "db_extends (cx_scan cx) (cs_db s) (cs_db t)"
      by (rule db_extends_trans [OF resurfaces_dest(2) [OF a] resurfaces_dest(2) [OF b]])
    show "db_events (cs_db t) = db_events (cs_db s) @ concat (map (resurface_events cx) (x # rs))"
      by (simp add: resurfaces_dest(3) [OF a] resurfaces_dest(3) [OF b])
    show "cs_counters t = foldl (resurface_count cx) (cs_counters s) (x # rs)"
      by (simp add: resurfaces_dest(4) [OF a] resurfaces_dest(4) [OF b])
    show "db_items (cs_db t) = db_items (cs_db s)"
      by (simp add: resurfaces_dest(5) [OF a] resurfaces_dest(5) [OF b])
    show "constraints_ok (cs_db t)" by (rule resurfaces_dest(1) [OF b])
    show "t = s\<lparr>cs_db := cs_db t, cs_counters := cs_counters t\<rparr>" by (rule rec)
    fix i r assume "find_fp (cs_db s) i = Some r"
    then show "find_fp (cs_db t) i
        = Some (if i \<in> fp_id ` set (x # rs) then resurfaced_row cx r else r)" by (rule rows)
  qed
qed

theorem current_loop_exact:
  "waiting cx rs s \<Longrightarrow>
   \<exists>t. err_fold (process_current cx) (map (\<lambda>r. (fp_key r, fp_id r)) rs) s = Inr t \<and> resurfaces cx rs s t"
proof (induction rs arbitrary: s)
  case Nil
  then show ?case by (simp add: resurfaces_def waiting_def)
next
  case (Cons x rs)
  from process_current_exact [OF Cons.prems] obtain u where
    u: "process_current cx (fp_key x, fp_id x) s = Inr u" "resurfaces cx [x] s u" "waiting cx rs u" by blast
  from Cons.IH [OF u(3)] obtain t where
    t: "err_fold (process_current cx) (map (\<lambda>r. (fp_key r, fp_id r)) rs) u = Inr t" "resurfaces cx rs u t" by blast
  have "fp_id x \<notin> fp_id ` set rs" using Cons.prems by (simp add: waiting_def)
  from resurfaces_trans [OF u(2) t(2) this] u(1) t(1) show ?case by simp
qed

end
