(* ===== verification/Closure_Rollup.thy ===== *)
theory Closure_Rollup
  imports Closure_Resurface
begin

text \<open>
  The third loop: it returns, adds no event, keeps the constraints, and an item becomes closed
  only when every fingerprint row of its slug and scan is closed.
\<close>

definition item_evolves :: "db \<Rightarrow> remediation_item \<Rightarrow> remediation_item \<Rightarrow> bool" where
  "item_evolves b i i' \<longleftrightarrow> i' = i \<or>
     (it_state i \<noteq> closed_state \<and> i' = i\<lparr>it_state := closed_state\<rparr>
      \<and> all_closed (fp_states_of b (it_slug i) (it_scan_run_id i)))"

definition item_created :: "closure_ctx \<Rightarrow> db \<Rightarrow> remediation_item \<Rightarrow> bool" where
  "item_created cx b i \<longleftrightarrow> it_state i = closed_state \<and> it_scan_run_id i = cx_scan cx
     \<and> all_closed (fp_states_of b (it_slug i) (cx_prior cx))"

definition items_roll :: "closure_ctx \<Rightarrow> db \<Rightarrow> db \<Rightarrow> bool" where
  "items_roll cx b d \<longleftrightarrow>
     length (db_items b) \<le> length (db_items d) \<and>
     (\<forall>j < length (db_items d).
        if j < length (db_items b) then item_evolves b (db_items b ! j) (db_items d ! j)
        else item_created cx b (db_items d ! j))"

definition unlinked :: "item_fingerprint \<Rightarrow> item_fingerprint" where
  "unlinked r = r\<lparr>fp_item_id := None\<rparr>"

definition rolled :: "closure_ctx \<Rightarrow> db \<Rightarrow> db \<Rightarrow> bool" where
  "rolled cx b d \<longleftrightarrow>
     constraints_ok d \<and> db_extends (cx_scan cx) b d \<and> db_events d = db_events b \<and>
     map unlinked (db_fps d) = map unlinked (db_fps b) \<and>
     (\<forall>slug scan. fp_states_of d slug scan = fp_states_of b slug scan) \<and> items_roll cx b d"

definition items_covered :: "closure_ctx \<Rightarrow> cstate \<Rightarrow> bool" where
  "items_covered cx s \<longleftrightarrow> (\<forall>i \<in> set (db_items (cs_db s)). it_scan_run_id i = cx_scan cx \<longrightarrow>
     map_of (cs_items s) (it_slug i) \<noteq> None)"

section \<open>Updates\<close>

lemma items_roll_refl: "items_roll cx d d"
  by (simp add: items_roll_def item_evolves_def)

lemma set_item_state_simps [simp]:
  "db_events (set_item_state i st d) = db_events d"
  "db_fps (set_item_state i st d) = db_fps d"
  "fp_states_of (set_item_state i st d) slug scan = fp_states_of d slug scan"
  by (simp_all add: set_item_state_def fp_states_of_def)

lemma constraints_set_item_state [simp]: "constraints_ok (set_item_state i st d) = constraints_ok d"
proof -
  have "map (\<lambda>r. (it_slug r, it_scan_run_id r)) (db_items (set_item_state i st d))
      = map (\<lambda>r. (it_slug r, it_scan_run_id r)) (db_items d)"
    "map it_id (db_items (set_item_state i st d)) = map it_id (db_items d)"
    by (simp_all add: set_item_state_def)
  then show ?thesis by (simp add: constraints_ok_def) (simp add: set_item_state_def)
qed

lemma fp_states_link [simp]: "fp_states_of (link_inserted ins slug i d) s sc = fp_states_of d s sc"
proof -
  have "map fp_state (filter (\<lambda>r. fp_slug r = s \<and> fp_scan_run_id r = sc)
      (map (\<lambda>r. if (slug, fp_id r) \<in> set ins \<and> fp_item_id r = None then r\<lparr>fp_item_id := Some i\<rparr> else r) rs))
    = map fp_state (filter (\<lambda>r. fp_slug r = s \<and> fp_scan_run_id r = sc) rs)" for rs
    by (induction rs) auto
  then show ?thesis by (simp add: fp_states_of_def link_inserted_def)
qed

lemma constraints_link [simp]: "constraints_ok (link_inserted ins slug i d) = constraints_ok d"
proof -
  have "map fp_id (db_fps (link_inserted ins slug i d)) = map fp_id (db_fps d)"
    "map (\<lambda>r. (fp_scan_run_id r, fp_key r)) (db_fps (link_inserted ins slug i d))
      = map (\<lambda>r. (fp_scan_run_id r, fp_key r)) (db_fps d)"
    by (simp_all add: link_inserted_def fp_key_def)
  then show ?thesis by (simp add: constraints_ok_def) (simp add: link_inserted_def)
qed

lemma rolled_close_item:
  assumes r: "rolled cx b d" and item: "item \<in> set (db_items d)" "it_state item \<noteq> closed_state"
    and closed: "all_closed (fp_states_of d (it_slug item) (it_scan_run_id item))"
  shows "rolled cx b (set_item_state (it_id item) closed_state d)"
proof -
  let ?d = "set_item_state (it_id item) closed_state d"
  have dist: "distinct (map it_id (db_items d))" using r by (simp add: rolled_def constraints_ok_def)
  have fps: "all_closed (fp_states_of b (it_slug item) (it_scan_run_id item))"
    using closed r by (simp add: rolled_def)
  have "items_roll cx b ?d" unfolding items_roll_def
  proof (intro conjI allI impI)
    show "length (db_items b) \<le> length (db_items ?d)"
      using r by (simp add: rolled_def items_roll_def set_item_state_def)
    fix j assume "j < length (db_items ?d)"
    then have j: "j < length (db_items d)" by (simp add: set_item_state_def)
    have old: "if j < length (db_items b) then item_evolves b (db_items b ! j) (db_items d ! j)
        else item_created cx b (db_items d ! j)"
      using r j by (simp add: rolled_def items_roll_def)
    show "if j < length (db_items b) then item_evolves b (db_items b ! j) (db_items ?d ! j)
        else item_created cx b (db_items ?d ! j)"
    proof (cases "it_id (db_items d ! j) = it_id item")
      case True
      have "db_items d ! j = item"
        by (rule distinct_keys_unique [OF dist _ item(1) True]) (simp add: j)
      with old item(2) fps j show ?thesis
        by (auto simp: set_item_state_def item_evolves_def item_created_def split: if_splits)
    next
      case False
      with old j show ?thesis by (simp add: set_item_state_def)
    qed
  qed
  with r db_extends_trans [OF _ extends_item_state, of "cx_scan cx" b d] show ?thesis
    by (simp add: rolled_def)
qed

lemma items_with_in: "one_or_none (items_with d slug scan) = Inr (Some i) \<Longrightarrow>
    i \<in> set (db_items d) \<and> it_slug i = slug \<and> it_scan_run_id i = scan"
proof -
  assume "one_or_none (items_with d slug scan) = Inr (Some i)"
  then have "items_with d slug scan = [i]" by (rule one_or_none_Some)
  then have "i \<in> set (items_with d slug scan)" by simp
  then show ?thesis by (simp add: items_with_def)
qed

lemma items_with_returns:
  "constraints_ok d \<Longrightarrow> \<exists>r. one_or_none (items_with d slug scan) = Inr r"
  unfolding items_with_def constraints_ok_def
  by (rule one_or_none_distinct [of "\<lambda>r. (it_slug r, it_scan_run_id r)" _ _ "(slug, scan)"]) auto

section \<open>The detecting scans\<close>

lemma roll_detecting_rolled:
  assumes r: "rolled cx b (fst acc)"
  shows "\<exists>acc'. roll_detecting slug scan acc = Inr acc' \<and> rolled cx b (fst acc')
    \<and> map (\<lambda>i. (it_slug i, it_scan_run_id i)) (db_items (fst acc'))
      = map (\<lambda>i. (it_slug i, it_scan_run_id i)) (db_items (fst acc))"
proof -
  obtain d flipped template where acc: "acc = (d, flipped, template)" by (cases acc)
  have ok: "constraints_ok d" using r acc by (simp add: rolled_def)
  have names: "map (\<lambda>i. (it_slug i, it_scan_run_id i)) (db_items (set_item_state k st d))
      = map (\<lambda>i. (it_slug i, it_scan_run_id i)) (db_items d)" for k st
    by (simp add: set_item_state_def)
  from items_with_returns [OF ok] obtain found where f: "one_or_none (items_with d slug scan) = Inr found" by blast
  show ?thesis
  proof (cases found)
    case None
    with f acc r show ?thesis by (simp add: roll_detecting_def)
  next
    case (Some item)
    note i = items_with_in [OF f [unfolded Some]]
    have "rolled cx b (set_item_state (it_id item) closed_state d)"
      if "it_state item \<noteq> closed_state" "all_closed (fp_states_of d slug scan)"
      using rolled_close_item [of cx b d item] i r acc that by simp
    with f acc r Some names show ?thesis by (auto simp add: roll_detecting_def Let_def)
  qed
qed

lemma roll_all_rolled:
  assumes r: "rolled cx b (fst acc)"
  shows "\<exists>acc'. err_fold (roll_detecting slug) scans acc = Inr acc' \<and> rolled cx b (fst acc')
    \<and> map (\<lambda>i. (it_slug i, it_scan_run_id i)) (db_items (fst acc'))
      = map (\<lambda>i. (it_slug i, it_scan_run_id i)) (db_items (fst acc))"
proof -
  let ?P = "\<lambda>a :: rollup_acc. rolled cx b (fst a) \<and> map (\<lambda>i. (it_slug i, it_scan_run_id i)) (db_items (fst a))
      = map (\<lambda>i. (it_slug i, it_scan_run_id i)) (db_items (fst acc))"
  have "\<exists>t. err_fold (roll_detecting slug) scans acc = Inr t \<and> ?P t"
  proof (rule err_fold_returns)
    show "?P acc" using r by simp
    fix sc a assume "?P a"
    with roll_detecting_rolled [of cx b a slug sc] show "\<exists>t. roll_detecting slug sc a = Inr t \<and> ?P t"
      by auto
  qed
  then show ?thesis by blast
qed

section \<open>A slug\<close>

lemma items_covered_names:
  assumes "items_covered cx s" and "cs_items t = cs_items s"
    and "map (\<lambda>i. (it_slug i, it_scan_run_id i)) (db_items (cs_db t))
      = map (\<lambda>i. (it_slug i, it_scan_run_id i)) (db_items (cs_db s))"
  shows "items_covered cx t"
proof -
  have "map_of (cs_items t) (it_slug i) \<noteq> None" if i: "i \<in> set (db_items (cs_db t))" "it_scan_run_id i = cx_scan cx" for i
  proof -
    have "(it_slug i, it_scan_run_id i) \<in> set (map (\<lambda>i. (it_slug i, it_scan_run_id i)) (db_items (cs_db s)))"
      unfolding assms(3) [symmetric] using i by auto
    then obtain i' where "i' \<in> set (db_items (cs_db s))" "it_slug i' = it_slug i" "it_scan_run_id i' = it_scan_run_id i"
      by auto
    with assms(1,2) i show ?thesis by (auto simp: items_covered_def)
  qed
  then show ?thesis by (simp add: items_covered_def)
qed

lemma items_roll_add:
  assumes "items_roll cx b d" and "item_created cx b i" and "db_items d' = db_items d @ [i]"
  shows "items_roll cx b d'"
  unfolding items_roll_def assms(3)
proof (intro conjI allI impI)
  show "length (db_items b) \<le> length (db_items d @ [i])" using assms(1) by (simp add: items_roll_def)
  fix j assume "j < length (db_items d @ [i])"
  then consider "j < length (db_items d)" | "j = length (db_items d)" by fastforce
  then show "if j < length (db_items b) then item_evolves b (db_items b ! j) ((db_items d @ [i]) ! j)
      else item_created cx b ((db_items d @ [i]) ! j)"
    by cases (use assms(1,2) in \<open>simp_all add: items_roll_def nth_append\<close>)
qed

lemma write_item_rolled:
  assumes r: "rolled cx b (cs_db s)" and cov: "items_covered cx s"
    and none: "map_of (cs_items s) slug = None" and every: "all_closed (fp_states_of b slug (cx_prior cx))"
  shows "rolled cx b (cs_db (write_current_item cx slug tpl s)) \<and> items_covered cx (write_current_item cx slug tpl s)"
proof -
  let ?i = "closed_item_from cx (cs_db s) slug tpl"
  let ?d = "add_item ?i (cs_db s)"
  let ?d' = "link_inserted (cs_inserted s) slug (it_id ?i) ?d"
  have i: "it_id ?i = fresh_item_id (cs_db s)" "it_slug ?i = slug" "it_scan_run_id ?i = cx_scan cx"
    "it_state ?i = closed_state" by (simp_all add: closed_item_from_def)
  have created: "item_created cx b ?i" using every by (simp add: item_created_def i)
  have ok: "constraints_ok (cs_db s)" using r by (simp add: rolled_def)
  have "(slug, cx_scan cx) \<notin> (\<lambda>i. (it_slug i, it_scan_run_id i)) ` set (db_items (cs_db s))"
    using cov none by (auto simp: items_covered_def)
  moreover have "fresh_item_id (cs_db s) \<notin> it_id ` set (db_items (cs_db s))"
    using fresh_item_id_new by fastforce
  ultimately have "constraints_ok ?d"
    using ok i by (simp add: constraints_ok_def add_item_def)
  moreover have "items_roll cx b ?d'"
    by (rule items_roll_add [OF _ created]) (use r in \<open>auto simp: rolled_def link_inserted_def add_item_def\<close>)
  moreover have "db_extends (cx_scan cx) b ?d'"
  proof -
    have "db_extends (cx_scan cx) b (cs_db s)" using r by (simp add: rolled_def)
    from db_extends_trans [OF db_extends_trans [OF this extends_add_item] extends_link] show ?thesis .
  qed
  moreover have "fp_states_of ?d' sl sc = fp_states_of b sl sc" for sl sc
    using r by (simp add: rolled_def) (simp add: fp_states_of_def add_item_def)
  moreover have "db_events ?d' = db_events b" using r by (simp add: rolled_def link_inserted_def add_item_def)
  moreover have "map unlinked (db_fps ?d') = map unlinked (db_fps b)"
  proof -
    have "map unlinked (db_fps ?d') = map unlinked (db_fps (cs_db s))"
      by (simp add: add_item_def link_inserted_def unlinked_def)
    with r show ?thesis by (simp add: rolled_def)
  qed
  ultimately have "rolled cx b ?d'" by (simp add: rolled_def)
  moreover have "items_covered cx (write_current_item cx slug tpl s)"
    using cov i by (auto simp: items_covered_def write_current_item_def Let_def link_inserted_def add_item_def
        map_of_dict_put)
  ultimately show ?thesis by (simp add: write_current_item_def Let_def)
qed

lemma process_slug_rolled:
  assumes r: "rolled cx b (cs_db s)" and cov: "items_covered cx s"
  shows "\<exists>t. process_slug cx slug s = Inr t \<and> rolled cx b (cs_db t) \<and> items_covered cx t"
proof -
  let ?every = "all_closed (fp_states_of (cs_db s) slug (cx_prior cx))"
  have ok: "constraints_ok (cs_db s)" using r by (simp add: rolled_def)
  from items_with_returns [OF ok] obtain item
    where f: "one_or_none (items_with (cs_db s) slug (cx_prior cx)) = Inr item" by blast
  define flip where "flip = (case item of None \<Rightarrow> False | Some i \<Rightarrow> it_state i \<noteq> closed_state \<and> ?every)"
  define d1 where "d1 = (case item of Some i \<Rightarrow> if flip then set_item_state (it_id i) closed_state (cs_db s)
    else cs_db s | None \<Rightarrow> cs_db s)"
  have d1: "rolled cx b d1"
  proof (cases item)
    case (Some i)
    with rolled_close_item [of cx b "cs_db s" i] items_with_in [OF f [unfolded Some]] r show ?thesis
      by (simp add: d1_def flip_def)
  qed (simp add: d1_def r)
  have names1: "map (\<lambda>i. (it_slug i, it_scan_run_id i)) (db_items d1)
      = map (\<lambda>i. (it_slug i, it_scan_run_id i)) (db_items (cs_db s))"
    by (auto simp: d1_def set_item_state_def split: option.split)
  have "rolled cx b (fst (d1, flip, item))" using d1 by simp
  from roll_all_rolled [OF this, of slug "detecting_scans_of s slug"] obtain d2 flipped template where
    acc: "err_fold (roll_detecting slug) (detecting_scans_of s slug) (d1, flip, item) = Inr (d2, flipped, template)"
    and d2: "rolled cx b d2"
    and names2: "map (\<lambda>i. (it_slug i, it_scan_run_id i)) (db_items d2)
      = map (\<lambda>i. (it_slug i, it_scan_run_id i)) (db_items d1)"
    by fastforce
  define s' where "s' = s\<lparr>cs_db := d2,
    cs_counters := (if flipped then bump ''items_closed'' (cs_counters s) else cs_counters s)\<rparr>"
  have db': "cs_db s' = d2" "cs_items s' = cs_items s" by (simp_all add: s'_def)
  have cov': "items_covered cx s'"
    by (rule items_covered_names [OF cov]) (simp_all add: db' names1 names2)
  have eq: "process_slug cx slug s =
     (if \<not> ?every \<or> map_of (cs_items s) slug \<noteq> None \<or> \<not> (flipped \<or> slug \<in> set (cs_closed_slugs s)) then Inr s'
      else (case (case template of None \<Rightarrow> latest_item cx d2 slug | Some t \<Rightarrow> Some t) of
              None \<Rightarrow> Inr s' | Some t \<Rightarrow> Inr (write_current_item cx slug t s')))"
    unfolding process_slug_def f bind_err_simps Let_def flip_def [symmetric] d1_def [symmetric] acc
      prod.case s'_def [symmetric] by (rule refl)
  show ?thesis
  proof (cases "\<not> ?every \<or> map_of (cs_items s) slug \<noteq> None \<or> \<not> (flipped \<or> slug \<in> set (cs_closed_slugs s))")
    case True
    with eq cov' d2 db' show ?thesis by simp
  next
    case False
    then have every: "all_closed (fp_states_of b slug (cx_prior cx))" and none: "map_of (cs_items s') slug = None"
      using r by (simp_all add: rolled_def db')
    have "rolled cx b (cs_db s')" by (simp add: db' d2)
    note w = write_item_rolled [OF this cov' none every]
    from False eq have "process_slug cx slug s =
      (case (case template of None \<Rightarrow> latest_item cx d2 slug | Some t \<Rightarrow> Some t) of
         None \<Rightarrow> Inr s' | Some t \<Rightarrow> Inr (write_current_item cx slug t s'))" by (simp only: if_False)
    with w cov' d2 db' show ?thesis
      by (cases "case template of None \<Rightarrow> latest_item cx d2 slug | Some t \<Rightarrow> Some t") simp_all
  qed
qed

lemma rolled_find:
  assumes "rolled cx b d" and "find_fp b i = Some r"
  shows "\<exists>r'. find_fp d i = Some r' \<and> unlinked r' = unlinked r"
proof -
  have "map_option unlinked (find (\<lambda>x. fp_id x = i) xs) = find (\<lambda>x. fp_id x = i) (map unlinked xs)" for xs
    by (induction xs) (simp_all add: unlinked_def)
  from this [of "db_fps d"] this [of "db_fps b"] assms
  have "map_option unlinked (find_fp d i) = Some (unlinked r)" by (simp add: rolled_def find_fp_def)
  then show ?thesis by blast
qed

theorem slug_loop_rolled:
  assumes "rolled cx b (cs_db s)" and "items_covered cx s"
  shows "\<exists>t. err_fold (process_slug cx) slugs s = Inr t \<and> rolled cx b (cs_db t) \<and> items_covered cx t"
  using err_fold_returns [of "\<lambda>s. rolled cx b (cs_db s) \<and> items_covered cx s" s slugs "process_slug cx"]
    process_slug_rolled assms by blast

lemma slug_end_counters:
  "(if stop then Inr u else (case template of None \<Rightarrow> Inr u | Some i \<Rightarrow> Inr (write_current_item cx slug i u)))
     = Inr t \<Longrightarrow> cs_counters t = cs_counters u"
  by (cases stop; cases template) (auto simp: write_current_item_def Let_def)

lemma process_slug_counters:
  assumes run: "process_slug cx slug s = Inr t" and k: "k \<noteq> ''items_closed''"
  shows "dict_get (cs_counters t) k 0 = dict_get (cs_counters s) k 0"
proof -
  from run obtain item where r1: "bind_err (err_fold (roll_detecting slug) (detecting_scans_of s slug) (item :: rollup_acc))
      (\<lambda>acc. case acc of (d2, flipped, template) \<Rightarrow>
         (let s' = s\<lparr>cs_db := d2,
                     cs_counters := (if flipped then bump ''items_closed'' (cs_counters s) else cs_counters s)\<rparr> in
          if \<not> all_closed (fp_states_of (cs_db s) slug (cx_prior cx)) \<or> map_of (cs_items s) slug \<noteq> None
             \<or> \<not> (flipped \<or> slug \<in> set (cs_closed_slugs s)) then Inr s'
          else (case (case template of None \<Rightarrow> latest_item cx d2 slug | Some t \<Rightarrow> Some t) of
                  None \<Rightarrow> Inr s' | Some t \<Rightarrow> Inr (write_current_item cx slug t s')))) = Inr t"
    unfolding process_slug_def bind_err_Inr [of "one_or_none _"] by (auto simp only: Let_def)
  then obtain d2 flipped template where r2:
      "(let s' = s\<lparr>cs_db := d2,
                     cs_counters := (if flipped then bump ''items_closed'' (cs_counters s) else cs_counters s)\<rparr> in
          if \<not> all_closed (fp_states_of (cs_db s) slug (cx_prior cx)) \<or> map_of (cs_items s) slug \<noteq> None
             \<or> \<not> (flipped \<or> slug \<in> set (cs_closed_slugs s)) then Inr s'
          else (case (case template of None \<Rightarrow> latest_item cx d2 slug | Some t \<Rightarrow> Some t) of
                  None \<Rightarrow> Inr s' | Some t \<Rightarrow> Inr (write_current_item cx slug t s'))) = (Inr t :: db_error + cstate)"
    by (auto simp only: bind_err_Inr)
  from r2 [unfolded Let_def] have "cs_counters t
      = (if flipped then bump ''items_closed'' (cs_counters s) else cs_counters s)"
    by (rule slug_end_counters [THEN trans]) simp
  then show ?thesis using k by (simp add: bump_def dict_simps)
qed

lemma slug_loop_counters:
  assumes "err_fold (process_slug cx) slugs s = Inr t" and "k \<noteq> ''items_closed''"
  shows "dict_get (cs_counters t) k 0 = dict_get (cs_counters s) k 0"
  by (rule err_fold_invariant [OF assms(1)]) (simp_all add: process_slug_counters assms(2))

end
