(* ===== verification/Closure_Runs.thy ===== *)
theory Closure_Runs
  imports Closure_Rollup
begin

text \<open>
  The three loops put together: from a database that keeps its constraints the run returns, and
  everything it did is described by the stored rows.
\<close>

section \<open>The start state\<close>

lemma foldl_dict_put_distinct:
  "distinct (map f xs) \<Longrightarrow> f ` set xs \<inter> fst ` set d = {} \<Longrightarrow>
   foldl (\<lambda>m x. dict_put (f x) (g x) m) d xs = d @ map (\<lambda>x. (f x, g x)) xs"
proof (induction xs arbitrary: d)
  case (Cons x xs)
  then have "dict_put (f x) (g x) d = d @ [(f x, g x)]" by (intro dict_put_new) auto
  with Cons show ?case by auto
qed simp

lemma fps_of_keys_distinct:
  assumes "constraints_ok d"
  shows "distinct (map fp_key (fps_of d scan))" "distinct (map fp_id (fps_of d scan))"
proof -
  have "distinct (map (\<lambda>r. (fp_scan_run_id r, fp_key r)) (fps_of d scan))"
    unfolding fps_of_def using assms by (intro distinct_map_filter) (simp add: constraints_ok_def)
  then have "distinct (map (\<lambda>r. (scan, fp_key r)) (fps_of d scan))"
    by (subst map_cong [OF refl, of "fps_of d scan" _ "\<lambda>r. (fp_scan_run_id r, fp_key r)"])
      (auto simp: fps_of_def)
  then show "distinct (map fp_key (fps_of d scan))" by (auto simp: distinct_map inj_on_def)
  show "distinct (map fp_id (fps_of d scan))"
    unfolding fps_of_def using assms by (intro distinct_map_filter) (simp add: constraints_ok_def)
qed

lemma current_fp_rows_eq:
  "constraints_ok d \<Longrightarrow> current_fp_rows d scan = map (\<lambda>r. (fp_key r, fp_id r)) (fps_of d scan)"
  unfolding current_fp_rows_def by (subst foldl_dict_put_distinct) (simp_all add: fps_of_keys_distinct)

lemma start_pending:
  assumes ok: "constraints_ok (cx_db0 cx)"
  shows "pending cx (fps_of (cx_db0 cx) (cx_prior cx)) (start_state (cx_db0 cx) (cx_scan cx))"
proof -
  have dist: "distinct (map fp_id (db_fps (cx_db0 cx)))" using ok by (simp add: constraints_ok_def)
  have keys: "set (cs_keys (start_state (cx_db0 cx) (cx_scan cx))) = current_keys cx (cx_db0 cx)"
    using current_fp_rows_keys [of "cx_db0 cx" "cx_scan cx"] by (simp add: start_state_def current_keys_def)
  have db: "cs_db (start_state (cx_db0 cx) (cx_scan cx)) = cx_db0 cx" by (simp add: start_state_def)
  show ?thesis unfolding pending_def keys db
    using fps_of_keys_distinct [OF ok] find_fp_member [OF dist] detected_for_dest(1)
    by (auto simp: fps_of_def)
qed

lemma start_loop1_inv:
  assumes ok: "constraints_ok (cx_db0 cx)"
  shows "loop1_inv cx (start_state (cx_db0 cx) (cx_scan cx))"
proof -
  have keys: "set (cs_keys (start_state (cx_db0 cx) (cx_scan cx))) = current_keys cx (cx_db0 cx)"
    using current_fp_rows_keys [of "cx_db0 cx" "cx_scan cx"] by (simp add: start_state_def current_keys_def)
  have db: "cs_db (start_state (cx_db0 cx) (cx_scan cx)) = cx_db0 cx" by (simp add: start_state_def)
  show ?thesis unfolding loop1_inv_def keys db
    using ok by (simp add: constraints_ok_def rows_rel_def row_closed_into_def)
qed

lemma map_of_current_items:
  "i \<in> set (items_of d scan) \<Longrightarrow> map_of (current_items d scan) (it_slug i) \<noteq> None"
proof -
  have "fst ` set (foldl (\<lambda>m i. dict_put (it_slug i) (it_id i) m) m xs) = fst ` set m \<union> it_slug ` set xs"
    for m :: "(string \<times> nat) list" and xs
    by (induction xs arbitrary: m) (auto simp: fst_dict_put)
  from this [of "[]" "items_of d scan"]
  show "i \<in> set (items_of d scan) \<Longrightarrow> ?thesis"
    by (simp add: current_items_def map_of_eq_None_iff)
qed

section \<open>The run\<close>

text \<open>The three intermediate states and what relates them.\<close>

definition closure_run :: "closure_ctx \<Rightarrow> cstate \<Rightarrow> cstate \<Rightarrow> cstate \<Rightarrow> bool" where
  "closure_run cx s1 s2 s3 \<longleftrightarrow>
     contributes cx (fps_of (cx_db0 cx) (cx_prior cx)) (start_state (cx_db0 cx) (cx_scan cx)) s1 \<and>
     (\<forall>r \<in> set (fps_of (cx_db0 cx) (cx_prior cx)). row_outcome cx r (cs_db s1)) \<and>
     loop1_inv cx s1 \<and>
     resurfaces cx (fps_of (cx_db0 cx) (cx_scan cx)) s1 s2 \<and>
     rolled cx (cs_db s2) (cs_db s3) \<and>
     (\<forall>k. k \<noteq> ''items_closed'' \<longrightarrow> dict_get (cs_counters s3) k 0 = dict_get (cs_counters s2) k 0)"

lemma closure_run_exists:
  assumes ok: "constraints_ok (cx_db0 cx)"
  shows "\<exists>s1 s2 s3. run_loops cx (start_state (cx_db0 cx) (cx_scan cx)) = Inr s3 \<and> closure_run cx s1 s2 s3"
proof -
  let ?s0 = "start_state (cx_db0 cx) (cx_scan cx)"
  have db: "cs_db ?s0 = cx_db0 cx" by (simp add: start_state_def)
  have dist: "distinct (map fp_id (db_fps (cx_db0 cx)))" using ok by (simp add: constraints_ok_def)
  have "constraints_ok (cs_db ?s0)" using ok db by simp
  from prior_loop_exact [OF start_pending [OF ok] this] obtain s1
    where s1: "err_fold (process_prior cx) (map fp_id (fps_of (cx_db0 cx) (cx_prior cx))) ?s0 = Inr s1"
      and c: "contributes cx (fps_of (cx_db0 cx) (cx_prior cx)) ?s0 s1"
      and o: "\<forall>r \<in> set (fps_of (cx_db0 cx) (cx_prior cx)). row_outcome cx r (cs_db s1)" by blast
  from prior_loop_inv [OF dist start_loop1_inv [OF ok] s1] have inv: "loop1_inv cx s1" by simp
  have "waiting cx (fps_of (cx_db0 cx) (cx_scan cx)) s1" unfolding waiting_def
  proof (intro conjI ballI allI impI)
    show "distinct (map fp_id (fps_of (cx_db0 cx) (cx_scan cx)))" by (rule fps_of_keys_distinct [OF ok])
    show "constraints_ok (cs_db s1)" using c by (simp add: contributes_def)
    fix r assume r: "r \<in> set (fps_of (cx_db0 cx) (cx_scan cx))"
    then show "fp_scan_run_id r = cx_scan cx" by (simp add: fps_of_def)
    have key: "fp_key r \<in> current_keys cx (cx_db0 cx)" unfolding current_keys_def using r by (rule imageI)
    then show "find_fp (cs_db s1) (fp_id r) = Some r"
      using r by (intro loop1_keeps_current [OF inv dist]) (simp_all add: fps_of_def)
    fix l assume "latest_other_row cx (fp_key r) = Some l"
    from latest_other_dest [OF this] key show "find_fp (cs_db s1) (fp_id l) = Some l"
      by (intro loop1_keeps_current [OF inv dist]) simp_all
  qed
  from current_loop_exact [OF this] obtain s2
    where s2: "err_fold (process_current cx) (current_fp_rows (cx_db0 cx) (cx_scan cx)) s1 = Inr s2"
      and r: "resurfaces cx (fps_of (cx_db0 cx) (cx_scan cx)) s1 s2"
    by (auto simp: current_fp_rows_eq [OF ok])
  have "rolled cx (cs_db s2) (cs_db s2)"
    using resurfaces_dest(1) [OF r] by (simp add: rolled_def items_roll_refl)
  moreover have "items_covered cx s2"
  proof -
    have "cs_items s2 = cs_items s1" using resurfaces_dest(6) [OF r] by (cases s1; cases s2) simp
    also have "\<dots> = current_items (cx_db0 cx) (cx_scan cx)" using c by (simp add: contributes_def start_state_def)
    finally have "cs_items s2 = current_items (cx_db0 cx) (cx_scan cx)" .
    moreover have "db_items (cs_db s2) = db_items (cx_db0 cx)"
      using resurfaces_dest(5) [OF r] inv by (simp add: loop1_inv_def)
    ultimately show ?thesis using map_of_current_items [of _ "cx_db0 cx" "cx_scan cx"]
      by (simp add: items_covered_def items_of_def)
  qed
  ultimately obtain s3 where s3: "err_fold (process_slug cx) (touched_slugs (cx_db0 cx) (cx_prior cx)) s2 = Inr s3"
    and roll: "rolled cx (cs_db s2) (cs_db s3)"
    using slug_loop_rolled by blast
  have "closure_run cx s1 s2 s3"
    unfolding closure_run_def using slug_loop_counters [OF s3] c o inv r roll by blast
  moreover have "run_loops cx ?s0 = Inr s3" by (simp add: run_loops_def s1 s2 s3)
  ultimately show ?thesis by blast
qed

section \<open>When closure runs\<close>

text \<open>The gates passed: a prior scan, one signature each, comparable, a snapshot of the current
  scan.\<close>

definition closure_proceeds :: "db \<Rightarrow> string \<Rightarrow> string \<Rightarrow> scope_signature \<Rightarrow> bool" where
  "closure_proceeds d scan prior sig \<longleftrightarrow>
     select_prior_scan_run_id d scan = Some prior \<and>
     (\<exists>reason. scans_are_comparable d scan (Some prior) = Inr (True, reason)) \<and>
     signatures_of d scan = [sig] \<and>
     \<not> (current_items d scan = [] \<and> current_fp_rows d scan = [])"

lemma closure_body_runs:
  assumes ok: "constraints_ok d" and p: "closure_proceeds d scan prior sig"
  shows "\<exists>s1 s2 s3. closure_body now d scan = Inr (cs_db s3, cs_counters s3) \<and>
    closure_run (closure_ctx_of now d scan prior (Some sig)) s1 s2 s3"
proof -
  let ?cx = "closure_ctx_of now d scan prior (Some sig)"
  have cx: "cx_db0 ?cx = d" "cx_scan ?cx = scan" by (simp_all add: closure_ctx_of_def)
  from closure_run_exists [of ?cx] ok cx obtain s1 s2 s3
    where run: "run_loops ?cx (start_state d scan) = Inr s3" and r: "closure_run ?cx s1 s2 s3" by auto
  have "constraints_ok (cs_db s3)" using r by (simp add: closure_run_def rolled_def)
  with p run have "closure_body now d scan = Inr (cs_db s3, cs_counters s3)"
    by (auto simp: closure_body_def closure_proceeds_def one_or_none_def commit_def)
  with r show ?thesis by blast
qed

lemma select_prior_dest:
  assumes "select_prior_scan_run_id d scan = Some prior"
  shows "prior \<noteq> scan" "\<exists>s \<in> set (db_signatures d). sg_scan_run_id s = prior"
  using assms first_max_Some by (fastforce simp: select_prior_scan_run_id_def)+

lemma signatures_returns: "constraints_ok d \<Longrightarrow> \<exists>r. one_or_none (signatures_of d scan) = Inr r"
  unfolding signatures_of_def constraints_ok_def
  by (rule one_or_none_distinct [of sg_scan_run_id _ _ scan]) auto

lemma comparable_returns:
  "constraints_ok d \<Longrightarrow> \<exists>r. scans_are_comparable d scan prior = Inr r"
  using signatures_returns [of d scan] signatures_returns [of d "py_or_str prior"]
  by (auto simp: scans_are_comparable_def)

lemma comparable_dest:
  assumes "scans_are_comparable d scan (Some prior) = Inr (True, why)"
  shows "\<exists>cs ps. signatures_of d scan = [cs] \<and> signatures_of d prior = [ps] \<and> sg_digest cs = sg_digest ps
    \<and> sg_version cs = Some scope_signature_version \<and> sg_version ps = Some scope_signature_version
    \<and> truthy (sg_target_set_digest cs) \<and> truthy (sg_target_set_digest ps)"
proof -
  have "truthy (Some prior)" using assms by (simp add: scans_are_comparable_def split: if_splits)
  then have ne: "py_or_str (Some prior) = prior" by (simp add: truthy_def py_or_str_def)
  from assms obtain cs ps where q: "one_or_none (signatures_of d scan) = Inr cs"
      "one_or_none (signatures_of d prior) = Inr ps" "comparability cs ps = (True, why)"
    by (auto simp: scans_are_comparable_def bind_err_Inr ne split: if_splits)
  obtain c p where cp: "cs = Some c" "ps = Some p"
    using q(3) by (cases cs; cases ps) (simp_all add: comparability_def)
  with one_or_none_Some q(1,2) have "signatures_of d scan = [c]" "signatures_of d prior = [p]" by fast+
  moreover have "sg_digest c = sg_digest p \<and> sg_version c = Some scope_signature_version
    \<and> sg_version p = Some scope_signature_version \<and> truthy (sg_target_set_digest c)
    \<and> truthy (sg_target_set_digest p)"
    using q(3) unfolding cp by (simp add: comparability_def split: if_splits)
  ultimately show ?thesis by blast
qed

lemma closure_body_cases:
  assumes ok: "constraints_ok d"
  shows "(\<exists>why. closure_body now d scan = Inr (d, dict_put (''refused_'' @ why) 1 zero_counters)) \<or> (\<exists>prior sig. closure_proceeds d scan prior sig)"
proof (cases "select_prior_scan_run_id d scan")
  case None
  then have "closure_body now d scan = Inr (d, dict_put (''refused_'' @ ''no_prior'') 1 zero_counters)"
    by (simp add: closure_body_def)
  then show ?thesis by blast
next
  case (Some prior)
  from comparable_returns [OF ok] obtain c why where cmp: "scans_are_comparable d scan (Some prior) = Inr (c, why)"
    by (metis surj_pair)
  from signatures_returns [OF ok] obtain sig where sig: "one_or_none (signatures_of d scan) = Inr sig" by blast
  show ?thesis
  proof (cases "c \<and> \<not> (current_items d scan = [] \<and> current_fp_rows d scan = [])")
    case False
    have "closure_body now d scan = Inr (d, dict_put
      (''refused_'' @ (if c then ''missing_snapshot'' else why)) 1 zero_counters)"
      using False Some cmp sig by (simp add: closure_body_def)
    then show ?thesis by blast
  next
    case True
    with cmp comparable_dest obtain cs where "signatures_of d scan = [cs]" by metis
    with True Some cmp have "closure_proceeds d scan prior cs" by (simp add: closure_proceeds_def)
    then show ?thesis by blast
  qed
qed

end
