(* ===== verification/Closure_Properties.thy ===== *)
theory Closure_Properties
  imports Closure_Runs
begin

text \<open>
  What \<open>compute_closure\<close> guarantees, stated on its result, with a small database on which
  every branch of the first two loops is taken.
\<close>

section \<open>A sample database\<close>

definition sample_endpoint :: "string \<Rightarrow> string \<Rightarrow> crypto_endpoint" where
  "sample_endpoint host scan =
     \<lparr>ep_host = host, ep_port = 443, ep_protocol = Some ''TLS'', ep_scan_run_id = scan,
      ep_scan_error = None, ep_tls_blocker_reason = None, ep_tls_version = Some ''TLSv1.3'',
      ep_cipher_suite = None, ep_cert_sig_alg = None, ep_cert_pubkey_alg = None,
      ep_service_detail = None, ep_tls_capabilities_json = Some ''{1}'', ep_ssh_audit_json = None,
      ep_jwt_scan_json = None, ep_container_scan_json = None, ep_source_scan_json = None,
      ep_kerberos_scan_json = None, ep_saml_scan_json = None, ep_dnssec_scan_json = None,
      ep_smime_scan_json = None, ep_codesign_scan_json = None, ep_email_scan_json = None,
      ep_broker_scan_json = None\<rparr>"

definition sample_fp ::
    "nat \<Rightarrow> string \<Rightarrow> string \<Rightarrow> string \<Rightarrow> string \<Rightarrow> string \<Rightarrow> int \<Rightarrow> item_fingerprint" where
  "sample_fp i slug f host scan st t =
     \<lparr>fp_id = i, fp_item_id = None, fp_slug = slug, fp_scan_run_id = scan, fp_fingerprint = f,
      fp_host = Some host, fp_port = Some 443, fp_title = None, fp_state = st, fp_observed_at = t\<rparr>"

definition sample_signature :: "string \<Rightarrow> int \<Rightarrow> scope_signature" where
  "sample_signature scan t =
     \<lparr>sg_scan_run_id = scan, sg_version = Some scope_signature_version, sg_port_scope = None,
      sg_profile = None, sg_extras_present = [], sg_credentials_present = [], sg_sensor_set = [],
      sg_target_set_digest = Some ''t'',
      sg_probe_health = Some (PyDict [(''tls'', PyDict [(''status'', PyStr ''healthy'')])]),
      sg_digest = ''d'', sg_created_at = t\<rparr>"

definition sample_item :: "nat \<Rightarrow> string \<Rightarrow> string \<Rightarrow> remediation_item" where
  "sample_item i slug scan =
     \<lparr>it_id = i, it_slug = slug, it_scan_run_id = scan, it_title = None, it_phase = None,
      it_priority = None, it_constituency = None, it_state = ''open'', it_first_seen = None,
      it_created_at = 1\<rparr>"

definition sample_db :: db where
  "sample_db =
     \<lparr>db_endpoints = [sample_endpoint ''h'' ''A'', sample_endpoint ''g'' ''A'', sample_endpoint ''h'' ''B''],
      db_items = [sample_item 1 ''s'' ''A''],
      db_fps = [sample_fp 1 ''s'' ''f1'' ''h'' ''A'' ''open'' 1,
                sample_fp 2 ''r'' ''f2'' ''g'' ''A'' ''open'' 1,
                sample_fp 3 ''q'' ''f3'' ''h'' ''A'' ''closed'' 1,
                sample_fp 4 ''q'' ''f3'' ''h'' ''B'' ''open'' 2],
      db_events = [],
      db_signatures = [sample_signature ''A'' 1, sample_signature ''B'' 2]\<rparr>"

lemmas sample_defs = sample_db_def sample_endpoint_def sample_fp_def sample_signature_def sample_item_def

lemma sample_constraints: "constraints_ok sample_db"
  by (simp add: constraints_ok_def sample_defs fp_key_def)

lemma sample_proceeds: "closure_proceeds sample_db ''B'' ''A'' (sample_signature ''B'' 2)"
  by (simp add: closure_proceeds_def select_prior_scan_run_id_def scans_are_comparable_def truthy_def
      signatures_of_def py_or_str_def one_or_none_def comparability_def current_fp_rows_def fps_of_def
      sample_defs)

section \<open>Facts shared by the properties\<close>

lemma closure_run_dest:
  assumes "closure_run cx s1 s2 s3"
  shows "contributes cx (fps_of (cx_db0 cx) (cx_prior cx)) (start_state (cx_db0 cx) (cx_scan cx)) s1"
    "\<And>r. r \<in> set (fps_of (cx_db0 cx) (cx_prior cx)) \<Longrightarrow> row_outcome cx r (cs_db s1)"
    "loop1_inv cx s1" "resurfaces cx (fps_of (cx_db0 cx) (cx_scan cx)) s1 s2"
    "rolled cx (cs_db s2) (cs_db s3)"
    "\<And>k. k \<noteq> ''items_closed'' \<Longrightarrow> dict_get (cs_counters s3) k 0 = dict_get (cs_counters s2) k 0"
  using assms by (simp_all add: closure_run_def)

lemma closure_run_events:
  assumes "closure_run cx s1 s2 s3"
  shows "db_events (cs_db s3) = db_events (cx_db0 cx)
    @ concat (map (verdict_events cx) (fps_of (cx_db0 cx) (cx_prior cx)))
    @ concat (map (resurface_events cx) (fps_of (cx_db0 cx) (cx_scan cx)))"
  using closure_run_dest(1,5) [OF assms] resurfaces_dest(3) [OF closure_run_dest(4) [OF assms]]
  by (simp add: rolled_def contributes_def start_state_def)

lemma closure_run_extends:
  assumes "closure_run cx s1 s2 s3"
  shows "db_extends (cx_scan cx) (cx_db0 cx) (cs_db s3)"
proof -
  have "db_extends (cx_scan cx) (cx_db0 cx) (cs_db s1)" using assms by (simp add: closure_run_def loop1_inv_def)
  also have "db_extends (cx_scan cx) (cs_db s1) (cs_db s2)"
    by (rule resurfaces_dest(2) [OF closure_run_dest(4) [OF assms]])
  also have "db_extends (cx_scan cx) (cs_db s2) (cs_db s3)"
    using assms by (simp add: closure_run_def rolled_def)
  finally show ?thesis .
qed

lemma closure_ctx_simps [simp]:
  "cx_scan (closure_ctx_of now d scan prior sig) = scan"
  "cx_prior (closure_ctx_of now d scan prior sig) = prior"
  "cx_db0 (closure_ctx_of now d scan prior sig) = d"
  "cx_now (closure_ctx_of now d scan prior sig) = now"
  by (simp_all add: closure_ctx_of_def)

lemma compute_closure_runs:
  assumes "constraints_ok d" and "closure_proceeds d scan prior sig"
    and "db_path \<noteq> []" and "scan \<noteq> []" and "compute_closure now d db_path scan = (d', c)"
  shows "\<exists>s1 s2 s3. d' = cs_db s3 \<and> c = cs_counters s3 \<and>
    closure_run (closure_ctx_of now d scan prior (Some sig)) s1 s2 s3"
proof -
  from closure_body_runs [OF assms(1,2), of now] obtain s1 s2 s3
    where "closure_body now d scan = Inr (cs_db s3, cs_counters s3)"
      and r: "closure_run (closure_ctx_of now d scan prior (Some sig)) s1 s2 s3" by blast
  with assms(3-5) have "d' = cs_db s3" "c = cs_counters s3" by (simp_all add: compute_closure_def)
  with r show ?thesis by blast
qed

text \<open>A row outcome of the first loop survives the other two.\<close>

lemma closure_run_find:
  assumes r: "closure_run cx s1 s2 s3" and f: "find_fp (cs_db s1) i = Some row"
    and key: "i \<notin> fp_id ` set (fps_of (cx_db0 cx) (cx_scan cx))"
  shows "\<exists>row'. find_fp (cs_db s3) i = Some row' \<and> unlinked row' = unlinked row"
proof -
  have "resurfaces cx (fps_of (cx_db0 cx) (cx_scan cx)) s1 s2" using r by (simp add: closure_run_def)
  from resurfaces_dest(7) [OF this f] key have "find_fp (cs_db s2) i = Some row" by simp
  then show ?thesis by (rule rolled_find [OF closure_run_dest(5) [OF r]])
qed

lemma unlinked_fields:
  "unlinked a = unlinked b \<Longrightarrow> fp_key a = fp_key b \<and> fp_state a = fp_state b \<and>
     fp_scan_run_id a = fp_scan_run_id b \<and> fp_id a = fp_id b"
  by (cases a; cases b) (simp add: unlinked_def fp_key_def)

lemma left_on_scan_key: "left_on_scan cx d row st \<Longrightarrow> fp_key row \<in> current_keys cx d"
proof -
  assume "left_on_scan cx d row st"
  then obtain i r where "find_fp d i = Some r" "fp_key r = fp_key row" "fp_scan_run_id r = cx_scan cx"
    by (auto simp: left_on_scan_def)
  with find_fp_in [of d i r] have "r \<in> set (fps_of d (cx_scan cx))" "fp_key row = fp_key r"
    by (simp_all add: fps_of_def)
  then show ?thesis unfolding current_keys_def by blast
qed

text \<open>Counters against events.\<close>

lemma events_counted:
  fixes f :: "counters \<Rightarrow> 'a \<Rightarrow> counters"
  assumes "\<And>c r. dict_get (f c r) k 0 = dict_get c k 0 + int (length (filter P (g r)))"
  shows "dict_get (foldl f c rs) k 0 = dict_get c k 0 + int (length (filter P (concat (map g rs))))"
  by (induction rs arbitrary: c) (simp_all add: assms)

lemma bump_get: "dict_get (bump j c) k 0 = dict_get c k 0 + (if j = k then 1 else 0)"
  by (simp add: bump_def dict_simps)

definition counted_events :: "string list" where
  "counted_events = [''closed'', ''reclosed'', ''resurfaced'']"

lemma verdict_counted:
  assumes "k \<in> set counted_events"
  shows "dict_get (bump (verdict_counter cx r) c) k 0
    = dict_get c k 0 + int (length (filter (\<lambda>ev. ev_type ev = k) (verdict_events cx r)))"
  using assms
  by (cases "stored_verdict cx r")
    (auto simp: bump_get counted_events_def verdict_counter_def verdict_events_def closed_event_def
      stored_closing_type_def)

lemma resurface_counted:
  assumes "k \<in> set counted_events"
  shows "dict_get (resurface_count cx c r) k 0
    = dict_get c k 0 + int (length (filter (\<lambda>ev. ev_type ev = k) (resurface_events cx r)))"
  using assms
  by (cases "resurfaced_from cx r")
    (auto simp: bump_get counted_events_def resurface_count_def resurface_events_def resurfaced_event_def
      resurfaced_from_def split: if_splits)

lemma zero_counted:
  assumes "k \<in> set counted_events"
  shows "dict_get zero_counters k 0 = 0 \<and> dict_get (dict_put (''refused_'' @ why) 1 zero_counters) k 0 = 0"
proof -
  have "dict_get (map (\<lambda>k. (k, 0::int)) ks) k 0 = 0" for ks
    by (induction ks) (simp_all add: dict_get_def)
  moreover have "k \<noteq> ''refused_'' @ why" using assms by (auto simp: counted_events_def)
  ultimately show ?thesis by (simp add: dict_get_put zero_counters_def)
qed

section \<open>Properties\<close>

lemma closure_body_total:
  assumes ok: "constraints_ok d"
  shows "\<exists>d' c. closure_body now d scan = Inr (d', c) \<and> constraints_ok d' \<and> db_extends scan d d'"
proof -
  from closure_body_cases [OF ok] show ?thesis
  proof
    assume "\<exists>why. closure_body now d scan = Inr (d, dict_put (''refused_'' @ why) 1 zero_counters)"
    with ok show ?thesis by auto
  next
    assume "\<exists>prior sig. closure_proceeds d scan prior sig"
    then obtain prior sig where "closure_proceeds d scan prior sig" by blast
    from closure_body_runs [OF ok this, of now] obtain s1 s2 s3
      where b: "closure_body now d scan = Inr (cs_db s3, cs_counters s3)"
        and r: "closure_run (closure_ctx_of now d scan prior (Some sig)) s1 s2 s3" by blast
    from closure_run_extends [OF r] have "db_extends scan d (cs_db s3)" by simp
    moreover have "constraints_ok (cs_db s3)" using closure_run_dest(5) [OF r] by (simp add: rolled_def)
    ultimately show ?thesis using b by blast
  qed
qed

text \<open>C3: from any database that satisfies the tables' unique constraints the computation
  returns, whatever the scans contain: the exception guard is never needed for it.  The result
  keeps the constraints and only extends the history: rows, endpoints, signatures and events are
  never removed or rewritten, except that a row may become closed, a row of the current scan
  resurfaced, and a missing item link be filled in.\<close>

theorem closure_never_fails:
  assumes ok: "constraints_ok d"
  shows "\<exists>d' c. closure_body now d scan = Inr (d', c) \<and> constraints_ok d' \<and> db_extends scan d d'"
  using assms by (rule closure_body_total)

theorem closure_never_fails_witness:
  "\<exists>d' c. closure_body 3 sample_db ''B'' = Inr (d', c) \<and> constraints_ok d' \<and> db_extends ''B'' sample_db d'"
  by (rule closure_never_fails [OF sample_constraints])

text \<open>C1: the history written is exactly the verdicts on the stored rows: one closing event
  per prior row whose verdict is Close, in row order, then one resurfacing event per current row
  whose latest other row is closed.  No row's processing influences another's verdict.\<close>

theorem closure_history_exact:
  assumes "constraints_ok d" and "closure_proceeds d scan prior sig"
    and "db_path \<noteq> []" and "scan \<noteq> []" and "compute_closure now d db_path scan = (d', c)"
  shows "db_events d' = db_events d
    @ concat (map (verdict_events (closure_ctx_of now d scan prior (Some sig))) (fps_of d prior))
    @ concat (map (resurface_events (closure_ctx_of now d scan prior (Some sig))) (fps_of d scan))"
  using compute_closure_runs [OF assms] closure_run_events by fastforce

text \<open>C2: soundness of closing.  Every closed or reclosed event the computation adds comes from
  a row of the prior scan that was not yet closed and satisfies the two-sided condition, and the
  two scans carried signatures of the current version with a target digest and equal
  digests.\<close>

theorem closures_are_two_sided:
  assumes ok: "constraints_ok d" and run: "compute_closure now d db_path scan = (d', c)"
    and ev: "ev \<in> set (drop (length (db_events d)) (db_events d'))"
    and ty: "ev_type ev = ''closed'' \<or> ev_type ev = ''reclosed''"
  shows "\<exists>prior cs ps row. select_prior_scan_run_id d scan = Some prior \<and>
    signatures_of d scan = [cs] \<and> signatures_of d prior = [ps] \<and> sg_digest cs = sg_digest ps \<and>
    sg_version cs = Some scope_signature_version \<and> sg_version ps = Some scope_signature_version \<and>
    truthy (sg_target_set_digest cs) \<and> truthy (sg_target_set_digest ps) \<and>
    two_sided (closure_ctx_of now d scan prior (Some cs)) row \<and>
    ev = closed_event (closure_ctx_of now d scan prior (Some cs)) row (ev_type ev)"
proof -
  have changed: "d' \<noteq> d" using ev by auto
  with run have args: "db_path \<noteq> []" "scan \<noteq> []" by (auto simp: compute_closure_def split: if_splits)
  with run changed closure_body_cases [OF ok, of now scan] obtain prior sig
    where p: "closure_proceeds d scan prior sig"
    by (auto simp: compute_closure_def)
  let ?cx = "closure_ctx_of now d scan prior (Some sig)"
  have select: "select_prior_scan_run_id d scan = Some prior" and sig: "signatures_of d scan = [sig]"
    using p by (simp_all add: closure_proceeds_def)
  from p comparable_dest obtain ps where cmp: "signatures_of d prior = [ps]" "sg_digest sig = sg_digest ps"
      "sg_version sig = Some scope_signature_version" "sg_version ps = Some scope_signature_version"
      "truthy (sg_target_set_digest sig)" "truthy (sg_target_set_digest ps)"
    unfolding closure_proceeds_def by fastforce
  from compute_closure_runs [OF ok p args run] obtain s1 s2 s3
    where d': "d' = cs_db s3" and r: "closure_run ?cx s1 s2 s3" by blast
  from closure_run_events [OF r] ev have mem: "ev \<in> set (concat (map (verdict_events ?cx) (fps_of d prior)))
      \<or> ev \<in> set (concat (map (resurface_events ?cx) (fps_of d scan)))"
    by (simp add: d')
  have "ev_type e = ''resurfaced''" if "e \<in> set (resurface_events ?cx row)" for e row
    using that by (auto simp: resurface_events_def resurfaced_event_def split: option.splits)
  with mem ty have "ev \<in> set (concat (map (verdict_events ?cx) (fps_of d prior)))" by fastforce
  then obtain row where row: "row \<in> set (fps_of d prior)" and "ev \<in> set (verdict_events ?cx row)" by auto
  then have v: "stored_verdict ?cx row = Close" and e: "ev = closed_event ?cx row (stored_closing_type ?cx row)"
    by (auto simp: verdict_events_def split: if_splits)
  have "two_sided ?cx row"
    by (rule verdict_close_two_sided [OF v [unfolded stored_verdict_def]])
      (use row current_fp_rows_keys in \<open>simp_all\<close>)
  moreover have "ev = closed_event ?cx row (ev_type ev)" unfolding e by (simp add: closed_event_def)
  ultimately show ?thesis using select sig cmp by blast
qed

text \<open>C11: what becomes of every row of the prior scan.  It is closed exactly when its verdict is
  Close, in which case a closed row of its fingerprint stands on the current scan; a refused one
  keeps its state and a row in the not-observed state stands on the current scan.\<close>

theorem prior_rows_are_settled:
  assumes ok: "constraints_ok d" and p: "closure_proceeds d scan prior sig"
    and args: "db_path \<noteq> []" "scan \<noteq> []" and run: "compute_closure now d db_path scan = (d', c)"
    and r: "r \<in> set (fps_of d prior)"
  shows "\<exists>r'. find_fp d' (fp_id r) = Some r' \<and> fp_key r' = fp_key r \<and>
    (case stored_verdict (closure_ctx_of now d scan prior (Some sig)) r of
       Unchanged \<Rightarrow> fp_state r' = fp_state r
     | Close \<Rightarrow> fp_state r' = closed_state \<and>
         left_on_scan (closure_ctx_of now d scan prior (Some sig)) d' r closed_state
     | _ \<Rightarrow> fp_state r' = fp_state r \<and>
         left_on_scan (closure_ctx_of now d scan prior (Some sig)) d' r not_observed_state)"
proof -
  let ?cx = "closure_ctx_of now d scan prior (Some sig)"
  from compute_closure_runs [OF ok p args run] obtain s1 s2 s3
    where d': "d' = cs_db s3" and cr: "closure_run ?cx s1 s2 s3" by blast
  have dist: "distinct (map fp_id (db_fps d))" using ok by (simp add: constraints_ok_def)
  have cur: "find_fp (cs_db s1) (fp_id q) = Some q" if "q \<in> set (fps_of d scan)" for q
  proof -
    have key: "fp_key q \<in> current_keys ?cx (cx_db0 ?cx)" using that by (simp add: current_keys_def)
    have "q \<in> set (db_fps (cx_db0 ?cx))" using that by (simp add: fps_of_def)
    from loop1_keeps_current [OF closure_run_dest(3) [OF cr] _ this key] dist show ?thesis by simp
  qed
  have o: "row_outcome ?cx r (cs_db s1)" using closure_run_dest(2) [OF cr] r by simp
  have gone: "fp_key q \<noteq> fp_key r"
    if "stored_verdict ?cx r \<noteq> Unchanged" "q \<in> set (fps_of d scan)" for q
    using verdict_not_unchanged [OF that(1) [unfolded stored_verdict_def]] that(2)
      current_fp_rows_keys [of d scan] by (metis closure_ctx_simps(1,3) imageI set_map)
  have left: "left_on_scan ?cx d' r st"
    if v: "stored_verdict ?cx r \<noteq> Unchanged" and l: "left_on_scan ?cx (cs_db s1) r st" for st
  proof -
    from l obtain i q where q: "find_fp (cs_db s1) i = Some q" "fp_key q = fp_key r"
      "fp_scan_run_id q = scan" "fp_state q = st" by (auto simp: left_on_scan_def)
    have "i \<notin> fp_id ` set (fps_of d scan)" using cur gone [OF v] q(1,2) by fastforce
    with closure_run_find [OF cr q(1)] obtain q' where "find_fp d' i = Some q'" "unlinked q' = unlinked q"
      by (auto simp: d')
    with unlinked_fields [of q' q] q show ?thesis unfolding left_on_scan_def by fastforce
  qed
  have ids: "fp_id r \<notin> fp_id ` set (fps_of d scan)"
  proof
    assume "fp_id r \<in> fp_id ` set (fps_of d scan)"
    then obtain q where q: "q \<in> set (fps_of d scan)" "fp_id q = fp_id r" by auto
    then have "q = r" using r by (intro distinct_keys_unique [OF dist]) (simp_all add: fps_of_def)
    with q r p show False by (auto simp: fps_of_def closure_proceeds_def dest: select_prior_dest(1))
  qed
  have kept: "\<exists>r'. find_fp d' (fp_id r) = Some r' \<and> fp_key r' = fp_key q \<and> fp_state r' = fp_state q"
    if q: "find_fp (cs_db s1) (fp_id r) = Some q" for q
  proof -
    from closure_run_find [OF cr q] ids obtain q' where "find_fp d' (fp_id r) = Some q'" "unlinked q' = unlinked q"
      by (auto simp: d')
    with unlinked_fields [of q' q] show ?thesis by blast
  qed
  show ?thesis
  proof (cases "stored_verdict ?cx r")
    case Unchanged
    with o kept [of r] show ?thesis by (simp add: row_outcome_def)
  next
    case Close
    with o kept [of "r\<lparr>fp_state := closed_state\<rparr>"] left show ?thesis
      by (simp add: row_outcome_def fp_key_def)
  next
    case RefusedAbsent
    with o kept [of r] left show ?thesis by (simp add: row_outcome_def)
  next
    case RefusedProbe
    with o kept [of r] left show ?thesis by (simp add: row_outcome_def)
  qed
qed

text \<open>C10: no finding is lost.  Whatever the verdicts, a finding of the prior scan that was not
  closed has a row of its fingerprint on the current scan afterwards.\<close>

theorem no_candidate_is_lost:
  assumes ok: "constraints_ok d" and p: "closure_proceeds d scan prior sig"
    and args: "db_path \<noteq> []" "scan \<noteq> []" and run: "compute_closure now d db_path scan = (d', c)"
    and r: "r \<in> set (fps_of d prior)" and live: "fp_state r \<noteq> closed_state"
  shows "\<exists>r' \<in> set (fps_of d' scan). fp_key r' = fp_key r"
proof -
  let ?cx = "closure_ctx_of now d scan prior (Some sig)"
  from compute_closure_runs [OF ok p args run] obtain s1 s2 s3
    where d': "d' = cs_db s3" and cr: "closure_run ?cx s1 s2 s3" by blast
  have "row_outcome ?cx r (cs_db s1)" using closure_run_dest(2) [OF cr] r by simp
  then have "fp_key r \<in> current_keys ?cx (cs_db s1)"
  proof (cases "stored_verdict ?cx r")
    case Unchanged
    with live have "fp_key r \<in> set (map fst (current_fp_rows d scan))"
      by (auto simp: stored_verdict_def closure_verdict_def Let_def split: if_splits)
    then have "fp_key r \<in> current_keys ?cx d" unfolding current_fp_rows_keys by (simp add: current_keys_def)
    with closure_run_dest(3) [OF cr] show ?thesis by (auto simp: loop1_inv_def)
  qed (auto simp: row_outcome_def dest: left_on_scan_key)
  moreover have "db_extends scan (cs_db s1) (cs_db s3)"
    using db_extends_trans [OF resurfaces_dest(2) [OF closure_run_dest(4) [OF cr]]] closure_run_dest(5) [OF cr]
    by (simp add: rolled_def)
  ultimately have "fp_key r \<in> current_keys ?cx d'" using current_keys_extends d' by blast
  then show ?thesis by (auto simp: current_keys_def)
qed

text \<open>Reappearance.  A row the current scan detected is marked resurfaced exactly when it was
  neither closed nor resurfaced and the latest row of its fingerprint on another scan is closed;
  otherwise its state is untouched.\<close>

theorem current_rows_resurface:
  assumes ok: "constraints_ok d" and p: "closure_proceeds d scan prior sig"
    and args: "db_path \<noteq> []" "scan \<noteq> []" and run: "compute_closure now d db_path scan = (d', c)"
    and r: "r \<in> set (fps_of d scan)"
  shows "\<exists>r'. find_fp d' (fp_id r) = Some r' \<and> fp_key r' = fp_key r \<and>
    fp_state r' = (if resurfaced_from (closure_ctx_of now d scan prior (Some sig)) r = None
                   then fp_state r else resurfaced_state)"
proof -
  let ?cx = "closure_ctx_of now d scan prior (Some sig)"
  from compute_closure_runs [OF ok p args run] obtain s1 s2 s3
    where d': "d' = cs_db s3" and cr: "closure_run ?cx s1 s2 s3" by blast
  have dist: "distinct (map fp_id (db_fps (cx_db0 ?cx)))" using ok by (simp add: constraints_ok_def)
  have "fp_key r \<in> current_keys ?cx (cx_db0 ?cx)" using r by (simp add: current_keys_def)
  moreover have "r \<in> set (db_fps (cx_db0 ?cx))" using r by (simp add: fps_of_def)
  ultimately have "find_fp (cs_db s1) (fp_id r) = Some r"
    using loop1_keeps_current [OF closure_run_dest(3) [OF cr] dist] by blast
  from resurfaces_dest(7) [OF closure_run_dest(4) [OF cr] this] r
  have "find_fp (cs_db s2) (fp_id r) = Some (resurfaced_row ?cx r)" by simp
  from rolled_find [OF closure_run_dest(5) [OF cr] this] obtain r'
    where r': "find_fp d' (fp_id r) = Some r'" "unlinked r' = unlinked (resurfaced_row ?cx r)" by (auto simp: d')
  from unlinked_fields [OF r'(2)] r'(1) show ?thesis by (simp add: resurfaced_row_def fp_key_def)
qed

text \<open>What closing an item claims of the rows of its slug on its scan.\<close>

definition rows_all_closed :: "db \<Rightarrow> string \<Rightarrow> string \<Rightarrow> bool" where
  "rows_all_closed d slug scan \<longleftrightarrow>
     (\<exists>r \<in> set (db_fps d). fp_slug r = slug \<and> fp_scan_run_id r = scan) \<and>
     (\<forall>r \<in> set (db_fps d). fp_slug r = slug \<and> fp_scan_run_id r = scan \<longrightarrow> fp_state r = closed_state)"

lemma rows_all_closed: "all_closed (fp_states_of d slug scan) \<longleftrightarrow> rows_all_closed d slug scan"
  by (auto simp: all_closed_def fp_states_of_def rows_all_closed_def list_all_iff filter_empty_conv)

text \<open>C12: an item is rolled up to closed only when it was open before and every fingerprint row
  of its slug and scan is closed, with at least one such row; an item added for the current scan is
  closed and its slug's rows on the prior scan are all closed.\<close>

theorem items_close_only_with_their_rows:
  assumes ok: "constraints_ok d" and p: "closure_proceeds d scan prior sig"
    and args: "db_path \<noteq> []" "scan \<noteq> []" and run: "compute_closure now d db_path scan = (d', c)"
    and j: "j < length (db_items d')"
  shows "if j < length (db_items d)
    then db_items d' ! j = db_items d ! j
      \<or> (db_items d' ! j = (db_items d ! j)\<lparr>it_state := closed_state\<rparr>
         \<and> rows_all_closed d' (it_slug (db_items d ! j)) (it_scan_run_id (db_items d ! j)))
    else it_state (db_items d' ! j) = closed_state \<and> it_scan_run_id (db_items d' ! j) = scan
      \<and> rows_all_closed d' (it_slug (db_items d' ! j)) prior"
proof -
  let ?cx = "closure_ctx_of now d scan prior (Some sig)"
  from compute_closure_runs [OF ok p args run] obtain s1 s2 s3
    where d': "d' = cs_db s3" and cr: "closure_run ?cx s1 s2 s3" by blast
  have items: "db_items (cs_db s2) = db_items d"
    using resurfaces_dest(5) [OF closure_run_dest(4) [OF cr]] closure_run_dest(3) [OF cr]
    by (simp add: loop1_inv_def)
  have states: "fp_states_of (cs_db s2) slug sc = fp_states_of d' slug sc" for slug sc
    using closure_run_dest(5) [OF cr] d' by (simp add: rolled_def)
  have "items_roll ?cx (cs_db s2) d'" using closure_run_dest(5) [OF cr] d' by (simp add: rolled_def)
  with j items show ?thesis
    by (auto simp: items_roll_def item_evolves_def item_created_def states rows_all_closed)
qed

text \<open>The counters returned tell the truth about the history: for each event type the counter
  is the number of events of that type the computation added.\<close>

theorem counters_tell_the_history:
  assumes ok: "constraints_ok d" and run: "compute_closure now d db_path scan = (d', c)"
    and k: "k \<in> {''closed'', ''reclosed'', ''resurfaced''}"
  shows "dict_get c k 0 = int (length (filter (\<lambda>ev. ev_type ev = k) (drop (length (db_events d)) (db_events d'))))"
proof -
  have k': "k \<in> set counted_events" using k by (simp add: counted_events_def)
  consider "db_path = [] \<or> scan = []"
    | why where "closure_body now d scan = Inr (d, dict_put (''refused_'' @ why) 1 zero_counters)"
        "db_path \<noteq> []" "scan \<noteq> []"
    | prior sig where "closure_proceeds d scan prior sig" "db_path \<noteq> []" "scan \<noteq> []"
    using closure_body_cases [OF ok] by blast
  then show ?thesis
  proof cases
    case 3
    let ?cx = "closure_ctx_of now d scan prior (Some sig)"
    from compute_closure_runs [OF ok 3 run] obtain s1 s2 s3
      where d': "d' = cs_db s3" "c = cs_counters s3" and cr: "closure_run ?cx s1 s2 s3" by blast
    have "k \<noteq> ''items_closed''" using k by auto
    then have "dict_get c k 0 = dict_get (cs_counters s2) k 0"
      using closure_run_dest(6) [OF cr] d' by simp
    also have "\<dots> = dict_get (cs_counters s1) k 0 +
        int (length (filter (\<lambda>ev. ev_type ev = k) (concat (map (resurface_events ?cx) (fps_of d scan)))))"
      unfolding resurfaces_dest(4) [OF closure_run_dest(4) [OF cr]] closure_ctx_simps
      by (rule events_counted, rule resurface_counted [OF k'])
    also have "dict_get (cs_counters s1) k 0 =
        int (length (filter (\<lambda>ev. ev_type ev = k) (concat (map (verdict_events ?cx) (fps_of d prior)))))"
    proof -
      have "cs_counters s1 = foldl (\<lambda>c r. bump (verdict_counter ?cx r) c) zero_counters (fps_of d prior)"
        using closure_run_dest(1) [OF cr] by (simp add: contributes_def start_state_def)
      then show ?thesis
        using events_counted [where f = "\<lambda>c r. bump (verdict_counter ?cx r) c" and g = "verdict_events ?cx",
            OF verdict_counted [OF k'], of zero_counters "fps_of d prior"] zero_counted [OF k']
        by simp
    qed
    finally show ?thesis using closure_run_events [OF cr] by (simp add: d')
  qed (use run zero_counted [OF k'] in \<open>auto simp: compute_closure_def\<close>)
qed

text \<open>Nothing is closed blindly.  Unless the current scan has a signature, an earlier scan
  with a signature exists, the two are comparable and the current scan's snapshot was written, the
  database is returned as it was.\<close>

theorem no_comparison_no_change:
  assumes ok: "constraints_ok d" and "\<And>prior sig. \<not> closure_proceeds d scan prior sig"
  shows "fst (compute_closure now d db_path scan) = d"
  using closure_body_cases [OF ok, of now scan] assms(2) by (auto simp: compute_closure_def)

section \<open>The properties on the sample\<close>

text \<open>One prior row closes, one is refused, one was closed already; one current row
  resurfaces.\<close>

lemma sample_run:
  "compute_closure 3 sample_db ''db'' ''B'' =
     (fst (compute_closure 3 sample_db ''db'' ''B''), snd (compute_closure 3 sample_db ''db'' ''B''))"
  by simp

lemma sample_history:
  "map ev_type (db_events (fst (compute_closure 3 sample_db ''db'' ''B''))) = [''closed'', ''resurfaced'']"
  by code_simp

lemma sample_first_event:
  "hd (db_events (fst (compute_closure 3 sample_db ''db'' ''B'')))
     \<in> set (drop (length (db_events sample_db)) (db_events (fst (compute_closure 3 sample_db ''db'' ''B''))))
   \<and> ev_type (hd (db_events (fst (compute_closure 3 sample_db ''db'' ''B'')))) = ''closed''"
  using sample_history
  by (cases "db_events (fst (compute_closure 3 sample_db ''db'' ''B''))") (simp_all add: sample_db_def)

lemma sample_rows:
  "sample_fp 1 ''s'' ''f1'' ''h'' ''A'' ''open'' 1 \<in> set (fps_of sample_db ''A'')"
  "sample_fp 2 ''r'' ''f2'' ''g'' ''A'' ''open'' 1 \<in> set (fps_of sample_db ''A'')"
  "sample_fp 4 ''q'' ''f3'' ''h'' ''B'' ''open'' 2 \<in> set (fps_of sample_db ''B'')"
  by (simp_all add: fps_of_def sample_defs)

theorem closure_history_exact_witness:
  "db_events (fst (compute_closure 3 sample_db ''db'' ''B'')) = db_events sample_db
    @ concat (map (verdict_events (closure_ctx_of 3 sample_db ''B'' ''A'' (Some (sample_signature ''B'' 2))))
        (fps_of sample_db ''A''))
    @ concat (map (resurface_events (closure_ctx_of 3 sample_db ''B'' ''A'' (Some (sample_signature ''B'' 2))))
        (fps_of sample_db ''B''))"
  by (rule closure_history_exact [OF sample_constraints sample_proceeds _ _ sample_run]) simp_all

theorem closures_are_two_sided_witness:
  "\<exists>prior cs ps row. select_prior_scan_run_id sample_db ''B'' = Some prior \<and>
    signatures_of sample_db ''B'' = [cs] \<and> signatures_of sample_db prior = [ps] \<and> sg_digest cs = sg_digest ps \<and>
    sg_version cs = Some scope_signature_version \<and> sg_version ps = Some scope_signature_version \<and>
    truthy (sg_target_set_digest cs) \<and> truthy (sg_target_set_digest ps) \<and>
    two_sided (closure_ctx_of 3 sample_db ''B'' prior (Some cs)) row \<and>
    hd (db_events (fst (compute_closure 3 sample_db ''db'' ''B''))) =
      closed_event (closure_ctx_of 3 sample_db ''B'' prior (Some cs)) row
        (ev_type (hd (db_events (fst (compute_closure 3 sample_db ''db'' ''B'')))))"
  by (rule closures_are_two_sided [OF sample_constraints sample_run sample_first_event [THEN conjunct1]
        disjI1 [OF sample_first_event [THEN conjunct2]]])

theorem prior_rows_are_settled_witness:
  "\<exists>r'. find_fp (fst (compute_closure 3 sample_db ''db'' ''B''))
      (fp_id (sample_fp 1 ''s'' ''f1'' ''h'' ''A'' ''open'' 1)) = Some r'
    \<and> fp_key r' = fp_key (sample_fp 1 ''s'' ''f1'' ''h'' ''A'' ''open'' 1) \<and> fp_state r' = closed_state"
proof -
  have v: "stored_verdict (closure_ctx_of 3 sample_db ''B'' ''A'' (Some (sample_signature ''B'' 2)))
      (sample_fp 1 ''s'' ''f1'' ''h'' ''A'' ''open'' 1) = Close"
    by code_simp
  from prior_rows_are_settled [OF sample_constraints sample_proceeds _ _ sample_run sample_rows(1)] v
  show ?thesis by auto
qed

theorem no_candidate_is_lost_witness:
  "\<exists>r' \<in> set (fps_of (fst (compute_closure 3 sample_db ''db'' ''B'')) ''B'').
     fp_key r' = fp_key (sample_fp 2 ''r'' ''f2'' ''g'' ''A'' ''open'' 1)"
  by (rule no_candidate_is_lost [OF sample_constraints sample_proceeds _ _ sample_run sample_rows(2)])
    (simp_all add: sample_fp_def closed_state_def)

theorem current_rows_resurface_witness:
  "\<exists>r'. find_fp (fst (compute_closure 3 sample_db ''db'' ''B''))
      (fp_id (sample_fp 4 ''q'' ''f3'' ''h'' ''B'' ''open'' 2)) = Some r'
    \<and> fp_key r' = fp_key (sample_fp 4 ''q'' ''f3'' ''h'' ''B'' ''open'' 2) \<and> fp_state r' = resurfaced_state"
proof -
  have v: "resurfaced_from (closure_ctx_of 3 sample_db ''B'' ''A'' (Some (sample_signature ''B'' 2)))
      (sample_fp 4 ''q'' ''f3'' ''h'' ''B'' ''open'' 2) \<noteq> None"
    by code_simp
  from current_rows_resurface [OF sample_constraints sample_proceeds _ _ sample_run sample_rows(3)] v
  show ?thesis by auto
qed

theorem items_close_only_with_their_rows_witness:
  "db_items (fst (compute_closure 3 sample_db ''db'' ''B'')) ! 0 = db_items sample_db ! 0
    \<or> (db_items (fst (compute_closure 3 sample_db ''db'' ''B'')) ! 0
         = (db_items sample_db ! 0)\<lparr>it_state := closed_state\<rparr>
       \<and> rows_all_closed (fst (compute_closure 3 sample_db ''db'' ''B''))
           (it_slug (db_items sample_db ! 0)) (it_scan_run_id (db_items sample_db ! 0)))"
proof -
  have len: "0 < length (db_items (fst (compute_closure 3 sample_db ''db'' ''B'')))" by code_simp
  have old: "0 < length (db_items sample_db)" by (simp add: sample_db_def)
  from items_close_only_with_their_rows [OF sample_constraints sample_proceeds _ _ sample_run len] old
  show ?thesis by simp
qed

theorem counters_tell_the_history_witness:
  "dict_get (snd (compute_closure 3 sample_db ''db'' ''B'')) ''closed'' 0
    = int (length (filter (\<lambda>ev. ev_type ev = ''closed'')
        (drop (length (db_events sample_db)) (db_events (fst (compute_closure 3 sample_db ''db'' ''B''))))))"
  by (rule counters_tell_the_history [OF sample_constraints sample_run]) simp

theorem no_comparison_no_change_witness:
  "fst (compute_closure 3 (sample_db\<lparr>db_signatures := []\<rparr>) ''db'' ''B'') = sample_db\<lparr>db_signatures := []\<rparr>"
proof (rule no_comparison_no_change)
  show "constraints_ok (sample_db\<lparr>db_signatures := []\<rparr>)"
    using sample_constraints by (simp add: constraints_ok_def)
  show "\<not> closure_proceeds (sample_db\<lparr>db_signatures := []\<rparr>) ''B'' prior sig" for prior sig
    by (simp add: closure_proceeds_def select_prior_scan_run_id_def)
qed

end
