(* ===== verification/Classifier.thy ===== *)
theory Classifier
  imports Models
begin

text \<open>
  \<open>quirk/cbom/classifier.py\<close> and \<open>quirk/scanner/pqc_deadlines.py\<close>: the algorithm table,
  the name normalisation of \<open>classify_algorithm\<close> and the deadline an algorithm falls under.
  The primitives are the members of the CycloneDX enumeration the table uses.
\<close>

section \<open>The algorithm table\<close>

datatype crypto_primitive =
  KeyAgree | KEM | Signature | BlockCipher | AE | Hash | PKE | MAC | StreamCipher | UnknownPrimitive

type_synonym classification = "crypto_primitive \<times> int option \<times> int option"

definition algorithm_table :: "(string \<times> classification) list" where
  "algorithm_table =
   [(''curve25519-sha256'', KeyAgree, Some 0, Some 128),
    (''ecdh-sha2-nistp256'', KeyAgree, Some 0, Some 128),
    (''ecdh-sha2-nistp384'', KeyAgree, Some 0, Some 192),
    (''ecdh-sha2-nistp521'', KeyAgree, Some 0, Some 256),
    (''diffie-hellman-group14-sha256'', KeyAgree, Some 0, Some 112),
    (''diffie-hellman-group14-sha1'', KeyAgree, Some 0, Some 112),
    (''diffie-hellman-group16-sha512'', KeyAgree, Some 0, Some 128),
    (''diffie-hellman-group-exchange-sha256'', KeyAgree, Some 0, Some 112),
    (''sntrup761x25519-sha512'', KEM, Some 3, Some 128),
    (''mlkem768x25519-sha256'', KEM, Some 3, Some 192),
    (''x25519mlkem768'', KEM, Some 3, Some 192),
    (''diffie-hellman-group1-sha1'', KeyAgree, Some 0, Some 80),
    (''ssh-rsa'', Signature, Some 0, Some 112),
    (''rsa-sha2-256'', Signature, Some 0, Some 112),
    (''rsa-sha2-512'', Signature, Some 0, Some 112),
    (''ecdsa-sha2-nistp256'', Signature, Some 0, Some 128),
    (''ecdsa-sha2-nistp384'', Signature, Some 0, Some 192),
    (''ssh-ed25519'', Signature, Some 0, Some 128),
    (''sk-ssh-ed25519'', Signature, Some 0, Some 128),
    (''ssh-dss'', Signature, Some 0, Some 80),
    (''aes128-ctr'', BlockCipher, Some 1, Some 128),
    (''aes192-ctr'', BlockCipher, Some 1, Some 192),
    (''aes256-ctr'', BlockCipher, Some 1, Some 256),
    (''aes128-gcm'', AE, Some 1, Some 128),
    (''aes256-gcm'', AE, Some 1, Some 256),
    (''chacha20-poly1305'', AE, Some 1, Some 256),
    (''hmac-sha2-256'', Hash, Some 0, Some 128),
    (''hmac-sha2-512'', Hash, Some 2, Some 256),
    (''hmac-sha1'', Hash, Some 0, Some 80),
    (''hmac-md5'', Hash, Some 0, Some 64),
    (''hmac-md5-96'', Hash, Some 0, Some 64),
    (''hmac-sha1-96'', Hash, Some 0, Some 80),
    (''rsa'', PKE, Some 0, Some 112),
    (''rsa-1024'', PKE, Some 0, Some 80),
    (''rsa-2048'', PKE, Some 0, Some 112),
    (''rsa-3072'', PKE, Some 0, Some 128),
    (''rsa-4096'', PKE, Some 0, Some 152),
    (''rsa-kex'', PKE, Some 0, Some 112),
    (''ecdsa'', Signature, Some 0, Some 128),
    (''ec'', Signature, Some 0, Some 128),
    (''ed25519'', Signature, Some 0, Some 128),
    (''ed448'', Signature, Some 0, Some 224),
    (''dsa'', Signature, Some 0, Some 112),
    (''dh-2048'', KeyAgree, Some 0, Some 112),
    (''dh-4096'', KeyAgree, Some 0, Some 128),
    (''dh-groupexchange'', KeyAgree, Some 0, Some 112),
    (''x25519'', KeyAgree, Some 0, Some 128),
    (''x448'', KeyAgree, Some 0, Some 224),
    (''aes-256-gcm'', AE, Some 1, Some 256),
    (''aes-128-gcm'', AE, Some 1, Some 128),
    (''aes-256-ccm-8'', AE, Some 1, Some 256),
    (''aes-128-ccm-8'', AE, Some 1, Some 128),
    (''aes-256-ccm'', AE, Some 1, Some 256),
    (''aes-128-ccm'', AE, Some 1, Some 128),
    (''aes-256-cbc'', BlockCipher, Some 3, Some 256),
    (''aes-128-cbc'', BlockCipher, Some 1, Some 128),
    (''aes-128'', BlockCipher, Some 1, Some 128),
    (''aes-192'', BlockCipher, Some 1, Some 192),
    (''aes-256'', BlockCipher, Some 1, Some 256),
    (''3des'', BlockCipher, Some 0, Some 112),
    (''des'', BlockCipher, Some 0, Some 56),
    (''blowfish'', BlockCipher, Some 0, Some 128),
    (''rc4'', StreamCipher, Some 0, Some 128),
    (''md5'', Hash, Some 0, Some 64),
    (''md4'', Hash, Some 0, Some 64),
    (''aes'', BlockCipher, Some 1, Some 128),
    (''sha-1'', Hash, Some 0, Some 80),
    (''sha-256'', Hash, Some 0, Some 128),
    (''sha-384'', Hash, Some 2, Some 192),
    (''sha-512'', Hash, Some 2, Some 256),
    (''rs256'', Signature, Some 0, Some 112),
    (''rs384'', Signature, Some 0, Some 112),
    (''rs512'', Signature, Some 0, Some 112),
    (''es256'', Signature, Some 0, Some 128),
    (''es384'', Signature, Some 0, Some 192),
    (''es512'', Signature, Some 0, Some 256),
    (''hs256'', MAC, Some 0, Some 128),
    (''hs384'', MAC, Some 0, Some 192),
    (''hs512'', MAC, Some 0, Some 256),
    (''ps256'', Signature, Some 0, Some 112),
    (''ps384'', Signature, Some 0, Some 112),
    (''ps512'', Signature, Some 0, Some 112),
    (''eddsa'', Signature, Some 0, Some 128),
    (''none'', UnknownPrimitive, Some 0, Some 0),
    (''ml-kem-512'', KEM, Some 1, Some 128),
    (''ml-kem-768'', KEM, Some 3, Some 192),
    (''ml-kem-1024'', KEM, Some 5, Some 256),
    (''ml-dsa-44'', Signature, Some 2, Some 128),
    (''ml-dsa-65'', Signature, Some 3, Some 192),
    (''ml-dsa-87'', Signature, Some 5, Some 256),
    (''slh-dsa-128'', Signature, Some 1, Some 128),
    (''slh-dsa-192'', Signature, Some 3, Some 192),
    (''slh-dsa-256'', Signature, Some 5, Some 256),
    (''sntrup761x25519'', KEM, Some 3, Some 128),
    (''ml-kem-768+x25519'', KEM, Some 3, Some 192),
    (''rsamd5'', PKE, None, None),
    (''rsasha1'', PKE, None, None),
    (''dsa-nsec3-sha1'', Signature, None, None),
    (''rsasha1-nsec3-sha1'', PKE, None, None),
    (''rsasha256'', PKE, None, None),
    (''rsasha512'', PKE, None, None),
    (''ecc-gost'', Signature, None, None),
    (''ecdsap256sha256'', Signature, Some 1, Some 128),
    (''ecdsap384sha384'', Signature, Some 3, Some 192),
    (''sha1'', Hash, None, None),
    (''md5withrsaencryption'', Signature, Some 0, Some 64),
    (''sha1withrsaencryption'', Signature, Some 0, Some 80),
    (''sha256withrsaencryption'', Signature, Some 0, Some 112),
    (''sha384withrsaencryption'', Signature, Some 0, Some 112),
    (''sha512withrsaencryption'', Signature, Some 0, Some 112),
    (''ecdsa-with-sha256'', Signature, Some 0, Some 128),
    (''ecdsa-with-sha384'', Signature, Some 0, Some 192),
    (''ecdsa-with-sha512'', Signature, Some 0, Some 256),
    (''des-cbc-crc'', BlockCipher, None, None),
    (''des-cbc-md4'', BlockCipher, None, None),
    (''des-cbc-md5'', BlockCipher, None, None),
    (''aes128-cts-hmac-sha1-96'', BlockCipher, Some 0, Some 128),
    (''aes256-cts-hmac-sha1-96'', BlockCipher, Some 1, Some 256),
    (''aes256-cts-hmac-sha384-192'', BlockCipher, Some 1, Some 256),
    (''rc4-hmac'', BlockCipher, Some 0, Some 128)]"

definition fallback :: classification where
  "fallback = (UnknownPrimitive, None, None)"

definition quantum_safety_label :: "int option \<Rightarrow> string" where
  "quantum_safety_label nist_level =
     (case nist_level of
        None \<Rightarrow> ''unknown''
      | Some l \<Rightarrow> if l = 0 then ''quantum-vulnerable'' else ''quantum-safe'')"

section \<open>Normalisation and lookup\<close>

text \<open>\<open>re.sub\<close> with two adjacent one-character groups: a hyphen between every such pair.
  A character never matches both groups, so the matches do not overlap.\<close>

fun hyphenate :: "(char \<Rightarrow> bool) \<Rightarrow> (char \<Rightarrow> bool) \<Rightarrow> string \<Rightarrow> string" where
  "hyphenate p q (a # b # s) =
     (if p a \<and> q b then a # CHR ''-'' # hyphenate p q (b # s) else a # hyphenate p q (b # s))"
| "hyphenate p q s = s"

definition denormalize :: "string \<Rightarrow> string" where
  "denormalize key =
     hyphenate is_digit is_lower_char (hyphenate is_lower_char is_digit key)"

definition normalized_name :: "string \<Rightarrow> string" where
  "normalized_name name = py_lower (hd (py_split (CHR ''@'') name))"

definition classify_algorithm :: "string \<Rightarrow> classification" where
  "classify_algorithm name =
     (if name = [] then fallback
      else let key = normalized_name name in
        case map_of algorithm_table key of
          Some r \<Rightarrow> r
        | None \<Rightarrow>
            if denormalize key \<noteq> key
            then (case map_of algorithm_table (denormalize key) of Some r \<Rightarrow> r | None \<Rightarrow> fallback)
            else fallback)"

section \<open>Deadlines\<close>

type_synonym deadline = "string \<times> string option \<times> string"

text \<open>Date, standard and scope of the catalogued deadlines.\<close>

definition pqc_deadlines :: "(string \<times> deadline) list" where
  "pqc_deadlines =
   [(''key_establishment'', ''2030-12-31'', Some ''FIPS 203 (ML-KEM)'', ''algorithm_class''),
    (''digital_signature'', ''2031-12-31'', Some ''FIPS 186-5 (DSS)'', ''algorithm_class''),
    (''nist_subset'', ''2027-12-31'', None, ''organisation''),
    (''far_contractor'', ''2030-12-31'', None, ''organisation'')]"

definition pke_sentinel :: string where
  "pke_sentinel = ''_pke_disambiguation''"

definition primitive_deadline :: "crypto_primitive \<Rightarrow> string option" where
  "primitive_deadline p =
     (case p of
        KEM \<Rightarrow> Some ''key_establishment''
      | KeyAgree \<Rightarrow> Some ''key_establishment''
      | Signature \<Rightarrow> Some ''digital_signature''
      | PKE \<Rightarrow> Some pke_sentinel
      | _ \<Rightarrow> None)"

definition pke_disambiguation :: "(string \<times> string) list" where
  "pke_disambiguation =
   [(''rsa-kex'', ''key_establishment''), (''rsamd5'', ''digital_signature''),
    (''rsasha1'', ''digital_signature''), (''rsasha1-nsec3-sha1'', ''digital_signature''),
    (''rsasha256'', ''digital_signature''), (''rsasha512'', ''digital_signature''),
    (''rsa'', ''digital_signature''), (''rsa-1024'', ''digital_signature''),
    (''rsa-2048'', ''digital_signature''), (''rsa-3072'', ''digital_signature''),
    (''rsa-4096'', ''digital_signature'')]"

definition deadline_for_algorithm :: "string \<Rightarrow> string option" where
  "deadline_for_algorithm algorithm =
     (case primitive_deadline (fst (classify_algorithm algorithm)) of
        None \<Rightarrow> None
      | Some bucket \<Rightarrow>
          if bucket = pke_sentinel then map_of pke_disambiguation (normalized_name algorithm)
          else Some bucket)"

section \<open>Lemmas\<close>

lemma char_code_of: "n < 256 \<Longrightarrow> char_code (char_of n) = n"
  by (simp add: char_code_def)

lemma to_upper_code: "is_lower_char c \<Longrightarrow> char_code (to_upper c) = char_code c - 32"
proof -
  assume l: "is_lower_char c"
  then have "char_code c - 32 < 256" unfolding is_lower_char_def by linarith
  with l show ?thesis by (simp add: to_upper_def char_code_of)
qed

lemma to_lower_upper: "to_lower (to_upper c) = to_lower c"
proof (cases "is_lower_char c")
  case True
  then have "is_upper_char (to_upper c)" "\<not> is_upper_char c"
    by (simp_all add: is_upper_char_def to_upper_code) (simp_all add: is_lower_char_def, linarith+)
  then show ?thesis using True
    by (simp add: to_lower_def to_upper_code) (simp add: is_lower_char_def char_code_def)
qed (simp add: to_upper_def)

lemma to_upper_at: "to_upper c = CHR ''@'' \<longleftrightarrow> c = CHR ''@''"
proof (cases "is_lower_char c")
  case True
  then have "char_code (to_upper c) = char_code c - 32" "97 \<le> char_code c"
    by (simp_all add: to_upper_code is_lower_char_def)
  then have "char_code (to_upper c) \<noteq> 64" "char_code c \<noteq> 64" by linarith+
  then show ?thesis by (auto simp: char_code_def)
qed (simp add: to_upper_def)

lemma hd_split: "hd (py_split sep s) = takeWhile (\<lambda>c. c \<noteq> sep) s"
  by (induction s) (auto split: list.splits)

lemma normalized_upper: "normalized_name (py_upper name) = normalized_name name"
proof -
  have "map to_lower (takeWhile (\<lambda>c. c \<noteq> CHR ''@'') (map to_upper s))
      = map to_lower (takeWhile (\<lambda>c. c \<noteq> CHR ''@'') s)" for s
    by (induction s) (simp_all add: to_upper_at to_lower_upper)
  then show ?thesis by (simp add: normalized_name_def hd_split py_lower_def py_upper_def)
qed

lemma normalized_vendor: "normalized_name (name @ CHR ''@'' # vendor) = normalized_name name"
proof -
  have "takeWhile (\<lambda>c. c \<noteq> sep) (name @ sep # vendor) = takeWhile (\<lambda>c. c \<noteq> sep) name" for sep :: char
    by (induction name) simp_all
  then show ?thesis by (simp add: normalized_name_def hd_split)
qed

lemma classify_empty_name: "map_of algorithm_table [] = None"
  by (simp add: algorithm_table_def)

lemma classify_by_name: "normalized_name a = normalized_name b \<Longrightarrow> classify_algorithm a = classify_algorithm b"
proof -
  have e: "classify_algorithm [] = (let key = normalized_name [] in
        case map_of algorithm_table key of
          Some r \<Rightarrow> r
        | None \<Rightarrow>
            if denormalize key \<noteq> key
            then (case map_of algorithm_table (denormalize key) of Some r \<Rightarrow> r | None \<Rightarrow> fallback)
            else fallback)"
    by (simp add: classify_algorithm_def normalized_name_def py_lower_def denormalize_def classify_empty_name)
  have "classify_algorithm n = (let key = normalized_name n in
        case map_of algorithm_table key of
          Some r \<Rightarrow> r
        | None \<Rightarrow>
            if denormalize key \<noteq> key
            then (case map_of algorithm_table (denormalize key) of Some r \<Rightarrow> r | None \<Rightarrow> fallback)
            else fallback)" for n
  proof (cases "n = []")
    case True
    show ?thesis unfolding True by (rule e)
  qed (simp add: classify_algorithm_def)
  then show "normalized_name a = normalized_name b \<Longrightarrow> ?thesis" by simp
qed

lemma deadline_by_name:
  assumes "normalized_name a = normalized_name b"
  shows "deadline_for_algorithm a = deadline_for_algorithm b"
  unfolding deadline_for_algorithm_def assms classify_by_name [OF assms] ..

lemma table_names_normal: "list_all (\<lambda>(slug, _). slug \<noteq> [] \<and> normalized_name slug = slug) algorithm_table"
  by code_simp

lemma table_names_distinct: "distinct (map fst algorithm_table)"
  by code_simp

lemma classify_table:
  assumes "(slug, r) \<in> set algorithm_table"
  shows "classify_algorithm slug = r \<and> normalized_name slug = slug"
proof -
  have "slug \<noteq> []" "normalized_name slug = slug"
    using table_names_normal assms by (auto simp: list_all_iff)
  with assms show ?thesis by (simp add: classify_algorithm_def table_names_distinct)
qed

lemma table_pke_dated:
  "list_all (\<lambda>(slug, p, _). p \<noteq> PKE \<or> map_of pke_disambiguation slug \<noteq> None) algorithm_table"
  by code_simp

section \<open>Properties\<close>

text \<open>Classification and deadline depend on the normalised name alone: neither letter case
  nor a vendor suffix after the at sign changes them.\<close>

theorem classification_ignores_case_and_vendor:
  "classify_algorithm (py_upper name) = classify_algorithm name
   \<and> classify_algorithm (name @ CHR ''@'' # vendor) = classify_algorithm name
   \<and> deadline_for_algorithm (py_upper name) = deadline_for_algorithm name
   \<and> deadline_for_algorithm (name @ CHR ''@'' # vendor) = deadline_for_algorithm name"
  by (intro conjI classify_by_name deadline_by_name normalized_upper normalized_vendor)

text \<open>Whatever the algorithm string, the deadline is one of the two algorithm-class deadlines
  of the catalogue or none, never an organisation-scope one; and no algorithm of the table whose
  primitive is dated loses its deadline: every key-transport or signature RSA row is
  disambiguated.\<close>

theorem deadlines_are_algorithm_class:
  "deadline_for_algorithm name \<in> {None, Some ''key_establishment'', Some ''digital_signature''}
   \<and> list_all (\<lambda>(slug, p, _). (deadline_for_algorithm slug = None) = (primitive_deadline p = None)) algorithm_table
   \<and> set (map fst pke_disambiguation) = set (map fst (filter (\<lambda>(_, p, _). p = PKE) algorithm_table))"
proof (intro conjI)
  have "v \<in> {''key_establishment'', ''digital_signature''}" if "map_of pke_disambiguation k = Some v" for k v
    using map_of_SomeD [OF that] by (auto simp: pke_disambiguation_def)
  then show "deadline_for_algorithm name \<in> {None, Some ''key_establishment'', Some ''digital_signature''}"
    by (cases "map_of pke_disambiguation (normalized_name name)")
      (auto simp: deadline_for_algorithm_def primitive_deadline_def pke_sentinel_def split: crypto_primitive.splits)
  have "(deadline_for_algorithm slug = None) = (primitive_deadline p = None)"
    if row: "(slug, p, l) \<in> set algorithm_table" for slug p l
  proof -
    have "p \<noteq> PKE \<or> map_of pke_disambiguation slug \<noteq> None"
      using table_pke_dated row by (fastforce simp: list_all_iff)
    with classify_table [OF row] show ?thesis
      by (cases p) (auto simp: deadline_for_algorithm_def primitive_deadline_def pke_sentinel_def)
  qed
  then show "list_all (\<lambda>(slug, p, _). (deadline_for_algorithm slug = None) = (primitive_deadline p = None)) algorithm_table"
    by (auto simp: list_all_iff)
  show "set (map fst pke_disambiguation) = set (map fst (filter (\<lambda>(_, p, _). p = PKE) algorithm_table))"
    by code_simp
qed

text \<open>Two defects of the compact-name path.  The documented compact name aes128ctr is not
  recognised, because both substitutions are applied and yield a name with two hyphens; and a
  compact RSA name is classified like its hyphenated form but loses the deadline that form has.\<close>

theorem compact_names_are_lost:
  "classify_algorithm ''aes128ctr'' = fallback
   \<and> classify_algorithm ''aes128-ctr'' \<noteq> fallback
   \<and> classify_algorithm ''rsa2048'' = classify_algorithm ''rsa-2048''
   \<and> deadline_for_algorithm ''rsa-2048'' = Some ''digital_signature''
   \<and> deadline_for_algorithm ''rsa2048'' = None"
  by code_simp

text \<open>The table is inconsistent about elliptic-curve signatures: the DNSSEC name of ECDSA on
  P-256 is labelled quantum-safe, the plain name quantum-vulnerable.\<close>

theorem dnssec_ecdsa_labelled_safe:
  "quantum_safety_label (fst (snd (classify_algorithm ''ECDSAP256SHA256''))) = ''quantum-safe''
   \<and> quantum_safety_label (fst (snd (classify_algorithm ''ecdsa-with-SHA256''))) = ''quantum-vulnerable''
   \<and> quantum_safety_label (fst (snd (classify_algorithm ''ecdsa''))) = ''quantum-vulnerable''"
  by code_simp

end
