(* ===== verification/Burndown.thy ===== *)
theory Burndown
  imports Classifier Scope_Signature Remediation
begin

text \<open>
  \<open>quirk/intelligence/burndown.py\<close>: per-deadline counts over the fingerprint rows of a scan.
  The buckets overlap and are never summed; a row whose endpoint shows no dated algorithm, or has
  no endpoint, is counted as unmapped.
\<close>

section \<open>The buckets\<close>

definition burndown_buckets :: "string list" where
  "burndown_buckets = [''key_establishment'', ''digital_signature'', ''unmapped'']"

definition unmapped_name :: string where
  "unmapped_name = ''unmapped''"

record bucket =
  bk_date :: "string option"
  bk_standard :: "string option"
  bk_fingerprints :: nat
  bk_states :: "(string \<times> nat) list"
  bk_open_like :: nat

definition empty_bucket :: "string \<Rightarrow> bucket" where
  "empty_bucket name =
     \<lparr>bk_date = map_option fst (map_of pqc_deadlines name),
      bk_standard = (case map_of pqc_deadlines name of None \<Rightarrow> None | Some (_, std, _) \<Rightarrow> std),
      bk_fingerprints = 0, bk_states = map (\<lambda>st. (st, 0)) item_states, bk_open_like = 0\<rparr>"

section \<open>Which buckets an endpoint belongs to\<close>

text \<open>The three algorithm columns; an unset or empty value is skipped.\<close>

definition algorithm_columns :: "crypto_endpoint \<Rightarrow> string list" where
  "algorithm_columns e =
     List.map_filter (\<lambda>v. case v of None \<Rightarrow> None | Some s \<Rightarrow> if s = [] then None else Some s)
       [ep_cert_pubkey_alg e, ep_cert_sig_alg e, ep_cipher_suite e]"

definition endpoint_deadlines :: "crypto_endpoint \<Rightarrow> string list" where
  "endpoint_deadlines e =
     sort (remdups (List.map_filter deadline_for_algorithm (algorithm_columns e)))"

definition resolve_buckets_for_endpoint :: "crypto_endpoint option \<Rightarrow> string list" where
  "resolve_buckets_for_endpoint e =
     (case e of
        None \<Rightarrow> [unmapped_name]
      | Some ep \<Rightarrow> if endpoint_deadlines ep = [] then [unmapped_name] else endpoint_deadlines ep)"

section \<open>The aggregation\<close>

definition endpoints_by_key :: "db \<Rightarrow> string \<Rightarrow> ((string \<times> int) \<times> crypto_endpoint) list" where
  "endpoints_by_key d scan =
     foldl (\<lambda>m e. dict_put (ep_host e, ep_port e) e m) [] (endpoints_of d scan)"

definition endpoint_of_row ::
    "((string \<times> int) \<times> crypto_endpoint) list \<Rightarrow> item_fingerprint \<Rightarrow> crypto_endpoint option" where
  "endpoint_of_row m row =
     (case (fp_host row, fp_port row) of
        (Some h, Some p) \<Rightarrow> map_of m (h, p)
      | _ \<Rightarrow> None)"

definition count_row :: "item_fingerprint \<Rightarrow> bucket \<Rightarrow> bucket" where
  "count_row row b =
     (let b1 = b\<lparr>bk_fingerprints := bk_fingerprints b + 1\<rparr> in
      if fp_state row \<in> set item_states then
        b1\<lparr>bk_states := dict_put (fp_state row) (dict_get (bk_states b) (fp_state row) 0 + 1) (bk_states b),
           bk_open_like := (if fp_state row \<in> set open_like_states then bk_open_like b + 1
                            else bk_open_like b)\<rparr>
      else b1)"

type_synonym burndown = "(string \<times> bucket) list"

definition update_bucket :: "item_fingerprint \<Rightarrow> string \<Rightarrow> burndown \<Rightarrow> burndown" where
  "update_bucket row name r =
     (case map_of r name of None \<Rightarrow> r | Some b \<Rightarrow> dict_put name (count_row row b) r)"

definition add_row ::
    "((string \<times> int) \<times> crypto_endpoint) list \<Rightarrow> burndown \<Rightarrow> item_fingerprint \<Rightarrow> burndown" where
  "add_row m r row =
     foldl (\<lambda>r name. update_bucket row name r) r (resolve_buckets_for_endpoint (endpoint_of_row m row))"

definition compute_burndown :: "db \<Rightarrow> string \<Rightarrow> burndown" where
  "compute_burndown d scan =
     foldl (add_row (endpoints_by_key d scan)) (map (\<lambda>n. (n, empty_bucket n)) burndown_buckets)
       (fps_of d scan)"

section \<open>Lemmas\<close>

lemma deadline_bucket: "deadline_for_algorithm a = Some b \<Longrightarrow> b = ''key_establishment'' \<or> b = ''digital_signature''"
proof -
  assume "deadline_for_algorithm a = Some b"
  moreover have "v \<in> {''key_establishment'', ''digital_signature''}" if "map_of pke_disambiguation k = Some v" for k v
    using map_of_SomeD [OF that] by (auto simp: pke_disambiguation_def)
  ultimately show ?thesis
    by (auto simp: deadline_for_algorithm_def primitive_deadline_def split: crypto_primitive.splits if_splits)
qed

lemma endpoint_deadlines_in:
  "b \<in> set (endpoint_deadlines e) \<longleftrightarrow> (\<exists>a \<in> set (algorithm_columns e). deadline_for_algorithm a = Some b)"
  by (force simp: endpoint_deadlines_def List.map_filter_def)

lemma resolve_buckets:
  "set (resolve_buckets_for_endpoint e) \<subseteq> set burndown_buckets \<and> resolve_buckets_for_endpoint e \<noteq> []
   \<and> distinct (resolve_buckets_for_endpoint e)
   \<and> (unmapped_name \<in> set (resolve_buckets_for_endpoint e) \<longleftrightarrow> resolve_buckets_for_endpoint e = [unmapped_name])"
proof (cases e)
  case None
  then show ?thesis by (simp add: resolve_buckets_for_endpoint_def burndown_buckets_def unmapped_name_def)
next
  case (Some ep)
  have in2: "b = ''key_establishment'' \<or> b = ''digital_signature''" if "b \<in> set (endpoint_deadlines ep)" for b
    using that deadline_bucket by (auto simp: endpoint_deadlines_in)
  then have "unmapped_name \<notin> set (endpoint_deadlines ep)" by (fastforce simp: unmapped_name_def)
  moreover have "distinct (endpoint_deadlines ep)" by (simp add: endpoint_deadlines_def)
  moreover have "set (endpoint_deadlines ep) \<subseteq> set burndown_buckets"
    using in2 by (auto simp: burndown_buckets_def)
  ultimately show ?thesis using Some
    by (auto simp: resolve_buckets_for_endpoint_def burndown_buckets_def unmapped_name_def)
qed

text \<open>Counting into one bucket touches no other and keeps every bucket in place.\<close>

definition shaped :: "burndown \<Rightarrow> bool" where
  "shaped r \<longleftrightarrow> map fst r = burndown_buckets"

lemma dict_put_present: "k \<in> fst ` set d \<Longrightarrow> map fst (dict_put k v d) = map fst d"
  by (induction k v d rule: dict_put.induct) auto

lemma update_shaped: "shaped r \<Longrightarrow> shaped (update_bucket row name r)"
  by (cases "map_of r name") (auto simp: update_bucket_def shaped_def dict_put_present dest: map_of_SomeD
      intro!: dict_put_present [THEN trans] image_eqI)

lemma update_get:
  "map_of (update_bucket row name r) n
     = (if n = name then map_option (count_row row) (map_of r n) else map_of r n)"
  by (cases "map_of r name") (auto simp: update_bucket_def dict_simps)

lemma updates_get:
  "distinct names \<Longrightarrow> map_of (foldl (\<lambda>r name. update_bucket row name r) r names) n
     = (if n \<in> set names then map_option (count_row row) (map_of r n) else map_of r n)"
  by (induction names arbitrary: r) (auto simp: update_get)

lemma updates_shaped: "shaped r \<Longrightarrow> shaped (foldl (\<lambda>r name. update_bucket row name r) r names)"
  by (induction names arbitrary: r) (simp_all add: update_shaped)

definition rows_in :: "db \<Rightarrow> string \<Rightarrow> string \<Rightarrow> item_fingerprint list" where
  "rows_in d scan name = filter (\<lambda>row. name \<in> set (resolve_buckets_for_endpoint
     (endpoint_of_row (endpoints_by_key d scan) row))) (fps_of d scan)"

lemma add_rows_get:
  "map_of (foldl (add_row m) r rows) n =
     map_option (\<lambda>b. foldl (\<lambda>b row. count_row row b) b
       (filter (\<lambda>row. n \<in> set (resolve_buckets_for_endpoint (endpoint_of_row m row))) rows)) (map_of r n)"
  using resolve_buckets
  by (induction rows arbitrary: r) (simp_all add: add_row_def updates_get option.map_comp comp_def option.map_ident)

lemma add_rows_shaped: "shaped r \<Longrightarrow> shaped (foldl (add_row m) r rows)"
  by (induction rows arbitrary: r) (simp_all add: add_row_def updates_shaped)

text \<open>A bucket that counted a list of rows.\<close>

definition count_state :: "string \<Rightarrow> item_fingerprint list \<Rightarrow> nat" where
  "count_state st rows = length (filter (\<lambda>r. fp_state r = st) rows)"

lemma count_rows:
  "bk_fingerprints (foldl (\<lambda>b row. count_row row b) b rows) = bk_fingerprints b + length rows \<and>
   bk_date (foldl (\<lambda>b row. count_row row b) b rows) = bk_date b \<and>
   bk_standard (foldl (\<lambda>b row. count_row row b) b rows) = bk_standard b \<and>
   (\<forall>st \<in> set item_states. dict_get (bk_states (foldl (\<lambda>b row. count_row row b) b rows)) st 0
      = dict_get (bk_states b) st 0 + count_state st rows) \<and>
   bk_open_like (foldl (\<lambda>b row. count_row row b) b rows)
      = bk_open_like b + length (filter (\<lambda>r. fp_state r \<in> set open_like_states) rows)"
proof (induction rows arbitrary: b)
  case Nil
  then show ?case by (simp add: count_state_def)
next
  case (Cons row rows)
  have sub: "set open_like_states \<subseteq> set item_states" by (simp add: open_like_states_def item_states_def)
  then show ?case
    using Cons [of "count_row row b"]
    by (auto simp: count_row_def Let_def count_state_def dict_get_put split: if_splits)
qed

section \<open>Properties\<close>

text \<open>The result has exactly the three buckets in order, whatever was scanned, and each one
  counts the rows that resolve to it: the total, every state, and the open-like rows as the open
  and the resurfaced ones; its date and standard are the catalogue's.\<close>

theorem burndown_counts_are_exact:
  "map fst (compute_burndown d scan) = burndown_buckets \<and>
   (\<forall>n b. map_of (compute_burndown d scan) n = Some b \<longrightarrow>
      bk_fingerprints b = length (rows_in d scan n) \<and>
      (\<forall>st. st \<in> set item_states \<longrightarrow> dict_get (bk_states b) st 0 = count_state st (rows_in d scan n)) \<and>
      bk_open_like b = count_state ''open'' (rows_in d scan n) + count_state ''resurfaced'' (rows_in d scan n) \<and>
      bk_date b = map_option fst (map_of pqc_deadlines n))"
proof (intro conjI allI impI)
  show "map fst (compute_burndown d scan) = burndown_buckets"
    using add_rows_shaped [of "map (\<lambda>n. (n, empty_bucket n)) burndown_buckets"]
    by (simp add: compute_burndown_def shaped_def comp_def)
next
  fix n b assume "map_of (compute_burndown d scan) n = Some b"
  then obtain b0 where b0: "map_of (map (\<lambda>n. (n, empty_bucket n)) burndown_buckets) n = Some b0"
    and b: "b = foldl (\<lambda>b row. count_row row b) b0 (rows_in d scan n)"
    by (auto simp: compute_burndown_def add_rows_get rows_in_def)
  from map_of_SomeD [OF b0] have e: "b0 = empty_bucket n" by auto
  have zero: "dict_get (bk_states (empty_bucket n)) st 0 = 0" for st
    by (simp add: empty_bucket_def item_states_def dict_get_def)
  note counted = count_rows [of b0 "rows_in d scan n"]
  show "bk_fingerprints b = length (rows_in d scan n)"
    using counted by (simp add: b e empty_bucket_def)
  show "bk_date b = map_option fst (map_of pqc_deadlines n)"
    using counted by (simp add: b e empty_bucket_def)
  show "dict_get (bk_states b) st 0 = count_state st (rows_in d scan n)" if "st \<in> set item_states" for st
    using counted that by (simp add: b e zero)
  have "length (filter (\<lambda>r. fp_state r \<in> set open_like_states) rows)
      = count_state ''open'' rows + count_state ''resurfaced'' rows" for rows
    by (induction rows) (auto simp: count_state_def open_like_states_def)
  then show "bk_open_like b = count_state ''open'' (rows_in d scan n) + count_state ''resurfaced'' (rows_in d scan n)"
    using counted by (simp add: b e empty_bucket_def)
qed

theorem burndown_counts_are_exact_witness:
  "bk_fingerprints (the (map_of (compute_burndown
      \<lparr>db_endpoints = [], db_items = [], db_fps =
         [\<lparr>fp_id = 1, fp_item_id = None, fp_slug = ''s'', fp_scan_run_id = ''A'', fp_fingerprint = ''f'',
           fp_host = None, fp_port = None, fp_title = None, fp_state = ''open'', fp_observed_at = 0\<rparr>],
       db_events = [], db_signatures = []\<rparr> ''A'') ''unmapped'')) = 1"
  (is "bk_fingerprints (the (map_of (compute_burndown ?d ''A'') _)) = 1")
proof -
  have ne: "map_of (compute_burndown ?d ''A'') ''unmapped'' \<noteq> None"
    using burndown_counts_are_exact [of ?d "''A''"] by (simp add: map_of_eq_None_iff burndown_buckets_def
        flip: list.set_map)
  then obtain b where b: "map_of (compute_burndown ?d ''A'') ''unmapped'' = Some b" by blast
  have "length (rows_in ?d ''A'' ''unmapped'') = 1"
    by (simp add: rows_in_def fps_of_def endpoint_of_row_def resolve_buckets_for_endpoint_def unmapped_name_def)
  with b burndown_counts_are_exact [of ?d "''A''"] show ?thesis by auto
qed

text \<open>Nothing drops out silently.  Every fingerprint row of the scan is in some bucket, and in
  the unmapped one exactly when it is in no dated one; so the unmapped count and the number of rows
  with a deadline add up to the rows of the scan.\<close>

theorem every_row_is_accounted:
  "set (fps_of d scan) = (\<Union>n \<in> set burndown_buckets. set (rows_in d scan n)) \<and>
   length (rows_in d scan ''unmapped'')
     + length (filter (\<lambda>r. r \<in> set (rows_in d scan ''key_establishment'')
                         \<or> r \<in> set (rows_in d scan ''digital_signature'')) (fps_of d scan))
     = length (fps_of d scan)"
proof
  let ?B = "\<lambda>r. set (resolve_buckets_for_endpoint (endpoint_of_row (endpoints_by_key d scan) r))"
  have B1: "?B r \<subseteq> set burndown_buckets" and B2: "?B r \<noteq> {}" for r
    using resolve_buckets [of "endpoint_of_row (endpoints_by_key d scan) r"] by simp_all
  have B3: "unmapped_name \<in> ?B r \<Longrightarrow> ?B r = {unmapped_name}" for r
    using resolve_buckets [of "endpoint_of_row (endpoints_by_key d scan) r"] by simp
  show "set (fps_of d scan) = (\<Union>n \<in> set burndown_buckets. set (rows_in d scan n))"
  proof
    show "set (fps_of d scan) \<subseteq> (\<Union>n \<in> set burndown_buckets. set (rows_in d scan n))"
    proof
      fix r assume r: "r \<in> set (fps_of d scan)"
      from B2 [of r] obtain n where "n \<in> ?B r" by (metis all_not_in_conv)
      with B1 [of r] r show "r \<in> (\<Union>n \<in> set burndown_buckets. set (rows_in d scan n))"
        by (auto simp: rows_in_def)
    qed
  qed (auto simp: rows_in_def)
  have split: "(''unmapped'' \<in> ?B r) = (\<not> (''key_establishment'' \<in> ?B r \<or> ''digital_signature'' \<in> ?B r))" for r
  proof (cases "''unmapped'' \<in> ?B r")
    case True
    with B3 [of r] show ?thesis by (simp add: unmapped_name_def)
  next
    case False
    from B2 [of r] obtain n where n: "n \<in> ?B r" by (metis all_not_in_conv)
    then have "n \<in> set burndown_buckets" using B1 [of r] by blast
    with n False show ?thesis by (auto simp: burndown_buckets_def)
  qed
  have "length (filter (\<lambda>r. ''unmapped'' \<in> ?B r) rows)
      + length (filter (\<lambda>r. ''key_establishment'' \<in> ?B r \<or> ''digital_signature'' \<in> ?B r) rows) = length rows" for rows
    by (induction rows) (auto simp: split)
  moreover have "filter (\<lambda>r. r \<in> set (rows_in d scan ''key_establishment'') \<or> r \<in> set (rows_in d scan ''digital_signature''))
      (fps_of d scan) = filter (\<lambda>r. ''key_establishment'' \<in> ?B r \<or> ''digital_signature'' \<in> ?B r) (fps_of d scan)"
    by (rule filter_cong) (auto simp: rows_in_def)
  ultimately show "length (rows_in d scan ''unmapped'')
     + length (filter (\<lambda>r. r \<in> set (rows_in d scan ''key_establishment'')
                         \<or> r \<in> set (rows_in d scan ''digital_signature'')) (fps_of d scan))
     = length (fps_of d scan)"
    by (simp add: rows_in_def)
qed

end
