(* ===== verification/Qramm.thy ===== *)
theory Qramm
  imports Prelude
begin

text \<open>
  \<open>quirk/qramm/scoring.py\<close> and \<open>quirk/qramm/assessment_state.py\<close>: the weakest-link
  maturity score of the governance questionnaire, and the state of a dimension and of a saved
  score against the live answers.  Floating-point numbers are reals; rounding to four decimals is
  half-even on the scaled value.
\<close>

section \<open>Scoring\<close>

datatype qramm_error = AnswerOutOfRange int

definition answer_ok :: "int \<Rightarrow> bool" where
  "answer_ok a \<longleftrightarrow> a \<in> {0, 1, 2, 3, 4}"

definition compute_practice_score :: "int list \<Rightarrow> qramm_error + real" where
  "compute_practice_score answers =
     (case find (\<lambda>a. \<not> answer_ok a) answers of
        Some a \<Rightarrow> Inl (AnswerOutOfRange a)
      | None \<Rightarrow> if answers = [] then Inr 0
                else Inr (round4 (of_int (sum_list answers) / of_nat (length answers))))"

definition compute_dimension_score :: "real list \<Rightarrow> real" where
  "compute_dimension_score practice_scores =
     (case practice_scores of [] \<Rightarrow> 0 | x # xs \<Rightarrow> foldl min x xs)"

definition dimensions :: "string list" where
  "dimensions = [''CVI'', ''SGRM'', ''DPE'', ''ITR'']"

definition overall_maturity_levels :: "(real \<times> string) list" where
  "overall_maturity_levels =
   [(395/100, ''Optimizing''), (35/10, ''Advanced''), (25/10, ''Established''),
    (15/10, ''Developing''), (1, ''Basic''), (0, ''Below Basic'')]"

definition maturity_label :: "real option \<Rightarrow> string" where
  "maturity_label score =
     (case score of
        None \<Rightarrow> ''Indeterminate''
      | Some s \<Rightarrow> (case find (\<lambda>(floor, _). floor \<le> s) overall_maturity_levels of
                     Some (_, label) \<Rightarrow> label
                   | None \<Rightarrow> snd (last overall_maturity_levels)))"

record overall_result =
  ov_overall :: "real option"
  ov_dimensions :: "(string \<times> real) list"
  ov_maturity :: string
  ov_multiplier :: real
  ov_assessed :: "string list"
  ov_dimensions_assessed :: nat
  ov_dimensions_total :: nat

definition weighted_score :: "(string \<times> real) list \<Rightarrow> real \<Rightarrow> string \<Rightarrow> real" where
  "weighted_score scores multiplier dm = round4 (min 4 (dict_get scores dm 0 * multiplier))"

definition overall_mean :: "(string \<times> real) list \<Rightarrow> real \<Rightarrow> string list \<Rightarrow> real option" where
  "overall_mean scores multiplier included =
     (if included = [] then None
      else Some (round4 (min 4 (sum_list (map (weighted_score scores multiplier) included)
                                / of_nat (length included)))))"

definition compute_overall_score ::
    "(string \<times> real) list \<Rightarrow> real \<Rightarrow> string list \<Rightarrow> overall_result" where
  "compute_overall_score scores multiplier assessed =
     (let included = filter (\<lambda>d. d \<in> set assessed) dimensions;
          overall = overall_mean scores multiplier included in
      \<lparr>ov_overall = overall,
       ov_dimensions = map (\<lambda>d. (d, weighted_score scores multiplier d)) dimensions,
       ov_maturity = maturity_label overall, ov_multiplier = multiplier, ov_assessed = included,
       ov_dimensions_assessed = length included, ov_dimensions_total = length dimensions\<rparr>)"

section \<open>Assessed state\<close>

text \<open>The questionnaire catalogue: thirty questions per dimension, in order.\<close>

definition question_dimension :: "int \<Rightarrow> string option" where
  "question_dimension q =
     (if 1 \<le> q \<and> q \<le> 30 then Some ''CVI'' else if 31 \<le> q \<and> q \<le> 60 then Some ''SGRM''
      else if 61 \<le> q \<and> q \<le> 90 then Some ''DPE'' else if 91 \<le> q \<and> q \<le> 120 then Some ''ITR''
      else None)"

definition answered_by_dimension :: "int list \<Rightarrow> (string \<times> nat) list" where
  "answered_by_dimension answered =
     map (\<lambda>dm. (dm, length (filter (\<lambda>q. question_dimension q = Some dm) (remdups answered)))) dimensions"

definition is_dimension_assessed :: "int \<Rightarrow> bool" where
  "is_dimension_assessed answered \<longleftrightarrow> 1 \<le> answered"

definition scanner_coverage_status :: "(string \<times> string) list" where
  "scanner_coverage_status =
     [(''CVI'', ''covered''), (''SGRM'', ''pending''), (''DPE'', ''pending''), (''ITR'', ''pending'')]"

definition row_coverage_status :: "string \<Rightarrow> int \<Rightarrow> int option \<Rightarrow> bool \<Rightarrow> string" where
  "row_coverage_status dm answered scored_answered score_has_counts =
     (if \<not> is_dimension_assessed answered then ''pending''
      else if \<not> score_has_counts then ''stale''
      else if scored_answered \<noteq> None \<and> scored_answered \<noteq> Some answered then ''stale''
      else (case map_of scanner_coverage_status dm of
              Some st \<Rightarrow> if st = ''covered'' \<or> st = ''partial'' then st
                         else if st = ''n/a'' then ''n/a'' else ''self-assessed''
            | None \<Rightarrow> ''self-assessed''))"

text \<open>A persisted count is kept when it is an integer or an integral float; booleans, strings and
  fractions are dropped.\<close>

definition count_value :: "pyval \<Rightarrow> int option" where
  "count_value v =
     (case v of
        PyInt i \<Rightarrow> Some i
      | PyFloat x \<Rightarrow> if of_int \<lfloor>x\<rfloor> = x then Some \<lfloor>x\<rfloor> else None
      | _ \<Rightarrow> None)"

definition score_answered_counts :: "pyval \<Rightarrow> (string \<times> int) list option" where
  "score_answered_counts score_data =
     (case score_data of
        PyDict d \<Rightarrow>
          (case dict_get d ''answered_by_dimension'' PyNone of
             PyDict raw \<Rightarrow>
               Some (List.map_filter
                 (\<lambda>dm. map_option (Pair dm) (count_value (dict_get raw dm PyNone))) dimensions)
           | _ \<Rightarrow> None)
      | _ \<Rightarrow> None)"

definition overall_state :: "pyval \<Rightarrow> bool \<Rightarrow> string option" where
  "overall_state score_data stale =
     (if score_data = PyNone then None
      else (case score_data of
              PyDict d \<Rightarrow>
                (case dict_get d ''answered_by_dimension'' PyNone of
                   PyDict _ \<Rightarrow> Some (if stale then ''stale'' else ''current'')
                 | _ \<Rightarrow> Some ''recalculate'')
            | _ \<Rightarrow> Some ''recalculate''))"

definition is_score_stale ::
    "(string \<times> int) list \<Rightarrow> (string \<times> int) list option \<Rightarrow> bool \<Rightarrow> bool" where
  "is_score_stale answered scored_answered score_has_counts =
     (let live = filter (\<lambda>d. is_dimension_assessed (dict_get answered d 0)) dimensions in
      if \<not> score_has_counts then live \<noteq> []
      else (case scored_answered of
              None \<Rightarrow> False
            | Some scored \<Rightarrow> list_ex (\<lambda>d. map_of scored d \<noteq> Some (dict_get answered d 0)) live))"

text \<open>The arguments with which the compliance-map endpoint asks for a row's status: the count
  persisted for the dimension, and whether there is one.\<close>

definition row_status :: "string \<Rightarrow> int \<Rightarrow> (string \<times> int) list option \<Rightarrow> bool \<Rightarrow> string" where
  "row_status dm answered scored_counts score_has_counts =
     (case scored_counts of
        None \<Rightarrow> row_coverage_status dm answered None score_has_counts
      | Some c \<Rightarrow> row_coverage_status dm answered (map_of c dm) (map_of c dm \<noteq> None))"

section \<open>Lemmas\<close>

lemma round4_mono [mono_rules]: "x \<le> y \<Longrightarrow> round4 x \<le> round4 y"
  by (simp add: round4_def divide_right_mono py_round_mono)

lemma round4_numeral [simp]: "round4 0 = 0" "round4 4 = 4"
  by (simp_all add: round4_def)

lemma foldl_min: "foldl min x xs \<in> set (x # xs) \<and> (\<forall>y \<in> set (x # xs). foldl min x xs \<le> y)"
  for x :: "'a::linorder"
proof (induction xs arbitrary: x)
  case (Cons y ys)
  from Cons [of "min x y"] show ?case by (auto simp: min_def split: if_splits)
qed simp

lemma sum_list_between:
  assumes "\<forall>x \<in> set xs. a \<le> f x \<and> f x \<le> b"
  shows "of_nat (length xs) * a \<le> sum_list (map f xs) \<and> sum_list (map f xs) \<le> of_nat (length xs) * (b::real)"
  using assms by (induction xs) (auto simp: algebra_simps)

lemma mean_between:
  assumes "\<forall>x \<in> set xs. a \<le> f x \<and> f x \<le> (b::real)" and "xs \<noteq> []"
  shows "a \<le> sum_list (map f xs) / of_nat (length xs) \<and> sum_list (map f xs) / of_nat (length xs) \<le> b"
  using sum_list_between [OF assms(1)] assms(2) by (simp add: field_simps)

lemma weighted_cong: "dict_get a d 0 = dict_get b d 0 \<Longrightarrow> weighted_score a m d = weighted_score b m d"
  by (simp add: weighted_score_def)

lemma weighted_mono [mono_rules]:
  "0 \<le> m \<Longrightarrow> dict_get a d 0 \<le> dict_get b d 0 \<Longrightarrow> weighted_score a m d \<le> weighted_score b m d"
  unfolding weighted_score_def by (intro round4_mono min.mono mult_right_mono) simp_all

lemma weighted_bounds:
  assumes "0 \<le> m" and "0 \<le> dict_get a d 0"
  shows "0 \<le> weighted_score a m d \<and> weighted_score a m d \<le> 4"
proof
  have "round4 0 \<le> weighted_score a m d"
    unfolding weighted_score_def using assms by (intro round4_mono) simp
  then show "0 \<le> weighted_score a m d" by simp
  have "weighted_score a m d \<le> round4 4" unfolding weighted_score_def by (intro round4_mono) simp
  then show "weighted_score a m d \<le> 4" by simp
qed

definition maturity_floor :: "real \<Rightarrow> real" where
  "maturity_floor s = (case find (\<lambda>(f, _). f \<le> s) overall_maturity_levels of Some (f, _) \<Rightarrow> f | None \<Rightarrow> 0)"

lemma maturity_floor_mono: "s \<le> t \<Longrightarrow> maturity_floor s \<le> maturity_floor t"
  by (auto simp: maturity_floor_def overall_maturity_levels_def)

lemma sum_list_mono_map: "(\<And>x. x \<in> set xs \<Longrightarrow> f x \<le> g x) \<Longrightarrow> sum_list (map f xs) \<le> sum_list (map g xs :: real list)"
  by (rule sum_list_mono)

section \<open>Properties\<close>

text \<open>A practice score is an error exactly when some answer is outside 0 to 4 (and then it
  names the first such answer), and otherwise lies between 0 and 4.\<close>

theorem practice_scores_are_bounded:
  "(case compute_practice_score answers of
      Inl (AnswerOutOfRange a) \<Rightarrow> a \<in> set answers \<and> \<not> (0 \<le> a \<and> a \<le> 4)
    | Inr s \<Rightarrow> (\<forall>a \<in> set answers. 0 \<le> a \<and> a \<le> 4) \<and> 0 \<le> s \<and> s \<le> 4)"
proof (cases "find (\<lambda>a. \<not> answer_ok a) answers")
  case (Some a)
  then have "a \<in> set answers" "\<not> answer_ok a" by (auto simp: find_Some_iff)
  with Some show ?thesis by (auto simp: compute_practice_score_def answer_ok_def)
next
  case None
  then have ok: "\<forall>a \<in> set answers. 0 \<le> a \<and> a \<le> 4" by (auto simp: find_None_iff answer_ok_def)
  show ?thesis
  proof (cases "answers = []")
    case True
    then show ?thesis by (simp add: compute_practice_score_def)
  next
    case False
    have eq: "real_of_int (sum_list answers) = sum_list (map real_of_int answers)"
      by (induction answers) simp_all
    from mean_between [of answers 0 real_of_int 4] ok False
    have "0 \<le> real_of_int (sum_list answers) / real (length answers)"
      "real_of_int (sum_list answers) / real (length answers) \<le> 4" by (simp_all add: eq)
    with round4_mono [of 0] round4_mono [of _ 4] have
      "0 \<le> round4 (real_of_int (sum_list answers) / real (length answers))"
      "round4 (real_of_int (sum_list answers) / real (length answers)) \<le> 4" by fastforce+
    with None False ok show ?thesis by (simp add: compute_practice_score_def)
  qed
qed

theorem practice_scores_are_bounded_witness:
  "compute_practice_score [4, 3, 2] = Inr 3 \<and> (0::real) \<le> 3 \<and> (3::real) \<le> 4"
proof -
  have v: "compute_practice_score [4, 3, 2] = Inr 3"
    by (simp add: compute_practice_score_def answer_ok_def round4_def)
  with practice_scores_are_bounded [of "[4, 3, 2]"] show ?thesis by simp
qed

text \<open>The dimension score is the weakest practice: the least of the practice scores.\<close>

theorem dimension_is_weakest_link:
  "practice_scores \<noteq> [] \<Longrightarrow> compute_dimension_score practice_scores = Min (set practice_scores)"
proof -
  assume "practice_scores \<noteq> []"
  then obtain x xs where "practice_scores = x # xs" by (cases practice_scores) auto
  moreover have "foldl min x xs = Min (set (x # xs))"
    using foldl_min [of x xs] by (intro Min_eqI [symmetric]) auto
  ultimately show ?thesis by (simp add: compute_dimension_score_def)
qed

theorem dimension_is_weakest_link_witness:
  "compute_dimension_score [3, 1, 2] = Min {3, 1, 2}"
  using dimension_is_weakest_link [of "[3, 1, 2]"] by simp

text \<open>A dimension that was not assessed has no influence on the overall score or the maturity,
  whatever placeholder it carries; with none assessed the overall is absent and the maturity
  indeterminate.\<close>

theorem unassessed_dimensions_do_not_count:
  assumes "\<forall>d \<in> set assessed. dict_get a d 0 = dict_get b d 0"
  shows "ov_overall (compute_overall_score a m assessed) = ov_overall (compute_overall_score b m assessed)
    \<and> ov_maturity (compute_overall_score a m assessed) = ov_maturity (compute_overall_score b m assessed)
    \<and> (set assessed \<inter> set dimensions = {} \<longrightarrow>
         ov_overall (compute_overall_score a m assessed) = None
         \<and> ov_maturity (compute_overall_score a m assessed) = ''Indeterminate'')"
proof -
  define inc where "inc = filter (\<lambda>d. d \<in> set assessed) dimensions"
  have "map (weighted_score a m) inc = map (weighted_score b m) inc"
    using assms by (intro map_cong) (auto simp: inc_def intro: weighted_cong)
  then have mean: "overall_mean a m inc = overall_mean b m inc"
    unfolding overall_mean_def by (simp only:)
  have res: "ov_overall (compute_overall_score z m assessed) = overall_mean z m inc"
    "ov_maturity (compute_overall_score z m assessed) = maturity_label (overall_mean z m inc)" for z
    by (simp_all add: compute_overall_score_def Let_def inc_def)
  have "inc = []" if "set assessed \<inter> set dimensions = {}"
    using that by (auto simp: filter_empty_conv inc_def)
  then show ?thesis unfolding res mean by (auto simp: overall_mean_def maturity_label_def)
qed

theorem unassessed_dimensions_do_not_count_witness:
  "ov_overall (compute_overall_score [(''CVI'', 2), (''DPE'', 0)] 1 [''CVI''])
     = ov_overall (compute_overall_score [(''CVI'', 2), (''DPE'', 4)] 1 [''CVI''])"
  using unassessed_dimensions_do_not_count [of "[''CVI'']" "[(''CVI'', 2), (''DPE'', 0)]" "[(''CVI'', 2), (''DPE'', 4)]" 1]
  by (simp add: dict_get_def)

text \<open>With non-negative dimension scores and multiplier the overall score stays between 0 and
  4, and raising dimension scores never lowers it nor the maturity floor it reaches.\<close>

theorem overall_bounded_and_monotone:
  assumes m: "0 \<le> m" and a: "\<forall>d \<in> set dimensions. 0 \<le> dict_get a d 0 \<and> dict_get a d 0 \<le> dict_get b d 0"
    and oa: "ov_overall (compute_overall_score a m assessed) = Some x"
    and ob: "ov_overall (compute_overall_score b m assessed) = Some y"
  shows "0 \<le> x \<and> x \<le> y \<and> y \<le> 4 \<and> maturity_floor x \<le> maturity_floor y"
proof -
  define inc where "inc = filter (\<lambda>d. d \<in> set assessed) dimensions"
  have ne: "inc \<noteq> []" and x: "x = round4 (min 4 (sum_list (map (weighted_score a m) inc) / of_nat (length inc)))"
    and y: "y = round4 (min 4 (sum_list (map (weighted_score b m) inc) / of_nat (length inc)))"
    using oa ob by (auto simp: compute_overall_score_def Let_def overall_mean_def inc_def [symmetric] split: if_splits)
  have inc: "d \<in> set inc \<Longrightarrow> 0 \<le> dict_get a d 0 \<and> dict_get a d 0 \<le> dict_get b d 0" for d
    using a by (simp add: inc_def)
  have "\<forall>d \<in> set inc. 0 \<le> weighted_score a m d \<and> weighted_score a m d \<le> 4"
    using inc weighted_bounds [OF m] by blast
  from mean_between [OF this ne] have "0 \<le> sum_list (map (weighted_score a m) inc) / of_nat (length inc)" by simp
  then have "round4 0 \<le> x" unfolding x by (intro round4_mono) simp
  moreover have "x \<le> y" unfolding x y
    using inc weighted_mono [OF m] by (intro round4_mono min.mono divide_right_mono sum_list_mono_map) simp_all
  moreover have "y \<le> round4 4" unfolding y by (intro round4_mono) simp
  ultimately show ?thesis using maturity_floor_mono by simp
qed

theorem overall_bounded_and_monotone_witness:
  "(0::real) \<le> 1 \<and> (1::real) \<le> 2 \<and> (2::real) \<le> 4 \<and> maturity_floor 1 \<le> maturity_floor 2"
proof (rule overall_bounded_and_monotone [of 1 "[(''CVI'', 1)]" "[(''CVI'', 2)]" "[''CVI'']"])
  show "ov_overall (compute_overall_score [(''CVI'', 1)] 1 [''CVI'']) = Some 1"
    "ov_overall (compute_overall_score [(''CVI'', 2)] 1 [''CVI'']) = Some 2"
    by (simp_all add: compute_overall_score_def overall_mean_def weighted_score_def dimensions_def dict_get_def
        round4_def Let_def)
qed (simp_all add: dimensions_def dict_get_def)

text \<open>The two staleness predicates agree: the session is stale exactly when some row of the
  compliance map is, so no surface can show a current row for a stale session or the reverse.\<close>

theorem staleness_is_consistent:
  assumes "score_has_counts \<or> scored = None"
  shows "is_score_stale answered scored score_has_counts \<longleftrightarrow>
    (\<exists>d \<in> set dimensions. row_status d (dict_get answered d 0) scored score_has_counts = ''stale'')"
proof (cases scored)
  case None
  then show ?thesis
    by (auto simp: is_score_stale_def row_status_def row_coverage_status_def Let_def filter_empty_conv
        scanner_coverage_status_def)
next
  case (Some c)
  with assms have h: "score_has_counts" by simp
  have st: "row_coverage_status d n (map_of c d) (map_of c d \<noteq> None) = ''stale''
      \<longleftrightarrow> is_dimension_assessed n \<and> map_of c d \<noteq> Some n" for d n
    by (cases "map_of c d") (auto simp: row_coverage_status_def scanner_coverage_status_def)
  have rs: "row_status d n (Some c) True = ''stale'' \<longleftrightarrow> is_dimension_assessed n \<and> map_of c d \<noteq> Some n" for d n
    unfolding row_status_def option.case by (rule st)
  show ?thesis unfolding Some using h by (auto simp: is_score_stale_def rs list_ex_iff)
qed

theorem staleness_is_consistent_witness:
  "is_score_stale [(''CVI'', 3)] (Some [(''CVI'', 2)]) True \<longleftrightarrow>
    (\<exists>d \<in> set dimensions. row_status d (dict_get [(''CVI'', 3)] d 0) (Some [(''CVI'', 2)]) True = ''stale'')"
  by (rule staleness_is_consistent) simp

text \<open>A persisted score cannot vouch for answers it does not count: when a row of a saved
  score is shown as neither pending nor stale, the persisted data contains exactly the live number
  of answers for that dimension, as an integer or an integral float.\<close>

theorem saved_scores_cannot_upgrade:
  assumes counts: "score_answered_counts score_data = Some c"
    and shown: "row_status d live (Some c) True \<notin> {''pending'', ''stale''}"
  shows "\<exists>data raw. score_data = PyDict data \<and> dict_get data ''answered_by_dimension'' PyNone = PyDict raw
    \<and> (dict_get raw d PyNone = PyInt live \<or> dict_get raw d PyNone = PyFloat (of_int live))"
proof -
  from counts obtain data raw where data: "score_data = PyDict data"
      "dict_get data ''answered_by_dimension'' PyNone = PyDict raw"
    and c: "c = List.map_filter (\<lambda>dm. map_option (Pair dm) (count_value (dict_get raw dm PyNone))) dimensions"
    by (auto simp: score_answered_counts_def split: pyval.splits)
  have "map_of c d = Some live"
    using shown by (cases "map_of c d") (auto simp: row_status_def row_coverage_status_def split: if_splits)
  then have "(d, live) \<in> set c" by (rule map_of_SomeD)
  then have "count_value (dict_get raw d PyNone) = Some live"
    unfolding c by (auto simp: List.map_filter_def)
  then have "dict_get raw d PyNone = PyInt live \<or> dict_get raw d PyNone = PyFloat (of_int live)"
    by (auto simp: count_value_def split: pyval.splits if_splits)
  with data show ?thesis by blast
qed

theorem saved_scores_cannot_upgrade_witness:
  "\<exists>data raw. PyDict [(''answered_by_dimension'', PyDict [(''CVI'', PyInt 3)])] = PyDict data
    \<and> dict_get data ''answered_by_dimension'' PyNone = PyDict raw
    \<and> (dict_get raw ''CVI'' PyNone = PyInt 3 \<or> dict_get raw ''CVI'' PyNone = PyFloat (of_int 3))"
  by (rule saved_scores_cannot_upgrade [of _ "[(''CVI'', 3)]" "''CVI''" 3])
    (simp_all add: score_answered_counts_def dict_get_def dimensions_def List.map_filter_def count_value_def
      row_status_def row_coverage_status_def is_dimension_assessed_def scanner_coverage_status_def)

end
