(* ===== verification/Siem_Formatter.thy ===== *)
theory Siem_Formatter
  imports Prelude
begin

text \<open>
  \<open>quirk/siem/formatter.py\<close>: escaping of CEF header and extension values, the field
  whitelist, and the event line; with a reader of the CEF grammar as the specification of what a
  consumer recovers.  The repr of a float, list or dictionary value is a parameter.
\<close>

section \<open>Escaping\<close>

definition bs :: char where "bs = CHR 0x5C"
definition cr :: char where "cr = CHR 0x0D"
definition lf :: char where "lf = CHR 0x0A"

definition replace_char :: "char \<Rightarrow> string \<Rightarrow> string \<Rightarrow> string" where
  "replace_char c r s = concat (map (\<lambda>x. if x = c then r else [x]) s)"

fun replace_crlf :: "string \<Rightarrow> string \<Rightarrow> string" where
  "replace_crlf r (a # b # s) =
     (if a = cr \<and> b = lf then r @ replace_crlf r s else a # replace_crlf r (b # s))"
| "replace_crlf r s = s"

definition cef_escape_header :: "string \<Rightarrow> string" where
  "cef_escape_header v =
     replace_char lf [] (replace_char cr [] (replace_crlf []
       (replace_char CHR ''|'' [bs, CHR ''|''] (replace_char bs [bs, bs] v))))"

definition cef_escape_extension :: "string \<Rightarrow> string" where
  "cef_escape_extension v =
     replace_char CHR '' '' [bs, CHR ''s''] (replace_char lf [bs, CHR ''n''] (replace_char cr [bs, CHR ''n'']
       (replace_crlf [bs, CHR ''n'']
         (replace_char CHR ''='' [bs, CHR ''=''] (replace_char bs [bs, bs] v)))))"

section \<open>The whitelist and the event\<close>

definition cef_severity :: "string \<Rightarrow> int" where
  "cef_severity s =
     (if s = ''CRITICAL'' then 10 else if s = ''HIGH'' then 8 else if s = ''MEDIUM'' then 5
      else if s = ''LOW'' then 3 else 3)"

definition is_slug_char :: "char \<Rightarrow> bool" where
  "is_slug_char c \<longleftrightarrow> is_digit c \<or> is_lower_char c"

text \<open>\<open>re.sub(r"[^a-z0-9]+", "-", s)\<close>: the flag says that the current run was replaced.\<close>

fun slug_runs :: "bool \<Rightarrow> string \<Rightarrow> string" where
  "slug_runs inside [] = []"
| "slug_runs inside (c # s) =
     (if is_slug_char c then c # slug_runs False s
      else if inside then slug_runs True s else CHR ''-'' # slug_runs True s)"

definition strip_hyphens :: "string \<Rightarrow> string" where
  "strip_hyphens s = rev (dropWhile (\<lambda>c. c = CHR ''-'') (rev (dropWhile (\<lambda>c. c = CHR ''-'') s)))"

definition slugify :: "string \<Rightarrow> string" where
  "slugify title =
     (let slug = strip_hyphens (slug_runs False (py_lower title)) in
      if slug = [] then ''unknown'' else slug)"

record cef_finding =
  cef_sev :: string
  cef_host :: string
  cef_port :: "int option"
  cef_title :: string
  cef_category :: string
  cef_description :: string
  cef_recommendation :: string

type_synonym finding = "(string \<times> pyval) list"

definition field :: "finding \<Rightarrow> string \<Rightarrow> pyval" where
  "field f k = dict_get f k PyNone"

definition safe_port :: "pyval \<Rightarrow> int option" where
  "safe_port v =
     (case py_int v of None \<Rightarrow> None | Some p \<Rightarrow> if 0 < p \<and> p \<le> 65535 then Some p else None)"

definition to_cef_finding :: "(pyval \<Rightarrow> string) \<Rightarrow> finding \<Rightarrow> cef_finding" where
  "to_cef_finding repr f =
     (let title = py_str repr (py_or (field f ''title'') (PyStr ''Finding''));
          category = py_or (field f ''category'') (py_or (field f ''id'') (PyStr (slugify title))) in
      \<lparr>cef_sev = py_upper (py_str repr (py_or (field f ''severity'') (PyStr ''LOW''))),
       cef_host = py_str repr (py_or (field f ''host'') (PyStr [])),
       cef_port = safe_port (field f ''port''),
       cef_title = title,
       cef_category = py_str repr category,
       cef_description = take 256 (py_str repr (py_or (field f ''description'') (PyStr []))),
       cef_recommendation = take 256 (py_str repr (py_or (field f ''recommendation'') (PyStr [])))\<rparr>)"

definition cef_header :: "string \<Rightarrow> cef_finding \<Rightarrow> string" where
  "cef_header version safe =
     ''CEF:0|QUIRK|scanner|'' @ cef_escape_header version @ ''|'' @ cef_escape_header (cef_category safe)
     @ ''|'' @ cef_escape_header (cef_title safe) @ ''|'' @ int_str (cef_severity (cef_sev safe))"

definition cef_message :: "cef_finding \<Rightarrow> string" where
  "cef_message safe =
     (if cef_recommendation safe \<noteq> [] then cef_recommendation safe else cef_description safe)"

definition cef_extension :: "cef_finding \<Rightarrow> string" where
  "cef_extension safe =
     ''dhost='' @ cef_escape_extension (cef_host safe) @ '' ''
     @ (case cef_port safe of None \<Rightarrow> [] | Some p \<Rightarrow> ''dpt='' @ int_str p @ '' '')
     @ ''cs1='' @ cef_escape_extension (cef_category safe) @ '' cs1Label=Category ''
     @ ''cs2='' @ cef_escape_extension (cef_description safe) @ '' cs2Label=EvidenceSummary ''
     @ ''msg='' @ cef_escape_extension (cef_message safe)"

definition build_cef_event :: "(pyval \<Rightarrow> string) \<Rightarrow> finding \<Rightarrow> string \<Rightarrow> string" where
  "build_cef_event repr f version =
     (let safe = to_cef_finding repr f in cef_header version safe @ ''|'' @ cef_extension safe)"

section \<open>The reader\<close>

text \<open>A CEF consumer undoes the escapes; a header field ends at the first unescaped pipe.\<close>

fun unescape_header :: "string \<Rightarrow> string" where
  "unescape_header (a # b # s) = (if a = bs then b # unescape_header s else a # unescape_header (b # s))"
| "unescape_header s = s"

fun unescape_extension :: "string \<Rightarrow> string" where
  "unescape_extension (a # b # s) =
     (if a = bs then (if b = CHR ''n'' then lf else if b = CHR ''s'' then CHR '' '' else b) # unescape_extension s
      else a # unescape_extension (b # s))"
| "unescape_extension s = s"

fun next_field :: "string \<Rightarrow> string \<times> string option" where
  "next_field [] = ([], None)"
| "next_field [a] = (if a = CHR ''|'' then ([], Some []) else ([a], None))"
| "next_field (a # b # s) =
     (if a = bs then (a # b # fst (next_field s), snd (next_field s))
      else if a = CHR ''|'' then ([], Some (b # s))
      else (a # fst (next_field (b # s)), snd (next_field (b # s))))"

fun header_fields :: "nat \<Rightarrow> string \<Rightarrow> (string list \<times> string) option" where
  "header_fields 0 s = Some ([], s)"
| "header_fields (Suc n) s =
     (case next_field s of
        (f, Some rest) \<Rightarrow> map_option (\<lambda>(fs, ext). (unescape_header f # fs, ext)) (header_fields n rest)
      | (_, None) \<Rightarrow> None)"

text \<open>What survives of a value: a header value without line breaks, an extension value with every
  line break as a line feed.\<close>

definition without_breaks :: "string \<Rightarrow> string" where
  "without_breaks s = filter (\<lambda>c. c \<noteq> cr \<and> c \<noteq> lf) s"

definition unix_breaks :: "string \<Rightarrow> string" where
  "unix_breaks s = replace_char cr [lf] (replace_crlf [lf] s)"

section \<open>Escaping, character by character\<close>

lemmas special_chars = bs_def cr_def lf_def

definition esc_h :: "char \<Rightarrow> string" where
  "esc_h c = (if c = bs then [bs, bs] else if c = CHR ''|'' then [bs, CHR ''|''] else [c])"

definition esc_e :: "char \<Rightarrow> string" where
  "esc_e c = (if c = bs then [bs, bs] else if c = CHR ''='' then [bs, CHR ''='']
     else if c = lf then [bs, CHR ''n''] else if c = CHR '' '' then [bs, CHR ''s''] else [c])"

lemma replace_char_simps [simp]:
  "replace_char c r [] = []"
  "replace_char c r (x # s) = (if x = c then r @ replace_char c r s else x # replace_char c r s)"
  by (simp_all add: replace_char_def)

lemma replace_char_append [simp]: "replace_char c r (a @ b) = replace_char c r a @ replace_char c r b"
  by (simp add: replace_char_def)

lemma drop_breaks: "replace_char lf [] (replace_char cr [] (replace_crlf [] s)) = without_breaks s"
  by (induction "[] :: string" s rule: replace_crlf.induct) (auto simp: without_breaks_def)

lemma escape_header_chars: "cef_escape_header v = concat (map esc_h (without_breaks v))"
proof -
  have "without_breaks (replace_char CHR ''|'' [bs, CHR ''|''] (replace_char bs [bs, bs] v))
      = concat (map esc_h (without_breaks v))"
    by (induction v) (simp_all add: without_breaks_def esc_h_def special_chars)
  then show ?thesis by (simp add: cef_escape_header_def drop_breaks)
qed

lemma crlf_step: "x \<noteq> cr \<or> ys = [] \<or> hd ys \<noteq> lf \<Longrightarrow> replace_crlf r (x # ys) = x # replace_crlf r ys"
  by (cases ys) auto

lemma crlf_pair: "replace_crlf r (cr # lf # s) = r @ replace_crlf r s"
  by simp

lemma escape_extension_chars: "cef_escape_extension v = concat (map esc_e (unix_breaks v))"
proof -
  define g where "g = (\<lambda>s. replace_char CHR ''='' [bs, CHR ''=''] (replace_char bs [bs, bs] s))"
  define h where "h = (\<lambda>s. replace_char CHR '' '' [bs, CHR ''s'']
    (replace_char lf [bs, CHR ''n''] (replace_char cr [bs, CHR ''n''] s)))"
  have h_app: "h (a @ b) = h a @ h b" for a b by (simp add: h_def)
  have g_cons: "g (c # s) = (if c = bs then [bs, bs] else if c = CHR ''='' then [bs, CHR ''=''] else [c]) @ g s" for c s
    by (simp add: g_def special_chars)
  have g_hd: "g s = [] \<or> hd (g s) \<noteq> lf" if "s = [] \<or> hd s \<noteq> lf" for s
    using that by (cases s) (auto simp: g_cons special_chars g_def)
  have one: "h (replace_crlf [bs, CHR ''n''] (g (c # s)))
      = esc_e (if c = cr then lf else c) @ h (replace_crlf [bs, CHR ''n''] (g s))"
    if "c \<noteq> cr \<or> s = [] \<or> hd s \<noteq> lf" for c s
  proof (cases "c = bs \<or> c = CHR ''=''")
    case True
    then show ?thesis
      by (auto simp: g_cons crlf_step special_chars) (simp_all add: h_def esc_e_def special_chars)
  next
    case False
    from that g_hd [of s] have "c \<noteq> cr \<or> g s = [] \<or> hd (g s) \<noteq> lf" by blast
    from crlf_step [OF this] False show ?thesis
      by (auto simp: g_cons) (auto simp: h_def esc_e_def special_chars)
  qed
  have "h (replace_crlf [bs, CHR ''n''] (g s)) = concat (map esc_e (unix_breaks s))" for s
  proof (induction "[lf]" s rule: replace_crlf.induct)
    case (1 a b s)
    show ?case
    proof (cases "a = cr \<and> b = lf")
      case True
      have "g (cr # lf # s) = cr # lf # g s" by (simp add: g_cons) (simp add: special_chars)
      with True 1(1) [OF True] show ?thesis
        by (simp add: crlf_pair h_app) (simp add: h_def unix_breaks_def esc_e_def special_chars)
    next
      case False
      then have "a \<noteq> cr \<or> b # s = [] \<or> hd (b # s) \<noteq> lf" by auto
      from one [OF this] 1(2) [OF False] False show ?thesis by (auto simp: unix_breaks_def)
    qed
  qed (use one [of _ "[]"] in \<open>simp_all add: g_def h_def unix_breaks_def\<close>)
  then show ?thesis by (simp add: cef_escape_extension_def g_def h_def)
qed

lemma unix_no_cr: "cr \<notin> set (unix_breaks s)"
  by (simp add: unix_breaks_def replace_char_def special_chars)

lemma unescape_header_chars: "unescape_header (concat (map esc_h s)) = s"
proof -
  have step: "c \<noteq> bs \<Longrightarrow> unescape_header (c # s) = c # unescape_header s" for c s
    by (cases s) simp_all
  show ?thesis by (induction s) (auto simp: esc_h_def step)
qed

lemma unescape_extension_chars: "unescape_extension (concat (map esc_e s)) = s"
proof -
  have step: "c \<noteq> bs \<Longrightarrow> unescape_extension (c # s) = c # unescape_extension s" for c s
    by (cases s) simp_all
  show ?thesis by (induction s) (auto simp: esc_e_def step, simp_all add: special_chars)
qed

section \<open>The interface of an escaping\<close>

text \<open>What an event builder relies on: the reader recovers the canonical value, and no forbidden
  character is left in the escaped one.\<close>

locale value_escaping =
  fixes escape :: "string \<Rightarrow> string" and unescape :: "string \<Rightarrow> string"
    and canonical :: "string \<Rightarrow> string" and forbidden :: "char set"
  assumes recovered: "unescape (escape s) = canonical s"
    and contained: "c \<in> forbidden \<Longrightarrow> c \<notin> set (escape s)"
    and canonical_escape: "escape (canonical s) = escape s"
begin

lemma escape_eq_iff: "escape a = escape b \<longleftrightarrow> canonical a = canonical b"
  by (metis recovered canonical_escape)

lemma canonical_idem: "canonical (canonical s) = canonical s"
  by (metis recovered canonical_escape)

lemma no_forbidden: "set (escape s) \<inter> forbidden = {}"
  using contained by blast

end

interpretation header: value_escaping cef_escape_header unescape_header without_breaks "{cr, lf}"
proof
  show "unescape_header (cef_escape_header s) = without_breaks s" for s
    by (simp add: escape_header_chars unescape_header_chars)
  show "c \<notin> set (cef_escape_header s)" if "c \<in> {cr, lf}" for c s
    using that by (auto simp: escape_header_chars esc_h_def without_breaks_def special_chars split: if_splits)
  have "without_breaks (without_breaks s) = without_breaks s" for s by (simp add: without_breaks_def)
  then show "cef_escape_header (without_breaks s) = cef_escape_header s" for s
    by (simp add: escape_header_chars)
qed

lemma unix_idem: "cr \<notin> set s \<Longrightarrow> unix_breaks s = s"
proof -
  assume no: "cr \<notin> set s"
  have "replace_crlf r t = t" if "cr \<notin> set t" for r t
    using that by (induction r t rule: replace_crlf.induct) auto
  moreover have "replace_char cr [lf] t = t" if "cr \<notin> set t" for t
    using that by (induction t) auto
  ultimately show ?thesis using no by (simp add: unix_breaks_def)
qed

interpretation extension: value_escaping cef_escape_extension unescape_extension unix_breaks "{cr, lf, CHR '' ''}"
proof
  show "unescape_extension (cef_escape_extension s) = unix_breaks s" for s
    by (simp add: escape_extension_chars unescape_extension_chars)
  show "c \<notin> set (cef_escape_extension s)" if "c \<in> {cr, lf, CHR '' ''}" for c s
    using that unix_no_cr [of s]
    by (auto simp: escape_extension_chars esc_e_def special_chars split: if_splits)
  show "cef_escape_extension (unix_breaks s) = cef_escape_extension s" for s
    by (simp add: escape_extension_chars unix_idem unix_no_cr)
qed

section \<open>Reading the header\<close>

lemma next_field_simps [simp]:
  "next_field (CHR ''|'' # s) = ([], Some s)"
  "next_field (bs # b # s) = (bs # b # fst (next_field s), snd (next_field s))"
  "c \<noteq> bs \<Longrightarrow> c \<noteq> CHR ''|'' \<Longrightarrow> next_field (c # s) = (c # fst (next_field s), snd (next_field s))"
  by (cases s; simp add: special_chars)+

lemma next_field_escaped:
  "next_field (concat (map esc_h s) @ CHR ''|'' # t) = (concat (map esc_h s), Some t)"
  by (induction s) (simp_all add: esc_h_def)

lemma next_field_header:
  "next_field (cef_escape_header v @ CHR ''|'' # t) = (cef_escape_header v, Some t)"
  unfolding escape_header_chars by (rule next_field_escaped)

lemma plain_field:
  assumes "concat (map esc_h s) = s"
  shows "next_field (s @ CHR ''|'' # t) = (s, Some t)" and "unescape_header s = s"
  using next_field_escaped [of s t] unescape_header_chars [of s] assms by simp_all

lemma severity_text:
  "concat (map esc_h (int_str (cef_severity s))) = int_str (cef_severity s)"
  "cr \<notin> set (int_str (cef_severity s))" "lf \<notin> set (int_str (cef_severity s))"
proof -
  have cases: "cef_severity s \<in> {10, 8, 5, 3}" by (simp add: cef_severity_def)
  have "concat (map esc_h (int_str i)) = int_str i \<and> cr \<notin> set (int_str i) \<and> lf \<notin> set (int_str i)"
    if "i \<in> {10, 8, 5, 3}" for i
    using that by (elim insertE) (simp_all, code_simp+)
  from this [OF cases] show "concat (map esc_h (int_str (cef_severity s))) = int_str (cef_severity s)"
    "cr \<notin> set (int_str (cef_severity s))" "lf \<notin> set (int_str (cef_severity s))" by simp_all
qed

lemma constant_fields:
  "concat (map esc_h ''CEF:0'') = ''CEF:0''" "concat (map esc_h ''QUIRK'') = ''QUIRK''"
  "concat (map esc_h ''scanner'') = ''scanner''"
  by code_simp+

lemma digits_plain:
  assumes "all_digits s" and "\<not> is_digit c"
  shows "c \<notin> set s"
  using assms by (auto simp: all_digits_def list_all_iff)

lemma port_text:
  "cef_port (to_cef_finding repr f) = Some p \<Longrightarrow> all_digits (int_str p)"
  using all_digits_nat_str by (auto simp: to_cef_finding_def Let_def safe_port_def int_str_def split: option.splits if_splits)

section \<open>Properties\<close>

text \<open>C13: a consumer splitting the event at unescaped pipes gets the seven header fields back:
  the constants, then the version, category and title without line breaks, then the severity; the
  rest is the extension.  No content of a finding can add, remove or shift a header field.\<close>

theorem cef_header_reads_back:
  "header_fields 7 (build_cef_event repr f version) =
     Some ([''CEF:0'', ''QUIRK'', ''scanner'', without_breaks version,
            without_breaks (cef_category (to_cef_finding repr f)),
            without_breaks (cef_title (to_cef_finding repr f)),
            int_str (cef_severity (cef_sev (to_cef_finding repr f)))],
           cef_extension (to_cef_finding repr f))"
proof -
  let ?s = "to_cef_finding repr f"
  have "build_cef_event repr f version =
      ''CEF:0'' @ CHR ''|'' # ''QUIRK'' @ CHR ''|'' # ''scanner'' @ CHR ''|'' # cef_escape_header version @
      CHR ''|'' # cef_escape_header (cef_category ?s) @ CHR ''|'' # cef_escape_header (cef_title ?s) @
      CHR ''|'' # int_str (cef_severity (cef_sev ?s)) @ CHR ''|'' # cef_extension ?s"
    by (simp add: build_cef_event_def Let_def cef_header_def)
  moreover have "(7::nat) = Suc (Suc (Suc (Suc (Suc (Suc (Suc 0))))))" by simp
  ultimately show ?thesis
    by (simp only: header_fields.simps plain_field [OF constant_fields(1)] plain_field [OF constant_fields(2)]
        plain_field [OF constant_fields(3)] plain_field [OF severity_text(1)] next_field_header
        prod.case option.case option.map header.recovered)
qed

text \<open>The extension splits at its spaces into exactly the expected key-value tokens, the port
  token present only for a port between 1 and 65535, and reading the values back recovers them with
  unified line breaks: no value can inject a token.\<close>

theorem cef_extension_reads_back:
  "py_split CHR '' '' (cef_extension (to_cef_finding repr f)) =
     [''dhost='' @ cef_escape_extension (cef_host (to_cef_finding repr f))]
     @ (case safe_port (field f ''port'') of None \<Rightarrow> [] | Some p \<Rightarrow> [''dpt='' @ int_str p])
     @ [''cs1='' @ cef_escape_extension (cef_category (to_cef_finding repr f)), ''cs1Label=Category'',
        ''cs2='' @ cef_escape_extension (cef_description (to_cef_finding repr f)), ''cs2Label=EvidenceSummary'',
        ''msg='' @ cef_escape_extension (cef_message (to_cef_finding repr f))]
   \<and> unescape_extension (cef_escape_extension v) = unix_breaks v"
proof
  let ?s = "to_cef_finding repr f"
  have clean: "CHR '' '' \<notin> set (cef_escape_extension v)" for v using extension.contained by blast
  have port: "cef_port ?s = safe_port (field f ''port'')" by (simp add: to_cef_finding_def Let_def)
  have digits: "CHR '' '' \<notin> set (int_str p)" if "safe_port (field f ''port'') = Some p" for p
    by (rule digits_plain [OF port_text [of repr f p]]) (simp_all add: port that is_digit_def char_code_def)
  show "py_split CHR '' '' (cef_extension ?s) =
     [''dhost='' @ cef_escape_extension (cef_host ?s)]
     @ (case safe_port (field f ''port'') of None \<Rightarrow> [] | Some p \<Rightarrow> [''dpt='' @ int_str p])
     @ [''cs1='' @ cef_escape_extension (cef_category ?s), ''cs1Label=Category'',
        ''cs2='' @ cef_escape_extension (cef_description ?s), ''cs2Label=EvidenceSummary'',
        ''msg='' @ cef_escape_extension (cef_message ?s)]"
    (is "_ = ?tokens")
  proof -
    have "cef_extension ?s = join_with CHR '' '' ?tokens"
      by (cases "safe_port (field f ''port'')") (simp_all add: cef_extension_def port)
    moreover have "\<forall>t \<in> set ?tokens. CHR '' '' \<notin> set t"
      using clean digits by (cases "safe_port (field f ''port'')") simp_all
    ultimately show ?thesis by (simp only: py_split_join append_is_Nil_conv list.distinct not_False_eq_True simp_thms)
  qed
  show "unescape_extension (cef_escape_extension v) = unix_breaks v" by (rule extension.recovered)
qed

text \<open>The event is one line, whatever the finding and the version contain.\<close>

theorem cef_event_is_one_line:
  "set (build_cef_event repr f version) \<inter> {cr, lf} = {}"
proof -
  let ?s = "to_cef_finding repr f"
  have h: "cr \<notin> set (cef_escape_header v)" "lf \<notin> set (cef_escape_header v)" for v
    using header.contained by blast+
  have e: "cr \<notin> set (cef_escape_extension v)" "lf \<notin> set (cef_escape_extension v)" for v
    using extension.contained by blast+
  have port: "cr \<notin> set (int_str p)" "lf \<notin> set (int_str p)" if "cef_port ?s = Some p" for p
    using digits_plain [OF port_text [OF that]] by (simp_all add: is_digit_def special_chars char_code_def)
  have lit: "cr \<notin> set ''dhost=''" "lf \<notin> set ''dhost=''" by (simp_all add: special_chars)
  have "cr \<notin> set (cef_header version ?s)" "lf \<notin> set (cef_header version ?s)"
    using h severity_text(2,3) by (simp_all add: cef_header_def) (simp_all add: special_chars)
  moreover have "cr \<notin> set (cef_extension ?s)" "lf \<notin> set (cef_extension ?s)"
    using e port by (cases "cef_port ?s"; simp add: cef_extension_def; simp add: special_chars)+
  ultimately show ?thesis by (simp add: build_cef_event_def Let_def) (simp add: special_chars)
qed

text \<open>Only the eight whitelisted fields reach the event: two findings that agree on them give
  the same event, whatever else they carry (certificates, keys, compliance data).\<close>

theorem cef_event_whitelist:
  assumes "\<forall>k \<in> {''severity'', ''host'', ''port'', ''title'', ''category'', ''id'', ''description'',
      ''recommendation''}. field f k = field g k"
  shows "build_cef_event repr f version = build_cef_event repr g version"
proof -
  have "to_cef_finding repr f = to_cef_finding repr g" using assms by (simp add: to_cef_finding_def)
  then show ?thesis by (simp add: build_cef_event_def)
qed

theorem cef_event_whitelist_witness:
  "build_cef_event (\<lambda>v. []) [(''title'', PyStr ''a''), (''private_key'', PyStr ''k'')] ''1''
     = build_cef_event (\<lambda>v. []) [(''title'', PyStr ''a'')] ''1''"
  by (rule cef_event_whitelist) (simp add: field_def dict_get_def)

end
