(* ===== verification/Port_Spec.thy ===== *)
theory Port_Spec
  imports Prelude
begin

text \<open>
  \<open>quirk/util/port_spec.py\<close>: the parser of user-supplied port specifications, with every
  rejection a value, and what it accepts.  The accumulated set is a duplicate-free list.
\<close>

section \<open>The parser\<close>

datatype port_error =
    EmptySpec
  | EmptyToken
  | InvalidToken string
  | PortOutOfBounds int string
  | InvertedRange string
  | TooManyPorts

definition port_spec_cap :: nat where
  "port_spec_cap = 2048"

definition port_min :: int where
  "port_min = 1"

definition port_max :: int where
  "port_max = 65535"

text \<open>\<open>^\d+(-\d+)?$\<close>: the pieces around the hyphens of the token.\<close>

definition token_ok :: "string \<Rightarrow> bool" where
  "token_ok token =
     (case py_split CHR ''-'' token of
        [a] \<Rightarrow> all_digits a
      | [a, b] \<Rightarrow> all_digits a \<and> all_digits b
      | _ \<Rightarrow> False)"

definition out_of_bounds :: "int \<Rightarrow> bool" where
  "out_of_bounds p \<longleftrightarrow> p < port_min \<or> port_max < p"

definition token_ports :: "string \<Rightarrow> port_error + int list" where
  "token_ports token =
     (if token = [] then Inl EmptyToken
      else if \<not> token_ok token then Inl (InvalidToken token)
      else (case py_split CHR ''-'' token of
              [a, b] \<Rightarrow>
                (let low = int (digits_value a); high = int (digits_value b) in
                 if out_of_bounds low then Inl (PortOutOfBounds low token)
                 else if out_of_bounds high then Inl (PortOutOfBounds high token)
                 else if high < low then Inl (InvertedRange token)
                 else Inr [low..high])
            | a # _ \<Rightarrow>
                (let p = int (digits_value a) in
                 if out_of_bounds p then Inl (PortOutOfBounds p token) else Inr [p])
            | [] \<Rightarrow> Inl EmptyToken))"

definition add_token :: "string \<Rightarrow> int list \<Rightarrow> port_error + int list" where
  "add_token raw ports =
     bind_err (token_ports (py_strip raw)) (\<lambda>new.
       let ports' = ports @ filter (\<lambda>p. p \<notin> set ports) new in
       if port_spec_cap < length ports' then Inl TooManyPorts else Inr ports')"

definition parse_port_spec :: "string \<Rightarrow> port_error + int list" where
  "parse_port_spec s =
     (if s = [] \<or> py_strip s = [] then Inl EmptySpec
      else bind_err (err_fold add_token (py_split CHR '','' s) []) (\<lambda>ports. Inr (sort ports)))"

section \<open>Lemmas\<close>

definition valid_ports :: "int list \<Rightarrow> bool" where
  "valid_ports ports \<longleftrightarrow>
     distinct ports \<and> (\<forall>p \<in> set ports. 1 \<le> p \<and> p \<le> 65535) \<and> length ports \<le> 2048"

lemma token_ports_in_range:
  assumes "token_ports t = Inr new"
  shows "distinct new \<and> new \<noteq> [] \<and> (\<forall>p \<in> set new. 1 \<le> p \<and> p \<le> 65535)"
proof -
  obtain a rest where split: "py_split CHR ''-'' t = a # rest"
    by (cases "py_split CHR ''-'' t") simp_all
  show ?thesis
  proof (cases rest)
    case Nil
    with assms split show ?thesis
      by (auto simp: token_ports_def Let_def out_of_bounds_def port_min_def port_max_def split: if_splits)
  next
    case (Cons b more)
    then have "more = []" using assms split
      by (cases more) (auto simp: token_ports_def token_ok_def split: if_splits)
    with assms split Cons show ?thesis
      by (auto simp: token_ports_def Let_def out_of_bounds_def port_min_def port_max_def split: if_splits)
  qed
qed

lemma add_token_valid:
  assumes "valid_ports ports" and "add_token raw ports = Inr ports'"
  shows "valid_ports ports' \<and> ports' \<noteq> [] \<and>
    (\<exists>new. token_ports (py_strip raw) = Inr new \<and> set ports' = set ports \<union> set new)"
proof -
  from assms(2) obtain new where new: "token_ports (py_strip raw) = Inr new"
    and p': "ports' = ports @ filter (\<lambda>p. p \<notin> set ports) new" "length ports' \<le> 2048"
    by (auto simp: add_token_def bind_err_Inr Let_def port_spec_cap_def split: if_splits)
  note t = token_ports_in_range [OF new]
  have "set ports' = set ports \<union> set new" using p'(1) by auto
  moreover from this t have "ports' \<noteq> []" by auto
  moreover have "valid_ports ports'" using assms(1) t p' by (auto simp: valid_ports_def)
  ultimately show ?thesis using new by blast
qed

text \<open>The ports a list of tokens stands for.\<close>

definition ports_of_tokens :: "string list \<Rightarrow> int set" where
  "ports_of_tokens raws = (\<Union>raw \<in> set raws. case token_ports (py_strip raw) of Inl _ \<Rightarrow> {} | Inr new \<Rightarrow> set new)"

lemma add_tokens_valid:
  "err_fold add_token raws ports = Inr out \<Longrightarrow> valid_ports ports \<Longrightarrow>
   valid_ports out \<and> set out = set ports \<union> ports_of_tokens raws \<and>
   (\<forall>raw \<in> set raws. \<exists>new. token_ports (py_strip raw) = Inr new) \<and> (raws \<noteq> [] \<longrightarrow> out \<noteq> [])"
proof (induction raws arbitrary: ports)
  case Nil
  then show ?case by (simp add: ports_of_tokens_def)
next
  case (Cons raw raws)
  from Cons.prems(1) obtain mid where mid: "add_token raw ports = Inr mid" "err_fold add_token raws mid = Inr out"
    by (auto simp: bind_err_Inr)
  from add_token_valid [OF Cons.prems(2) mid(1)] obtain new
    where v: "valid_ports mid" "mid \<noteq> []" "token_ports (py_strip raw) = Inr new" "set mid = set ports \<union> set new"
    by blast
  from Cons.IH [OF mid(2) v(1)] v(2-4) show ?case
    by (cases raws) (auto simp: ports_of_tokens_def)
qed

lemma int_str_token:
  assumes "1 \<le> p" and "p \<le> 65535"
  shows "token_ports (py_strip (int_str p)) = Inr [p]"
proof -
  have dec: "int_str p = nat_str (nat p)" using assms by (simp add: int_str_def)
  have d: "all_digits (nat_str (nat p))" by (rule all_digits_nat_str)
  have no: "c \<notin> set (nat_str (nat p))" if "\<not> is_digit c" for c
    using d that by (auto simp: all_digits_def list_all_iff)
  have sp: "\<not> is_space c" if "is_digit c" for c
    using that by (auto simp: is_digit_def is_space_def)
  have drop: "dropWhile is_space xs = xs" if "list_all is_digit xs" for xs
    using that sp by (cases xs) auto
  have "py_strip (nat_str (nat p)) = nat_str (nat p)"
    using d by (simp add: py_strip_def all_digits_def drop)
  moreover have "py_split CHR ''-'' (nat_str (nat p)) = [nat_str (nat p)]"
    by (rule py_split_no_sep [OF no]) (simp add: is_digit_def char_code_def)
  ultimately show ?thesis
    using d assms by (simp add: dec token_ports_def token_ok_def Let_def digits_value_nat_str out_of_bounds_def
        port_min_def port_max_def all_digits_def)
qed

lemma add_single_tokens:
  "distinct (ports @ ps) \<Longrightarrow> \<forall>p \<in> set ps. 1 \<le> p \<and> p \<le> 65535 \<Longrightarrow> length (ports @ ps) \<le> 2048 \<Longrightarrow>
   err_fold add_token (map int_str ps) ports = Inr (ports @ ps)"
proof (induction ps arbitrary: ports)
  case (Cons p ps)
  have "add_token (int_str p) ports = Inr (ports @ [p])"
    using Cons.prems int_str_token [of p] by (simp add: add_token_def Let_def port_spec_cap_def)
  with Cons.IH [of "ports @ [p]"] Cons.prems show ?case by simp
qed simp

section \<open>Properties\<close>

text \<open>C16: whatever the input, an accepted specification yields a sorted, duplicate-free, non-empty
  list of at most 2048 ports between 1 and 65535, and they are exactly the ports its tokens stand
  for, every token being well-formed.\<close>

theorem accepted_port_specs_are_valid:
  "(case parse_port_spec s of
      Inl _ \<Rightarrow> True
    | Inr ports \<Rightarrow> sorted ports \<and> distinct ports \<and> ports \<noteq> [] \<and> length ports \<le> 2048
        \<and> (\<forall>p \<in> set ports. 1 \<le> p \<and> p \<le> 65535)
        \<and> set ports = ports_of_tokens (py_split CHR '','' s)
        \<and> (\<forall>raw \<in> set (py_split CHR '','' s). \<exists>new. token_ports (py_strip raw) = Inr new))"
proof (cases "parse_port_spec s")
  case (Inr ports)
  then obtain out where out: "err_fold add_token (py_split CHR '','' s) [] = Inr out" "ports = sort out"
    by (auto simp: parse_port_spec_def bind_err_Inr split: if_splits)
  have "valid_ports []" by (simp add: valid_ports_def)
  from add_tokens_valid [OF out(1) this] show ?thesis
    by (simp add: Inr out(2) valid_ports_def) (metis set_empty set_sort)
qed simp

theorem accepted_port_specs_are_valid_witness:
  "parse_port_spec ''443, 80-82'' = Inr [80, 81, 82, 443] \<and> sorted [80, 81, 82, 443 :: int]"
proof -
  have v: "parse_port_spec ''443, 80-82'' = Inr [80, 81, 82, 443]" by code_simp
  with accepted_port_specs_are_valid [of "''443, 80-82''"] show ?thesis by simp
qed

text \<open>Round trip: writing a valid sorted port list as comma-separated numbers and parsing it
  gives the list back.\<close>

theorem port_list_round_trip:
  assumes "sorted ports" and "distinct ports" and "ports \<noteq> []" and "length ports \<le> 2048"
    and "\<forall>p \<in> set ports. 1 \<le> p \<and> p \<le> 65535"
  shows "parse_port_spec (join_with CHR '','' (map int_str ports)) = Inr ports"
proof -
  let ?s = "join_with CHR '','' (map int_str ports)"
  have d: "all_digits (int_str p)" if "p \<in> set ports" for p
    using assms(5) that all_digits_nat_str by (auto simp: int_str_def)
  have "CHR '','' \<notin> set (int_str p)" if "p \<in> set ports" for p
    using d [OF that] by (auto simp: all_digits_def list_all_iff is_digit_def char_code_def)
  then have split: "py_split CHR '','' ?s = map int_str ports"
    using assms(3) by (intro py_split_join) auto
  obtain p ps where ports: "ports = p # ps" using assms(3) by (cases ports) auto
  obtain c cs where c: "int_str p = c # cs" "is_digit c"
    using d [of p] ports by (cases "int_str p") (auto simp: all_digits_def)
  have "\<exists>t. ?s = c # t" using ports c(1) by (cases ps) auto
  then obtain t where t: "?s = c # t" ..
  have "\<not> is_space c" using c(2) by (auto simp: is_digit_def is_space_def)
  then have "py_strip ?s \<noteq> []" unfolding t by (simp add: py_strip_def dropWhile_eq_Nil_conv)
  moreover have "err_fold add_token (map int_str ports) [] = Inr ([] @ ports)"
    using assms by (intro add_single_tokens) simp_all
  moreover have "sort ports = ports" using assms(1) by (rule sorted_sort_id)
  moreover have "?s \<noteq> []" using t by simp
  ultimately show ?thesis by (simp add: parse_port_spec_def split)
qed

theorem port_list_round_trip_witness:
  "parse_port_spec (join_with CHR '','' (map int_str [22, 443])) = Inr [22, 443]"
  by (rule port_list_round_trip) simp_all

end
