(* ===== verification/Rate_Limits.thy ===== *)
theory Rate_Limits
  imports Prelude
begin

text \<open>
  \<open>quirk/dashboard/api/middleware/rate_limit.py\<close> and \<open>quirk/engine/rate_limiter.py\<close>: the
  sliding window over mutating requests with its audit coalescing, and the token bucket of the
  scanners, as state machines over a clock that does not go back.  The lock makes each request one
  step.
\<close>

section \<open>The sliding window\<close>

definition window_seconds :: real where
  "window_seconds = 60"

definition max_requests :: nat where
  "max_requests = 60"

definition mutating_methods :: "string list" where
  "mutating_methods = [''POST'', ''PUT'', ''DELETE'', ''PATCH'']"

definition exempt_paths :: "string list" where
  "exempt_paths = [''/api/health'']"

definition sensor_push_path :: string where
  "sensor_push_path = ''/api/sensor/push''"

definition max_audit_sources :: nat where
  "max_audit_sources = 4096"

record request =
  rq_method :: string
  rq_path :: string
  rq_client :: "string option"

record limiter =
  lm_buckets :: "(string \<times> real list) list"
  lm_audited :: "(string \<times> real) list"
  lm_unrecorded :: "(string \<times> nat) list"

definition initial_limiter :: limiter where
  "initial_limiter = \<lparr>lm_buckets = [], lm_audited = [], lm_unrecorded = []\<rparr>"

text \<open>Dropping the oldest audit entries, with their unwritten counts, until the cap holds.\<close>

fun drop_oldest :: "(string \<times> real) list \<Rightarrow> (string \<times> nat) list \<Rightarrow> (string \<times> real) list \<times> (string \<times> nat) list" where
  "drop_oldest [] u = ([], u)"
| "drop_oldest ((k, t) # a) u =
     (if max_audit_sources < length ((k, t) # a) then drop_oldest a (dict_del k u) else ((k, t) # a, u))"

definition note_refusal :: "string \<Rightarrow> real \<Rightarrow> limiter \<Rightarrow> nat option \<times> limiter" where
  "note_refusal ip now s =
     (let fold_in = (case map_of (lm_audited s) ip of
          Some previous \<Rightarrow> now - previous < window_seconds | None \<Rightarrow> False) in
      if fold_in then
        (None, s\<lparr>lm_unrecorded := dict_put ip (dict_get (lm_unrecorded s) ip 0 + 1) (lm_unrecorded s)\<rparr>)
      else
        (let audited = dict_put ip now (dict_del ip (lm_audited s));
             coalesced = dict_get (lm_unrecorded s) ip 0;
             (a, u) = drop_oldest audited (dict_del ip (lm_unrecorded s)) in
         (Some coalesced, s\<lparr>lm_audited := a, lm_unrecorded := u\<rparr>)))"

text \<open>\<open>Passed\<close> forwards the request; \<open>Limited\<close> answers 429 with the retry delay and, for a
  sensor push, the count to write with an audit row.\<close>

datatype outcome = Passed | Limited int "nat option"

definition counted :: "request \<Rightarrow> bool" where
  "counted r \<longleftrightarrow> rq_method r \<in> set mutating_methods \<and> rq_path r \<notin> set exempt_paths"

definition client_of :: "request \<Rightarrow> string" where
  "client_of r = (case rq_client r of None \<Rightarrow> ''unknown'' | Some h \<Rightarrow> h)"

definition trimmed :: "real \<Rightarrow> string \<Rightarrow> (string \<times> real list) list \<Rightarrow> (string \<times> real list) list" where
  "trimmed cutoff ip bs = dict_put ip (dropWhile (\<lambda>t. t \<le> cutoff) (dict_get bs ip [])) bs"

definition evict_idle :: "real \<Rightarrow> (string \<times> real list) list \<Rightarrow> (string \<times> real list) list" where
  "evict_idle cutoff bs = filter (\<lambda>(_, b). b \<noteq> [] \<and> cutoff < last b) bs"

definition dispatch :: "real \<Rightarrow> request \<Rightarrow> limiter \<Rightarrow> outcome \<times> limiter" where
  "dispatch now r s =
     (if \<not> counted r then (Passed, s)
      else
        (let ip = client_of r;
             cutoff = now - window_seconds;
             bs = evict_idle cutoff (trimmed cutoff ip (lm_buckets s));
             bucket = dict_get bs ip [] in
         if max_requests \<le> length bucket then
           (let s' = s\<lparr>lm_buckets := dict_put ip bucket bs\<rparr>;
                retry_after = max 1 \<lceil>window_seconds - (now - hd bucket)\<rceil> in
            if rq_path r = sensor_push_path
            then (let (audit, s'') = note_refusal ip now s' in (Limited retry_after audit, s''))
            else (Limited retry_after None, s'))
         else (Passed, s\<lparr>lm_buckets := dict_put ip (bucket @ [now]) bs\<rparr>)))"

text \<open>Runs: the limiter after a sequence of requests, with the times at which each client was let
  through.\<close>

inductive served :: "limiter \<Rightarrow> (string \<Rightarrow> real list) \<Rightarrow> real \<Rightarrow> bool" where
  start: "served initial_limiter (\<lambda>_. []) t"
| request: "served s g t \<Longrightarrow> t \<le> now \<Longrightarrow> dispatch now r s = (out, s') \<Longrightarrow>
    served s' (if counted r \<and> out = Passed then g(client_of r := g (client_of r) @ [now]) else g) now"

inductive_cases served_cases: "served s g t"

section \<open>The token bucket\<close>

record token_bucket =
  tb_rate :: real
  tb_capacity :: real
  tb_tokens :: real
  tb_updated :: real

datatype acquire_result = Unlimited | Granted | Wait real | TooManyTokens

definition new_bucket :: "real \<Rightarrow> real option \<Rightarrow> real \<Rightarrow> token_bucket" where
  "new_bucket rate capacity now =
     (let cap = (case capacity of Some c \<Rightarrow> c | None \<Rightarrow> max 1 rate) in
      \<lparr>tb_rate = rate, tb_capacity = cap, tb_tokens = cap, tb_updated = now\<rparr>)"

definition refill :: "real \<Rightarrow> token_bucket \<Rightarrow> token_bucket" where
  "refill now b =
     b\<lparr>tb_updated := now,
       tb_tokens := min (tb_capacity b) (tb_tokens b + (now - tb_updated b) * tb_rate b)\<rparr>"

text \<open>One pass of the loop of \<open>acquire\<close>: grant, or the time to wait before the next pass.\<close>

definition acquire_step :: "real \<Rightarrow> real \<Rightarrow> token_bucket \<Rightarrow> acquire_result \<times> token_bucket" where
  "acquire_step now tokens b =
     (if tb_rate b \<le> 0 then (Unlimited, b)
      else if tb_capacity b < tokens then (TooManyTokens, b)
      else (let b' = refill now b in
            if tokens \<le> tb_tokens b' then (Granted, b'\<lparr>tb_tokens := tb_tokens b' - tokens\<rparr>)
            else (Wait ((tokens - tb_tokens b') / tb_rate b'), b')))"

definition waits :: "acquire_result \<Rightarrow> bool" where
  "waits r = (case r of Wait _ \<Rightarrow> True | _ \<Rightarrow> False)"

text \<open>The passes of other threads on the bucket, each with its reading of the clock and its tokens.\<close>

definition passes :: "(real \<times> real) list \<Rightarrow> token_bucket \<Rightarrow> token_bucket" where
  "passes ps b = fold (\<lambda>(now, n) b. snd (acquire_step now n b)) ps b"

text \<open>The loop of one thread, over the readings of the clock at its passes; None when it never ends.  The lock is
  released while it waits: \<open>others i\<close> are the passes other threads make during its wait number \<open>i\<close>.\<close>

partial_function (option) acquire ::
    "(nat \<Rightarrow> real) \<Rightarrow> (nat \<Rightarrow> (real \<times> real) list) \<Rightarrow> real \<Rightarrow> token_bucket \<Rightarrow> (acquire_result \<times> token_bucket) option" where
  "acquire clock others tokens b =
     (if waits (fst (acquire_step (clock 0) tokens b))
      then acquire (\<lambda>i. clock (Suc i)) (\<lambda>i. others (Suc i)) tokens
             (passes (others 0) (snd (acquire_step (clock 0) tokens b)))
      else Some (acquire_step (clock 0) tokens b))"

text \<open>Runs from a new bucket: the bucket, the clock, the tokens granted so far.\<close>

inductive drawn :: "real \<Rightarrow> real \<Rightarrow> real \<Rightarrow> token_bucket \<Rightarrow> real \<Rightarrow> real \<Rightarrow> bool"
  for rate cap start where
  fresh: "drawn rate cap start (new_bucket rate (Some cap) start) start 0"
| acquire: "drawn rate cap start b t total_granted \<Longrightarrow> t \<le> now \<Longrightarrow> 0 \<le> n \<Longrightarrow>
    acquire_step now n b = (res, b') \<Longrightarrow>
    drawn rate cap start b' now (if res = Granted then total_granted + n else total_granted)"

section \<open>Lemmas\<close>

lemma dropWhile_sorted_filter:
  "sorted xs \<Longrightarrow> dropWhile (\<lambda>t. t \<le> c) xs = filter (\<lambda>t. c < t) xs" for c :: real
proof (induction xs)
  case (Cons x xs)
  show ?case
  proof (cases "x \<le> c")
    case True
    with Cons show ?thesis by simp
  next
    case False
    then have "\<forall>y \<in> set xs. c < y" using Cons.prems by auto
    then have "filter (\<lambda>t. c < t) xs = xs" by (rule filter_True)
    with False show ?thesis by simp
  qed
qed simp

lemma map_of_filter_ok:
  "dict_ok d \<Longrightarrow> map_of (filter P d) k = (case map_of d k of Some v \<Rightarrow> if P (k, v) then Some v else None | None \<Rightarrow> None)"
proof (induction d)
  case (Cons kv d)
  then have ok: "dict_ok d" "fst kv \<notin> fst ` set d" by (auto simp: dict_ok_def)
  then have "map_of d (fst kv) = None" by (simp add: map_of_eq_None_iff)
  with Cons.IH [OF ok(1)] show ?case by (cases kv) (auto split: option.splits)
qed simp

lemma dict_ok_filter: "dict_ok d \<Longrightarrow> dict_ok (filter P d)"
  by (simp add: dict_ok_def distinct_map_filter)

lemma get_evicted:
  assumes "dict_ok bs"
  shows "dict_get (evict_idle c bs) ip []
    = (if dict_get bs ip [] \<noteq> [] \<and> c < last (dict_get bs ip []) then dict_get bs ip [] else [])"
  using assms by (simp add: evict_idle_def dict_get_def map_of_filter_ok split: option.split)

definition bucket_of :: "limiter \<Rightarrow> string \<Rightarrow> real list" where
  "bucket_of s ip = dict_get (lm_buckets s) ip []"

text \<open>Any sixty-first request served to a client comes at least a window after the first of the
  sixty before it.\<close>

definition spread :: "real list \<Rightarrow> bool" where
  "spread g \<longleftrightarrow> (\<forall>i. i + 60 < length g \<longrightarrow> g ! i + 60 \<le> g ! (i + 60))"

definition window_inv :: "limiter \<Rightarrow> (string \<Rightarrow> real list) \<Rightarrow> real \<Rightarrow> bool" where
  "window_inv s g t \<longleftrightarrow>
     dict_ok (lm_buckets s) \<and>
     (\<forall>ip. sorted (bucket_of s ip) \<and> (\<forall>x \<in> set (bucket_of s ip). x \<le> t)
         \<and> length (bucket_of s ip) \<le> 60
         \<and> sorted (g ip) \<and> (\<forall>x \<in> set (g ip). x \<le> t) \<and> spread (g ip)
         \<and> filter (\<lambda>x. t - 60 < x) (g ip) = filter (\<lambda>x. t - 60 < x) (bucket_of s ip))"

lemma bucket_after_sweep:
  assumes inv: "window_inv s g t" and le: "t \<le> now"
  shows "dict_get (evict_idle (now - 60) (trimmed (now - 60) c (lm_buckets s))) ip []
    = (if ip = c \<or> (bucket_of s ip \<noteq> [] \<and> now - 60 < last (bucket_of s ip))
       then (if ip = c then filter (\<lambda>x. now - 60 < x) (bucket_of s ip) else bucket_of s ip) else [])"
proof -
  have ok: "dict_ok (trimmed (now - 60) c (lm_buckets s))"
    using inv by (simp add: window_inv_def trimmed_def dict_simps)
  have so: "sorted (bucket_of s ip)" for ip using inv by (simp add: window_inv_def)
  have get: "dict_get (trimmed (now - 60) c (lm_buckets s)) ip []
      = (if ip = c then filter (\<lambda>x. now - 60 < x) (bucket_of s c) else bucket_of s ip)"
    using so [of c] by (simp add: trimmed_def dict_get_put bucket_of_def dropWhile_sorted_filter)
  have lst: "now - 60 < last (filter (\<lambda>x. now - 60 < x) xs)" if "filter (\<lambda>x. now - 60 < x) xs \<noteq> []" for xs
    using last_in_set [OF that] by simp
  show ?thesis unfolding get_evicted [OF ok] get using lst [of "bucket_of s c"]
    by (cases "filter (\<lambda>x. now - 60 < x) (bucket_of s c) = []") auto
qed

lemma window_moves:
  assumes inv: "window_inv s g t" and le: "t \<le> now"
  shows "filter (\<lambda>x. now - 60 < x) (g ip) = filter (\<lambda>x. now - 60 < x) (bucket_of s ip)"
proof -
  have "filter (\<lambda>x. now - 60 < x) xs = filter (\<lambda>x. now - 60 < x) (filter (\<lambda>x. t - 60 < x) xs)" for xs
    using le by (auto simp: filter_filter intro!: filter_cong)
  with inv show ?thesis unfolding window_inv_def by metis
qed

lemma spread_append:
  assumes g: "spread g" "sorted g" and few: "length (filter (\<lambda>x. now - 60 < x) g) < 60"
  shows "spread (g @ [now])"
proof -
  have "g ! i + 60 \<le> now" if len: "i + 60 = length g" for i
  proof (rule ccontr)
    assume "\<not> g ! i + 60 \<le> now"
    then have gt: "now - 60 < g ! i" by simp
    have "\<forall>x \<in> set (drop i g). now - 60 < x"
    proof
      fix x assume "x \<in> set (drop i g)"
      then obtain j where j: "j < length (drop i g)" "x = drop i g ! j" by (auto simp: in_set_conv_nth)
      with len have "g ! i \<le> g ! (i + j)" by (intro sorted_nth_mono [OF g(2)]) auto
      with gt j len show "now - 60 < x" by simp
    qed
    then have "filter (\<lambda>x. now - 60 < x) (drop i g) = drop i g" by (rule filter_True)
    moreover have "length (filter P g) \<ge> length (filter P (drop i g))" for P
      by (metis append_take_drop_id filter_append le_add2 length_append)
    ultimately have "60 \<le> length (filter (\<lambda>x. now - 60 < x) g)" using len by (metis add_diff_cancel_left' length_drop)
    with few show False by simp
  qed
  with g(1) show ?thesis by (auto simp: spread_def nth_append)
qed

text \<open>A refusal leaves the buckets alone.\<close>

lemma note_refusal_buckets: "lm_buckets (snd (note_refusal ip now s)) = lm_buckets s"
  by (simp add: note_refusal_def Let_def split: prod.split)

lemma dispatch_buckets:
  assumes inv: "window_inv s g t" and le: "t \<le> now" and run: "dispatch now r s = (out, s')"
    and cnt: "counted r"
  shows "dict_ok (lm_buckets s')"
    and "ip \<noteq> client_of r \<Longrightarrow> bucket_of s' ip
      = (if bucket_of s ip \<noteq> [] \<and> now - 60 < last (bucket_of s ip) then bucket_of s ip else [])"
    and "bucket_of s' (client_of r) = filter (\<lambda>x. now - 60 < x) (bucket_of s (client_of r))
      @ (if out = Passed then [now] else [])"
    and "(out = Passed) = (length (filter (\<lambda>x. now - 60 < x) (bucket_of s (client_of r))) < 60)"
proof -
  let ?bs = "evict_idle (now - 60) (trimmed (now - 60) (client_of r) (lm_buckets s))"
  have okbs: "dict_ok ?bs"
    using inv by (simp add: window_inv_def trimmed_def dict_simps evict_idle_def dict_ok_filter)
  have bk: "dict_get ?bs (client_of r) [] = filter (\<lambda>x. now - 60 < x) (bucket_of s (client_of r))"
    using bucket_after_sweep [OF inv le, of "client_of r" "client_of r"] by simp
  have cases: "(out = Passed \<and> length (dict_get ?bs (client_of r) []) < 60 \<and>
       lm_buckets s' = dict_put (client_of r) (dict_get ?bs (client_of r) [] @ [now]) ?bs)
     \<or> (out \<noteq> Passed \<and> 60 \<le> length (dict_get ?bs (client_of r) []) \<and>
       lm_buckets s' = dict_put (client_of r) (dict_get ?bs (client_of r) []) ?bs)"
  proof (cases "60 \<le> length (dict_get ?bs (client_of r) [])")
    case True
    with run cnt note_refusal_buckets
      [of "client_of r" now "s\<lparr>lm_buckets := dict_put (client_of r) (dict_get ?bs (client_of r) []) ?bs\<rparr>"]
    show ?thesis
      by (auto simp: dispatch_def Let_def max_requests_def window_seconds_def split: if_splits prod.splits)
  next
    case False
    with run cnt show ?thesis
      by (auto simp: dispatch_def Let_def max_requests_def window_seconds_def)
  qed
  then have buckets: "lm_buckets s' = dict_put (client_of r)
      (dict_get ?bs (client_of r) [] @ (if out = Passed then [now] else [])) ?bs"
    by auto
  show "dict_ok (lm_buckets s')" unfolding buckets using okbs by (simp add: dict_simps)
  show "bucket_of s' (client_of r) = filter (\<lambda>x. now - 60 < x) (bucket_of s (client_of r))
      @ (if out = Passed then [now] else [])"
    by (simp add: bucket_of_def buckets dict_get_put) (simp add: bk [unfolded bucket_of_def])
  show "ip \<noteq> client_of r \<Longrightarrow> bucket_of s' ip
      = (if bucket_of s ip \<noteq> [] \<and> now - 60 < last (bucket_of s ip) then bucket_of s ip else [])"
    using bucket_after_sweep [OF inv le, of "client_of r" ip]
    by (simp add: bucket_of_def buckets dict_get_put)
  show "(out = Passed) = (length (filter (\<lambda>x. now - 60 < x) (bucket_of s (client_of r))) < 60)"
    using cases bk by auto
qed

lemma filter_none_recent:
  "sorted xs \<Longrightarrow> xs = [] \<or> \<not> c < last xs \<Longrightarrow> filter (\<lambda>x. c < x) xs = []" for c :: real
proof -
  assume so: "sorted xs" and l: "xs = [] \<or> \<not> c < last xs"
  have "x \<le> c" if "x \<in> set xs" for x
  proof -
    from that obtain i where i: "i < length xs" "x = xs ! i" by (auto simp: in_set_conv_nth)
    then have "xs ! i \<le> xs ! (length xs - 1)" by (intro sorted_nth_mono [OF so]) auto
    with i l show ?thesis by (cases xs rule: rev_cases) auto
  qed
  then show ?thesis by (auto simp: filter_empty_conv not_less)
qed

lemma window_step:
  assumes inv: "window_inv s g t" and le: "t \<le> now" and run: "dispatch now r s = (out, s')"
  shows "window_inv s' (if counted r \<and> out = Passed then g(client_of r := g (client_of r) @ [now]) else g) now"
proof (cases "counted r")
  case False
  then have "s' = s" using run by (simp add: dispatch_def)
  with False inv le window_moves [OF inv le] show ?thesis
    unfolding window_inv_def by simp (meson order_trans)
next
  case True
  note b = dispatch_buckets [OF inv le run True]
  let ?c = "client_of r" and ?g = "if out = Passed then g(client_of r := g (client_of r) @ [now]) else g"
  have old: "sorted (bucket_of s ip)" "\<forall>x \<in> set (bucket_of s ip). x \<le> t" "length (bucket_of s ip) \<le> 60"
    "sorted (g ip)" "\<forall>x \<in> set (g ip). x \<le> t" "spread (g ip)" for ip
    using inv by (simp_all add: window_inv_def)
  have gs: "sorted (?g ip) \<and> (\<forall>x \<in> set (?g ip). x \<le> now) \<and> spread (?g ip)" for ip
  proof (cases "ip = ?c \<and> out = Passed")
    case passed: True
    then have "length (filter (\<lambda>x. now - 60 < x) (g ?c)) < 60"
      using b(4) window_moves [OF inv le, of ?c] by simp
    then have "spread (g ?c @ [now])" by (rule spread_append [OF old(6) old(4)])
    moreover have "\<forall>x \<in> set (g ?c). x \<le> now" using old(5) le by (meson order_trans)
    ultimately show ?thesis using passed old(4) [of ?c] by (auto simp: sorted_append)
  next
    case False
    have "\<forall>x \<in> set (g ip). x \<le> now" using old(5) le by (meson order_trans)
    with False old(4,6) show ?thesis by auto
  qed
  have bs: "sorted (bucket_of s' ip) \<and> (\<forall>x \<in> set (bucket_of s' ip). x \<le> now) \<and> length (bucket_of s' ip) \<le> 60
      \<and> filter (\<lambda>x. now - 60 < x) (?g ip) = filter (\<lambda>x. now - 60 < x) (bucket_of s' ip)" for ip
  proof (cases "ip = ?c")
    case mine: True
    let ?f = "filter (\<lambda>x. now - 60 < x) (bucket_of s ?c)"
    have le_now: "\<forall>x \<in> set ?f. x \<le> now" using old(2) [of ?c] le by force
    have len: "length ?f \<le> 60" using old(3) [of ?c] length_filter_le [of _ "bucket_of s ?c"] by (meson order_trans)
    have sf: "sorted ?f" using old(1) [of ?c] by (rule sorted_filter [where f = id, simplified])
    show ?thesis
    proof (cases "out = Passed")
      case passed: True
      with b(3,4) have "bucket_of s' ?c = ?f @ [now]" "length ?f < 60" by simp_all
      with mine passed sf le_now window_moves [OF inv le, of ?c] show ?thesis
        by (auto simp: sorted_append)
    next
      case False
      with b(3) have "bucket_of s' ?c = ?f" by simp
      with mine False sf le_now len window_moves [OF inv le, of ?c] show ?thesis by auto
    qed
  next
    case other: False
    have le_now: "\<forall>x \<in> set (bucket_of s ip). x \<le> now" using old(2) le by (meson order_trans)
    show ?thesis
    proof (cases "bucket_of s ip \<noteq> [] \<and> now - 60 < last (bucket_of s ip)")
      case True
      with b(2) other have "bucket_of s' ip = bucket_of s ip" by simp
      with other le_now old(1,3) window_moves [OF inv le, of ip] show ?thesis by simp
    next
      case False
      with b(2) other have "bucket_of s' ip = []" by simp
      moreover have "filter (\<lambda>x. now - 60 < x) (bucket_of s ip) = []"
        using False by (intro filter_none_recent [OF old(1)]) blast
      ultimately show ?thesis using other window_moves [OF inv le, of ip] by simp
    qed
  qed
  show ?thesis using b(1) gs bs True by (simp add: window_inv_def)
qed

lemma served_window: "served s g t \<Longrightarrow> window_inv s g t"
proof (induction rule: served.induct)
  case (start t)
  show ?case by (simp add: window_inv_def initial_limiter_def bucket_of_def dict_get_def dict_ok_def spread_def)
next
  case (request s g t now r out s')
  then show ?case using window_step by blast
qed

section \<open>The audit state\<close>

definition audit_inv :: "limiter \<Rightarrow> bool" where
  "audit_inv s \<longleftrightarrow> dict_ok (lm_audited s) \<and> dict_ok (lm_unrecorded s) \<and> length (lm_audited s) \<le> 4096
     \<and> fst ` set (lm_unrecorded s) \<subseteq> fst ` set (lm_audited s)"

lemma keys_del: "dict_ok d \<Longrightarrow> fst ` set (dict_del k d) = fst ` set d - {k}"
  by (induction k d rule: dict_del.induct) (auto simp: dict_ok_def)

lemma drop_oldest_bounded:
  "dict_ok a \<Longrightarrow> dict_ok u \<Longrightarrow> fst ` set u \<subseteq> fst ` set a \<Longrightarrow>
   dict_ok (fst (drop_oldest a u)) \<and> dict_ok (snd (drop_oldest a u)) \<and> length (fst (drop_oldest a u)) \<le> 4096
   \<and> fst ` set (snd (drop_oldest a u)) \<subseteq> fst ` set (fst (drop_oldest a u))"
proof (induction a u rule: drop_oldest.induct)
  case (2 k t a u)
  show ?case
  proof (cases "max_audit_sources < length ((k, t) # a)")
    case True
    have "fst ` set (dict_del k u) \<subseteq> fst ` set a" using 2(4) keys_del [OF 2(3)] by auto
    moreover have "dict_ok a" using 2(2) by (simp add: dict_ok_def)
    ultimately show ?thesis using 2(1) [OF True] True dict_ok_del [OF 2(3)] by simp
  next
    case False
    with 2(2-4) show ?thesis by (simp add: max_audit_sources_def)
  qed
qed simp

lemma note_refusal_bounded:
  assumes "audit_inv s"
  shows "audit_inv (snd (note_refusal ip now s))"
proof (cases "case map_of (lm_audited s) ip of Some previous \<Rightarrow> now - previous < window_seconds | None \<Rightarrow> False")
  case True
  then have "ip \<in> fst ` set (lm_audited s)"
    by (metis (no_types, lifting) map_of_eq_None_iff option.simps(4))
  with True assms show ?thesis
    by (auto simp: note_refusal_def Let_def audit_inv_def dict_simps fst_dict_put)
next
  case False
  let ?a = "dict_put ip now (dict_del ip (lm_audited s))" and ?u = "dict_del ip (lm_unrecorded s)"
  have "dict_ok ?a" "dict_ok ?u" "fst ` set ?u \<subseteq> fst ` set ?a"
    using assms by (auto simp: audit_inv_def dict_simps fst_dict_put keys_del)
  from drop_oldest_bounded [OF this] False show ?thesis
    by (cases "drop_oldest ?a ?u") (simp add: note_refusal_def Let_def audit_inv_def)
qed

lemma served_audit: "served s g t \<Longrightarrow> audit_inv s"
proof (induction rule: served.induct)
  case (start t)
  show ?case by (simp add: audit_inv_def initial_limiter_def dict_ok_def)
next
  case (request s g t now r out s')
  have buckets: "audit_inv (s\<lparr>lm_buckets := b\<rparr>)" for b using request.IH by (simp add: audit_inv_def)
  have s': "s' = snd (dispatch now r s)" using request.hyps(3) by simp
  show ?case
  proof (cases "counted r")
    case False
    then show ?thesis using request.IH by (simp add: s' dispatch_def)
  next
    case True
    then show ?thesis
      using buckets note_refusal_bounded [OF buckets]
      by (auto simp: s' dispatch_def Let_def split: prod.splits) (metis snd_conv)
  qed
qed

section \<open>The token bucket\<close>

lemma drawn_inv:
  "drawn rate cap start b t granted \<Longrightarrow> 0 < rate \<Longrightarrow> 0 \<le> cap \<Longrightarrow>
   tb_rate b = rate \<and> tb_capacity b = cap \<and> start \<le> tb_updated b \<and> tb_updated b \<le> t \<and>
   0 \<le> tb_tokens b \<and> tb_tokens b \<le> cap \<and> granted + tb_tokens b \<le> cap + rate * (tb_updated b - start)"
proof (induction rule: drawn.induct)
  case fresh
  then show ?case by (simp add: new_bucket_def)
next
  case (acquire b t granted now n res b')
  then have ih: "tb_rate b = rate" "tb_capacity b = cap" "start \<le> tb_updated b" "tb_updated b \<le> t"
    "0 \<le> tb_tokens b" "tb_tokens b \<le> cap" "granted + tb_tokens b \<le> cap + rate * (tb_updated b - start)"
    by simp_all
  let ?r = "refill now b"
  have nonneg: "0 \<le> (now - tb_updated b) * rate" using ih(4) acquire.hyps(2) acquire.prems(1) by simp
  have r: "tb_rate ?r = rate" "tb_capacity ?r = cap" "tb_updated ?r = now" "0 \<le> tb_tokens ?r" "tb_tokens ?r \<le> cap"
    using ih nonneg acquire.prems(2) by (simp_all add: refill_def)
  have "tb_tokens ?r \<le> tb_tokens b + (now - tb_updated b) * rate" by (simp add: refill_def ih(1))
  then have "granted + tb_tokens ?r \<le> cap + rate * (now - start)"
    using ih(7) by (simp add: algebra_simps)
  with r ih acquire.hyps(2,3,4) acquire.prems(1) show ?case
    by (auto simp: acquire_step_def Let_def split: if_splits)
qed

section \<open>Properties\<close>

text \<open>C14: the limit is exact.  In every reachable state a mutating request is let through if and
  only if fewer than sixty requests of the same client were let through in the last sixty seconds;
  and any sixty-one served requests of a client span at least sixty seconds.\<close>

theorem sliding_window_is_exact:
  assumes "served s g t" and "t \<le> now" and "counted r"
  shows "(fst (dispatch now r s) = Passed) = (length (filter (\<lambda>x. now - 60 < x) (g (client_of r))) < 60)
    \<and> spread (g ip)"
proof -
  have inv: "window_inv s g t" using assms(1) by (rule served_window)
  obtain out s' where run: "dispatch now r s = (out, s')" by (cases "dispatch now r s")
  from dispatch_buckets(4) [OF inv assms(2) run assms(3)] window_moves [OF inv assms(2)] inv run
  show ?thesis by (simp add: window_inv_def)
qed

theorem sliding_window_is_exact_witness:
  "fst (dispatch 5 \<lparr>rq_method = ''POST'', rq_path = ''/x'', rq_client = None\<rparr> initial_limiter) = Passed"
  using sliding_window_is_exact [OF served.start [of 0], of 5 "\<lparr>rq_method = ''POST'', rq_path = ''/x'', rq_client = None\<rparr>"]
  by (simp add: counted_def mutating_methods_def exempt_paths_def)

text \<open>The audit state stays bounded: at most 4096 sources are remembered, and unwritten counts
  exist only for remembered sources.\<close>

theorem audit_state_is_bounded:
  assumes "served s g t"
  shows "length (lm_audited s) \<le> 4096 \<and> fst ` set (lm_unrecorded s) \<subseteq> fst ` set (lm_audited s)"
  using served_audit [OF assms] by (simp add: audit_inv_def)

theorem audit_state_is_bounded_witness:
  "length (lm_audited initial_limiter) \<le> 4096
   \<and> fst ` set (lm_unrecorded initial_limiter) \<subseteq> fst ` set (lm_audited initial_limiter)"
  by (rule audit_state_is_bounded [OF served.start [of 0]])

text \<open>C15: a token bucket never hands out more than its capacity plus the rate times the elapsed
  time, and never holds a negative balance or more than its capacity.\<close>

theorem token_bucket_conforms:
  assumes "drawn rate cap start b t granted" and "0 < rate" and "0 \<le> cap"
  shows "granted \<le> cap + rate * (t - start) \<and> 0 \<le> tb_tokens b \<and> tb_tokens b \<le> cap"
proof -
  note inv = drawn_inv [OF assms]
  have "rate * (tb_updated b - start) \<le> rate * (t - start)" using inv assms(2) by simp
  with inv show ?thesis by linarith
qed

text \<open>A bucket of three tokens, two a second: three are taken at once and one more a second later.\<close>

definition two_draws :: "acquire_result list \<times> token_bucket" where
  "two_draws =
     (case acquire_step 1 3 (new_bucket 2 (Some 3) 1) of
        (r, b) \<Rightarrow> (case acquire_step 2 1 b of (r', b') \<Rightarrow> ([r, r'], b')))"

lemma two_draws_made: "two_draws = ([Granted, Granted], \<lparr>tb_rate = 2, tb_capacity = 3, tb_tokens = 1, tb_updated = 2\<rparr>)"
  by (simp add: two_draws_def acquire_step_def new_bucket_def refill_def Let_def)

lemma two_draws_drawn: "drawn 2 3 1 (snd two_draws) 2 4"
proof -
  obtain r b where first: "acquire_step 1 3 (new_bucket 2 (Some 3) 1) = (r, b)" by fastforce
  obtain r' b' where second: "acquire_step 2 1 b = (r', b')" by fastforce
  have all: "two_draws = ([r, r'], b')" by (simp add: two_draws_def first second)
  then have granted: "r = Granted" "r' = Granted" by (simp_all add: two_draws_made)
  have "drawn 2 3 1 b' 2 (if r' = Granted then (if r = Granted then 0 + 3 else 0) + 1 else (if r = Granted then 0 + 3 else 0))"
    by (rule drawn.acquire [OF drawn.acquire [OF drawn.fresh _ _ first] _ _ second]) simp_all
  then show ?thesis by (simp add: all granted)
qed

theorem token_bucket_conforms_witness:
  "fst two_draws = [Granted, Granted] \<and>
   (4::real) \<le> 3 + 2 * (2 - 1) \<and> 0 \<le> tb_tokens (snd two_draws) \<and> tb_tokens (snd two_draws) \<le> 3"
  using token_bucket_conforms [OF two_draws_drawn] by (simp add: two_draws_made)

text \<open>The tokens a bucket would hold at a time, were it not for its capacity.\<close>

definition balance_at :: "real \<Rightarrow> token_bucket \<Rightarrow> real" where
  "balance_at t b = tb_tokens b + (t - tb_updated b) * tb_rate b"

lemma step_waits:
  "waits (fst (acquire_step t n b)) \<longleftrightarrow> 0 < tb_rate b \<and> n \<le> tb_capacity b \<and> balance_at t b < n"
  by (auto simp: acquire_step_def waits_def Let_def refill_def balance_at_def)

lemma step_keeps:
  assumes "waits (fst (acquire_step t n b))"
  shows "balance_at u (snd (acquire_step t n b)) = balance_at u b" "tb_rate (snd (acquire_step t n b)) = tb_rate b"
    "tb_capacity (snd (acquire_step t n b)) = tb_capacity b"
proof -
  have "0 < tb_rate b" "n \<le> tb_capacity b" "balance_at t b < n" using assms by (simp_all add: step_waits)
  then have "snd (acquire_step t n b) = refill t b" and "tb_tokens (refill t b) = balance_at t b"
    by (auto simp: acquire_step_def Let_def refill_def balance_at_def)
  then show "balance_at u (snd (acquire_step t n b)) = balance_at u b" "tb_rate (snd (acquire_step t n b)) = tb_rate b"
    "tb_capacity (snd (acquire_step t n b)) = tb_capacity b"
    by (simp_all add: balance_at_def refill_def algebra_simps)
qed

text \<open>Buckets that differ only in when they were refilled behave the same.\<close>

definition same_line :: "token_bucket \<Rightarrow> token_bucket \<Rightarrow> bool" where
  "same_line b c \<longleftrightarrow> tb_rate b = tb_rate c \<and> tb_capacity b = tb_capacity c \<and> (\<forall>u. balance_at u b = balance_at u c)"

lemma same_line_refl [simp]: "same_line b b"
  by (simp add: same_line_def)

lemma waiting_same_line:
  "waits (fst (acquire_step t n b)) \<Longrightarrow> same_line b c \<Longrightarrow> same_line (snd (acquire_step t n b)) c"
  by (simp add: same_line_def step_keeps)

lemma step_same_line:
  assumes "same_line b c"
  shows "same_line (snd (acquire_step t n b)) (snd (acquire_step t n c))"
proof (cases "tb_rate b \<le> 0 \<or> tb_capacity b < n")
  case True
  then show ?thesis using assms by (auto simp: acquire_step_def same_line_def)
next
  case False
  have "balance_at t b = balance_at t c" using assms by (simp add: same_line_def)
  then have "tb_tokens (refill t b) = tb_tokens (refill t c)" "tb_updated (refill t b) = tb_updated (refill t c)"
    "tb_rate (refill t b) = tb_rate (refill t c)" "tb_capacity (refill t b) = tb_capacity (refill t c)"
    using assms by (simp_all add: same_line_def refill_def balance_at_def)
  then have "refill t b = refill t c" by simp
  with False assms have "acquire_step t n b = acquire_step t n c"
    by (simp add: acquire_step_def same_line_def)
  then show ?thesis by simp
qed

lemma passes_same_line: "same_line b c \<Longrightarrow> same_line (passes ps b) (passes ps c)"
proof (induction ps arbitrary: b c)
  case (Cons p ps)
  then show ?case using step_same_line by (cases p) (simp add: passes_def)
qed (simp add: passes_def)

text \<open>What the other threads alone make of the bucket by the pass number \<open>i\<close>.\<close>

primrec left_by_others :: "nat \<Rightarrow> (nat \<Rightarrow> (real \<times> real) list) \<Rightarrow> token_bucket \<Rightarrow> token_bucket" where
  "left_by_others 0 others b = b"
| "left_by_others (Suc i) others b = left_by_others i (\<lambda>i. others (Suc i)) (passes (others 0) b)"

lemma left_same_line: "same_line b c \<Longrightarrow> same_line (left_by_others i others b) (left_by_others i others c)"
  by (induction i arbitrary: others b c) (simp_all add: passes_same_line)

lemma passes_shape [simp]: "tb_rate (passes ps b) = tb_rate b" "tb_capacity (passes ps b) = tb_capacity b"
proof -
  have "tb_rate (snd (acquire_step t n b)) = tb_rate b \<and> tb_capacity (snd (acquire_step t n b)) = tb_capacity b" for t n b
    by (simp add: acquire_step_def refill_def Let_def)
  then have "tb_rate (passes ps b) = tb_rate b \<and> tb_capacity (passes ps b) = tb_capacity b"
    by (induction ps arbitrary: b) (auto simp: passes_def)
  then show "tb_rate (passes ps b) = tb_rate b" "tb_capacity (passes ps b) = tb_capacity b" by simp_all
qed

lemma balance_after_wait:
  assumes "waits (fst (acquire_step t n b))"
  shows "balance_at u (left_by_others i others (passes ps (snd (acquire_step t n b)))) =
    balance_at u (left_by_others i others (passes ps b))"
  using left_same_line [OF passes_same_line [OF waiting_same_line [OF assms same_line_refl]]]
  by (simp add: same_line_def)

lemma acquire_ends:
  "n \<le> balance_at (clock i) (left_by_others i others b) \<Longrightarrow> \<exists>r. acquire clock others n b = Some r"
proof (induction i arbitrary: clock others b)
  case 0
  then show ?case by (subst acquire.simps) (simp add: step_waits)
next
  case (Suc i)
  show ?case
  proof (cases "waits (fst (acquire_step (clock 0) n b))")
    case True
    have "\<exists>r. acquire (\<lambda>i. clock (Suc i)) (\<lambda>i. others (Suc i)) n (passes (others 0) (snd (acquire_step (clock 0) n b))) = Some r"
      using Suc.prems by (intro Suc.IH) (simp add: balance_after_wait [OF True])
    with True show ?thesis by (subst acquire.simps) simp
  qed (subst acquire.simps, simp)
qed

definition ends_at_some_pass :: "(nat \<Rightarrow> real) \<Rightarrow> (nat \<Rightarrow> (real \<times> real) list) \<Rightarrow> real \<Rightarrow> token_bucket \<Rightarrow> bool" where
  "ends_at_some_pass clock others n b \<longleftrightarrow> (\<exists>i. n \<le> balance_at (clock i) (left_by_others i others b))"

lemma acquire_ended:
  assumes "acquire clock others n b = Some r"
  shows "tb_rate b \<le> 0 \<or> tb_capacity b < n \<or> ends_at_some_pass clock others n b"
proof (rule acquire.raw_induct [OF _ assms,
    where P = "\<lambda>clock others n b r. tb_rate b \<le> 0 \<or> tb_capacity b < n \<or> ends_at_some_pass clock others n b"])
  fix loop :: "(nat \<Rightarrow> real) \<Rightarrow> (nat \<Rightarrow> (real \<times> real) list) \<Rightarrow> real \<Rightarrow> token_bucket \<Rightarrow> (acquire_result \<times> token_bucket) option"
    and clock :: "nat \<Rightarrow> real" and others n b r
  assume IH: "\<And>clock others n b r. loop clock others n b = Some r \<Longrightarrow>
      tb_rate b \<le> 0 \<or> tb_capacity b < n \<or> ends_at_some_pass clock others n b"
    and run: "(if waits (fst (acquire_step (clock 0) n b))
      then loop (\<lambda>i. clock (Suc i)) (\<lambda>i. others (Suc i)) n (passes (others 0) (snd (acquire_step (clock 0) n b)))
      else Some (acquire_step (clock 0) n b)) = Some r"
  show "tb_rate b \<le> 0 \<or> tb_capacity b < n \<or> ends_at_some_pass clock others n b"
  proof (cases "waits (fst (acquire_step (clock 0) n b))")
    case True
    let ?b = "passes (others 0) (snd (acquire_step (clock 0) n b))"
    from run True have "loop (\<lambda>i. clock (Suc i)) (\<lambda>i. others (Suc i)) n ?b = Some r" by simp
    from IH [OF this] consider "tb_rate b \<le> 0 \<or> tb_capacity b < n"
      | i where "n \<le> balance_at (clock (Suc i)) (left_by_others i (\<lambda>i. others (Suc i)) ?b)"
      by (auto simp: ends_at_some_pass_def step_keeps [OF True])
    then show ?thesis
    proof cases
      case 2
      then have "n \<le> balance_at (clock (Suc i)) (left_by_others (Suc i) others b)"
        by (simp add: balance_after_wait [OF True])
      then show ?thesis unfolding ends_at_some_pass_def by blast
    qed blast
  next
    case False
    then have "tb_rate b \<le> 0 \<or> tb_capacity b < n \<or> n \<le> balance_at (clock 0) (left_by_others 0 others b)"
      by (auto simp: step_waits not_less)
    then show ?thesis unfolding ends_at_some_pass_def by blast
  qed
qed

text \<open>C31: the loop of an acquisition, with any number of other threads drawing on the bucket while it waits, ends exactly
  when there is no limit, more is asked than the bucket can ever hold (an error), or at one of its passes what the
  other threads have left, with the tokens of the time since, is enough; its own earlier passes, early wake-ups
  included, make no difference.\<close>

theorem acquire_terminates:
  "(\<exists>r. acquire clock others n b = Some r) \<longleftrightarrow>
     tb_rate b \<le> 0 \<or> tb_capacity b < n \<or>
     (\<exists>i. let c = left_by_others i others b in n \<le> tb_tokens c + (clock i - tb_updated c) * tb_rate c)"
proof
  assume "\<exists>r. acquire clock others n b = Some r"
  then show "tb_rate b \<le> 0 \<or> tb_capacity b < n \<or>
     (\<exists>i. let c = left_by_others i others b in n \<le> tb_tokens c + (clock i - tb_updated c) * tb_rate c)"
    using acquire_ended unfolding ends_at_some_pass_def balance_at_def Let_def by blast
next
  assume "tb_rate b \<le> 0 \<or> tb_capacity b < n \<or>
     (\<exists>i. let c = left_by_others i others b in n \<le> tb_tokens c + (clock i - tb_updated c) * tb_rate c)"
  then show "\<exists>r. acquire clock others n b = Some r"
    using acquire_ends [of n clock _ others b]
    by (subst acquire.simps) (auto simp: step_waits balance_at_def Let_def acquire.simps [of clock others n b])
qed

text \<open>Nobody else drawing, every clock that reaches the time asked for ends the loop; others drawing as fast as the bucket
  fills keep it waiting for ever.\<close>

lemma alone_it_ends:
  assumes "n \<le> tb_tokens b + (clock i - tb_updated b) * tb_rate b"
  shows "\<exists>r. acquire clock (\<lambda>_. []) n b = Some r"
proof -
  have "left_by_others i (\<lambda>_. []) b = b" by (induction i) (simp_all add: passes_def)
  with assms show ?thesis by (intro acquire_ends [of n clock i]) (simp add: balance_at_def)
qed

lemma left_with_nothing:
  "left_by_others i (\<lambda>k. [(real (k + j) + 1 / 2, 1)]) \<lparr>tb_rate = 1, tb_capacity = 1, tb_tokens = 0, tb_updated = real j - 1 / 2\<rparr>
    = \<lparr>tb_rate = 1, tb_capacity = 1, tb_tokens = 0, tb_updated = real (i + j) - 1 / 2\<rparr>"
proof (induction i arbitrary: j)
  case (Suc i)
  have "passes [(real j + 1 / 2, 1)] \<lparr>tb_rate = 1, tb_capacity = 1, tb_tokens = 0, tb_updated = real j - 1 / 2\<rparr>
      = \<lparr>tb_rate = 1, tb_capacity = 1, tb_tokens = 0, tb_updated = real (Suc j) - 1 / 2\<rparr>"
    by (simp add: passes_def acquire_step_def refill_def)
  then show ?case using Suc.IH [of "Suc j"] by simp
qed simp

lemma starved:
  "acquire real (\<lambda>k. [(real k + 1 / 2, 1)]) 1 \<lparr>tb_rate = 1, tb_capacity = 1, tb_tokens = 0, tb_updated = - 1 / 2\<rparr> = None"
proof (rule ccontr)
  assume "acquire real (\<lambda>k. [(real k + 1 / 2, 1)]) 1 \<lparr>tb_rate = 1, tb_capacity = 1, tb_tokens = 0, tb_updated = - 1 / 2\<rparr> \<noteq> None"
  then obtain i where "(1 :: real) \<le> balance_at (real i) (left_by_others i (\<lambda>k. [(real k + 1 / 2, 1)])
      \<lparr>tb_rate = 1, tb_capacity = 1, tb_tokens = 0, tb_updated = - 1 / 2\<rparr>)"
    using acquire_ended by (fastforce simp: ends_at_some_pass_def)
  then show False using left_with_nothing [of i 0] by (simp add: balance_at_def)
qed

text \<open>Waiting is enough: an acquisition told to wait succeeds on its next pass when nothing was
  drawn in between, so the loop ends.\<close>

theorem waiting_is_enough:
  assumes "acquire_step now n b = (Wait w, b')"
  shows "0 < w \<and> fst (acquire_step (now + w) n b') = Granted"
proof -
  from assms have r: "0 < tb_rate b" "n \<le> tb_capacity b" and b': "b' = refill now b"
    and lt: "tb_tokens b' < n" and w: "w = (n - tb_tokens b') / tb_rate b'"
    by (auto simp: acquire_step_def Let_def split: if_splits)
  have rb: "tb_rate b' = tb_rate b" "tb_capacity b' = tb_capacity b" "tb_updated b' = now"
    by (simp_all add: b' refill_def)
  have "tb_tokens b' + w * tb_rate b' = n" using w r(1) rb(1) by simp
  then have "n \<le> tb_tokens (refill (now + w) b')" using r(2) rb by (simp add: refill_def)
  moreover have "0 < w" using w lt r(1) rb(1) by simp
  ultimately show ?thesis using r rb by (simp add: acquire_step_def Let_def)
qed

theorem waiting_is_enough_witness:
  "0 < (1/2 :: real) \<and> fst (acquire_step (0 + 1/2) 1
     \<lparr>tb_rate = 2, tb_capacity = 1, tb_tokens = 0, tb_updated = 0\<rparr>) = Granted"
  by (rule waiting_is_enough [of 0 1 "\<lparr>tb_rate = 2, tb_capacity = 1, tb_tokens = 0, tb_updated = 0\<rparr>"])
    (simp add: acquire_step_def refill_def Let_def)

end
