(* ===== verification/Compliance.thy ===== *)
theory Compliance
  imports Prelude
begin

text \<open>
  \<open>quirk/compliance/__init__.py\<close>: the references every finding carries, and the one title
  normaliser with its two alias tables: the compliance table collapses every interpolated title to
  its class, the identity table keeps the library name of a container finding.
\<close>

section \<open>References\<close>

record compliance_ref =
  cr_framework :: string
  cr_control :: string
  cr_version :: string
  cr_last_verified :: string
  cr_source_url :: string

definition pci :: "string \<Rightarrow> compliance_ref" where
  "pci control =
     \<lparr>cr_framework = ''PCI-DSS 4.0.1'', cr_control = control, cr_version = ''4.0.1'',
      cr_last_verified = ''2026-05-05'', cr_source_url = ''https://docs-prv.pcisecuritystandards.org/PCI%20DSS/Standard/PCI-DSS-v4_0_1.pdf''\<rparr>"

definition hipaa :: "string \<Rightarrow> compliance_ref" where
  "hipaa control =
     \<lparr>cr_framework = ''HIPAA 45 CFR'', cr_control = control, cr_version = ''2024-rev'',
      cr_last_verified = ''2026-05-05'',
      cr_source_url = ''https://www.ecfr.gov/current/title-45/subtitle-A/subchapter-C/part-164/subpart-C/section-164.312''\<rparr>"

definition fips :: "string \<Rightarrow> compliance_ref" where
  "fips control =
     \<lparr>cr_framework = ''FIPS 140-3'', cr_control = control, cr_version = ''FIPS 140-3'',
      cr_last_verified = ''2026-05-05'', cr_source_url = ''https://csrc.nist.gov/pubs/fips/140-3/final''\<rparr>"

definition soc2 :: "string \<Rightarrow> compliance_ref" where
  "soc2 control =
     \<lparr>cr_framework = ''SOC2 CC'', cr_control = control, cr_version = ''2017-rev'',
      cr_last_verified = ''2026-05-05'',
      cr_source_url =
        ''https://www.aicpa-cima.com/topic/audit-assurance/audit-and-assurance-greater/trust-services-criteria''\<rparr>"

definition iso :: "string \<Rightarrow> compliance_ref" where
  "iso control =
     \<lparr>cr_framework = ''ISO 27001:2022'', cr_control = control, cr_version = ''ISO 27001:2022'',
      cr_last_verified = ''2026-05-05'', cr_source_url = ''https://www.iso.org/standard/82875.html''\<rparr>"

section \<open>Title normalisation\<close>

definition title_prefix_aliases :: "(string \<times> string) list" where
  "title_prefix_aliases =
     [(''End-of-life '',
         ''End-of-life in container image''),
      (''Container image uses quantum-vulnerable crypto library ('',
         ''Container image uses quantum-vulnerable crypto library''),
      (''Severely outdated Python cryptography package ('',
         ''Severely outdated Python cryptography package in container image''),
      (''Outdated Python cryptography package ('',
         ''Outdated Python cryptography package in container image''),
      (''Outdated pyOpenSSL package ('',
         ''Outdated pyOpenSSL package in container image''),
      (''Outdated libgcrypt ('',
         ''Outdated libgcrypt in container image''),
      (''Container image contains crypto library ('',
         ''Container image contains crypto library'')]"

text \<open>The table is sorted by falling length of the prefix, stably; the first prefix of the title
  decides, and a title without one is returned as it is.\<close>

definition normalize_finding_title :: "(string \<times> string) list \<Rightarrow> string \<Rightarrow> string" where
  "normalize_finding_title table title =
     (case find (\<lambda>p. starts_with title (fst p)) (sort_key (\<lambda>p. - int (length (fst p))) table) of
        None \<Rightarrow> title
      | Some p \<Rightarrow> snd p)"

definition identity_bearing_prefixes :: "string list" where
  "identity_bearing_prefixes =
     [''Container image uses quantum-vulnerable crypto library ('',
      ''Container image contains crypto library ('']"

definition fingerprint_title_aliases :: "(string \<times> string) list" where
  "fingerprint_title_aliases =
     filter (\<lambda>p. fst p \<notin> set identity_bearing_prefixes) title_prefix_aliases
     @ [(''Certificate expiring in '', ''Certificate expiring soon'')]"

definition title_identity_class :: "(string \<times> string) list" where
  "title_identity_class =
     [(''Legacy TLS version: '', ''PRESERVE_IDENTITY''),
      (''Certificate expiring in  day(s)'', ''NORMALIZE''),
      (''Quantum- algorithm: '', ''PRESERVE_IDENTITY''),
      (''Kerberos weak etype: '', ''PRESERVE_IDENTITY''),
      (''OIDC RS-family algorithm: '', ''PRESERVE_IDENTITY''),
      (''Weak SAML signing certificate: -'', ''PRESERVE_IDENTITY''),
      (''Weak SAML encryption certificate: -'', ''PRESERVE_IDENTITY''),
      (''DNSSEC: '', ''PRESERVE_IDENTITY''),
      ('' encryption posture'', ''NOT_IDENTITY_RELEVANT''),
      (''S3 bucket '', ''NOT_IDENTITY_RELEVANT''),
      (''Azure Blob /'', ''NOT_IDENTITY_RELEVANT''),
      (''K8s secrets in namespace '', ''NOT_IDENTITY_RELEVANT''),
      ('' cluster etcd encryption'', ''NOT_IDENTITY_RELEVANT''),
      (''End-of-life  in container image'', ''NORMALIZE''),
      (''Container image uses quantum-vulnerable crypto library (@)'', ''PRESERVE_IDENTITY''),
      (''Severely outdated Python cryptography package () in container image'', ''NORMALIZE''),
      (''Outdated Python cryptography package () in container image'', ''NORMALIZE''),
      (''Outdated pyOpenSSL package () in container image'', ''NORMALIZE''),
      (''Outdated libgcrypt () in container image'', ''NORMALIZE''),
      (''Container image contains crypto library (@)'', ''PRESERVE_IDENTITY''),
      (''Code-signing certificate expired: '', ''PRESERVE_IDENTITY''),
      (''Code-signing certificate expiring within 90 days: '', ''PRESERVE_IDENTITY''),
      (''Code-signing certificate uses weak algorithm: '', ''PRESERVE_IDENTITY''),
      (''Source scan incomplete for '', ''PRESERVE_IDENTITY'')]"

section \<open>The map\<close>

definition compliance_map :: "(string \<times> compliance_ref list) list" where
  "compliance_map =
     [(''Plaintext HTTP service detected'',
         [pci ''4.2.1'', hipaa (section_sign @ ''164.312(e)(1)''), soc2 ''CC6.7'', iso ''8.26'']),
      (''Legacy TLS versions allowed (TLS 1.0/1.1)'',
         [pci ''4.2.1'',
          pci ''4.2.1.1'',
          hipaa (section_sign @ ''164.312(e)(1)''),
          fips ''Not-Approved (SP 800-131A R2)'',
          soc2 ''CC6.6'',
          soc2 ''CC6.7'',
          iso ''8.26'']),
      (''Legacy TLS cipher suites accepted'',
         [pci ''4.2.1'',
          hipaa (section_sign @ ''164.312(e)(1)''),
          fips ''Not-Approved (SP 800-131A R2)'',
          soc2 ''CC6.7'',
          iso ''8.26'']),
      (''TLS certificate expired'',
         [pci ''4.2.1.1'', soc2 ''CC6.6'', iso ''8.24'']),
      (''TLS certificate expiring within 30 days'',
         [pci ''4.2.1.1'', soc2 ''CC6.6'', iso ''8.24'']),
      (''TLS certificate is self-signed'',
         [pci ''4.2.1.1'', soc2 ''CC6.6'', iso ''8.24'']),
      (''TLS certificate issued by untrusted CA'',
         [pci ''4.2.1.1'', soc2 ''CC6.6'', iso ''8.24'']),
      (''TLS certificate uses undersized RSA key'',
         [pci ''6.3.3'',
          hipaa (section_sign @ ''164.312(a)(2)(iv)''),
          fips ''Not-Approved (SP 800-131A R2: RSA <2048)'',
          soc2 ''CC6.6'',
          iso ''8.24'']),
      (''TLS certificate uses undersized ECDSA key'',
         [pci ''6.3.3'',
          hipaa (section_sign @ ''164.312(a)(2)(iv)''),
          fips ''Not-Approved (SP 800-186: curve <256-bit)'',
          soc2 ''CC6.6'',
          iso ''8.24'']),
      (''TLS certificate uses quantum-vulnerable RSA key'',
         [pci ''6.3.3'',
          fips ''Approved with Deprecation 2030/2035 (NIST IR 8547)'',
          soc2 ''CC6.6'',
          iso ''8.24'']),
      (''TLS certificate uses quantum-vulnerable ECDSA key'',
         [pci ''6.3.3'',
          fips ''Approved with Deprecation 2030/2035 (NIST IR 8547)'',
          soc2 ''CC6.6'',
          iso ''8.24'']),
      (''STARTTLS downgrade risk on SMTP'',
         [pci ''4.2.1'',
          hipaa (section_sign @ ''164.312(e)(2)(ii)''),
          soc2 ''CC6.7'',
          iso ''8.26'']),
      (''Weak cipher suite on email TLS endpoint'',
         [pci ''4.2.1'', hipaa (section_sign @ ''164.312(e)(1)''), soc2 ''CC6.7'', iso ''8.26'']),
      (''Non-PFS cipher suite on email TLS endpoint'',
         [pci ''4.2.1'', soc2 ''CC6.7'', iso ''8.26'']),
      (''Plaintext Kafka listener detected'',
         [pci ''4.2.1'', hipaa (section_sign @ ''164.312(e)(1)''), soc2 ''CC6.7'', iso ''8.26'']),
      (''Plaintext AMQP listener detected'',
         [pci ''4.2.1'', hipaa (section_sign @ ''164.312(e)(1)''), soc2 ''CC6.7'', iso ''8.26'']),
      (''Plaintext Redis listener (no auth)'',
         [pci ''4.2.1'',
          pci ''8.3.2'',
          hipaa (section_sign @ ''164.312(e)(1)''),
          soc2 ''CC6.6'',
          soc2 ''CC6.7'',
          iso ''8.26'']),
      (''Weak cipher suite on broker TLS endpoint'',
         [pci ''4.2.1'', hipaa (section_sign @ ''164.312(e)(1)''), soc2 ''CC6.7'', iso ''8.26'']),
      (''End-of-life in container image'',
         [pci ''6.3.3'',
          fips ''Not-Approved (legacy crypto library default primitives)'',
          soc2 ''CC6.7'',
          iso ''8.26'']),
      (''Container image uses quantum-vulnerable crypto library'',
         [fips ''Approved with Deprecation 2030/2035 (NIST IR 8547)'',
          soc2 ''CC6.6'',
          iso ''8.24'']),
      (''Severely outdated Python cryptography package in container image'',
         [pci ''6.3.3'', soc2 ''CC6.7'', iso ''8.26'']),
      (''Outdated Python cryptography package in container image'',
         [pci ''6.3.3'', soc2 ''CC6.7'', iso ''8.26'']),
      (''Outdated pyOpenSSL package in container image'',
         [pci ''6.3.3'', soc2 ''CC6.7'', iso ''8.26'']),
      (''Outdated libgcrypt in container image'',
         [pci ''6.3.3'', soc2 ''CC6.7'', iso ''8.26''])]"

definition unmapped_titles :: "string list" where
  "unmapped_titles =
     [''Scanner skipped '' @ em_dash @ '' optional extra not installed'',
      ''TLS handshake blocked assessment'',
      ''mTLS required'',
      ''Informational protocol observation'',
      ''SSH quantum planning advisory'',
      ''Unknown open service'',
      ''Container image contains crypto library'',
      ''JWKS fetched with TLS certificate verification disabled'',
      ''Bearer token is unsigned (alg:none)'']"

definition compliance_of :: "string \<Rightarrow> compliance_ref list" where
  "compliance_of title = dict_get compliance_map (normalize_finding_title title_prefix_aliases title) []"

section \<open>Properties of the normaliser\<close>

text \<open>No prefix of a table extends another one.\<close>

definition prefix_free :: "(string \<times> string) list \<Rightarrow> bool" where
  "prefix_free table \<longleftrightarrow>
     (\<forall>p \<in> set table. \<forall>q \<in> set table. starts_with (fst q) (fst p) \<longrightarrow> p = q)"

lemma starts_with_append [simp]: "starts_with (p @ s) p"
  by (simp add: starts_with_def)

lemma starts_with_both:
  assumes "starts_with t p" and "starts_with t q"
  shows "starts_with q p \<or> starts_with p q"
proof (cases "length p \<le> length q")
  case True
  have "take (length p) q = p"
    using assms True by (metis starts_with_def min.absorb1 take_take)
  then show ?thesis by (simp add: starts_with_def)
next
  case False
  have "take (length q) p = q"
    using assms False by (metis starts_with_def min.absorb1 nat_le_linear take_take)
  then show ?thesis by (simp add: starts_with_def)
qed

lemma normalize_alias:
  assumes "prefix_free table" and "(p, c) \<in> set table"
  shows "normalize_finding_title table (p @ s) = c"
proof -
  let ?l = "sort_key (\<lambda>p. - int (length (fst p))) table"
  obtain q where q: "find (\<lambda>q. starts_with (p @ s) (fst q)) ?l = Some q"
    using assms(2) by (cases "find (\<lambda>q. starts_with (p @ s) (fst q)) ?l") (auto simp: find_None_iff)
  from find_SomeD [OF q] have "q \<in> set table" and "starts_with (p @ s) (fst q)" by simp_all
  then have "q = (p, c)"
    using assms starts_with_both [of "p @ s" p "fst q"] by (auto simp: prefix_free_def)
  with q show ?thesis by (simp add: normalize_finding_title_def)
qed

lemma normalize_other:
  assumes "\<forall>p \<in> set table. \<not> starts_with title (fst p)"
  shows "normalize_finding_title table title = title"
  using assms by (auto simp: normalize_finding_title_def dest!: find_SomeD split: option.split)

lemma normalize_cases:
  "normalize_finding_title table title = title \<or> normalize_finding_title table title \<in> snd ` set table"
proof (cases "find (\<lambda>p. starts_with title (fst p)) (sort_key (\<lambda>p. - int (length (fst p))) table)")
  case (Some q)
  with find_SomeD [OF Some] show ?thesis by (simp add: normalize_finding_title_def)
qed (simp add: normalize_finding_title_def)

lemma aliases_prefix_free: "prefix_free title_prefix_aliases" "prefix_free fingerprint_title_aliases"
  by code_simp+

lemma aliases_canonical:
  "list_all (\<lambda>p. normalize_finding_title title_prefix_aliases (snd p) = snd p) title_prefix_aliases"
  "list_all (\<lambda>p. normalize_finding_title fingerprint_title_aliases (snd p) = snd p) fingerprint_title_aliases"
  by code_simp+

lemma normalize_idem:
  assumes "list_all (\<lambda>p. normalize_finding_title table (snd p) = snd p) table"
  shows "normalize_finding_title table (normalize_finding_title table t) = normalize_finding_title table t"
  using normalize_cases [of table t] assms by (auto simp: list_all_iff)

text \<open>The identity policy keeps the names of container libraries apart and drops versions and
  days.\<close>

theorem fingerprint_titles_policy:
  "normalize_finding_title fingerprint_title_aliases (normalize_finding_title fingerprint_title_aliases t)
      = normalize_finding_title fingerprint_title_aliases t \<and>
   normalize_finding_title fingerprint_title_aliases (''Certificate expiring in '' @ s) = ''Certificate expiring soon'' \<and>
   normalize_finding_title fingerprint_title_aliases (''Outdated pyOpenSSL package ('' @ s)
      = ''Outdated pyOpenSSL package in container image'' \<and>
   normalize_finding_title fingerprint_title_aliases (''Container image contains crypto library ('' @ s)
      = ''Container image contains crypto library ('' @ s \<and>
   normalize_finding_title title_prefix_aliases (''Container image contains crypto library ('' @ s)
      = ''Container image contains crypto library''"
proof (intro conjI)
  show "normalize_finding_title fingerprint_title_aliases (normalize_finding_title fingerprint_title_aliases t)
      = normalize_finding_title fingerprint_title_aliases t"
    by (rule normalize_idem [OF aliases_canonical(2)])
  show "normalize_finding_title fingerprint_title_aliases (''Certificate expiring in '' @ s)
      = ''Certificate expiring soon''"
    by (rule normalize_alias [OF aliases_prefix_free(2)])
      (simp add: fingerprint_title_aliases_def)
  show "normalize_finding_title fingerprint_title_aliases (''Outdated pyOpenSSL package ('' @ s)
      = ''Outdated pyOpenSSL package in container image''"
    by (rule normalize_alias [OF aliases_prefix_free(2)])
      (simp add: fingerprint_title_aliases_def title_prefix_aliases_def identity_bearing_prefixes_def)
  show "normalize_finding_title fingerprint_title_aliases (''Container image contains crypto library ('' @ s)
      = ''Container image contains crypto library ('' @ s"
    by (rule normalize_other)
      (simp add: fingerprint_title_aliases_def title_prefix_aliases_def identity_bearing_prefixes_def
        starts_with_def)
  show "normalize_finding_title title_prefix_aliases (''Container image contains crypto library ('' @ s)
      = ''Container image contains crypto library''"
    by (rule normalize_alias [OF aliases_prefix_free(1)]) (simp add: title_prefix_aliases_def)
qed

end
