(* ===== verification/Roadmap.thy ===== *)
theory Roadmap
  imports Scoring Remediation
begin

text \<open>
  \<open>quirk/intelligence/roadmap.py\<close>: the phased remediation roadmap.  The evidence triggers up to
  eleven items, baseline items fill up to the minimum, a governance item is always offered, the
  items are sorted by phase and priority and cut at the maximum; an empty scan gets a starter plan.
  The text Python gives to a float and the float it reads from a text are parameters.
\<close>

section \<open>Entries\<close>

record roadmap_entry =
  re_phase :: string
  re_title :: string
  re_why :: string
  re_owner :: string
  re_dependencies :: "string list"
  re_timeframe :: string

record candidate = roadmap_entry +
  ca_priority :: int

record roadmap =
  rm_version :: string
  rm_item_count :: nat
  rm_phase_counts :: "(string \<times> int) list"
  rm_items :: "roadmap_entry list"

definition roadmap_version :: string where
  "roadmap_version = ''1.0.0''"

definition phase_order :: "(string \<times> int) list" where
  "phase_order = [(''NOW'', 0), (''NEXT'', 1), (''LATER'', 2)]"

definition timeframe_by_phase :: "(string \<times> string) list" where
  "timeframe_by_phase = [(''NOW'', ''0-30 days''), (''NEXT'', ''31-90 days''), (''LATER'', ''90+ days'')]"

definition phase_rank :: "string \<Rightarrow> int" where
  "phase_rank ph = dict_get phase_order ph 99"

definition new_candidate ::
    "string \<Rightarrow> string \<Rightarrow> string \<Rightarrow> string \<Rightarrow> string list \<Rightarrow> int \<Rightarrow> candidate" where
  "new_candidate ph title why owner deps priority =
     \<lparr>re_phase = ph, re_title = title, re_why = why, re_owner = owner, re_dependencies = deps,
      re_timeframe = dict_get timeframe_by_phase ph [], ca_priority = priority\<rparr>"

section \<open>Helpers\<close>

definition as_float :: "(string \<Rightarrow> real option) \<Rightarrow> pyval \<Rightarrow> real" where
  "as_float text_float v =
     (case v of
        PyBool b \<Rightarrow> (if b then 1 else 0)
      | PyInt n \<Rightarrow> of_int n
      | PyFloat x \<Rightarrow> x
      | PyStr s \<Rightarrow> (case text_float s of None \<Rightarrow> 0 | Some x \<Rightarrow> x)
      | _ \<Rightarrow> 0)"

definition round1 :: "real \<Rightarrow> real" where
  "round1 x = of_int (py_round (x * 10)) / 10"

definition driver_reasons :: "(string \<times> int) list \<Rightarrow> string list" where
  "driver_reasons drivers = filter (\<lambda>r. r \<noteq> []) (map (py_strip \<circ> fst) drivers)"

definition driver_hint :: "string list \<Rightarrow> string list \<Rightarrow> string" where
  "driver_hint reasons keywords =
     (case find (\<lambda>r. list_ex (\<lambda>k. has_substring (py_lower k) (py_lower r)) keywords) reasons of
        None \<Rightarrow> []
      | Some r \<Rightarrow> r)"

definition strip_dots :: "string \<Rightarrow> string" where
  "strip_dots s = rev (dropWhile (\<lambda>c. c = CHR ''.'') (rev s))"

definition why_text :: "string \<Rightarrow> string \<Rightarrow> string" where
  "why_text base hint = (if hint \<noteq> [] then base @ '' Driver: '' @ strip_dots hint @ ''.'' else base)"

definition candidate_key :: "candidate \<Rightarrow> int \<times> int \<times> string" where
  "candidate_key c = (phase_rank (re_phase c), ca_priority c, re_title c)"

text \<open>\<open>_add_candidate\<close>: a title already present keeps the smaller of the two keys.\<close>

definition add_candidate :: "candidate \<Rightarrow> (string \<times> candidate) list \<Rightarrow> (string \<times> candidate) list" where
  "add_candidate c items =
     (case map_of items (re_title c) of
        None \<Rightarrow> dict_put (re_title c) c items
      | Some old \<Rightarrow> if candidate_key c < candidate_key old then dict_put (re_title c) c items else items)"

section \<open>The counters the roadmap reads\<close>

definition unit_interval :: "real \<Rightarrow> real" where
  "unit_interval x = max 0 (min 1 x)"

definition endpoint_total :: "evidence \<Rightarrow> int" where
  "endpoint_total e = count_at (sub_mapping e ''totals'') ''endpoints''"

definition plaintext_total :: "evidence \<Rightarrow> int" where
  "plaintext_total e = count_at e ''plaintext_http_count'' + count_at e ''http_on_tls_port_count''"

definition high_impact :: "evidence \<Rightarrow> int" where
  "high_impact e =
     max 0 (raw_count_at (scored_severity_counts e) ''HIGH'' + raw_count_at (scored_severity_counts e) ''CRITICAL'')"

definition scan_error_total_of :: "evidence \<Rightarrow> int" where
  "scan_error_total_of e = count_at (sub_mapping e ''scan_error'') ''count''"

definition scan_error_rate :: "(string \<Rightarrow> real option) \<Rightarrow> evidence \<Rightarrow> real" where
  "scan_error_rate tf e = unit_interval (as_float tf (dict_get (sub_mapping e ''scan_error'') ''rate'' (PyFloat 0)))"

definition tls_enum_coverage :: "(string \<Rightarrow> real option) \<Rightarrow> evidence \<Rightarrow> real" where
  "tls_enum_coverage tf e = unit_interval (as_float tf (dict_get e ''tls_enum_coverage_ratio'' (PyFloat 1)))"

definition low_finding_count :: "evidence \<Rightarrow> int" where
  "low_finding_count e = count_at (scored_severity_counts e) ''LOW''"

section \<open>The items\<close>

text \<open>The eleven driver items with their triggers, in the order of the code.\<close>

definition driver_items ::
    "(real \<Rightarrow> string) \<Rightarrow> (string \<Rightarrow> real option) \<Rightarrow> evidence \<Rightarrow> string list \<Rightarrow> (bool \<times> candidate) list" where
  "driver_items ft tf e reasons =
   [(0 < plaintext_total e,
     new_candidate ''NOW'' ''Remove plaintext HTTP exposure''
       (why_text (''Plaintext HTTP signals were observed on '' @ int_str (plaintext_total e) @ '' endpoint(s).'')
          (driver_hint reasons [''plaintext'', ''http on tls'']))
       ''[owner: platform-security]'' [''Service inventory'', ''TLS termination standard''] 10),
    (0 < high_impact e,
     new_candidate ''NOW'' ''Triage high-impact findings''
       (why_text (''There are '' @ int_str (high_impact e)
                  @ '' high-impact finding(s) requiring immediate remediation sequencing.'')
          (driver_hint reasons [''high-impact'', ''high severity'']))
       ''[owner: security-operations]'' [''Finding ownership map''] 20),
    (0 < count_at (cert_obs_of e) ''expired_count'',
     new_candidate ''NOW'' ''Replace expired certificates''
       (why_text (int_str (count_at (cert_obs_of e) ''expired_count'') @ '' certificate(s) are already expired.'')
          (driver_hint reasons [''expired certificate'']))
       ''[owner: pki-team]'' [''Certificate inventory'', ''CA issuance access''] 30),
    (0 < scan_error_total_of e,
     new_candidate ''NOW'' ''Increase scan coverage''
       (why_text (''Only '' @ int_str (max 0 (endpoint_total e - scan_error_total_of e)) @ '' of ''
                  @ int_str (endpoint_total e) @ '' probed ports (''
                  @ ft (round1 (100 - scan_error_rate tf e * 100))
                  @ ''%) returned crypto evidence; the remaining '' @ ft (round1 (scan_error_rate tf e * 100))
                  @ ''% were closed, unreachable, or not listening. Low assessable coverage weakens evidence quality.'')
          (driver_hint reasons [''scan error'', ''visibility blocker'']))
       ''[owner: network-engineering]'' [''Scanner connectivity baseline''] 40),
    (0 < unknown_count e,
     new_candidate ''NEXT'' ''Classify unknown open services''
       (why_text (int_str (unknown_count e) @ '' unknown open service(s) need protocol and ownership classification.'')
          (driver_hint reasons [''unknown service'', ''unknown open'']))
       ''[owner: asset-management]'' [''Service inventory'', ''CMDB ownership data''] 50),
    (0 < count_at (cert_obs_of e) ''expiring_count'',
     new_candidate ''NEXT'' ''Renew near-expiry certificates''
       (why_text (int_str (count_at (cert_obs_of e) ''expiring_count'')
                  @ '' certificate(s) are expiring within the configured window.'')
          (driver_hint reasons [''expiring certificate'']))
       ''[owner: pki-operations]'' [''Renewal runbook'', ''Certificate ownership''] 60),
    (0 < count_at (cert_obs_of e) ''self_signed_count'',
     new_candidate ''NEXT'' ''Migrate self-signed certificates to managed PKI''
       (why_text (int_str (count_at (cert_obs_of e) ''self_signed_count'')
                  @ '' self-signed certificate(s) reduce trust consistency.'')
          (driver_hint reasons [''self-signed'']))
       ''[owner: identity-security]'' [''Managed PKI policy'', ''Service migration plan''] 70),
    (0 < low_finding_count e,
     new_candidate ''NEXT'' ''Disable legacy TLS versions''
       (why_text ''Legacy TLS usage was detected and should be phased out with exception tracking.''
          (driver_hint reasons [''legacy tls'']))
       ''[owner: platform-architecture]'' [''Client compatibility matrix'', ''Change window approvals''] 80),
    (tls_enum_coverage tf e < 85 / 100,
     new_candidate ''NEXT'' ''Increase TLS enumeration coverage''
       (why_text (''TLS enum coverage is '' @ ft (round1 (tls_enum_coverage tf e * 100))
                  @ ''%, limiting modernization prioritization accuracy.'')
          (driver_hint reasons [''assessment visibility'', ''tls enum'']))
       ''[owner: security-engineering]'' [''Scanner profile tuning''] 90),
    (0 < classical_key_count e \<or> pqc_cert_count e < count_at (cert_obs_of e) ''certs_observed'',
     new_candidate ''LATER'' ''Plan post-quantum (PQC/hybrid) certificate adoption''
       (why_text (''Certificate keys are classical (RSA/ECDSA/EdDSA) or undetermined, and all classical keys ''
                  @ ''are quantum-vulnerable; plan migration to ML-DSA or composite (hybrid) certificates ''
                  @ ''as CA and client support allows.'')
          (driver_hint reasons [''quantum-vulnerable certificate'', ''certificate key types undetermined'']))
       ''[owner: cryptography-architecture]'' [''CA support validation'', ''Client support matrix''] 100),
    (0 < count_at e ''mtls_present_count'',
     new_candidate ''LATER'' ''Standardize mTLS lifecycle operations''
       (why_text (''mTLS signals are present; operationalize issuance, rotation, and revocation controls ''
                  @ ''consistently.'')
          (driver_hint reasons [''mtls'']))
       ''[owner: identity-platform]'' [''Client cert lifecycle policy'', ''Secrets distribution channel''] 110)]"

definition governance_item :: candidate where
  "governance_item =
     new_candidate ''LATER'' ''Establish crypto governance review''
       ''Adopt recurring governance checkpoints for roadmap status and exceptions.''
       ''[owner: security-leadership]'' [''Quarterly reporting format''] 920"

definition baseline :: "candidate list" where
  "baseline =
     [new_candidate ''NOW'' ''Assign remediation owners and SLAs''
        ''Define named owners and SLA targets for each open finding.''
        ''[owner: security-program]'' [''Finding register''] 900,
      new_candidate ''NEXT'' ''Automate evidence refresh cadence''
        ''Run periodic evidence collection and scoring for trend visibility.''
        ''[owner: secops-automation]'' [''Scheduler setup''] 910,
      governance_item]"

fun add_while_short :: "int \<Rightarrow> candidate list \<Rightarrow> (string \<times> candidate) list \<Rightarrow> (string \<times> candidate) list" where
  "add_while_short m [] items = items"
| "add_while_short m (c # cs) items =
     (if m \<le> int (length items) then items else add_while_short m cs (add_candidate c items))"

definition add_governance :: "int \<Rightarrow> (string \<times> candidate) list \<Rightarrow> (string \<times> candidate) list" where
  "add_governance m items =
     (if map_of items (re_title governance_item) = None \<or> int (length items) < m
      then add_candidate governance_item items else items)"

definition starter_plan :: "roadmap_entry list" where
  "starter_plan =
     [\<lparr>re_phase = ''NOW'', re_title = ''Collect initial asset scope'',
       re_why = ''No endpoints were observed; establish baseline scope before scoring.'',
       re_owner = ''[owner: asset-management]'', re_dependencies = [''Target inventory''],
       re_timeframe = ''0-30 days''\<rparr>,
      \<lparr>re_phase = ''NEXT'', re_title = ''Run baseline discovery and fingerprinting'',
       re_why = ''Initial scan evidence is required to compute meaningful intelligence outputs.'',
       re_owner = ''[owner: security-engineering]'', re_dependencies = [''Collect initial asset scope''],
       re_timeframe = ''31-90 days''\<rparr>,
      \<lparr>re_phase = ''LATER'', re_title = ''Establish recurring readiness reporting'',
       re_why = ''Consistent trend reporting is needed once baseline evidence exists.'',
       re_owner = ''[owner: security-program]'',
       re_dependencies = [''Run baseline discovery and fingerprinting''],
       re_timeframe = ''90+ days''\<rparr>]"

fun add_starters :: "int \<Rightarrow> roadmap_entry list \<Rightarrow> roadmap_entry list \<Rightarrow> roadmap_entry list" where
  "add_starters m [] items = items"
| "add_starters m (s # ss) items =
     (if m \<le> int (length items) then items
      else add_starters m ss (if re_title s \<notin> re_title ` set items then items @ [s] else items))"

definition entry_of :: "candidate \<Rightarrow> roadmap_entry" where
  "entry_of c =
     \<lparr>re_phase = re_phase c, re_title = re_title c, re_why = re_why c, re_owner = re_owner c,
      re_dependencies = re_dependencies c, re_timeframe = re_timeframe c\<rparr>"

definition phase_counts :: "roadmap_entry list \<Rightarrow> (string \<times> int) list" where
  "phase_counts items = bump_all (map re_phase items) [(''NOW'', 0), (''NEXT'', 0), (''LATER'', 0)]"

definition chosen_candidates ::
    "(real \<Rightarrow> string) \<Rightarrow> (string \<Rightarrow> real option) \<Rightarrow> evidence \<Rightarrow> string list \<Rightarrow> int \<Rightarrow> (string \<times> candidate) list" where
  "chosen_candidates ft tf e reasons m =
     add_governance m (add_while_short m baseline
       (fold add_candidate (map snd (filter fst (driver_items ft tf e reasons))) []))"

definition build_phased_roadmap ::
    "(real \<Rightarrow> string) \<Rightarrow> (string \<Rightarrow> real option) \<Rightarrow> evidence \<Rightarrow> (string \<times> int) list \<Rightarrow> int \<Rightarrow> int \<Rightarrow> roadmap" where
  "build_phased_roadmap ft tf e drivers min_items max_items =
     (let m = max 1 min_items; mx = max m max_items;
          chosen = chosen_candidates ft tf e (driver_reasons drivers) m;
          sorted_items = map entry_of (take (nat mx) (sort_key candidate_key (map snd chosen)));
          items = (if endpoint_total e = 0 \<and> int (length sorted_items) < m
                   then add_starters m starter_plan sorted_items else sorted_items) in
      \<lparr>rm_version = roadmap_version, rm_item_count = length items, rm_phase_counts = phase_counts items,
       rm_items = items\<rparr>)"

end
