(* ===== verification/Content_Model.thy ===== *)
theory Content_Model
  imports Compliance Roadmap Scoring_Properties
begin

text \<open>
  \<open>quirk/reports/content_model.py\<close>: the crypto class of a finding, the executive content built
  from score, findings and roadmap, and the guard that refuses a headline at odds with the findings.
  A finding is the dictionary \<open>_build_finding\<close> returns; the keys the evaluators add later are
  options.
\<close>

section \<open>Findings\<close>

record finding =
  fd_severity :: string
  fd_host :: string
  fd_port :: int
  fd_title :: string
  fd_description :: string
  fd_recommendation :: string
  fd_check_id :: string
  fd_quantum_risk :: string
  fd_compliance :: "compliance_ref list"
  fd_category :: "string option"
  fd_detail :: "string option"
  fd_protocol :: "string option"
  fd_source :: "string option"
  fd_algorithm :: "string option"

section \<open>Static tables\<close>

definition effort_rank :: "(string \<times> int) list" where
  "effort_rank = [(''LOW'', 1), (''MEDIUM'', 2), (''HIGH'', 3)]"

definition impact_rank :: "(string \<times> int) list" where
  "impact_rank = [(''HIGH'', 3), (''MEDIUM'', 2), (''LOW'', 1)]"

definition algo_impact_map :: "(string \<times> string \<times> string \<times> string) list" where
  "algo_impact_map =
     [(''RSA'',
         ''Harvest-now-decrypt-later exposure'',
         ''adversaries may already be archiving encrypted traffic for future decryption.'',
         ''RSA key material is vulnerable to Shor's algorithm '' @ em_dash
         @ '' a sufficiently powerful quantum computer can factor the modulus and recover the private ''
         @ ''key, breaking both confidentiality and non-repudiation.''),
      (''ECC'',
         ''Harvest-now-decrypt-later exposure'',
         ''adversaries may already be archiving encrypted traffic for future decryption.'',
         ''Elliptic-curve key material is vulnerable to Shor's algorithm '' @ em_dash
         @ '' quantum computers can solve the discrete logarithm problem and recover the private key, ''
         @ ''compromising authentication and forward secrecy.''),
      (''ECDSA'',
         ''Harvest-now-decrypt-later exposure'',
         ''adversaries may already be archiving encrypted traffic for future decryption.'',
         ''Elliptic-curve key material is vulnerable to Shor's algorithm '' @ em_dash
         @ '' quantum computers can solve the discrete logarithm problem and recover the private key, ''
         @ ''compromising authentication and forward secrecy.''),
      (''DH'',
         ''Harvest-now-decrypt-later exposure'',
         ''adversaries may already be archiving encrypted traffic for future decryption.'',
         ''Diffie'' @ en_dash @ ''Hellman key exchange is vulnerable to Shor's algorithm '' @ em_dash
         @ '' a quantum adversary can solve the discrete log problem on recorded sessions, ''
         @ ''retroactively decrypting captured traffic.''),
      (''DSA'',
         ''Harvest-now-decrypt-later exposure'',
         ''adversaries may already be archiving encrypted traffic for future decryption.'',
         ''DSA signatures rely on the discrete logarithm problem, which Shor's algorithm breaks ''
         @ em_dash @ '' a quantum attacker can forge signatures and impersonate the signing entity.''),
      (''WEAK_HASH'',
         ''Integrity risk'',
         ''weak hashing algorithms undermine tamper-evidence guarantees.'',
         ''MD5 collision resistance is already broken classically; quantum speedups (Grover's ''
         @ ''algorithm) further halve the effective security margin, making collision attacks ''
         @ ''feasible with modest resources.''),
      (''MD5'',
         ''Integrity risk'',
         ''weak hashing algorithms undermine tamper-evidence guarantees.'',
         ''MD5 collision resistance is already broken classically; quantum speedups (Grover's ''
         @ ''algorithm) further halve the effective security margin, making collision attacks ''
         @ ''feasible with modest resources.''),
      (''SHA1'',
         ''Integrity risk'',
         ''weak hashing algorithms undermine tamper-evidence guarantees.'',
         ''SHA-1 collision resistance is broken classically; Grover's algorithm halves the quantum ''
         @ ''bit-security to ~40 bits, making pre-image and collision attacks practical for ''
         @ ''state-level adversaries.''),
      (''SHA-1'',
         ''Integrity risk'',
         ''weak hashing algorithms undermine tamper-evidence guarantees.'',
         ''SHA-1 collision resistance is broken classically; Grover's algorithm halves the quantum ''
         @ ''bit-security to ~40 bits, making pre-image and collision attacks practical for ''
         @ ''state-level adversaries.''),
      (''WEAK_KEY_EXCHANGE'',
         ''Authentication exposure'',
         ''weak key exchange allows credential interception.'',
         ''Export-grade and short-parameter key exchange can be broken in real time by a classical ''
         @ ''adversary today; quantum acceleration makes recovery of session keys trivially fast.''),
      (''DHE_EXPORT'',
         ''Authentication exposure'',
         ''weak key exchange allows credential interception.'',
         ''Export-grade and short-parameter key exchange can be broken in real time by a classical ''
         @ ''adversary today; quantum acceleration makes recovery of session keys trivially fast.''),
      (''RC4'',
         ''Authentication exposure'',
         ''weak key exchange allows credential interception.'',
         ''RC4 stream cipher is cryptographically broken classically; even without quantum ''
         @ ''acceleration it provides no meaningful confidentiality '' @ em_dash
         @ '' remediation is overdue.''),
      (''3DES'',
         ''Authentication exposure'',
         ''weak key exchange allows credential interception.'',
         ''Triple-DES and DES use 56'' @ en_dash
         @ ''168-bit key lengths that Grover's algorithm reduces to at most 84 effective bits ''
         @ em_dash @ '' insufficient for any security boundary beyond 2030.''),
      (''DES'',
         ''Authentication exposure'',
         ''weak key exchange allows credential interception.'',
         ''Triple-DES and DES use 56'' @ en_dash
         @ ''168-bit key lengths that Grover's algorithm reduces to at most 84 effective bits ''
         @ em_dash @ '' insufficient for any security boundary beyond 2030.''),
      (''CODESIGN_EXPIRY'',
         ''Supply-chain trust failure'',
         ''expired code-signing certificate breaks software verification chains.'',
         ''An expired code-signing certificate breaks the trust chain '' @ em_dash
         @ '' any software signed by this certificate can no longer be verified as authentic, ''
         @ ''enabling supply-chain attacks or silent malware delivery.''),
      (''CODESIGN_APPROACHING_EXPIRY'',
         ''Imminent supply-chain risk'',
         ''code-signing certificate nearing expiry risks blocking deployments.'',
         ''A code-signing certificate expiring within 90 days creates operational risk '' @ em_dash
         @ '' if not renewed before expiry, software signed by this certificate will fail ''
         @ ''verification, blocking deployments and breaking trust.'')]"

definition fallback_quantum_risk :: string where
  "fallback_quantum_risk =
     ''This cryptographic weakness reduces the security margin against quantum-capable adversaries. ''
     @ ''Migrate to NIST-approved post-quantum algorithms per NIST IR 8547.''"

definition remediation_catalog :: "(string \<times> string) list" where
  "remediation_catalog =
     [(''RSA'',
         ''Replace RSA keys with NIST PQC standard algorithms: ML-KEM (FIPS 203) for key ''
         @ ''encapsulation or ML-DSA (FIPS 204) for digital signatures. Prioritize certificates and ''
         @ ''TLS endpoints first.''),
      (''ECC'',
         ''Replace ECDSA/ECDH keys with ML-DSA (FIPS 204) for signatures or ML-KEM (FIPS 203) for ''
         @ ''key encapsulation. During transition, deploy hybrid TLS (X25519+ML-KEM) as an ''
         @ ''intermediate step.''),
      (''ECDSA'',
         ''Replace ECDSA/ECDH keys with ML-DSA (FIPS 204) for signatures or ML-KEM (FIPS 203) for ''
         @ ''key encapsulation. During transition, deploy hybrid TLS (X25519+ML-KEM) as an ''
         @ ''intermediate step.''),
      (''DH'',
         ''Disable finite-field Diffie'' @ en_dash
         @ ''Hellman key exchange. Configure TLS to prefer X25519 (classical) or X25519+ML-KEM hybrid ''
         @ ''groups; disable DHE cipher suites in the server's TLS configuration.''),
      (''DSA'',
         ''Disable DSA. Replace DSA-based SSH host keys and certificates with Ed25519 (short-term) ''
         @ ''or ML-DSA (FIPS 204) when library support is available.''),
      (''WEAK_HASH'',
         ''Replace MD5 in all signing, integrity, and authentication contexts. Use SHA-256 or ''
         @ ''SHA-3-256 as minimum. Reject MD5-signed certificates at the trust-store level.''),
      (''MD5'',
         ''Replace MD5 in all signing, integrity, and authentication contexts. Use SHA-256 or ''
         @ ''SHA-3-256 as minimum. Reject MD5-signed certificates at the trust-store level.''),
      (''SHA1'',
         ''Replace SHA-1 signatures with SHA-256 or stronger. Reissue any SHA-1-signed ''
         @ ''certificates. Configure TLS to reject SHA-1 in the signature_algorithms extension.''),
      (''SHA-1'',
         ''Replace SHA-1 signatures with SHA-256 or stronger. Reissue any SHA-1-signed ''
         @ ''certificates. Configure TLS to reject SHA-1 in the signature_algorithms extension.''),
      (''WEAK_KEY_EXCHANGE'',
         ''Remove all export-grade cipher suites from TLS configuration. Disable DHE_EXPORT and ''
         @ ''similar suites. Apply OS and application TLS hardening guides (e.g., Mozilla SSL Config ''
         @ ''Generator '' @ em_dash @ '' Intermediate or Modern profile).''),
      (''DHE_EXPORT'',
         ''Remove all export-grade cipher suites from TLS configuration. Disable DHE_EXPORT and ''
         @ ''similar suites. Apply OS and application TLS hardening guides (e.g., Mozilla SSL Config ''
         @ ''Generator '' @ em_dash @ '' Intermediate or Modern profile).''),
      (''RC4'',
         ''Disable RC4 in all TLS and non-TLS contexts. RC4 is prohibited by RFC 7465. Replace with ''
         @ ''AES-128-GCM or AES-256-GCM cipher suites.''),
      (''3DES'',
         ''Disable 3DES and DES cipher suites (Sweet32 / NIST SP 800-131A Rev 2 disallowed after ''
         @ ''2023). Replace with AES-GCM. Verify no legacy application dependency remains before ''
         @ ''removal.''),
      (''DES'',
         ''Disable 3DES and DES cipher suites (Sweet32 / NIST SP 800-131A Rev 2 disallowed after ''
         @ ''2023). Replace with AES-GCM. Verify no legacy application dependency remains before ''
         @ ''removal.''),
      (''CODESIGN_EXPIRY'',
         ''Renew the expired code-signing certificate immediately and re-sign all artifacts. Revoke ''
         @ ''the expired certificate via the issuing CA and update any pinned certificate references ''
         @ ''in build pipelines.''),
      (''CODESIGN_APPROACHING_EXPIRY'',
         ''Renew this code-signing certificate before the not_after date. Update automated renewal ''
         @ ''policy and alert thresholds to trigger at 90 days remaining to prevent future expiry.'')]"

definition risk_severity_include :: "string list" where
  "risk_severity_include = [''CRITICAL'', ''HIGH'', ''MEDIUM'']"

definition algo_keywords :: "string list" where
  "algo_keywords =
     [''CODESIGN_APPROACHING_EXPIRY'', ''CODESIGN_EXPIRY'', ''RSA'', ''ECC'', ''ECDSA'', ''DH'',
      ''DSA'', ''WEAK_HASH'', ''MD5'', ''SHA1'', ''SHA-1'', ''WEAK_KEY_EXCHANGE'', ''DHE_EXPORT'',
      ''RC4'', ''3DES'', ''DES'']"

definition effort_impact_map :: "(string \<times> string \<times> string) list" where
  "effort_impact_map =
     [(''certificate'', ''LOW'', ''HIGH''),
      (''tls 1.0'', ''LOW'', ''HIGH''),
      (''tls 1.1'', ''LOW'', ''HIGH''),
      (''ssl'', ''LOW'', ''HIGH''),
      (''rc4'', ''LOW'', ''HIGH''),
      (''3des'', ''LOW'', ''HIGH''),
      (''md5'', ''LOW'', ''HIGH''),
      (''sha-1'', ''LOW'', ''HIGH''),
      (''sha1'', ''LOW'', ''HIGH''),
      (''key exchange'', ''MEDIUM'', ''HIGH''),
      (''hybrid'', ''MEDIUM'', ''HIGH''),
      (''migration'', ''MEDIUM'', ''HIGH''),
      (''pqc'', ''MEDIUM'', ''HIGH''),
      (''post-quantum'', ''MEDIUM'', ''HIGH''),
      (''agility'', ''MEDIUM'', ''HIGH''),
      (''pki'', ''HIGH'', ''HIGH''),
      (''ca'', ''HIGH'', ''HIGH''),
      (''hsm'', ''HIGH'', ''HIGH''),
      (''kms'', ''HIGH'', ''HIGH''),
      (''rekey'', ''HIGH'', ''MEDIUM''),
      (''config'', ''LOW'', ''MEDIUM''),
      (''cipher'', ''LOW'', ''MEDIUM''),
      (''ssh'', ''LOW'', ''MEDIUM''),
      (''protocol'', ''MEDIUM'', ''MEDIUM''),
      (''inventory'', ''MEDIUM'', ''MEDIUM''),
      (''cbom'', ''MEDIUM'', ''MEDIUM''),
      (''audit'', ''MEDIUM'', ''MEDIUM'')]"

definition narrative_leads :: "(string \<times> string) list" where
  "narrative_leads =
     [(''EXCELLENT'',
         ''This organization demonstrates strong quantum-readiness across its cryptographic ''
         @ ''infrastructure.''),
      (''GOOD'',
         ''This organization demonstrates strong quantum-readiness across its cryptographic ''
         @ ''infrastructure.''),
      (''MODERATE'',
         ''This organization has foundational cryptographic controls in place with meaningful gaps ''
         @ ''requiring attention.''),
      (''FAIR'',
         ''This organization's cryptographic posture presents significant exposure to quantum-era ''
         @ ''threats.''),
      (''POOR'',
         ''This organization's cryptographic posture is critically deficient and requires immediate ''
         @ ''remediation.'')]"

definition narrative_lead_fallback :: string where
  "narrative_lead_fallback =
     ''No findings were detected. Verify scan coverage before distributing this report.''"

section \<open>The crypto class of a finding\<close>

definition search_text :: "finding \<Rightarrow> string" where
  "search_text f =
     py_upper (fd_title f @ '' '' @ fd_description f @ '' '' @ py_or_str (fd_category f) @ '' '' @ fd_check_id f)"

definition classify_finding :: "finding \<Rightarrow> string option" where
  "classify_finding f =
     (if py_upper (fd_severity f) \<notin> set risk_severity_include then None
      else find (\<lambda>k. has_substring (py_upper k) (search_text f)) algo_keywords)"

section \<open>Errors\<close>

datatype report_error = ReportCongruenceError string int | KeyError string

definition check_congruence :: "string \<Rightarrow> (string \<times> int) list \<Rightarrow> report_error + unit" where
  "check_congruence band sev_counts =
     (case band_allowance band of
        None \<Rightarrow> Inr ()
      | Some threshold \<Rightarrow>
          (let n_critical = dict_get sev_counts ''CRITICAL'' 0 in
           if threshold < n_critical then Inl (ReportCongruenceError band n_critical) else Inr ()))"

definition count_severities :: "finding list \<Rightarrow> (string \<times> int) list" where
  "count_severities fs = bump_all (map (\<lambda>f. py_upper (fd_severity f)) fs) []"

definition assert_congruent :: "string \<Rightarrow> finding list \<Rightarrow> report_error + unit" where
  "assert_congruent band fs = check_congruence band (count_severities fs)"

section \<open>Top risks\<close>

record risk_item =
  ri_label :: string
  ri_impact :: string
  ri_severity :: string

definition severity_order :: "(string \<times> int) list" where
  "severity_order = [(''CRITICAL'', 0), (''HIGH'', 1), (''MEDIUM'', 2)]"

text \<open>One turn of the loop over the findings: a label already seen is skipped.\<close>

definition collect_risk :: "finding \<Rightarrow> (int \<times> risk_item) list \<Rightarrow> report_error + (int \<times> risk_item) list" where
  "collect_risk f candidates =
     (case classify_finding f of
        None \<Rightarrow> Inr candidates
      | Some crypto_class \<Rightarrow>
          (case map_of algo_impact_map crypto_class of
             None \<Rightarrow> Inl (KeyError crypto_class)
           | Some (label, impact, _) \<Rightarrow>
               if label \<in> set (map (ri_label \<circ> snd) candidates) then Inr candidates
               else (let severity = py_upper (fd_severity f) in
                     Inr (candidates @ [(dict_get severity_order severity 99,
                       \<lparr>ri_label = label, ri_impact = impact, ri_severity = severity\<rparr>)]))))"

definition build_top_risks :: "finding list \<Rightarrow> report_error + risk_item list" where
  "build_top_risks fs =
     bind_err (err_fold collect_risk fs []) (\<lambda>candidates. Inr (map snd (sort_key fst candidates)))"

section \<open>Roadmap items\<close>

text \<open>The raw items carry the score lift the caller attached.\<close>

record raw_item = roadmap_entry +
  ra_score_lift :: "real option"

record exec_item =
  xi_phase :: string
  xi_title :: string
  xi_why :: string
  xi_owner :: string
  xi_timeframe :: string
  xi_effort :: string
  xi_impact :: string
  xi_priority_score :: int
  xi_score_lift :: "real option"

definition effort_impact :: "string \<Rightarrow> string \<times> string" where
  "effort_impact title =
     (case find (\<lambda>(keyword, _). has_substring keyword (py_lower title)) effort_impact_map of
        None \<Rightarrow> (''MEDIUM'', ''MEDIUM'')
      | Some (_, bands) \<Rightarrow> bands)"

definition priority_of :: "string \<Rightarrow> string \<Rightarrow> int" where
  "priority_of effort impact = dict_get impact_rank impact 0 * (4 - dict_get effort_rank effort 0)"

definition enrich_roadmap_item :: "raw_item \<Rightarrow> exec_item" where
  "enrich_roadmap_item raw =
     (case effort_impact (re_title raw) of (effort, impact) \<Rightarrow>
        \<lparr>xi_phase = re_phase raw, xi_title = re_title raw, xi_why = re_why raw, xi_owner = re_owner raw,
         xi_timeframe = re_timeframe raw, xi_effort = effort, xi_impact = impact,
         xi_priority_score = priority_of effort impact, xi_score_lift = ra_score_lift raw\<rparr>)"

definition bucket_key :: "exec_item \<Rightarrow> int \<times> int" where
  "bucket_key x = (dict_get phase_order (xi_phase x) 99, - xi_priority_score x)"

definition sort_roadmap_items :: "exec_item list \<Rightarrow> exec_item list" where
  "sort_roadmap_items items = sort_key bucket_key items"

section \<open>Rendering of the rollup\<close>

definition legacy_full_coverage_divisor :: real where
  "legacy_full_coverage_divisor = 3 / 2"

definition effective_score_divisor :: "int option \<Rightarrow> real option \<Rightarrow> real option" where
  "effective_score_divisor score_total score_divisor =
     (if score_total = None then None
      else case score_divisor of Some d \<Rightarrow> Some d | None \<Rightarrow> Some legacy_full_coverage_divisor)"

definition rollup_computed_score :: "int option \<Rightarrow> real option \<Rightarrow> int option" where
  "rollup_computed_score raw_sum divisor =
     (case (raw_sum, divisor) of
        (Some s, Some d) \<Rightarrow> if d = 0 then None else Some (py_round (of_int s / d))
      | _ \<Rightarrow> None)"

definition effective_domain_counts :: "int option \<Rightarrow> nat \<Rightarrow> nat \<Rightarrow> nat \<times> nat" where
  "effective_domain_counts score_total domains_assessed domains_total =
     (if score_total = None \<or> domains_total \<noteq> 0 then (domains_assessed, domains_total) else (6, 6))"

section \<open>The executive content\<close>

record exec_content =
  ec_narrative_lead :: string
  ec_narrative_drivers :: "string list"
  ec_top_risks :: "risk_item list"
  ec_roadmap_items :: "exec_item list"
  ec_score_total :: "int option"
  ec_score_band :: string
  ec_subscores :: "(string \<times> int option) list"
  ec_raw_sum :: int
  ec_sev_counts :: "(string \<times> int) list"
  ec_rating_cap_reason :: "string option"
  ec_domains_assessed :: nat
  ec_domains_total :: nat
  ec_score_divisor :: "real option"
  ec_coverage_disclosure :: string
  ec_scoring_version :: string
  ec_projected_score :: "real option"

definition raw_sum_of :: "(string \<times> int option) list \<Rightarrow> int" where
  "raw_sum_of subscores = sum_list (List.map_filter snd subscores)"

definition narrative_lead_of :: "string \<Rightarrow> string" where
  "narrative_lead_of band = dict_get narrative_leads band narrative_lead_fallback"

definition build_exec_content ::
    "score_result \<Rightarrow> finding list \<Rightarrow> raw_item list \<Rightarrow> real option \<Rightarrow> report_error + exec_content" where
  "build_exec_content score findings items projected =
     (let sev_counts = count_severities findings in
      bind_err (if r_score score \<noteq> None \<and> r_rating score \<noteq> ''NOT_ASSESSED''
                then check_congruence (r_rating score) sev_counts else Inr ())
        (\<lambda>_. bind_err (build_top_risks findings)
          (\<lambda>top_risks. Inr
            \<lparr>ec_narrative_lead = narrative_lead_of (r_rating score),
             ec_narrative_drivers = filter (\<lambda>r. r \<noteq> []) (map fst (r_drivers score)),
             ec_top_risks = top_risks,
             ec_roadmap_items = sort_roadmap_items (map enrich_roadmap_item items),
             ec_score_total = r_score score, ec_score_band = r_rating score, ec_subscores = r_subscores score,
             ec_raw_sum = raw_sum_of (r_subscores score), ec_sev_counts = sev_counts,
             ec_rating_cap_reason = r_cap_reason score, ec_domains_assessed = r_domains_assessed score,
             ec_domains_total = r_domains_total score, ec_score_divisor = r_score_divisor score,
             ec_coverage_disclosure = r_coverage_disclosure score, ec_scoring_version = r_scoring_version score,
             ec_projected_score = projected\<rparr>)))"

end
