(* ===== verification/Finding_Texts.thy ===== *)
theory Finding_Texts
  imports Prelude
begin

text \<open>
  The findings \<open>quirk/engine/findings_evaluator.py\<close> can emit: for each call of
  \<open>_build_finding\<close> its arguments as a draft, with the interpolated values as arguments.
  The keys some evaluators add to the finished dictionary are the last fields of a draft.
\<close>

record draft =
  dr_severity :: string
  dr_title :: string
  dr_description :: string
  dr_recommendation :: string
  dr_quantum_vulnerable :: bool
  dr_check_id :: string
  dr_category :: "string option"
  dr_detail :: "string option"
  dr_saml_algorithm :: "string option"

definition draft :: "string \<Rightarrow> string \<Rightarrow> string \<Rightarrow> string \<Rightarrow> bool \<Rightarrow> string \<Rightarrow> draft" where
  "draft severity title description recommendation quantum_vulnerable check_id =
     \<lparr>dr_severity = severity, dr_title = title, dr_description = description,
      dr_recommendation = recommendation, dr_quantum_vulnerable = quantum_vulnerable, dr_check_id = check_id,
      dr_category = None, dr_detail = None, dr_saml_algorithm = None\<rparr>"

definition openssl_eol_draft :: "string \<Rightarrow> string \<Rightarrow> draft" where
  "openssl_eol_draft severity label =
     draft severity (''End-of-life '' @ label @ '' in container image'')
     (''The container image bundles an end-of-life OpenSSL release that no longer receives upstream ''
      @ ''security patches. Newly disclosed CVEs will not be fixed in this image.'')
     (label
      @ '' has reached end-of-life and no longer receives security patches. Update the base image to a ''
      @ ''supported distribution with a current OpenSSL version.'')
     False []"

definition openssl_vulnerable_draft :: "string \<Rightarrow> string \<Rightarrow> draft" where
  "openssl_vulnerable_draft name version =
     draft ''LOW'' (''Container image uses quantum-vulnerable crypto library ('' @ name @ ''@'' @ version @ '')'')
     (''The container image bundles a classical cryptographic library (RSA/ECDSA-based) vulnerable to ''
      @ ''a sufficiently large quantum computer. Long-lived data encrypted by services in this image ''
      @ ''faces 'harvest now, decrypt later' risk.'')
     (''Plan migration to ML-KEM (FIPS 203) for key exchange and ML-DSA (FIPS 204) or SLH-DSA (FIPS ''
      @ ''205) for signatures once upstream library support is available.'')
     True []"

definition cryptography_severe_draft :: "string \<Rightarrow> draft" where
  "cryptography_severe_draft version =
     draft ''HIGH'' (''Severely outdated Python cryptography package ('' @ version @ '') in container image'')
     (''The container image ships a years-old release of the Python 'cryptography' package with ''
      @ ''multiple known CVEs. Vulnerabilities in TLS, X.509 parsing, and key handling are not patched.'')
     (''cryptography '' @ version
      @ '' is over 4 years old with multiple known CVEs. Update to the latest version and rebuild the ''
      @ ''container image.'')
     False []"

definition cryptography_outdated_draft :: "string \<Rightarrow> draft" where
  "cryptography_outdated_draft version =
     draft ''MEDIUM'' (''Outdated Python cryptography package ('' @ version @ '') in container image'')
     (''The container image ships an outdated release of the Python 'cryptography' package that may ''
      @ ''have unpatched vulnerabilities.'')
     (''cryptography '' @ version
      @ '' may have unpatched vulnerabilities. Update to the latest version and rebuild the container ''
      @ ''image.'')
     False []"

definition pyopenssl_outdated_draft :: "string \<Rightarrow> draft" where
  "pyopenssl_outdated_draft version =
     draft ''MEDIUM'' (''Outdated pyOpenSSL package ('' @ version @ '') in container image'')
     (''The container image ships an outdated pyOpenSSL release that may have known vulnerabilities ''
      @ ''in TLS or certificate handling.'')
     (''pyOpenSSL '' @ version @ '' may have known vulnerabilities. Update to the latest version.'')
     False []"

definition libgcrypt_outdated_draft :: "string \<Rightarrow> draft" where
  "libgcrypt_outdated_draft version =
     draft ''MEDIUM'' (''Outdated libgcrypt ('' @ version @ '') in container image'')
     (''The container image bundles libgcrypt 1.8.x, an outdated branch that no longer receives ''
      @ ''current security fixes.'')
     ''libgcrypt 1.8.x is outdated. Update the base image.''
     False []"

definition crypto_library_draft :: "string \<Rightarrow> string \<Rightarrow> draft" where
  "crypto_library_draft name version =
     draft ''LOW'' (''Container image contains crypto library ('' @ name @ ''@'' @ version @ '')'')
     (''The container image inventory includes a cryptographic library that should be tracked for ''
      @ ''lifecycle and CVE exposure.'')
     ''Review cryptographic library inventory and plan lifecycle management.''
     False []"

definition missing_extra_draft :: "string \<Rightarrow> draft" where
  "missing_extra_draft msg =
     draft ''INFO'' (''Scanner skipped '' @ em_dash @ '' optional extra not installed'')
     (''A QUIRK scanner was skipped because its optional Python extra is not installed in this ''
      @ ''environment. Coverage for this protocol is incomplete until the extra is installed; the gap ''
      @ ''is reported informationally and does not impact the quantum-readiness score.'')
     (if msg \<noteq> [] then msg else ''Install the missing optional extra (pip install 'quirk-scanner[<extra>]') and re-run ''
            @ ''the scan to obtain coverage for this protocol.'')
     False []"

definition missing_binary_draft :: "string \<Rightarrow> draft" where
  "missing_binary_draft msg =
     draft ''INFO'' (''Scanner skipped '' @ em_dash @ '' required tool not installed'')
     (''A QUIRK scan phase was skipped because a required external tool is not installed in this ''
      @ ''environment'' @ (if msg \<noteq> [] then '' ('' @ msg @ '')'' else [])
      @ ''. Coverage for this domain is incomplete until the tool is installed; the gap is reported ''
      @ ''informationally.'')
     (''Install the missing tool (see `quirk doctor` for the exact command) and re-run the scan to ''
      @ ''obtain coverage.'')
     False []"

definition jwks_unverified_draft :: "string \<Rightarrow> draft" where
  "jwks_unverified_draft host =
     draft ''HIGH'' ''JWKS fetched with TLS certificate verification disabled''
     (''The JWKS at '' @ host
      @ '' was fetched with TLS certificate verification disabled (allow_insecure_jwks / ''
      @ ''--allow-insecure-jwks). Keys obtained this way could have been supplied by a network attacker.'')
     (''Install a certificate the scanner trusts on the JWKS endpoint and remove the ''
      @ ''allow_insecure_jwks setting.'')
     False []"

definition handshake_blocked_draft :: draft where
  "handshake_blocked_draft =
     draft ''MEDIUM'' ''TLS handshake blocked assessment''
     (''The TLS handshake failed or timed out, so QUIRK could not evaluate the negotiated protocol ''
      @ ''version, cipher suite, or certificate. The endpoint's cryptographic posture is unknown and ''
      @ ''may hide misconfigurations.'')
     (''TLS handshake failure is blocking accurate cryptographic assessment. Validate handshake ''
      @ ''policy and endpoint expectations.'')
     False []"

definition mtls_required_draft :: draft where
  "mtls_required_draft =
     draft ''INFO'' ''mTLS required''
     (''The endpoint requires client certificate authentication (mTLS) before completing the TLS ''
      @ ''handshake. QUIRK was unable to authenticate; the trust chain and onboarding flow should be ''
      @ ''validated out-of-band.'')
     ''Confirm client certificate requirements and document trust chain and onboarding process.''
     False []"

definition source_incomplete_draft :: "string \<Rightarrow> draft" where
  "source_incomplete_draft host =
     draft ''INFO'' (''Source scan incomplete for '' @ host)
     (''The source code scan of this repository failed or only partly completed, so its cryptographic ''
      @ ''usage was not fully assessed. Findings from other repositories are unaffected.'')
     (''Review the error detail, fix the cause (timeout, unreadable output, ruleset availability) and ''
      @ ''re-run the scan.'')
     False []"

definition protocol_observation_draft :: draft where
  "protocol_observation_draft =
     draft ''INFO'' ''Informational protocol observation''
     (''QUIRK observed a non-fatal protocol behavior or availability issue while probing this ''
      @ ''endpoint. The observation is recorded for inventory purposes but does not by itself indicate ''
      @ ''a defect.'')
     ''Review protocol behavior and endpoint availability details.''
     False []"

definition plaintext_http_draft :: draft where
  "plaintext_http_draft =
     draft ''HIGH'' ''Plaintext HTTP service detected''
     (''This service responds to plaintext HTTP. Credentials, session tokens, and application ''
      @ ''payloads transit unencrypted and are trivially intercepted by anyone on the network path.'')
     ''Migrate management/application endpoints to HTTPS/TLS where feasible.''
     False []"

definition legacy_tls_draft :: draft where
  "legacy_tls_draft =
     draft ''LOW'' ''Legacy TLS versions allowed (TLS 1.0/1.1)''
     (''This service accepts TLS 1.0 or TLS 1.1, protocols deprecated by the IETF (RFC 8996) and ''
      @ ''prohibited by PCI-DSS, FedRAMP, and most enterprise security baselines. Attackers can ''
      @ ''downgrade connections and exploit known cipher weaknesses.'')
     ''Disable TLS 1.0/1.1 and standardize on TLS 1.2+ (prefer TLS 1.3).''
     False []"

definition legacy_suites_draft :: draft where
  "legacy_suites_draft =
     draft ''LOW'' ''Legacy TLS cipher suites accepted''
     (''The endpoint negotiates legacy non-AEAD cipher suites (CBC-mode with HMAC-SHA1) that lack ''
      @ ''forward secrecy or use weak MACs. These suites are vulnerable to padding-oracle and downgrade ''
      @ ''attacks and do not meet modern enterprise baselines.'')
     (''Disable legacy cipher suites (e.g. AES128-SHA, AES256-SHA) and require AEAD suites with ''
      @ ''forward secrecy (AES-GCM, ChaCha20-Poly1305).'')
     False []"

definition cert_expired_draft :: "string \<Rightarrow> draft" where
  "cert_expired_draft date =
     draft ''CRITICAL'' ''TLS certificate expired''
     (''This certificate has passed its notAfter date. Clients receive trust warnings and may refuse ''
      @ ''to connect, breaking automated integrations and exposing users to phishing-style ''
      @ ''click-through normalization.'')
     (''Certificate expired '' @ date @ ''. Renew immediately '' @ em_dash
      @ '' expired certs cause trust failures and may block legitimate clients.'')
     False []"

definition cert_expiring_draft :: "string \<Rightarrow> draft" where
  "cert_expiring_draft date =
     draft ''MEDIUM'' ''TLS certificate expiring within 30 days''
     (''This certificate is approaching its notAfter date. Renew before expiry to avoid service ''
      @ ''interruption and trust warnings on dependent clients.'')
     (''Certificate expires '' @ date @ ''. Schedule renewal before expiry to avoid service disruption.'')
     False []"

definition self_signed_draft :: draft where
  "self_signed_draft =
     draft ''HIGH'' ''TLS certificate is self-signed''
     (''This certificate is self-signed and is not issued by a trusted certificate authority. Clients ''
      @ ''cannot verify the server's identity and are exposed to man-in-the-middle interception.'')
     (''The certificate's issuer is identical to its subject '' @ em_dash
      @ '' the certificate is self-signed and is not anchored to a trusted certificate authority. ''
      @ ''Replace with a certificate issued by a trusted CA (public or internal PKI).'')
     False []"

definition untrusted_ca_draft :: draft where
  "untrusted_ca_draft =
     draft ''MEDIUM'' ''TLS certificate issued by untrusted CA''
     (''This certificate chains to a certificate authority not in the system trust store. Clients ''
      @ ''cannot verify the server's identity, and connection establishment depends on out-of-band ''
      @ ''trust.'')
     (''Chain verification against the system trust store failed. The certificate is issued by a CA ''
      @ ''that is not present in the trust store. Replace with a certificate from a publicly trusted ''
      @ ''CA, or add the issuing CA to the system trust store if it is an internal PKI.'')
     False []"

definition undersized_rsa_draft :: "int \<Rightarrow> draft" where
  "undersized_rsa_draft bits =
     draft ''HIGH'' ''TLS certificate uses undersized RSA key''
     (''This certificate uses an RSA key below the classical 2048-bit minimum, which is breakable by ''
      @ ''today's classical attackers and is also vulnerable to a sufficiently large quantum computer. ''
      @ ''Captured ciphertext today can be decrypted retroactively under a 'harvest now, decrypt later' ''
      @ ''threat model.'')
     (''RSA-'' @ int_str bits
      @ '' is below the 2048-bit classical minimum. Migrate to RSA-2048+ or ECDSA P-256 immediately, ''
      @ ''and plan migration to ML-KEM (FIPS 203) for key exchange and ML-DSA (FIPS 204) or SLH-DSA ''
      @ ''(FIPS 205) for signatures.'')
     True []"

definition quantum_rsa_draft :: draft where
  "quantum_rsa_draft =
     draft ''MEDIUM'' ''TLS certificate uses quantum-vulnerable RSA key''
     (''This certificate uses RSA, an algorithm vulnerable to attack by a sufficiently large quantum ''
      @ ''computer via Shor's algorithm. Captured ciphertext today can be decrypted retroactively once ''
      @ ''such a computer exists ('harvest now, decrypt later').'')
     (''Plan migration to ML-KEM (FIPS 203) for key exchange and ML-DSA (FIPS 204) or SLH-DSA (FIPS ''
      @ ''205) for signatures.'')
     True []"

definition undersized_ecdsa_draft :: "int \<Rightarrow> draft" where
  "undersized_ecdsa_draft bits =
     draft ''HIGH'' ''TLS certificate uses undersized ECDSA key''
     (''This certificate uses an ECDSA key below the P-256 classical minimum and is vulnerable both ''
      @ ''to classical attack at this key size and to a sufficiently large quantum computer.'')
     (''ECDSA-'' @ int_str bits
      @ '' is below the P-256 classical minimum. Migrate to P-256+ immediately and plan migration to ''
      @ ''ML-DSA (FIPS 204) or SLH-DSA (FIPS 205) for signatures and ML-KEM (FIPS 203) for key exchange.'')
     True []"

definition quantum_ecdsa_draft :: draft where
  "quantum_ecdsa_draft =
     draft ''MEDIUM'' ''TLS certificate uses quantum-vulnerable ECDSA key''
     (''This certificate uses ECDSA, an algorithm vulnerable to attack by a sufficiently large ''
      @ ''quantum computer. Signatures are forgeable and key-exchange material is recoverable in a ''
      @ ''post-quantum threat model.'')
     (''Plan migration to ML-DSA (FIPS 204) or SLH-DSA (FIPS 205) for signatures and ML-KEM (FIPS ''
      @ ''203) for key exchange.'')
     True []"

definition ssh_planning_draft :: draft where
  "ssh_planning_draft =
     draft ''INFO'' ''SSH quantum planning advisory''
     (''This SSH host key or key-exchange algorithm relies on RSA or classical ECDH, both vulnerable ''
      @ ''to a sufficiently large quantum computer. Long-lived SSH credentials face 'harvest now, ''
      @ ''decrypt later' risk.'')
     (''Inventory SSH host keys and KEX algorithms; plan migration to post-quantum SSH using ML-KEM ''
      @ ''(FIPS 203) for key exchange when OpenSSH support lands.'')
     True []"

definition unknown_service_draft :: draft where
  "unknown_service_draft =
     draft ''MEDIUM'' ''Unknown open service''
     (''An open TCP port responded but QUIRK could not classify the running service. Unmapped ''
      @ ''services may carry undiscovered cryptographic risk and should be inventoried.'')
     ''Fingerprint with a deeper probe or validate service ownership and purpose.''
     False []"

definition starttls_downgrade_draft :: draft where
  "starttls_downgrade_draft =
     draft ''MEDIUM'' ''STARTTLS downgrade risk on SMTP''
     (''This SMTP service negotiates TLS opportunistically via STARTTLS. An in-path attacker can ''
      @ ''strip the STARTTLS capability advertisement, forcing plaintext mail delivery. The downgrade ''
      @ ''is invisible to agentless scanners and to the connecting MTA.'')
     (''STARTTLS (opportunistic TLS) is susceptible to stripping attacks that cannot be detected by ''
      @ ''an agentless scanner. An attacker in-path can suppress the STARTTLS capability advertisement, ''
      @ ''forcing plaintext delivery. Enforce MTA-STS (RFC 8461) or DANE (RFC 7672) to prevent ''
      @ ''stripping.'')
     False []"

definition weak_email_cipher_draft :: draft where
  "weak_email_cipher_draft =
     draft ''HIGH'' ''Weak cipher suite on email TLS endpoint''
     (''This email TLS endpoint negotiates a non-PFS RSA key-exchange or legacy 3DES/RC4 cipher ''
      @ ''suite. Sessions lack forward secrecy and the underlying RSA key exchange is ''
      @ ''quantum-vulnerable: captured traffic can be decrypted retroactively.'')
     (''TLS_RSA_WITH_* suites use RSA key exchange (no forward secrecy) and are quantum-vulnerable. ''
      @ ''Disable non-PFS suites and require ECDHE or TLS 1.3 cipher suites across all email protocol ''
      @ ''ports. Plan migration to ML-KEM (FIPS 203) for key exchange.'')
     True []"

definition non_pfs_email_draft :: draft where
  "non_pfs_email_draft =
     draft ''MEDIUM'' ''Non-PFS cipher suite on email TLS endpoint''
     (''This email TLS endpoint advertises ECDHE but operates below TLS 1.3, leaving the key exchange ''
      @ ''vulnerable to Shor's algorithm on a sufficiently large quantum computer.'')
     (''ECDHE without TLS 1.3 provides forward secrecy but remains quantum-vulnerable via Shor's ''
      @ ''algorithm. Prefer TLS 1.3 AEAD suites (AES-GCM, ChaCha20-Poly1305) and plan migration to ''
      @ ''ML-KEM (FIPS 203) for key encapsulation.'')
     True []"

definition plaintext_kafka_draft :: draft where
  "plaintext_kafka_draft =
     draft ''HIGH'' ''Plaintext Kafka listener detected''
     (''This Kafka broker exposes a PLAINTEXT listener. Topic data, consumer offsets, and SASL ''
      @ ''credentials transit unencrypted and are interceptable by anyone on the network path.'')
     ''Disable PLAINTEXT listener or restrict access; enforce SSL/SASL_SSL on broker port 9092.''
     False []"

definition plaintext_amqp_draft :: draft where
  "plaintext_amqp_draft =
     draft ''HIGH'' ''Plaintext AMQP listener detected''
     (''This AMQP broker accepts plaintext connections on port 5672. Message bodies, routing keys, ''
      @ ''and authentication credentials are exposed to any in-path attacker.'')
     ''Disable plaintext AMQP on port 5672; require AMQPS (port 5671) for all clients.''
     False []"

definition plaintext_redis_draft :: draft where
  "plaintext_redis_draft =
     draft ''HIGH'' ''Plaintext Redis listener (no auth)''
     (''This Redis instance accepts plaintext connections without authentication. Cached session ''
      @ ''data, application secrets, and queued jobs are readable and writable by any network reachable ''
      @ ''client.'')
     ''Enable TLS on port 6380 and require AUTH; bind plaintext port to localhost only or disable.''
     False []"

definition weak_broker_tls_draft :: draft where
  "weak_broker_tls_draft =
     draft ''HIGH'' ''Weak cipher suite on broker TLS endpoint''
     (''This broker TLS endpoint negotiates a non-PFS RSA key-exchange or legacy 3DES/RC4/weak-CBC ''
      @ ''cipher suite. Sessions lack forward secrecy and the underlying RSA key exchange is ''
      @ ''quantum-vulnerable.'')
     (''Broker is negotiating non-PFS RSA / 3DES / RC4 / weak-CBC suites. Disable TLS_RSA_WITH_* and ''
      @ ''legacy ciphers; require TLS 1.2+ AEAD or TLS 1.3. Plan migration to ML-KEM (FIPS 203) for key ''
      @ ''exchange.'')
     True []"

definition codesign_expired_draft :: "string \<Rightarrow> string \<Rightarrow> draft" where
  "codesign_expired_draft date subject =
     draft ''HIGH'' (''Code-signing certificate expired: '' @ subject)
     (''The code-signing certificate for '' @ [CHR 0x27] @ subject @ [CHR 0x27] @ '' expired on '' @ date
      @ ''. Software signed by this certificate can no longer be verified as authentic, creating a ''
      @ ''supply-chain trust failure.'')
     ''Renew the expired code-signing certificate immediately and re-sign all artifacts.''
     False ''CODESIGN_EXPIRY''"

definition codesign_expiring_draft :: "string \<Rightarrow> string \<Rightarrow> int \<Rightarrow> draft" where
  "codesign_expiring_draft date subject days =
     draft ''MEDIUM'' (''Code-signing certificate expiring within 90 days: '' @ subject)
     (''The code-signing certificate for '' @ [CHR 0x27] @ subject @ [CHR 0x27] @ '' expires on '' @ date
      @ '' ('' @ int_str days
      @ '' days remaining). Failure to renew before expiry will break software verification and block ''
      @ ''deployments.'')
     ''Renew this code-signing certificate before the not_after date.''
     False ''CODESIGN_APPROACHING_EXPIRY''"

definition codesign_weak_draft :: "string \<Rightarrow> string \<Rightarrow> string \<Rightarrow> draft" where
  "codesign_weak_draft subject reasons check_id =
     draft ''HIGH'' (''Code-signing certificate uses weak algorithm: '' @ subject)
     (''The code-signing certificate for '' @ [CHR 0x27] @ subject @ [CHR 0x27]
      @ '' uses weak cryptographic algorithm(s): '' @ reasons
      @ ''. This certificate is quantum-vulnerable and should be replaced with a stronger algorithm.'')
     (''Replace this code-signing certificate with one using a modern algorithm (RSA'' @ at_least_sign
      @ ''2048, ECDSA P-256 or stronger, SHA-256 or stronger). Plan migration to ML-DSA (FIPS 204) for ''
      @ ''long-term quantum safety.'')
     True check_id"

definition oidc_rs_draft :: "string \<Rightarrow> string \<Rightarrow> draft" where
  "oidc_rs_draft severity alg =
     draft severity (''OIDC RS-family algorithm: '' @ alg)
     (''OIDC endpoint uses '' @ alg
      @ '' which relies on RSA. RSA is quantum-vulnerable and will be broken by Shor's algorithm.'')
     (''Migrate OIDC token signing to ECDSA (ES256/ES384) or EdDSA per NIST PQC roadmap ''
      @ ''recommendations.'')
     True []"

definition saml_sha1_draft :: draft where
  "saml_sha1_draft =
     draft ''HIGH'' ''SHA-1 algorithm URI detected in SAML metadata''
     (''SAML metadata references SHA-1 signing algorithm. SHA-1 is collision-vulnerable since 2017 ''
      @ ''(SHAttered attack).'')
     ''Update IdP to use SHA-256 or SHA-384 signature algorithms.''
     True []"

definition weak_saml_encryption_draft :: "int \<Rightarrow> string \<Rightarrow> draft" where
  "weak_saml_encryption_draft bits alg =
     draft ''CRITICAL'' (''Weak SAML encryption certificate: '' @ alg @ ''-'' @ int_str bits)
     (''SAML encryption certificate uses '' @ int_str bits @ ''-bit '' @ alg
      @ '' key, below the 2048-bit minimum for RSA.'')
     ''Replace the IdP certificate with RSA-2048 minimum or switch to ECDSA P-256.''
     True []"

definition weak_saml_signing_draft :: "int \<Rightarrow> string \<Rightarrow> draft" where
  "weak_saml_signing_draft bits alg =
     draft ''CRITICAL'' (''Weak SAML signing certificate: '' @ alg @ ''-'' @ int_str bits)
     (''SAML signing certificate uses '' @ int_str bits @ ''-bit '' @ alg
      @ '' key, below the 2048-bit minimum for RSA.'')
     ''Replace the IdP certificate with RSA-2048 minimum or switch to ECDSA P-256.''
     True []"

definition unsigned_token_draft :: "string \<Rightarrow> draft" where
  "unsigned_token_draft cause =
     draft ''CRITICAL'' ''Bearer token is unsigned (alg:none)''
     (cause
      @ '' The scanner did not verify the signature, but an unsigned token can be forged by anyone, so ''
      @ ''any verifier that accepts it grants access to whoever constructs it.'')
     (''Issue tokens signed with an asymmetric algorithm (for example RS256 or ES256), reject ''
      @ ''alg:none and missing-alg tokens at every verifier, and rotate this token.'')
     False []"

end
