(* ===== verification/Findings_Evaluator.thy ===== *)
theory Findings_Evaluator
  imports Content_Model Finding_Texts Evidence
begin

text \<open>
  \<open>quirk/engine/findings_evaluator.py\<close>: from the scanned rows to the findings.  Each evaluator
  is the list of drafts a row gives, built into findings in order; building fails on an empty
  description or recommendation.  The clock is read once (\<open>now\<close>, microseconds UTC), and
  \<open>json.loads\<close> is a parameter, None standing for an exception.
\<close>

datatype eval_error = ValueError string | TypeError

section \<open>Building a finding\<close>

definition nist_ir_8547_deprecation :: string where
  "nist_ir_8547_deprecation = ''Per NIST IR 8547, RSA and ECC are deprecated after 2030 and disallowed after 2035.''"

text \<open>The intermediate dictionary that is classified.\<close>

definition proto_finding :: "string \<Rightarrow> int \<Rightarrow> draft \<Rightarrow> finding" where
  "proto_finding host port d =
     \<lparr>fd_severity = dr_severity d, fd_host = host, fd_port = port, fd_title = dr_title d,
      fd_description = py_strip (dr_description d), fd_recommendation = [], fd_check_id = dr_check_id d,
      fd_quantum_risk = [], fd_compliance = [], fd_category = None, fd_detail = None, fd_protocol = None,
      fd_source = None, fd_algorithm = None\<rparr>"

definition recommendation_for :: "string option \<Rightarrow> draft \<Rightarrow> string" where
  "recommendation_for crypto_class d =
     (let rec = py_strip (dr_recommendation d) in
      case crypto_class of
        Some k \<Rightarrow>
          (case map_of remediation_catalog k of
             Some advice \<Rightarrow> advice
           | None \<Rightarrow> if dr_quantum_vulnerable d then rec @ '' '' @ nist_ir_8547_deprecation else rec)
      | None \<Rightarrow> if dr_quantum_vulnerable d then rec @ '' '' @ nist_ir_8547_deprecation else rec)"

definition quantum_risk_for :: "string option \<Rightarrow> string" where
  "quantum_risk_for crypto_class =
     (case crypto_class of
        Some k \<Rightarrow> (case map_of algo_impact_map k of Some (_, _, risk) \<Rightarrow> risk | None \<Rightarrow> fallback_quantum_risk)
      | None \<Rightarrow> fallback_quantum_risk)"

definition build_finding :: "string \<Rightarrow> int \<Rightarrow> draft \<Rightarrow> eval_error + finding" where
  "build_finding host port d =
     (if py_strip (dr_description d) = [] then Inl (ValueError ''_build_finding requires a non-empty description'')
      else if py_strip (dr_recommendation d) = []
        then Inl (ValueError ''_build_finding requires a non-empty recommendation'')
      else (let crypto_class = classify_finding (proto_finding host port d) in
        Inr ((proto_finding host port d)
          \<lparr>fd_recommendation := recommendation_for crypto_class d,
           fd_quantum_risk := quantum_risk_for crypto_class,
           fd_compliance := compliance_of (dr_title d),
           fd_category := dr_category d, fd_detail := dr_detail d,
           fd_protocol := map_option (\<lambda>_. ''SAML'') (dr_saml_algorithm d),
           fd_source := map_option (\<lambda>_. ''saml'') (dr_saml_algorithm d),
           fd_algorithm := dr_saml_algorithm d\<rparr>)))"

fun build_all :: "string \<Rightarrow> int \<Rightarrow> draft list \<Rightarrow> eval_error + finding list" where
  "build_all host port [] = Inr []"
| "build_all host port (d # ds) =
     bind_err (build_finding host port d) (\<lambda>f. bind_err (build_all host port ds) (\<lambda>fs. Inr (f # fs)))"

text \<open>The loop over the rows: the findings of each row, appended in order.\<close>

fun findings_of_rows :: "(scanned_endpoint \<Rightarrow> eval_error + draft list) \<Rightarrow> scanned_endpoint list \<Rightarrow> eval_error + finding list" where
  "findings_of_rows rule [] = Inr []"
| "findings_of_rows rule (e # es) =
     bind_err (rule e) (\<lambda>ds. bind_err (build_all (ep_host e) (ep_port e) ds)
       (\<lambda>fs. bind_err (findings_of_rows rule es) (\<lambda>gs. Inr (fs @ gs))))"

section \<open>Container packages\<close>

definition pkg_major :: "string \<Rightarrow> int option" where
  "pkg_major version = py_int_of_string (hd (py_split CHR ''.'' version))"

definition openssl_eol :: "(string \<times> string \<times> string) list" where
  "openssl_eol =
     [(''0.'', ''CRITICAL'', ''OpenSSL 0.x''), (''1.0.'', ''CRITICAL'', ''OpenSSL 1.0.x (EOL Dec 2019)''),
      (''1.1.'', ''HIGH'', ''OpenSSL 1.1.x (EOL Sep 2023)''), (''3.0.'', ''HIGH'', ''OpenSSL 3.0.x (EOL Apr 2026)''),
      (''3.1.'', ''HIGH'', ''OpenSSL 3.1.x (EOL Mar 2025)'')]"

definition openssl_names :: "string list" where
  "openssl_names =
     [''openssl'', ''libssl'', ''libssl1.0'', ''libssl1.0.0'', ''libssl1.1'', ''libssl3'', ''libcrypto'', ''libcrypto3'']"

definition older_than :: "int \<Rightarrow> string \<Rightarrow> bool" where
  "older_than n version \<longleftrightarrow> (case pkg_major version of None \<Rightarrow> False | Some m \<Rightarrow> m < n)"

definition container_draft :: "string \<Rightarrow> string \<Rightarrow> draft" where
  "container_draft pkg_name version =
     (let name = py_lower pkg_name in
      if name \<in> set openssl_names then
        (case find (\<lambda>(prefix, _). starts_with version prefix) openssl_eol of
           Some (_, severity, label) \<Rightarrow> openssl_eol_draft severity label
         | None \<Rightarrow> openssl_vulnerable_draft name version)
      else if name = ''cryptography'' \<and> older_than 3 version then cryptography_severe_draft version
      else if name = ''cryptography'' \<and> older_than 41 version then cryptography_outdated_draft version
      else if name = ''pyopenssl'' \<and> older_than 20 version then pyopenssl_outdated_draft version
      else if name \<in> {''libgcrypt20'', ''libgcrypt''} \<and> starts_with version ''1.8.'' then libgcrypt_outdated_draft version
      else crypto_library_draft name version)"

section \<open>Certificates\<close>

definition error_category :: "string \<Rightarrow> string" where
  "error_category desc = (if desc = [] then [] else py_strip (hd (py_split CHR '':'' desc)))"

definition runs_tls_certificate_checks :: "scanned_endpoint \<Rightarrow> bool" where
  "runs_tls_certificate_checks e \<longleftrightarrow> ep_protocol e = Some ''TLS''"

definition has_legacy_tls_versions :: "scanned_endpoint \<Rightarrow> bool" where
  "has_legacy_tls_versions e \<longleftrightarrow>
     has_legacy_tls_versions_signal (py_or_str (ep_tls_version e)) (py_or_str (ep_tls_supported_versions e))"

definition chain_verified :: "(string \<Rightarrow> pyval option) \<Rightarrow> scanned_endpoint \<Rightarrow> bool option" where
  "chain_verified loads e =
     (case ep_chain_verified e of
        Some b \<Rightarrow> Some b
      | None \<Rightarrow>
          (if py_or_str (ep_tls_capabilities_json e) = [] then None
           else (case loads (py_or_str (ep_tls_capabilities_json e)) of
                   Some (PyDict caps) \<Rightarrow>
                     (case dict_get caps ''chain_verified'' PyNone of PyNone \<Rightarrow> None | v \<Rightarrow> Some (py_truthy v))
                 | _ \<Rightarrow> None)))"

definition iso_date :: "int \<Rightarrow> string" where
  "iso_date t = (case civil_date (t div 1000000 div 86400) of (y, m, d) \<Rightarrow>
     pad 4 (nat y) @ ''-'' @ pad 2 (nat m) @ ''-'' @ pad 2 (nat d))"

definition expiry_drafts :: "int \<Rightarrow> scanned_endpoint \<Rightarrow> draft list" where
  "expiry_drafts now e =
     (case ep_cert_not_after e of
        None \<Rightarrow> []
      | Some na \<Rightarrow>
          (if na < now then [cert_expired_draft (iso_date na)]
           else if na < now + 30 * 86400000000 then [cert_expiring_draft (iso_date na)] else []))"

definition trust_drafts :: "(string \<Rightarrow> pyval option) \<Rightarrow> scanned_endpoint \<Rightarrow> draft list" where
  "trust_drafts loads e =
     (let issuer = py_strip (py_or_str (ep_cert_issuer e)); subject = py_strip (py_or_str (ep_cert_subject e)) in
      if issuer \<noteq> [] \<and> subject \<noteq> [] \<and> issuer = subject then [self_signed_draft]
      else if issuer \<noteq> [] \<and> subject \<noteq> [] \<and> issuer \<noteq> subject \<and> chain_verified loads e = Some False
        then [untrusted_ca_draft] else [])"

definition smaller_than :: "int \<Rightarrow> int option \<Rightarrow> bool" where
  "smaller_than n bits \<longleftrightarrow> (case bits of None \<Rightarrow> False | Some b \<Rightarrow> b < n)"

definition key_drafts :: "scanned_endpoint \<Rightarrow> draft list" where
  "key_drafts e =
     (let alg = py_upper (py_strip (py_or_str (ep_cert_pubkey_alg e))); bits = ep_cert_pubkey_size e in
      if alg = ''RSA'' then
        (if smaller_than 2048 bits then [undersized_rsa_draft (the bits)] else [quantum_rsa_draft])
      else if alg = ''ECDSA'' then
        (if smaller_than 256 bits then [undersized_ecdsa_draft (the bits)] else [quantum_ecdsa_draft])
      else [])"

definition tls_drafts :: "(string \<Rightarrow> pyval option) \<Rightarrow> int \<Rightarrow> scanned_endpoint \<Rightarrow> draft list" where
  "tls_drafts loads now e =
     (if runs_tls_certificate_checks e then
        (if has_legacy_tls_versions e then [legacy_tls_draft] else [])
        @ (if ep_tls_legacy_suites_present e = Some True then [legacy_suites_draft] else [])
        @ expiry_drafts now e @ trust_drafts loads e @ key_drafts e
      else [])"

section \<open>The baseline evaluator\<close>

definition error_draft :: "scanned_endpoint \<Rightarrow> string \<Rightarrow> draft" where
  "error_draft e scan_err =
     (let cat = error_category scan_err; tls = (ep_protocol e = Some ''TLS'') in
      (if tls \<and> cat \<in> {''TLS_HANDSHAKE_FAILED'', ''TIMEOUT''} then handshake_blocked_draft
       else if tls \<and> cat = ''MTLS_REQUIRED'' then mtls_required_draft
       else if ep_protocol e = Some ''SOURCE'' then source_incomplete_draft (ep_host e)
       else protocol_observation_draft)\<lparr>dr_detail := Some scan_err\<rparr>)"

definition endpoint_drafts :: "(string \<Rightarrow> pyval option) \<Rightarrow> int \<Rightarrow> scanned_endpoint \<Rightarrow> draft list" where
  "endpoint_drafts loads now e =
     (let advisory = (ep_protocol e = Some ''ADVISORY''); scan_err = py_or_str (ep_scan_error e);
          proto = ep_protocol e in
      if advisory \<and> ep_scan_error_category e = Some ''missing_extra''
        then [(missing_extra_draft scan_err)\<lparr>dr_category := Some ''coverage_gap''\<rparr>]
      else if advisory \<and> ep_scan_error_category e = Some ''missing_binary''
        then [(missing_binary_draft scan_err)\<lparr>dr_category := Some ''coverage_gap''\<rparr>]
      else if advisory \<and> ep_service_detail e = Some ''JWKS/verify-disabled''
        then [(jwks_unverified_draft (ep_host e))\<lparr>dr_category := Some ''config_advisory''\<rparr>]
      else if scan_err \<noteq> [] then [error_draft e scan_err]
      else (if proto = Some ''HTTP'' then [plaintext_http_draft] else [])
           @ tls_drafts loads now e
           @ (if proto = Some ''SSH'' then [ssh_planning_draft] else [])
           @ (if proto = Some ''CONTAINER''
              then [container_draft (py_strip (py_or_str (ep_cipher_suite e))) (py_strip (py_or_str (ep_tls_version e)))]
              else [])
           @ (if proto = Some ''UNKNOWN'' then [unknown_service_draft] else []))"

section \<open>Normalisation, deduplication and postprocessing\<close>

definition severity_rank :: "(string \<times> int) list" where
  "severity_rank = [(''CRITICAL'', 0), (''HIGH'', 1), (''MEDIUM'', 2), (''LOW'', 3), (''INFO'', 4)]"

definition rank_of :: "finding \<Rightarrow> int" where
  "rank_of f = dict_get severity_rank (py_upper (fd_severity f)) 4"

definition normalize_finding :: "finding \<Rightarrow> finding" where
  "normalize_finding f =
     (let title = py_strip (fd_title f) in
      if title \<in> {''Plaintext HTTP service detected'', ''HTTP on TLS-designated port''} then f\<lparr>fd_severity := ''HIGH''\<rparr>
      else if title \<in> {''Unknown open service'', ''TLS handshake blocked assessment''} then f\<lparr>fd_severity := ''MEDIUM''\<rparr>
      else if title = ''Legacy TLS versions allowed (TLS 1.0/1.1)'' then f\<lparr>fd_severity := ''LOW''\<rparr>
      else if title \<in> {''SSH quantum planning advisory'', ''mTLS required'', ''Informational protocol observation''}
        then f\<lparr>fd_severity := ''INFO''\<rparr>
      else f)"

type_synonym dedup_key = "string \<times> int \<times> string \<times> string"

definition dedup_key :: "finding \<Rightarrow> dedup_key" where
  "dedup_key f = (fd_host f, fd_port f, fd_title f, fd_recommendation f)"

definition dedup_step :: "finding \<Rightarrow> (dedup_key \<times> finding) list \<Rightarrow> (dedup_key \<times> finding) list" where
  "dedup_step finding deduped =
     (let f = normalize_finding finding in
      case map_of deduped (dedup_key f) of
        None \<Rightarrow> dict_put (dedup_key f) f deduped
      | Some prior \<Rightarrow> if rank_of f < rank_of prior then dict_put (dedup_key f) f deduped else deduped)"

definition output_key :: "finding \<Rightarrow> int \<times> string \<times> string \<times> int" where
  "output_key f = (rank_of f, fd_title f, fd_host f, fd_port f)"

definition dedupe_findings :: "finding list \<Rightarrow> finding list" where
  "dedupe_findings fs = sort_key output_key (map snd (fold dedup_step fs []))"

definition well_known_tls_ports :: "int list" where
  "well_known_tls_ports = [443, 8443, 9443, 10443, 4433, 5001]"

definition last_endpoint_at :: "scanned_endpoint list \<Rightarrow> string \<Rightarrow> int \<Rightarrow> scanned_endpoint option" where
  "last_endpoint_at eps host port = find (\<lambda>e. ep_host e = host \<and> ep_port e = port) (rev eps)"

definition tls_detail :: "scanned_endpoint \<Rightarrow> string" where
  "tls_detail e =
     (if py_or_str (ep_tls_blocker_reason e) \<noteq> [] then py_or_str (ep_tls_blocker_reason e)
      else py_or_str (ep_tls_version e))"

text \<open>A plaintext finding on a TLS-designated port is retitled after the last row of that host and
  port: blocked by mutual TLS, blocked handshake, or really plaintext.\<close>

definition upgrade_finding :: "int list \<Rightarrow> scanned_endpoint list \<Rightarrow> finding \<Rightarrow> finding" where
  "upgrade_finding designated eps f =
     (if py_strip (fd_title f) = ''Plaintext HTTP service detected''
         \<and> fd_port f \<in> set well_known_tls_ports \<union> set designated then
        (let ep = last_endpoint_at eps (fd_host f) (fd_port f);
             tls = (case ep of None \<Rightarrow> False | Some e \<Rightarrow> ep_protocol e = Some ''TLS'');
             detail = (case ep of None \<Rightarrow> [] | Some e \<Rightarrow> tls_detail e) in
         if tls \<and> detail = ''MTLS_REQUIRED'' then
           f\<lparr>fd_severity := ''INFO'', fd_title := ''mTLS required'',
             fd_recommendation := ''Service appears to require client authentication for TLS handshake. ''
               @ ''Validate client certificate requirements, trust chain, and onboarding flow.''\<rparr>
         else if tls \<and> detail \<in> {''TLS_HANDSHAKE_FAILED'', ''TIMEOUT''} then
           f\<lparr>fd_severity := ''MEDIUM'', fd_title := ''TLS handshake blocked assessment'',
             fd_recommendation := ''TLS handshake failure is blocking accurate cryptographic assessment. ''
               @ ''Validate endpoint handshake policy, SNI expectations, and network path.''\<rparr>
         else
           f\<lparr>fd_severity := ''HIGH'', fd_title := ''HTTP on TLS-designated port'',
             fd_recommendation := ''A plaintext HTTP service responded on a port expected to be TLS/HTTPS. ''
               @ ''Correct service configuration (enable TLS) or update port policy/registry.''\<rparr>)
      else f)"

definition postprocess_findings :: "int list \<Rightarrow> scanned_endpoint list \<Rightarrow> finding list \<Rightarrow> finding list" where
  "postprocess_findings designated eps fs = dedupe_findings (map (upgrade_finding designated eps) fs)"

definition evaluate_endpoints ::
    "(string \<Rightarrow> pyval option) \<Rightarrow> int \<Rightarrow> int list \<Rightarrow> scanned_endpoint list \<Rightarrow> eval_error + finding list" where
  "evaluate_endpoints loads now designated eps =
     bind_err (findings_of_rows (\<lambda>e. Inr (endpoint_drafts loads now e)) eps)
       (\<lambda>fs. Inr (postprocess_findings designated eps fs))"

end
