(* ===== verification/Best_Per_Key.thy ===== *)
theory Best_Per_Key
  imports Prelude
begin

text \<open>
  The loop \<open>if key not in d or better(x, d[key]): d[key] = x\<close>, which the findings, the roadmap
  and the hardware inventory each write: a dictionary in insertion order that holds the best element of
  every key.  The contract of \<open>better\<close> is that of a strict weak order.
\<close>

definition keep_best :: "('a \<Rightarrow> 'k) \<Rightarrow> ('a \<Rightarrow> 'a \<Rightarrow> bool) \<Rightarrow> 'a \<Rightarrow> ('k \<times> 'a) list \<Rightarrow> ('k \<times> 'a) list" where
  "keep_best key better x d =
     (case map_of d (key x) of
        None \<Rightarrow> dict_put (key x) x d
      | Some old \<Rightarrow> if better x old then dict_put (key x) x d else d)"

locale best_per_key =
  fixes key :: "'a \<Rightarrow> 'k" and better :: "'a \<Rightarrow> 'a \<Rightarrow> bool"
  assumes better_asym: "better a b \<Longrightarrow> \<not> better b a"
    and better_split: "better a c \<Longrightarrow> better a b \<or> better b c"
begin

text \<open>What the dictionary holds after the elements of a list.\<close>

definition holds_best :: "'a list \<Rightarrow> ('k \<times> 'a) list \<Rightarrow> bool" where
  "holds_best xs d \<longleftrightarrow>
     distinct (map fst d) \<and> fst ` set d = key ` set xs \<and>
     (\<forall>(k, x) \<in> set d. k = key x \<and> x \<in> set xs \<and> (\<forall>y \<in> set xs. key y = k \<longrightarrow> \<not> better y x))"

lemma irrefl: "\<not> better a a"
  using better_asym by blast

lemma holds_put:
  assumes "holds_best xs d" and "\<forall>y \<in> set xs. key y = key x \<longrightarrow> \<not> better y x"
  shows "holds_best (xs @ [x]) (dict_put (key x) x d)"
proof -
  have d: "distinct (map fst d)" using assms(1) by (simp add: holds_best_def)
  have "\<forall>(k, p) \<in> set (dict_put (key x) x d). k = key p \<and> p \<in> set (xs @ [x]) \<and>
      (\<forall>y \<in> set (xs @ [x]). key y = k \<longrightarrow> \<not> better y p)"
    using assms(2) assms(1) [unfolded holds_best_def] irrefl by (auto simp: set_dict_put_distinct [OF d])
  then show ?thesis
    using assms(1) distinct_dict_put [OF d] by (simp add: holds_best_def fst_dict_put)
qed

lemma holds_step:
  assumes "holds_best xs d"
  shows "holds_best (xs @ [x]) (keep_best key better x d)"
proof (cases "map_of d (key x)")
  case None
  then have "key x \<notin> key ` set xs"
    using assms by (simp add: map_of_eq_None_iff holds_best_def)
  then have "\<forall>y \<in> set xs. key y = key x \<longrightarrow> \<not> better y x"
    by (metis imageI)
  from holds_put [OF assms this] None show ?thesis by (simp add: keep_best_def)
next
  case (Some old)
  then have old: "(key x, old) \<in> set d" by (rule map_of_SomeD)
  with assms have best: "\<forall>y \<in> set xs. key y = key x \<longrightarrow> \<not> better y old"
    by (auto simp: holds_best_def)
  show ?thesis
  proof (cases "better x old")
    case True
    with best have "\<forall>y \<in> set xs. key y = key x \<longrightarrow> \<not> better y x"
      using better_split [OF True] better_asym by blast
    from holds_put [OF assms this] Some True show ?thesis by (simp add: keep_best_def)
  next
    case False
    have "key x \<in> key ` set xs" using old assms by (force simp: holds_best_def)
    moreover have "\<forall>(k, p) \<in> set d. key x = k \<longrightarrow> \<not> better x p"
      using old False assms by (auto simp: holds_best_def dest: eq_key_imp_eq_value)
    ultimately have "holds_best (xs @ [x]) d" using assms by (auto simp: holds_best_def)
    with Some False show ?thesis by (simp add: keep_best_def)
  qed
qed

lemma holds_fold: "holds_best xs d \<Longrightarrow> holds_best (xs @ ys) (fold (keep_best key better) ys d)"
proof (induction ys arbitrary: xs d)
  case (Cons y ys)
  from Cons.IH [OF holds_step [OF Cons.prems, of y]] show ?case by simp
qed simp

lemma holds_all: "holds_best xs (fold (keep_best key better) xs [])"
proof -
  have "holds_best [] []" by (simp add: holds_best_def)
  from holds_fold [OF this, of xs] show ?thesis by simp
qed

lemma kept_values: "map (key \<circ> snd) (fold (keep_best key better) xs []) = map fst (fold (keep_best key better) xs [])"
  using holds_all [of xs] by (auto simp: holds_best_def)

lemma kept_distinct: "distinct (map key (map snd (fold (keep_best key better) xs [])))"
  using holds_all [of xs] by (simp add: kept_values holds_best_def)

lemma kept_keys: "key ` snd ` set (fold (keep_best key better) xs []) = key ` set xs"
proof -
  have "key ` snd ` set (fold (keep_best key better) xs []) = set (map (key \<circ> snd) (fold (keep_best key better) xs []))"
    by (simp add: image_image)
  with holds_all [of xs] show ?thesis by (simp add: kept_values holds_best_def)
qed

lemma kept_best:
  assumes "x \<in> snd ` set (fold (keep_best key better) xs [])"
  shows "x \<in> set xs" and "y \<in> set xs \<Longrightarrow> key y = key x \<Longrightarrow> \<not> better y x"
  using assms holds_all [of xs] by (auto simp: holds_best_def)

text \<open>Elements of distinct keys are all kept, in their order.\<close>

lemma kept_if_distinct:
  "distinct (map key (ys @ xs)) \<Longrightarrow>
   fold (keep_best key better) xs (map (\<lambda>x. (key x, x)) ys) = map (\<lambda>x. (key x, x)) (ys @ xs)"
proof (induction xs arbitrary: ys)
  case (Cons x xs)
  have fresh: "key x \<notin> fst ` set (map (\<lambda>x. (key x, x)) ys)"
    using Cons.prems by (auto simp: image_image)
  have "keep_best key better x (map (\<lambda>x. (key x, x)) ys) = map (\<lambda>x. (key x, x)) (ys @ [x])"
    using fresh dict_put_new [OF fresh] by (simp add: keep_best_def map_of_eq_None_iff [THEN iffD2])
  then show ?case using Cons.IH [of "ys @ [x]"] Cons.prems by simp
qed simp

end

text \<open>The usual instance compares a rank.\<close>

lemma rank_is_best:
  fixes rank :: "'a \<Rightarrow> 'r::linorder"
  shows "best_per_key (\<lambda>a b. rank a < rank b)"
  by unfold_locales auto

end
