(* ===== verification/Findings_Dedup.thy ===== *)
theory Findings_Dedup
  imports Findings_Evaluator Best_Per_Key
begin

text \<open>
  Deduplication and postprocessing of the findings: what is kept, in which order, and that a
  plaintext finding never stays on a port designated for TLS.
\<close>

section \<open>Normalisation\<close>

lemma normalize_fields [simp]:
  "fd_host (normalize_finding f) = fd_host f" "fd_port (normalize_finding f) = fd_port f"
  "fd_title (normalize_finding f) = fd_title f" "fd_recommendation (normalize_finding f) = fd_recommendation f"
  "fd_category (normalize_finding f) = fd_category f" "dedup_key (normalize_finding f) = dedup_key f"
  by (simp_all add: normalize_finding_def Let_def dedup_key_def)

lemma normalize_cases_severity:
  "normalize_finding f = f \<or> fd_severity (normalize_finding f) \<in> {''HIGH'', ''MEDIUM'', ''LOW'', ''INFO''}"
  by (simp add: normalize_finding_def Let_def)

lemma normalize_finding_again [simp]: "normalize_finding (normalize_finding f) = normalize_finding f"
proof -
  have t: "fd_title (f\<lparr>fd_severity := s\<rparr>) = fd_title f" for s by simp
  show ?thesis unfolding normalize_finding_def Let_def by (simp split: if_split)
qed

section \<open>The dictionary of the loop\<close>

abbreviation worse_than :: "finding \<Rightarrow> finding \<Rightarrow> bool" where
  "worse_than f g \<equiv> rank_of f < rank_of g"

interpretation findings: best_per_key dedup_key worse_than
  by unfold_locales auto

lemma dedup_step_keeps_best: "dedup_step f d = keep_best dedup_key worse_than (normalize_finding f) d"
  by (simp add: dedup_step_def keep_best_def Let_def)

lemma dedup_fold: "fold dedup_step fs d = fold (keep_best dedup_key worse_than) (map normalize_finding fs) d"
  by (induction fs arbitrary: d) (simp_all add: dedup_step_keeps_best)

section \<open>The result\<close>

lemma set_dedupe: "set (dedupe_findings fs) = snd ` set (fold (keep_best dedup_key worse_than) (map normalize_finding fs) [])"
  by (simp add: dedupe_findings_def dedup_fold)

lemma distinct_map_sort: "distinct (map f (sort_key g xs)) = distinct (map f xs)"
  by (simp add: distinct_map)

lemma dedupe_distinct: "distinct (map dedup_key (dedupe_findings fs))"
  unfolding dedupe_findings_def distinct_map_sort dedup_fold by (rule findings.kept_distinct)

lemma dedupe_keys: "dedup_key ` set (dedupe_findings fs) = dedup_key ` set fs"
  unfolding set_dedupe findings.kept_keys by (simp add: image_image)

lemma dedupe_member:
  assumes "f \<in> set (dedupe_findings fs)"
  shows "f \<in> normalize_finding ` set fs"
    and "g \<in> set fs \<Longrightarrow> dedup_key g = dedup_key f \<Longrightarrow> rank_of f \<le> rank_of (normalize_finding g)"
  using findings.kept_best [OF assms [unfolded set_dedupe]] by (auto simp: not_less)

lemma dedupe_sorted: "sorted (map output_key (dedupe_findings fs))"
  by (simp add: dedupe_findings_def)

text \<open>C22: deduplication keeps one finding per host, port, title and recommendation, loses no such
  key, keeps a normalised finding of the input that is at least as severe as every other one of
  its key, and orders the result by severity, title, host and port.\<close>

theorem dedup_keeps_the_worst:
  "distinct (map dedup_key (dedupe_findings fs)) \<and>
   dedup_key ` set (dedupe_findings fs) = dedup_key ` set fs \<and>
   list_all (\<lambda>f. f \<in> normalize_finding ` set fs \<and>
       list_all (\<lambda>g. rank_of f \<le> rank_of (normalize_finding g)) (filter (\<lambda>g. dedup_key g = dedup_key f) fs))
     (dedupe_findings fs) \<and>
   sorted (map output_key (dedupe_findings fs))"
  using dedupe_distinct [of fs] dedupe_keys [of fs] dedupe_sorted [of fs] dedupe_member [of _ fs]
  by (simp add: list_all_iff)

lemma dedupe_normalised: "f \<in> set (dedupe_findings fs) \<Longrightarrow> normalize_finding f = f"
  using dedupe_member(1) [of f fs] by auto

text \<open>Deduplicating twice changes nothing: the result has no repeated key, its findings are
  normalised, and sorting a sorted list is the identity.\<close>

theorem dedup_is_idempotent: "dedupe_findings (dedupe_findings fs) = dedupe_findings fs"
proof -
  let ?o = "dedupe_findings fs"
  have "map normalize_finding ?o = ?o" using dedupe_normalised by (auto intro: map_idI)
  then have "fold dedup_step ?o [] = map (\<lambda>f. (dedup_key f, f)) ?o"
    using findings.kept_if_distinct [of "[]" ?o] dedupe_distinct [of fs] by (simp add: dedup_fold)
  then have "dedupe_findings ?o = sort_key output_key ?o"
    by (simp add: dedupe_findings_def [of ?o] o_def)
  also have "\<dots> = ?o" by (rule sort_key_id_if_sorted [OF dedupe_sorted])
  finally show ?thesis .
qed

section \<open>Ports designated for TLS\<close>

lemma strip_plaintext_title: "py_strip ''Plaintext HTTP service detected'' = ''Plaintext HTTP service detected''"
  by code_simp

lemma upgraded_title:
  assumes "fd_port f \<in> set well_known_tls_ports \<union> set designated"
  shows "fd_title (upgrade_finding designated eps f) \<noteq> ''Plaintext HTTP service detected''"
proof (cases "py_strip (fd_title f) = ''Plaintext HTTP service detected''")
  case True
  then show ?thesis using assms by (simp add: upgrade_finding_def Let_def)
next
  case False
  then show ?thesis using strip_plaintext_title by (auto simp: upgrade_finding_def)
qed

lemma upgrade_port [simp]: "fd_port (upgrade_finding designated eps f) = fd_port f"
  by (simp add: upgrade_finding_def Let_def)

lemma postprocess_member:
  assumes "f \<in> set (postprocess_findings designated eps fs)"
  obtains g where "g \<in> set fs" and "f = normalize_finding (upgrade_finding designated eps g)"
  using dedupe_member(1) [OF assms [unfolded postprocess_findings_def]] by auto

lemma no_plaintext_after_postprocessing:
  "f \<in> set (postprocess_findings designated eps fs) \<Longrightarrow> fd_port f \<in> set well_known_tls_ports \<union> set designated \<Longrightarrow>
   fd_title f \<noteq> ''Plaintext HTTP service detected''"
  using upgraded_title by (auto elim!: postprocess_member)

end
