(* ===== verification/Findings_Services.thy ===== *)
theory Findings_Services
  imports Findings_Evaluator
begin

text \<open>
  The evaluators of \<open>quirk/engine/findings_evaluator.py\<close> for mail, brokers, code signing, SAML
  and bearer tokens, and the composition the reports use.
\<close>

section \<open>Mail\<close>

definition email_protocols :: "string list" where
  "email_protocols = [''SMTP-STARTTLS'', ''SMTPS'', ''IMAP-STARTTLS'', ''IMAPS'', ''POP3-STARTTLS'', ''POP3S'']"

definition contains_any :: "string list \<Rightarrow> string \<Rightarrow> bool" where
  "contains_any ts s \<longleftrightarrow> list_ex (\<lambda>t. has_substring t s) ts"

definition email_rsa_kex :: "string \<Rightarrow> bool" where
  "email_rsa_kex cipher \<longleftrightarrow>
     (starts_with cipher ''TLS_RSA_WITH_'' \<or> contains_any [''AES128-SHA'', ''AES256-SHA'', ''3DES'', ''RC4''] cipher)
     \<and> \<not> has_substring ''ECDHE'' cipher \<and> \<not> has_substring ''DHE-'' cipher"

definition email_drafts :: "scanned_endpoint \<Rightarrow> draft list" where
  "email_drafts e =
     (let cipher = py_upper (py_or_str (ep_cipher_suite e)); tls_version = py_or_str (ep_tls_version e) in
      (if ep_port e = 25 \<and> ep_protocol e = Some ''SMTP-STARTTLS'' \<and> tls_version \<noteq> []
       then [starttls_downgrade_draft] else [])
      @ (if email_rsa_kex cipher \<and> tls_version \<noteq> [] then [weak_email_cipher_draft]
         else if ep_tls_pfs_supported e = Some False \<and> tls_version \<noteq> [] \<and> tls_version \<noteq> ''TLSv1.3''
         then [non_pfs_email_draft] else []))"

section \<open>Brokers\<close>

definition broker_tls_protocols :: "string list" where
  "broker_tls_protocols = [''KAFKA-TLS'', ''AMQPS'', ''AMQPS/Azure-ServiceBus'', ''HTTPS/AWS-SQS'', ''REDIS-TLS'']"

definition broker_rsa_kex :: "string \<Rightarrow> bool" where
  "broker_rsa_kex cipher \<longleftrightarrow>
     (starts_with cipher ''TLS_RSA_WITH_''
      \<or> contains_any [''AES128-SHA'', ''AES256-SHA'', ''3DES'', ''RC4'', ''DES-CBC''] cipher)
     \<and> \<not> has_substring ''ECDHE'' cipher \<and> \<not> has_substring ''DHE'' cipher"

definition broker_drafts :: "scanned_endpoint \<Rightarrow> draft list" where
  "broker_drafts e =
     (let protocol = py_or_str (ep_protocol e) in
      if protocol = ''KAFKA-PLAIN'' then [plaintext_kafka_draft]
      else if protocol = ''AMQP-PLAIN'' then [plaintext_amqp_draft]
      else if protocol = ''REDIS-PLAIN'' then [plaintext_redis_draft]
      else if protocol \<in> set broker_tls_protocols \<and> py_or_str (ep_tls_version e) \<noteq> []
              \<and> broker_rsa_kex (py_upper (py_or_str (ep_cipher_suite e)))
        then [weak_broker_tls_draft] else [])"

section \<open>Code signing\<close>

text \<open>The reasons stored with the row: any failure to read them counts as none.\<close>

definition codesign_reasons :: "(string \<Rightarrow> pyval option) \<Rightarrow> scanned_endpoint \<Rightarrow> pyval" where
  "codesign_reasons loads e =
     (let raw = (if py_or_str (ep_codesign_scan_json e) \<noteq> [] then py_or_str (ep_codesign_scan_json e)
                 else py_or_str (ep_smime_scan_json e)) in
      if raw = [] then PyList []
      else (case loads raw of
              Some (PyDict parsed) \<Rightarrow> py_or (dict_get parsed ''reasons'' PyNone) (PyList [])
            | _ \<Rightarrow> PyList []))"

text \<open>\<open>text in value\<close> and the texts a value iterates over; numbers and booleans are not
  iterable, and joining anything but texts raises.\<close>

definition py_in :: "string \<Rightarrow> pyval \<Rightarrow> eval_error + bool" where
  "py_in s v =
     (case v of
        PyList xs \<Rightarrow> Inr (list_ex (\<lambda>x. case x of PyStr t \<Rightarrow> t = s | _ \<Rightarrow> False) xs)
      | PyStr t \<Rightarrow> Inr (has_substring s t)
      | PyDict d \<Rightarrow> Inr (s \<in> set (map fst d))
      | _ \<Rightarrow> Inl TypeError)"

fun all_texts :: "pyval list \<Rightarrow> eval_error + string list" where
  "all_texts [] = Inr []"
| "all_texts (PyStr t # xs) = bind_err (all_texts xs) (\<lambda>ts. Inr (t # ts))"
| "all_texts (_ # xs) = Inl TypeError"

definition iterated_texts :: "pyval \<Rightarrow> eval_error + string list" where
  "iterated_texts v =
     (case v of
        PyList xs \<Rightarrow> all_texts xs
      | PyStr t \<Rightarrow> Inr (map (\<lambda>c. [c]) t)
      | PyDict d \<Rightarrow> Inr (map fst d)
      | _ \<Rightarrow> Inl TypeError)"

fun comma_join :: "string list \<Rightarrow> string" where
  "comma_join [] = []"
| "comma_join [t] = t"
| "comma_join (t # u # ts) = t @ '', '' @ comma_join (u # ts)"

definition reason_to_check_id :: "(string \<times> string) list" where
  "reason_to_check_id = [(''weak-ec-key'', ''ECDSA''), (''weak-rsa-key'', ''RSA''), (''weak-signing-alg'', ''SHA-1'')]"

definition dominant_check_id :: "string list \<Rightarrow> string" where
  "dominant_check_id reasons =
     (case List.map_filter (map_of reason_to_check_id) reasons of [] \<Rightarrow> [] | k # _ \<Rightarrow> k)"

definition days_remaining :: "int \<Rightarrow> int option \<Rightarrow> int" where
  "days_remaining now not_after =
     (case not_after of None \<Rightarrow> 0 | Some na \<Rightarrow> py_trunc (of_int (na - now) / 1000000 / 86400))"

definition codesign_drafts :: "(string \<Rightarrow> pyval option) \<Rightarrow> int \<Rightarrow> scanned_endpoint \<Rightarrow> eval_error + draft list" where
  "codesign_drafts loads now e =
     (let subject = (if py_or_str (ep_cert_subject e) = [] then ''unknown'' else py_or_str (ep_cert_subject e));
          date = (case ep_cert_not_after e of None \<Rightarrow> ''unknown'' | Some na \<Rightarrow> iso_date na);
          days = days_remaining now (ep_cert_not_after e);
          reasons = codesign_reasons loads e in
      bind_err (py_in ''expired'' reasons) (\<lambda>expired.
        if expired then Inr [codesign_expired_draft date subject]
        else bind_err (py_in ''approaching-expiry'' reasons) (\<lambda>approaching.
          if approaching then Inr [codesign_expiring_draft date subject days]
          else if py_truthy reasons then
            bind_err (iterated_texts reasons)
              (\<lambda>ts. Inr [codesign_weak_draft subject (comma_join ts) (dominant_check_id ts)])
          else Inr [])))"

section \<open>SAML\<close>

definition oidc_alg_severity :: "(string \<times> string option) list" where
  "oidc_alg_severity =
     [(''RS256'', Some ''HIGH''), (''RS384'', Some ''HIGH''), (''RS512'', Some ''HIGH''),
      (''PS256'', Some ''HIGH''), (''PS384'', Some ''HIGH''), (''PS512'', Some ''HIGH''),
      (''ES256'', None), (''ES384'', None), (''ES512'', None),
      (''HS256'', None), (''HS384'', None), (''HS512'', None), (''EdDSA'', None)]"

fun use_token :: "string list \<Rightarrow> string option" where
  "use_token [] = None"
| "use_token (t # ts) =
     (if starts_with (py_strip t) ''use=''
      then (let v = py_lower (py_strip (drop 4 (py_strip t))) in if v = [] then None else Some v)
      else use_token ts)"

definition saml_key_use :: "string \<Rightarrow> string option" where
  "saml_key_use detail = use_token (py_split CHR ''|'' detail)"

text \<open>One SAML row with the certificates already reported: a weak certificate with a known serial is
  reported once per host and port.\<close>

definition saml_step :: "scanned_endpoint \<Rightarrow> saml_key list \<Rightarrow> draft list \<times> saml_key list" where
  "saml_step e seen =
     (let alg = py_upper (py_or_str (ep_cert_pubkey_alg e)) in
      case dict_get oidc_alg_severity alg None of
        Some severity \<Rightarrow> ([(oidc_rs_draft severity alg)\<lparr>dr_saml_algorithm := Some alg\<rparr>], seen)
      | None \<Rightarrow>
          (if alg = ''SHA1'' then ([saml_sha1_draft\<lparr>dr_saml_algorithm := Some ''SHA1''\<rparr>], seen)
           else if alg \<notin> set (map fst oidc_alg_severity) \<and> small_key (ep_cert_pubkey_size e) then
             (if saml_repeated seen e then ([], seen)
              else (let bits = the (ep_cert_pubkey_size e);
                        algorithm = (if bits = 0 then alg else alg @ ''-'' @ int_str bits) in
                ([(if saml_key_use (detail_of e) = Some ''encryption''
                   then weak_saml_encryption_draft bits alg else weak_saml_signing_draft bits alg)
                    \<lparr>dr_saml_algorithm := Some algorithm\<rparr>],
                 (case saml_key_of e of None \<Rightarrow> seen | Some k \<Rightarrow> k # seen))))
           else ([], seen)))"

fun saml_findings :: "scanned_endpoint list \<Rightarrow> saml_key list \<Rightarrow> eval_error + finding list" where
  "saml_findings [] seen = Inr []"
| "saml_findings (e # es) seen =
     (if proto_of e \<noteq> ''SAML'' then saml_findings es seen
      else (case saml_step e seen of (ds, seen') \<Rightarrow>
        bind_err (build_all (ep_host e) (ep_port e) ds)
          (\<lambda>fs. bind_err (saml_findings es seen') (\<lambda>gs. Inr (fs @ gs)))))"

definition evaluate_identity_endpoints :: "scanned_endpoint list \<Rightarrow> eval_error + finding list" where
  "evaluate_identity_endpoints eps = saml_findings eps []"

section \<open>Bearer tokens\<close>

definition is_unsigned_jwt_alg :: "string \<Rightarrow> bool" where
  "is_unsigned_jwt_alg alg \<longleftrightarrow> alg = [] \<or> py_lower alg = ''none''"

definition bearer_alg_absent_marker :: string where
  "bearer_alg_absent_marker = ''alg header absent''"

definition bearer_drafts :: "scanned_endpoint \<Rightarrow> draft list" where
  "bearer_drafts e =
     (let alg = py_or_str (ep_cert_pubkey_alg e) in
      if alg \<noteq> [] then
        (if is_unsigned_jwt_alg alg
         then [unsigned_token_draft (''The token header declares alg '' @ [CHR 0x22] @ alg @ [CHR 0x22]
                 @ '' (no signature).'')]
         else [])
      else if has_substring bearer_alg_absent_marker (detail_of e)
        then [unsigned_token_draft ''The token header carries no alg, so no signature algorithm is declared.'']
      else [])"

section \<open>Composition\<close>

definition evaluate_protocol_service_endpoints ::
    "(string \<Rightarrow> pyval option) \<Rightarrow> int \<Rightarrow> scanned_endpoint list \<Rightarrow> eval_error + finding list" where
  "evaluate_protocol_service_endpoints loads now eps =
     bind_err (findings_of_rows (\<lambda>e. Inr (email_drafts e))
                 (filter (\<lambda>e. py_or_str (ep_protocol e) \<in> set email_protocols) eps))
       (\<lambda>email. bind_err (findings_of_rows (\<lambda>e. Inr (broker_drafts e)) eps)
         (\<lambda>broker. bind_err (findings_of_rows (codesign_drafts loads now)
                              (filter (\<lambda>e. ep_protocol e = Some ''CODE_SIGNING'') eps))
           (\<lambda>codesign. bind_err (findings_of_rows (\<lambda>e. Inr (bearer_drafts e))
                                  (filter (\<lambda>e. ep_protocol e = Some ''BEARER_TOKEN'') eps))
             (\<lambda>bearer. Inr (email @ broker @ codesign @ bearer)))))"

definition derive_report_findings ::
    "(string \<Rightarrow> pyval option) \<Rightarrow> int \<Rightarrow> int list \<Rightarrow> scanned_endpoint list \<Rightarrow> eval_error + finding list" where
  "derive_report_findings loads now designated eps =
     bind_err (evaluate_endpoints loads now designated eps)
       (\<lambda>a. bind_err (evaluate_protocol_service_endpoints loads now eps)
         (\<lambda>b. bind_err (evaluate_identity_endpoints eps) (\<lambda>c. Inr (a @ b @ c))))"

end
