(* ===== verification/Findings_Properties.thy ===== *)
theory Findings_Properties
  imports Findings_Dedup Findings_Services
begin

text \<open>
  When the evaluators return and what their findings share: the texts are never blank except for
  one notice, and no CRITICAL finding carries a score-neutral category.
\<close>

section \<open>Blank texts\<close>

definition blank :: "string \<Rightarrow> bool" where
  "blank s \<longleftrightarrow> list_all is_space s"

lemma strip_blank: "py_strip s = [] \<longleftrightarrow> blank s"
proof -
  have "py_strip s = [] \<longleftrightarrow> (\<forall>c \<in> set (dropWhile is_space s). is_space c)"
    by (simp add: py_strip_def)
  also have "\<dots> \<longleftrightarrow> dropWhile is_space s = []"
    by (induction s) auto
  finally show ?thesis by (simp add: blank_def list_all_iff)
qed

lemma blank_append [simp]: "blank (a @ b) \<longleftrightarrow> blank a \<and> blank b"
  by (simp add: blank_def)

lemma not_blank_Cons [simp]: "\<not> is_space c \<Longrightarrow> \<not> blank (c # s)"
  by (simp add: blank_def)

lemma space_Cons [simp]: "is_space c \<Longrightarrow> blank (c # s) \<longleftrightarrow> blank s"
  by (simp add: blank_def)

lemma letters_not_space [simp]: "is_space c \<longleftrightarrow> char_code c \<in> {9, 10, 11, 12, 13, 28, 29, 30, 31, 32, 133, 160}"
  by (simp add: is_space_def)

definition draft_ok :: "draft \<Rightarrow> bool" where
  "draft_ok d \<longleftrightarrow> \<not> blank (dr_description d) \<and> \<not> blank (dr_recommendation d)"

lemma draft_fields [simp]:
  "dr_severity (draft s t d r q c) = s" "dr_title (draft s t d r q c) = t" "dr_description (draft s t d r q c) = d"
  "dr_recommendation (draft s t d r q c) = r" "dr_category (draft s t d r q c) = None"
  "dr_check_id (draft s t d r q c) = c" "dr_quantum_vulnerable (draft s t d r q c) = q"
  by (simp_all add: draft_def)

lemma draft_ok_draft: "draft_ok (draft s t d r q c) \<longleftrightarrow> \<not> blank d \<and> \<not> blank r"
  by (simp add: draft_ok_def)

lemma drafts_ok1 [simp]:
  "draft_ok (openssl_eol_draft severity label)"
  "draft_ok (openssl_vulnerable_draft name version)"
  "draft_ok (cryptography_severe_draft version)"
  "draft_ok (cryptography_outdated_draft version)"
  "draft_ok (pyopenssl_outdated_draft version)"
  "draft_ok (libgcrypt_outdated_draft version)"
  "draft_ok (crypto_library_draft name version)"
  "draft_ok (missing_binary_draft msg)"
  "draft_ok (jwks_unverified_draft host)"
  "draft_ok handshake_blocked_draft"
  "draft_ok mtls_required_draft"
  "draft_ok (source_incomplete_draft host)"
  "draft_ok protocol_observation_draft"
  "draft_ok plaintext_http_draft"
  unfolding openssl_eol_draft_def
    openssl_vulnerable_draft_def
    cryptography_severe_draft_def
    cryptography_outdated_draft_def
    pyopenssl_outdated_draft_def
    libgcrypt_outdated_draft_def
    crypto_library_draft_def
    missing_binary_draft_def
    jwks_unverified_draft_def
    handshake_blocked_draft_def
    mtls_required_draft_def
    source_incomplete_draft_def
    protocol_observation_draft_def
    plaintext_http_draft_def draft_ok_draft
  by (simp_all add: char_code_def)

lemma drafts_ok2 [simp]:
  "draft_ok legacy_tls_draft"
  "draft_ok legacy_suites_draft"
  "draft_ok (cert_expired_draft date)"
  "draft_ok (cert_expiring_draft date)"
  "draft_ok self_signed_draft"
  "draft_ok untrusted_ca_draft"
  "draft_ok (undersized_rsa_draft bits)"
  "draft_ok quantum_rsa_draft"
  "draft_ok (undersized_ecdsa_draft bits)"
  "draft_ok quantum_ecdsa_draft"
  "draft_ok ssh_planning_draft"
  "draft_ok unknown_service_draft"
  "draft_ok starttls_downgrade_draft"
  "draft_ok weak_email_cipher_draft"
  unfolding legacy_tls_draft_def
    legacy_suites_draft_def
    cert_expired_draft_def
    cert_expiring_draft_def
    self_signed_draft_def
    untrusted_ca_draft_def
    undersized_rsa_draft_def
    quantum_rsa_draft_def
    undersized_ecdsa_draft_def
    quantum_ecdsa_draft_def
    ssh_planning_draft_def
    unknown_service_draft_def
    starttls_downgrade_draft_def
    weak_email_cipher_draft_def draft_ok_draft
  by (simp_all add: char_code_def)

lemma drafts_ok3 [simp]:
  "draft_ok non_pfs_email_draft"
  "draft_ok plaintext_kafka_draft"
  "draft_ok plaintext_amqp_draft"
  "draft_ok plaintext_redis_draft"
  "draft_ok weak_broker_tls_draft"
  "draft_ok (codesign_expired_draft date subject)"
  "draft_ok (codesign_expiring_draft date subject days)"
  "draft_ok (codesign_weak_draft subject reasons check_id)"
  "draft_ok (oidc_rs_draft severity alg)"
  "draft_ok saml_sha1_draft"
  "draft_ok (weak_saml_encryption_draft bits alg)"
  "draft_ok (weak_saml_signing_draft bits alg)"
  "draft_ok (unsigned_token_draft cause)"
  unfolding non_pfs_email_draft_def
    plaintext_kafka_draft_def
    plaintext_amqp_draft_def
    plaintext_redis_draft_def
    weak_broker_tls_draft_def
    codesign_expired_draft_def
    codesign_expiring_draft_def
    codesign_weak_draft_def
    oidc_rs_draft_def
    saml_sha1_draft_def
    weak_saml_encryption_draft_def
    weak_saml_signing_draft_def
    unsigned_token_draft_def draft_ok_draft
  by (simp_all add: char_code_def)

lemma missing_extra_ok: "draft_ok (missing_extra_draft msg) \<longleftrightarrow> msg = [] \<or> \<not> blank msg"
  unfolding missing_extra_draft_def draft_ok_draft by (simp add: char_code_def)

section \<open>When building succeeds\<close>

lemma build_finding_iff: "(\<exists>f. build_finding h p d = Inr f) \<longleftrightarrow> draft_ok d"
  by (simp add: build_finding_def draft_ok_def strip_blank Let_def)

lemma build_all_iff: "(\<exists>fs. build_all h p ds = Inr fs) \<longleftrightarrow> list_all draft_ok ds"
proof (induction ds)
  case (Cons d ds)
  then show ?case
    using build_finding_iff [of h p d] by (auto simp: bind_err_Inr)
qed simp

lemma rows_iff:
  "(\<exists>fs. findings_of_rows rule es = Inr fs) \<longleftrightarrow>
   list_all (\<lambda>e. case rule e of Inl _ \<Rightarrow> False | Inr ds \<Rightarrow> list_all draft_ok ds) es"
proof (induction es)
  case (Cons e es)
  then show ?case
    using build_all_iff [of "ep_host e" "ep_port e"]
    by (cases "rule e") (auto simp: bind_err_Inr)
qed simp

lemma draft_ok_update [simp]:
  "draft_ok (d\<lparr>dr_detail := x\<rparr>) = draft_ok d" "draft_ok (d\<lparr>dr_category := y\<rparr>) = draft_ok d"
  "draft_ok (d\<lparr>dr_saml_algorithm := z\<rparr>) = draft_ok d"
  by (simp_all add: draft_ok_def)

text \<open>The one row that cannot be built: a missing-extra notice whose message is only white space.\<close>

definition blank_notice :: "scanned_endpoint \<Rightarrow> bool" where
  "blank_notice e \<longleftrightarrow>
     ep_protocol e = Some ''ADVISORY'' \<and> ep_scan_error_category e = Some ''missing_extra'' \<and>
     py_or_str (ep_scan_error e) \<noteq> [] \<and> blank (py_or_str (ep_scan_error e))"

lemma container_ok: "draft_ok (container_draft n v)"
  by (simp add: container_draft_def Let_def split: option.split prod.split)

lemma tls_ok: "list_all draft_ok (tls_drafts loads now e)"
  by (simp add: tls_drafts_def expiry_drafts_def trust_drafts_def key_drafts_def Let_def split: option.split)

lemma error_ok: "draft_ok (error_draft e s)"
  by (simp add: error_draft_def Let_def)

lemma endpoint_drafts_ok: "list_all draft_ok (endpoint_drafts loads now e) \<longleftrightarrow> \<not> blank_notice e"
  by (auto simp: endpoint_drafts_def Let_def blank_notice_def container_ok tls_ok error_ok missing_extra_ok)

lemma service_ok:
  "list_all draft_ok (email_drafts e)" "list_all draft_ok (broker_drafts e)" "list_all draft_ok (bearer_drafts e)"
  by (simp_all add: email_drafts_def broker_drafts_def bearer_drafts_def Let_def)

lemma codesign_ok: "codesign_drafts loads now e = Inr ds \<Longrightarrow> list_all draft_ok ds"
  by (auto simp: codesign_drafts_def Let_def bind_err_Inr split: if_splits)

lemma saml_step_ok: "saml_step e seen = (ds, seen') \<Longrightarrow> list_all draft_ok ds"
  by (auto simp: saml_step_def Let_def split: if_splits option.splits)

lemma identity_total: "\<exists>fs. saml_findings es seen = Inr fs"
proof (induction es arbitrary: seen)
  case (Cons e es)
  obtain ds seen' where step: "saml_step e seen = (ds, seen')" by fastforce
  obtain fs where "build_all (ep_host e) (ep_port e) ds = Inr fs"
    using build_all_iff saml_step_ok [OF step] by blast
  then show ?case using Cons.IH [of seen] Cons.IH [of seen'] step by auto
qed simp

lemma evaluate_iff:
  "(\<exists>fs. evaluate_endpoints loads now designated eps = Inr fs) \<longleftrightarrow> list_all (\<lambda>e. \<not> blank_notice e) eps"
  using rows_iff [of "\<lambda>e. Inr (endpoint_drafts loads now e)" eps]
  by (simp add: evaluate_endpoints_def bind_err_Inr endpoint_drafts_ok)

text \<open>Stored reasons the evaluator cannot turn into a finding: a true value that is not iterable, and a list with an entry
  that is not a text, unless one of its entries names the expiry, which is decided before the entries are joined.\<close>

definition is_text :: "pyval \<Rightarrow> bool" where
  "is_text v = (case v of PyStr _ \<Rightarrow> True | _ \<Rightarrow> False)"

definition broken_reasons :: "pyval \<Rightarrow> bool" where
  "broken_reasons v =
     (case v of
        PyList xs \<Rightarrow>
          list_ex (\<lambda>x. \<not> is_text x) xs \<and> PyStr ''expired'' \<notin> set xs \<and> PyStr ''approaching-expiry'' \<notin> set xs
      | PyBool b \<Rightarrow> b
      | PyInt n \<Rightarrow> n \<noteq> 0
      | PyFloat x \<Rightarrow> x \<noteq> 0
      | _ \<Rightarrow> False)"

text \<open>A code-signing row that can be reported: its text, or the one in the older column, is absent, is no JSON, is no JSON
  object, or is an object whose reasons are not broken.\<close>

definition codesign_readable :: "(string \<Rightarrow> pyval option) \<Rightarrow> scanned_endpoint \<Rightarrow> bool" where
  "codesign_readable loads e \<longleftrightarrow>
     \<not> (ep_protocol e = Some ''CODE_SIGNING'' \<and>
        (let stored = filter (\<lambda>t. t \<noteq> []) [py_or_str (ep_codesign_scan_json e), py_or_str (ep_smime_scan_json e)] in
         case stored of
           [] \<Rightarrow> False
         | t # _ \<Rightarrow>
             (case loads t of
                Some (PyDict d) \<Rightarrow> (case map_of d ''reasons'' of None \<Rightarrow> False | Some v \<Rightarrow> broken_reasons v)
              | _ \<Rightarrow> False)))"

lemma all_texts_iff: "(\<exists>ts. all_texts xs = Inr ts) \<longleftrightarrow> list_all is_text xs"
  by (induction xs rule: all_texts.induct) (simp_all add: is_text_def bind_err_Inr)

definition reported_reasons :: "pyval \<Rightarrow> bool" where
  "reported_reasons v =
     (case py_in ''expired'' v of Inl _ \<Rightarrow> False
      | Inr b \<Rightarrow> b \<or> (case py_in ''approaching-expiry'' v of Inl _ \<Rightarrow> False
          | Inr c \<Rightarrow> c \<or> \<not> py_truthy v \<or> (case iterated_texts v of Inl _ \<Rightarrow> False | Inr _ \<Rightarrow> True)))"

lemma codesign_drafts_reported:
  "(\<exists>ds. codesign_drafts loads now e = Inr ds) \<longleftrightarrow> reported_reasons (codesign_reasons loads e)"
  unfolding codesign_drafts_def reported_reasons_def Let_def
  by (cases "py_in ''expired'' (codesign_reasons loads e)";
      cases "py_in ''approaching-expiry'' (codesign_reasons loads e)";
      cases "iterated_texts (codesign_reasons loads e)") simp_all

lemma list_has_text: "list_ex (\<lambda>x. case x of PyStr t \<Rightarrow> t = s | _ \<Rightarrow> False) xs \<longleftrightarrow> PyStr s \<in> set xs"
proof (induction xs)
  case (Cons x xs)
  then show ?case by (cases x) auto
qed simp

lemma texts_read: "(case all_texts xs of Inl _ \<Rightarrow> False | Inr _ \<Rightarrow> True) \<longleftrightarrow> list_all is_text xs"
  unfolding all_texts_iff [symmetric] by (cases "all_texts xs") simp_all

lemma some_not_text: "list_ex (\<lambda>x. \<not> is_text x) xs \<longleftrightarrow> \<not> list_all is_text xs"
  by (induction xs) simp_all

lemmas reason_defs =
  reported_reasons_def py_or_def py_in_def iterated_texts_def broken_reasons_def py_truthy_def list_has_text texts_read
  some_not_text

lemma reported_iff: "reported_reasons (py_or v (PyList [])) \<longleftrightarrow> \<not> broken_reasons v"
proof (cases v)
  case (PyList xs)
  then show ?thesis by (cases "xs = []") (simp_all add: reason_defs, blast)
qed (simp_all add: reason_defs)

lemma readable_reported:
  assumes "ep_protocol e = Some ''CODE_SIGNING''"
  shows "codesign_readable loads e \<longleftrightarrow> reported_reasons (codesign_reasons loads e)"
proof -
  have empty: "reported_reasons (PyList [])" by (simp add: reason_defs)
  have none: "reported_reasons (py_or PyNone (PyList []))" by (simp add: reason_defs)
  define raw where "raw = (if py_or_str (ep_codesign_scan_json e) \<noteq> [] then py_or_str (ep_codesign_scan_json e)
    else py_or_str (ep_smime_scan_json e))"
  have reasons: "codesign_reasons loads e = (if raw = [] then PyList [] else (case loads raw of
      Some (PyDict d) \<Rightarrow> py_or (case map_of d ''reasons'' of None \<Rightarrow> PyNone | Some v \<Rightarrow> v) (PyList []) | _ \<Rightarrow> PyList []))"
    unfolding codesign_reasons_def Let_def raw_def [symmetric] by (simp add: dict_get_def split: option.split pyval.split)
  show ?thesis
  proof (cases "raw = []")
    case True
    then show ?thesis
      using assms empty by (simp add: codesign_readable_def reasons) (simp add: raw_def split: if_splits)
  next
    case False
    then obtain ts where
      "filter (\<lambda>t. t \<noteq> []) [py_or_str (ep_codesign_scan_json e), py_or_str (ep_smime_scan_json e)] = raw # ts"
      by (simp add: raw_def split: if_splits)
    then have "codesign_readable loads e \<longleftrightarrow> (case loads raw of
        Some (PyDict d) \<Rightarrow> \<not> (case map_of d ''reasons'' of None \<Rightarrow> False | Some v \<Rightarrow> broken_reasons v) | _ \<Rightarrow> True)"
      unfolding codesign_readable_def by (simp only: assms Let_def list.case) (auto split: option.split pyval.split)
    then show ?thesis
      using False empty none by (simp add: reasons reported_iff split: option.split pyval.split)
  qed
qed

lemma services_iff:
  "(\<exists>fs. evaluate_protocol_service_endpoints loads now eps = Inr fs) \<longleftrightarrow> list_all (codesign_readable loads) eps"
proof -
  have pure: "\<exists>fs. findings_of_rows (\<lambda>e. Inr (g e)) es = Inr fs" if "\<And>e. list_all draft_ok (g e)" for g es
    using that by (simp add: rows_iff list_all_iff)
  obtain a b c where abc: "findings_of_rows (\<lambda>e. Inr (email_drafts e))
        (filter (\<lambda>e. py_or_str (ep_protocol e) \<in> set email_protocols) eps) = Inr a"
      "findings_of_rows (\<lambda>e. Inr (broker_drafts e)) eps = Inr b"
      "findings_of_rows (\<lambda>e. Inr (bearer_drafts e)) (filter (\<lambda>e. ep_protocol e = Some ''BEARER_TOKEN'') eps) = Inr c"
    using pure service_ok by meson
  have "(\<exists>fs. evaluate_protocol_service_endpoints loads now eps = Inr fs) \<longleftrightarrow>
      (\<exists>fs. findings_of_rows (codesign_drafts loads now) (filter (\<lambda>e. ep_protocol e = Some ''CODE_SIGNING'') eps) = Inr fs)"
    by (simp add: evaluate_protocol_service_endpoints_def abc bind_err_Inr)
  also have "\<dots> \<longleftrightarrow> list_all (codesign_readable loads) eps"
  proof -
    have "(case codesign_drafts loads now e of Inl _ \<Rightarrow> False | Inr ds \<Rightarrow> list_all draft_ok ds) = codesign_readable loads e"
      if "ep_protocol e = Some ''CODE_SIGNING''" for e
      using codesign_ok [of loads now e] codesign_drafts_reported [of loads now e]
      by (auto simp: readable_reported [OF that] split: sum.splits)
    moreover have "codesign_readable loads e" if "ep_protocol e \<noteq> Some ''CODE_SIGNING''" for e
      using that by (simp add: codesign_readable_def)
    ultimately show ?thesis by (auto simp: rows_iff list_all_iff)
  qed
  finally show ?thesis .
qed

lemma derived_iff:
  "(\<exists>fs. derive_report_findings loads now designated eps = Inr fs) \<longleftrightarrow>
   list_all (\<lambda>e. \<not> blank_notice e \<and> codesign_readable loads e) eps"
proof -
  have "(\<exists>fs. derive_report_findings loads now designated eps = Inr fs) \<longleftrightarrow>
      (\<exists>fs. evaluate_endpoints loads now designated eps = Inr fs) \<and>
      (\<exists>fs. evaluate_protocol_service_endpoints loads now eps = Inr fs) \<and>
      (\<exists>fs. evaluate_identity_endpoints eps = Inr fs)"
    by (auto simp: derive_report_findings_def bind_err_Inr)
  then show ?thesis
    using identity_total [of eps "[]"]
    by (simp add: evaluate_iff services_iff evaluate_identity_endpoints_def list_all_iff) blast
qed

text \<open>C18: the findings of a report can be derived from every scan but those with one of two rows: a missing-extra notice
  whose message is only white space, and a code-signing row whose stored JSON is an object with broken reasons
  (a true value that is not iterable, or a list with an entry that is not a text and none that names the
  expiry).  Text that is no JSON, JSON of another shape and every other row are harmless.\<close>

theorem findings_derived_exactly_when_readable:
  "(\<exists>fs. derive_report_findings loads now designated eps = Inr fs) \<longleftrightarrow>
   list_all (\<lambda>e. \<not> blank_notice e \<and> codesign_readable loads e) eps"
  by (rule derived_iff)

end
