(* ===== verification/Content_Properties.thy ===== *)
theory Content_Properties
  imports Content_Model Evidence_Properties
begin

text \<open>
  The executive content never contradicts the score it is built on: the congruence guard never
  fires on a score computed from the same findings, the rollup arithmetic gives the computed
  score, and the top risks are the risks of the findings.
\<close>

section \<open>Classification\<close>

lemma keywords_have_advice:
  "list_all (\<lambda>k. map_of algo_impact_map k \<noteq> None \<and> map_of remediation_catalog k \<noteq> None \<and>
      map_of remediation_catalog k \<noteq> Some []) algo_keywords"
  by code_simp

lemma classified_keyword: "classify_finding f = Some k \<Longrightarrow> k \<in> set algo_keywords"
  by (auto simp: classify_finding_def dest: find_SomeD split: if_splits)

lemma classified_advice:
  assumes "classify_finding f = Some k"
  shows "map_of algo_impact_map k \<noteq> None" "map_of remediation_catalog k \<noteq> None"
    "map_of remediation_catalog k \<noteq> Some []"
  using keywords_have_advice classified_keyword [OF assms] by (auto simp: list_all_iff)

definition risk_label :: "finding \<Rightarrow> string option" where
  "risk_label f = (case classify_finding f of None \<Rightarrow> None | Some k \<Rightarrow> map_option fst (map_of algo_impact_map k))"

lemma collect_risk_eq:
  "collect_risk f candidates =
     Inr (case risk_label f of
            None \<Rightarrow> candidates
          | Some l \<Rightarrow>
              if l \<in> set (map (ri_label \<circ> snd) candidates) then candidates
              else candidates @ [(dict_get severity_order (py_upper (fd_severity f)) 99,
                     \<lparr>ri_label = l, ri_impact = fst (snd (the (map_of algo_impact_map (the (classify_finding f))))),
                      ri_severity = py_upper (fd_severity f)\<rparr>)])"
  using classified_advice(1) [of f]
  by (auto simp: collect_risk_def risk_label_def Let_def split: option.split)

text \<open>The candidates after the loop: one per label, with the severity of a finding of that label.\<close>

definition risks_ok :: "finding list \<Rightarrow> (int \<times> risk_item) list \<Rightarrow> bool" where
  "risks_ok fs cs \<longleftrightarrow>
     distinct (map (ri_label \<circ> snd) cs) \<and>
     set (map (ri_label \<circ> snd) cs) = {l. \<exists>f \<in> set fs. risk_label f = Some l} \<and>
     (\<forall>(n, x) \<in> set cs. n = dict_get severity_order (ri_severity x) 99 \<and>
        (\<exists>f \<in> set fs. risk_label f = Some (ri_label x) \<and> ri_severity x = py_upper (fd_severity f)))"

lemma risks_ok_step:
  assumes "risks_ok fs cs"
  shows "\<exists>cs'. collect_risk f cs = Inr cs' \<and> risks_ok (fs @ [f]) cs'"
proof (cases "risk_label f")
  case None
  then show ?thesis using assms by (auto simp: collect_risk_eq risks_ok_def)
next
  case (Some l)
  show ?thesis
  proof (cases "l \<in> set (map (ri_label \<circ> snd) cs)")
    case True
    moreover from True assms have "\<exists>f' \<in> set fs. risk_label f' = Some l" by (auto simp: risks_ok_def)
    ultimately show ?thesis
      using assms Some by (auto simp: collect_risk_eq risks_ok_def)
  next
    case False
    then show ?thesis using assms Some by (auto simp: collect_risk_eq risks_ok_def)
  qed
qed

lemma collect_risks:
  "risks_ok fs cs \<Longrightarrow> \<exists>cs'. err_fold collect_risk gs cs = Inr cs' \<and> risks_ok (fs @ gs) cs'"
proof (induction gs arbitrary: fs cs)
  case (Cons g gs)
  from risks_ok_step [OF Cons.prems, of g] obtain cs' where "collect_risk g cs = Inr cs'"
    and "risks_ok (fs @ [g]) cs'" by blast
  with Cons.IH [of "fs @ [g]" cs'] show ?case by simp
qed simp

lemma top_risks_total: "\<exists>risks. build_top_risks fs = Inr risks"
  using collect_risks [of "[]" "[]" fs] by (auto simp: risks_ok_def build_top_risks_def)

text \<open>The top risks never fail on a missing table entry; they are one per risk label, exactly
  the labels of the classified findings, each with the severity of a finding that carries it, in
  order of severity.\<close>

theorem top_risks_cover_the_findings:
  "\<exists>risks. build_top_risks fs = Inr risks \<and> distinct (map ri_label risks) \<and>
     set (map ri_label risks) = {l. \<exists>f \<in> set fs. risk_label f = Some l} \<and>
     list_all (\<lambda>x. list_ex (\<lambda>f. risk_label f = Some (ri_label x) \<and> ri_severity x = py_upper (fd_severity f)) fs) risks \<and>
     sorted (map (\<lambda>x. dict_get severity_order (ri_severity x) 99) risks)"
proof -
  have "risks_ok [] []" by (simp add: risks_ok_def)
  from collect_risks [OF this, of fs] obtain cs
    where cs: "err_fold collect_risk fs [] = Inr cs" and ok: "risks_ok fs cs" by auto
  let ?s = "sort_key fst cs"
  have "build_top_risks fs = Inr (map snd ?s)" by (simp add: build_top_risks_def cs)
  moreover have "distinct (map (ri_label \<circ> snd) ?s)"
    using ok by (simp add: risks_ok_def distinct_map)
  moreover have "set (map (ri_label \<circ> snd) ?s) = {l. \<exists>f \<in> set fs. risk_label f = Some l}"
    using ok by (simp add: risks_ok_def)
  moreover have "list_all (\<lambda>x. list_ex (\<lambda>f. risk_label f = Some (ri_label x)
      \<and> ri_severity x = py_upper (fd_severity f)) fs) (map snd ?s)"
    using ok by (fastforce simp: risks_ok_def list_all_iff list_ex_iff)
  moreover have "sorted (map (\<lambda>x. dict_get severity_order (ri_severity x) 99) (map snd ?s))"
  proof -
    have eq: "map (\<lambda>x. dict_get severity_order (ri_severity x) 99) (map snd ?s) = map fst ?s"
      using ok by (auto simp: risks_ok_def)
    show ?thesis unfolding eq by simp
  qed
  ultimately show ?thesis by (simp add: o_def image_image)
qed

section \<open>The rollup\<close>

lemma compute_divisor:
  assumes "compute_readiness_score e p ws = Inr r" and "r_score r \<noteq> None"
  shows "assessed_scores (category_table (effective_weights p ws) e) \<noteq> []"
    and "r_score_divisor r = Some (of_nat (length (assessed_scores (category_table (effective_weights p ws) e))) * 25 / 100)"
  using assms
  by (auto simp: compute_readiness_score_def Let_def split: if_splits sum.splits prod.splits)

lemma raw_sum_assessed:
  assumes "compute_readiness_score e p ws = Inr r"
  shows "raw_sum_of (r_subscores r) = sum_list (assessed_scores (category_table (effective_weights p ws) e))"
proof -
  have "sum_list (List.map_filter snd (map (\<lambda>c. (cat_name c, if cat_ok c then Some (cat_score c) else None)) cs))
      = sum_list (map cat_score (filter cat_ok cs))" for cs
    by (induction cs) (simp_all add: List.map_filter_def)
  then show ?thesis
    by (simp add: raw_sum_of_def compute_frame(2) [OF assms] assessed_scores_def)
qed

text \<open>The rollup line printed in the reports is true: the sum of the shown subscores divided
  by the shown divisor is the computed headline, and it is the score itself unless a ceiling
  applies, in which case the score is that headline compressed.\<close>

theorem rollup_is_the_computed_score:
  assumes "compute_readiness_score e p ws = Inr r" and "r_score r \<noteq> None"
  shows "rollup_computed_score (Some (raw_sum_of (r_subscores r))) (effective_score_divisor (r_score r) (r_score_divisor r))
      = Some (computed_headline (assessed_scores (category_table (effective_weights p ws) e))) \<and>
    r_score r = Some (compress (map_option fst (lowest_ceiling e))
      (computed_headline (assessed_scores (category_table (effective_weights p ws) e))))"
proof -
  let ?xs = "assessed_scores (category_table (effective_weights p ws) e)"
  have "0 < length ?xs" using compute_divisor(1) [OF assms] by simp
  then have "of_int (sum_list ?xs) / (of_nat (length ?xs) * 25 / 100)
      = of_int (sum_list ?xs) / (of_nat (length ?xs) * 25) * (100 :: real)"
    by simp
  then show ?thesis
    unfolding rollup_computed_score_def effective_score_divisor_def computed_headline_def
    using assms(2) compute_divisor [OF assms] raw_sum_assessed [OF assms(1)] compute_score_cases [OF assms(1)]
    by (simp add: final_total_def computed_headline_def mult.commute)
qed

section \<open>Congruence\<close>

text \<open>The dictionary of a finding as the evidence builder reads it.\<close>

definition row_of :: "finding \<Rightarrow> finding_row" where
  "row_of f =
     \<lparr>fi_title = Some (fd_title f), fi_host = Some (fd_host f), fi_port = Some (fd_port f),
      fi_severity = Some (fd_severity f), fi_category = fd_category f\<rparr>"

lemma count_severities_get:
  "dict_get (count_severities fs) s 0 = int (length (filter (\<lambda>f. py_upper (fd_severity f) = s) fs))"
proof -
  have "count_list (map (\<lambda>f. py_upper (fd_severity f)) fs) s = length (filter (\<lambda>f. py_upper (fd_severity f) = s) fs)"
    by (induction fs) auto
  then show ?thesis unfolding count_severities_def bump_all_get by (simp add: dict_get_def)
qed

definition no_hidden_critical :: "finding \<Rightarrow> bool" where
  "no_hidden_critical f \<longleftrightarrow>
     py_upper (fd_severity f) = ''CRITICAL'' \<longrightarrow>
     fd_category f \<noteq> Some ''coverage_gap'' \<and> fd_category f \<noteq> Some ''config_advisory''"

lemma critical_counted:
  assumes "list_all no_hidden_critical fs"
  shows "count_at (scored_severity_counts (build_evidence_summary eps (map row_of fs) days reference)) ''CRITICAL''
    = dict_get (count_severities fs) ''CRITICAL'' 0"
proof -
  have sev: "severity_of (row_of f) = ''CRITICAL'' \<longleftrightarrow> py_upper (fd_severity f) = ''CRITICAL''" for f
    by (simp add: severity_of_def row_of_def py_upper_def)
  have "length (filter (\<lambda>f. severity_of f = ''CRITICAL'')
          (filter (\<lambda>f. \<not> score_neutral f) (counted_findings (map row_of fs))))
      = length (filter (\<lambda>f. py_upper (fd_severity f) = ''CRITICAL'') fs)"
    using assms
    by (induction fs)
      (auto simp: counted_findings_def score_neutral_def score_neutral_categories_def sev no_hidden_critical_def,
        auto simp: row_of_def)
  then show ?thesis
    by (simp add: build_evidence_summary_def Let_def summary_scored scored_count_at severity_names_def
        count_severities_get)
qed

lemma critical_is_poor:
  assumes "compute_readiness_score e p ws = Inr r" and "r_score r \<noteq> None"
    and "1 \<le> count_at (scored_severity_counts e) ''CRITICAL''"
  shows "r_rating r = ''POOR''"
proof -
  let ?xs = "assessed_scores (category_table (effective_weights p ws) e)"
  have "\<exists>x. map_option fst (lowest_ceiling e) = Some x \<and> x \<le> 34"
    using assms(3) by (cases "5 \<le> count_at (scored_severity_counts e) ''CRITICAL''") (simp_all add: lowest_ceiling_value)
  then have "final_total e ?xs \<le> 34"
    using final_total_table_bounds [OF compute_divisor(1) [OF assms(1,2)], of e] by fastforce
  then show ?thesis
    using compute_assessed [OF compute_divisor(1) [OF assms(1,2)]] assms(1) by (auto simp: band_simps)
qed

text \<open>When the score was computed from the same findings and no CRITICAL finding is hidden in a
  score-neutral category, the executive content is built with the score and its band: the
  congruence guard does not fire.\<close>

lemma congruent_content:
  assumes "list_all no_hidden_critical fs"
    and "compute_readiness_score (build_evidence_summary eps (map row_of fs) days reference) p ws = Inr r"
  shows "\<exists>c. build_exec_content r fs items projected = Inr c \<and> ec_score_total c = r_score r \<and>
    ec_score_band c = r_rating r"
proof -
  have "check_congruence (r_rating r) (count_severities fs) = Inr ()" if "r_score r \<noteq> None"
  proof (cases "1 \<le> dict_get (count_severities fs) ''CRITICAL'' 0")
    case True
    then have "r_rating r = ''POOR''"
      using critical_is_poor [OF assms(2) that] by (simp add: critical_counted [OF assms(1)])
    then show ?thesis by (simp add: check_congruence_def band_simps)
  next
    case False
    have "band_allowance b = Some t \<Longrightarrow> 0 \<le> t" for b t
      by (auto simp: band_simps split: if_splits)
    with False show ?thesis
      by (fastforce simp: check_congruence_def Let_def split: option.split)
  qed
  moreover obtain risks where "build_top_risks fs = Inr risks"
    using top_risks_total by blast
  ultimately show ?thesis by (auto simp: build_exec_content_def Let_def)
qed

end
