(* ===== verification/Findings_Pipeline.thy ===== *)
theory Findings_Pipeline
  imports Findings_Properties Content_Properties
begin

text \<open>
  From rows to findings to evidence to score to the executive content: what the evaluators and the
  evidence builder agree on, and that a report built this way never contradicts itself.
\<close>

section \<open>Properties of every finding\<close>

lemma build_all_member:
  "build_all h p ds = Inr fs \<Longrightarrow> f \<in> set fs \<Longrightarrow> \<exists>d \<in> set ds. build_finding h p d = Inr f"
  by (induction ds arbitrary: fs) (auto simp: bind_err_Inr)

lemma rows_member:
  "findings_of_rows rule es = Inr fs \<Longrightarrow> f \<in> set fs \<Longrightarrow>
   \<exists>e \<in> set es. \<exists>ds. rule e = Inr ds \<and> (\<exists>d \<in> set ds. build_finding (ep_host e) (ep_port e) d = Inr f)"
proof (induction es arbitrary: fs)
  case (Cons e es)
  then show ?case using build_all_member by (fastforce simp: bind_err_Inr)
qed simp

lemma saml_member:
  "saml_findings es seen = Inr fs \<Longrightarrow> f \<in> set fs \<Longrightarrow>
   \<exists>e \<in> set es. \<exists>s. \<exists>d \<in> set (fst (saml_step e s)). build_finding (ep_host e) (ep_port e) d = Inr f"
proof (induction es arbitrary: fs seen)
  case (Cons e es)
  show ?case
  proof (cases "proto_of e = ''SAML''")
    case True
    obtain ds seen' where step: "saml_step e seen = (ds, seen')" by fastforce
    with Cons.prems True obtain fs1 fs2 where parts: "build_all (ep_host e) (ep_port e) ds = Inr fs1"
      "saml_findings es seen' = Inr fs2" "fs = fs1 @ fs2"
      by (auto simp: bind_err_Inr)
    show ?thesis
    proof (cases "f \<in> set fs1")
      case True
      with build_all_member [OF parts(1)] step show ?thesis by (metis fst_conv list.set_intros(1))
    next
      case False
      with Cons.IH [OF parts(2)] Cons.prems(2) parts(3) show ?thesis by auto
    qed
  next
    case False
    with Cons.IH [of seen fs] Cons.prems show ?thesis by auto
  qed
qed simp

lemma build_fields:
  assumes "build_finding h p d = Inr f"
  shows "fd_severity f = dr_severity d" "fd_category f = dr_category d" "fd_title f = dr_title d"
    "fd_host f = h" "fd_port f = p" "fd_detail f = dr_detail d"
  using assms by (auto simp: build_finding_def proto_finding_def Let_def split: if_splits)

section \<open>Score-neutral findings are not CRITICAL\<close>

definition neutral_ok :: "draft \<Rightarrow> bool" where
  "neutral_ok d \<longleftrightarrow> (case dr_category d of None \<Rightarrow> True | Some _ \<Rightarrow> dr_severity d \<in> {''INFO'', ''HIGH''})"

lemma upper_names [simp]:
  "py_upper ''INFO'' = ''INFO''" "py_upper ''HIGH'' = ''HIGH''" "py_upper ''MEDIUM'' = ''MEDIUM''"
  "py_upper ''LOW'' = ''LOW''" "py_upper ''CRITICAL'' = ''CRITICAL''"
  by code_simp+

lemma neutral_draft [simp]: "neutral_ok (draft s t d r q c)"
  by (simp add: neutral_ok_def)

lemma neutral_update [simp]:
  "neutral_ok (d\<lparr>dr_detail := x\<rparr>) = neutral_ok d" "neutral_ok (d\<lparr>dr_saml_algorithm := z\<rparr>) = neutral_ok d"
  by (simp_all add: neutral_ok_def split: option.split)

lemmas tls_draft_defs = legacy_tls_draft_def legacy_suites_draft_def cert_expired_draft_def cert_expiring_draft_def
  self_signed_draft_def untrusted_ca_draft_def undersized_rsa_draft_def quantum_rsa_draft_def
  undersized_ecdsa_draft_def quantum_ecdsa_draft_def

lemmas container_draft_defs = openssl_eol_draft_def openssl_vulnerable_draft_def cryptography_severe_draft_def
  cryptography_outdated_draft_def pyopenssl_outdated_draft_def libgcrypt_outdated_draft_def crypto_library_draft_def

lemmas row_draft_defs = missing_extra_draft_def missing_binary_draft_def jwks_unverified_draft_def
  handshake_blocked_draft_def mtls_required_draft_def source_incomplete_draft_def protocol_observation_draft_def
  plaintext_http_draft_def ssh_planning_draft_def unknown_service_draft_def

lemmas service_draft_defs = starttls_downgrade_draft_def weak_email_cipher_draft_def non_pfs_email_draft_def
  plaintext_kafka_draft_def plaintext_amqp_draft_def plaintext_redis_draft_def weak_broker_tls_draft_def
  codesign_expired_draft_def codesign_expiring_draft_def codesign_weak_draft_def oidc_rs_draft_def
  saml_sha1_draft_def weak_saml_encryption_draft_def weak_saml_signing_draft_def unsigned_token_draft_def

lemma neutral_tls: "list_all neutral_ok (tls_drafts loads now e)"
  by (simp add: tls_drafts_def expiry_drafts_def trust_drafts_def key_drafts_def Let_def tls_draft_defs
      split: option.split)

lemma neutral_container: "neutral_ok (container_draft n v)"
  by (simp add: container_draft_def Let_def container_draft_defs split: option.split prod.split)

lemma neutral_error: "neutral_ok (error_draft e s)"
  by (simp add: error_draft_def Let_def row_draft_defs)

lemma neutral_notices:
  "neutral_ok ((missing_extra_draft m)\<lparr>dr_category := c\<rparr>)" "neutral_ok ((missing_binary_draft m)\<lparr>dr_category := c\<rparr>)"
  "neutral_ok ((jwks_unverified_draft h)\<lparr>dr_category := c\<rparr>)"
  by (simp_all add: neutral_ok_def missing_extra_draft_def missing_binary_draft_def jwks_unverified_draft_def
      split: option.split)

lemma neutral_endpoint: "list_all neutral_ok (endpoint_drafts loads now e)"
  by (simp add: endpoint_drafts_def Let_def neutral_tls neutral_container neutral_error neutral_notices
      plaintext_http_draft_def ssh_planning_draft_def unknown_service_draft_def)

lemma neutral_services:
  "list_all neutral_ok (email_drafts e)" "list_all neutral_ok (broker_drafts e)" "list_all neutral_ok (bearer_drafts e)"
  by (simp_all add: email_drafts_def broker_drafts_def bearer_drafts_def Let_def service_draft_defs)

lemma neutral_codesign: "codesign_drafts loads now e = Inr ds \<Longrightarrow> list_all neutral_ok ds"
  by (auto simp: codesign_drafts_def Let_def bind_err_Inr service_draft_defs split: if_splits)

lemma neutral_saml: "list_all neutral_ok (fst (saml_step e seen))"
  by (simp add: saml_step_def Let_def service_draft_defs split: option.split)

lemma neutral_finding: "build_finding h p d = Inr f \<Longrightarrow> neutral_ok d \<Longrightarrow> no_hidden_critical f"
  by (auto simp: no_hidden_critical_def neutral_ok_def build_fields split: option.splits)

lemma upgrade_hidden: "no_hidden_critical f \<Longrightarrow> no_hidden_critical (upgrade_finding designated eps f)"
  by (auto simp: no_hidden_critical_def upgrade_finding_def Let_def)

lemma normalize_hidden: "no_hidden_critical f \<Longrightarrow> no_hidden_critical (normalize_finding f)"
  using normalize_cases_severity [of f] by (auto simp: no_hidden_critical_def)

lemma derived_parts:
  assumes "derive_report_findings loads now designated eps = Inr fs"
  obtains a b c where "evaluate_endpoints loads now designated eps = Inr a"
    and "evaluate_protocol_service_endpoints loads now eps = Inr b"
    and "evaluate_identity_endpoints eps = Inr c" and "fs = a @ b @ c"
  using assms by (auto simp: derive_report_findings_def bind_err_Inr)

lemma hidden_rows:
  assumes "findings_of_rows rule es = Inr fs" and "\<And>e ds. rule e = Inr ds \<Longrightarrow> list_all neutral_ok ds"
  shows "list_all no_hidden_critical fs"
  using rows_member [OF assms(1)] assms(2) neutral_finding by (fastforce simp: list_all_iff)

lemma hidden_endpoints:
  assumes "evaluate_endpoints loads now designated eps = Inr fs"
  shows "list_all no_hidden_critical fs"
proof -
  from assms obtain gs where gs: "findings_of_rows (\<lambda>e. Inr (endpoint_drafts loads now e)) eps = Inr gs"
    and fs: "fs = postprocess_findings designated eps gs"
    by (auto simp: evaluate_endpoints_def bind_err_Inr)
  have "list_all no_hidden_critical gs"
    by (rule hidden_rows [OF gs]) (auto simp: neutral_endpoint)
  then show ?thesis
    using upgrade_hidden normalize_hidden by (auto simp: fs list_all_iff elim!: postprocess_member)
qed

lemma hidden_services:
  assumes "evaluate_protocol_service_endpoints loads now eps = Inr fs"
  shows "list_all no_hidden_critical fs"
proof -
  from assms obtain a b c d where parts: "findings_of_rows (\<lambda>e. Inr (email_drafts e))
        (filter (\<lambda>e. py_or_str (ep_protocol e) \<in> set email_protocols) eps) = Inr a"
      "findings_of_rows (\<lambda>e. Inr (broker_drafts e)) eps = Inr b"
      "findings_of_rows (codesign_drafts loads now) (filter (\<lambda>e. ep_protocol e = Some ''CODE_SIGNING'') eps) = Inr c"
      "findings_of_rows (\<lambda>e. Inr (bearer_drafts e)) (filter (\<lambda>e. ep_protocol e = Some ''BEARER_TOKEN'') eps) = Inr d"
    and fs: "fs = a @ b @ c @ d"
    by (auto simp: evaluate_protocol_service_endpoints_def bind_err_Inr)
  have "list_all no_hidden_critical a" "list_all no_hidden_critical b" "list_all no_hidden_critical c"
    "list_all no_hidden_critical d"
    by (rule hidden_rows [OF parts(1)] hidden_rows [OF parts(2)] hidden_rows [OF parts(3)] hidden_rows [OF parts(4)];
        auto simp: neutral_services intro: neutral_codesign)+
  then show ?thesis by (simp add: fs)
qed

lemma hidden_identity:
  assumes "evaluate_identity_endpoints eps = Inr fs"
  shows "list_all no_hidden_critical fs"
proof -
  have "no_hidden_critical f" if f: "f \<in> set fs" for f
  proof -
    obtain e s d where "d \<in> set (fst (saml_step e s))" and b: "build_finding (ep_host e) (ep_port e) d = Inr f"
      using saml_member [OF assms [unfolded evaluate_identity_endpoints_def] f] by blast
    then have "neutral_ok d" using neutral_saml [of e s] by (simp add: list_all_iff)
    with neutral_finding [OF b] show ?thesis by simp
  qed
  then show ?thesis by (simp add: list_all_iff)
qed

text \<open>C17: a report on a scan never contradicts itself: whatever the rows, if the findings can be
  derived and the score is computed from those rows and findings, the executive content is built
  with that score and band, and the guard on the headline never fires.\<close>

theorem reports_are_congruent:
  assumes "derive_report_findings loads now designated eps = Inr fs"
  shows "\<exists>r c. compute_readiness_score (build_evidence_summary eps (map row_of fs) days reference) p ws = Inr r \<and>
    build_exec_content r fs items projected = Inr c \<and> ec_score_total c = r_score r \<and> ec_score_band c = r_rating r"
proof -
  obtain r where r: "compute_readiness_score (build_evidence_summary eps (map row_of fs) days reference) p ws = Inr r"
    using compute_total by blast
  obtain a b d where "evaluate_endpoints loads now designated eps = Inr a"
    "evaluate_protocol_service_endpoints loads now eps = Inr b" "evaluate_identity_endpoints eps = Inr d"
    and fs: "fs = a @ b @ d"
    using assms by (rule derived_parts)
  then have "list_all no_hidden_critical fs"
    using hidden_endpoints hidden_services hidden_identity by (simp add: fs)
  then obtain c where "build_exec_content r fs items projected = Inr c \<and> ec_score_total c = r_score r \<and>
      ec_score_band c = r_rating r"
    using congruent_content [OF _ r] by blast
  with r show ?thesis by blast
qed

theorem reports_are_congruent_witness:
  "\<exists>fs. derive_report_findings (\<lambda>_. None) 0 [] [closed_row] = Inr fs \<and>
     (\<exists>r c. compute_readiness_score (build_evidence_summary [closed_row] (map row_of fs) 30 None) None [] = Inr r \<and>
        build_exec_content r fs [] None = Inr c \<and> ec_score_total c = r_score r \<and> ec_score_band c = r_rating r)"
proof -
  have "\<not> blank_notice closed_row \<and> codesign_readable (\<lambda>_. None) closed_row"
    by (simp add: blank_notice_def codesign_readable_def closed_row_def)
  then obtain fs where fs: "derive_report_findings (\<lambda>_. None) 0 [] [closed_row] = Inr fs"
    using derived_iff [of "\<lambda>_. None" 0 "[]" "[closed_row]"] by auto
  from reports_are_congruent [OF fs] fs show ?thesis by blast
qed

end
