(* ===== verification/Findings_Agreement.thy ===== *)
theory Findings_Agreement
  imports Findings_Pipeline Evidence_Counts
begin

text \<open>
  Where two parts of the program look at the same row: the findings of the evaluator and the
  counters of the evidence, and the advice attached to a finding.
\<close>

section \<open>Legacy TLS\<close>

definition has_title :: "string \<Rightarrow> draft list \<Rightarrow> bool" where
  "has_title t ds \<longleftrightarrow> list_ex (\<lambda>d. dr_title d = t) ds"

lemma has_title_simps [simp]:
  "has_title t [] = False" "has_title t (d # ds) \<longleftrightarrow> dr_title d = t \<or> has_title t ds"
  "has_title t (ds @ es) \<longleftrightarrow> has_title t ds \<or> has_title t es"
  "has_title t (if b then ds else es) \<longleftrightarrow> (if b then has_title t ds else has_title t es)"
  by (simp_all add: has_title_def)

lemma legacy_title_tls:
  "has_title ''Legacy TLS versions allowed (TLS 1.0/1.1)'' (tls_drafts loads now e) \<longleftrightarrow>
   ep_protocol e = Some ''TLS'' \<and> has_legacy_tls_versions e"
  by (simp add: tls_drafts_def expiry_drafts_def trust_drafts_def key_drafts_def Let_def tls_draft_defs
      runs_tls_certificate_checks_def split: option.split)

lemma legacy_title_container: "dr_title (container_draft n v) \<noteq> ''Legacy TLS versions allowed (TLS 1.0/1.1)''"
  by (simp add: container_draft_def Let_def container_draft_defs split: option.split prod.split)

lemma legacy_title_error: "dr_title (error_draft e s) \<noteq> ''Legacy TLS versions allowed (TLS 1.0/1.1)''"
  by (simp add: error_draft_def Let_def row_draft_defs)

lemma legacy_counted:
  "''legacy_tls_count'' \<in> set (coverage_marks e) \<longleftrightarrow> proto_of e = ''TLS'' \<and> has_legacy_tls_versions e"
  by (auto simp: coverage_marks_def Let_def has_legacy_tls_versions_def)

text \<open>The finding on legacy TLS versions and the counter the score reads look at the same signal:
  a row gives the finding exactly when it gives the count, has the protocol in capitals and was
  scanned without an error; a row with an error, or with another spelling of the protocol, is counted
  without a finding.\<close>

theorem legacy_finding_vs_counter:
  "has_title ''Legacy TLS versions allowed (TLS 1.0/1.1)'' (endpoint_drafts loads now e) \<longleftrightarrow>
   ''legacy_tls_count'' \<in> set (coverage_marks e) \<and> ep_protocol e = Some ''TLS'' \<and> py_or_str (ep_scan_error e) = []"
proof -
  have up: "py_upper ''TLS'' = ''TLS''" by code_simp
  show ?thesis
    unfolding legacy_counted
    by (auto simp: endpoint_drafts_def Let_def legacy_title_tls legacy_title_container legacy_title_error
        row_draft_defs proto_of_def py_or_str_def up)
qed

section \<open>Bearer tokens\<close>

text \<open>A bearer token is charged exactly once: as an unsigned token or as a weak algorithm, never as
  both, and not at all exactly when it neither declares an algorithm nor is marked as declaring
  none.\<close>

theorem bearer_token_charged_once:
  "length (bearer_drafts e) + count_list (api_marks ''BEARER_TOKEN'' e) ''bearer_token_weak_alg_count'' =
   (if py_or_str (ep_cert_pubkey_alg e) = [] \<and> \<not> has_substring bearer_alg_absent_marker (detail_of e) then 0 else 1)"
  by (auto simp: bearer_drafts_def api_marks_def Let_def is_unsigned_jwt_alg_def mark_def)

section \<open>Plaintext on TLS ports\<close>

text \<open>C23: the evaluator never reports a plaintext HTTP service on a port designated for TLS: there
  the finding always becomes one of mutual TLS, blocked handshake or HTTP on a TLS port.\<close>

theorem no_plaintext_on_tls_ports:
  assumes "evaluate_endpoints loads now designated eps = Inr fs"
  shows "list_all (\<lambda>f. \<not> (fd_port f \<in> set well_known_tls_ports \<union> set designated \<and>
    fd_title f = ''Plaintext HTTP service detected'')) fs"
  using assms no_plaintext_after_postprocessing
  by (fastforce simp: evaluate_endpoints_def bind_err_Inr list_all_iff)

theorem no_plaintext_on_tls_ports_witness:
  "\<exists>fs. evaluate_endpoints (\<lambda>_. None) 0 [8080] [closed_row\<lparr>ep_protocol := Some ''HTTP'', ep_scan_error := None\<rparr>] = Inr fs \<and>
     list_all (\<lambda>f. \<not> (fd_port f \<in> set well_known_tls_ports \<union> set [8080] \<and>
       fd_title f = ''Plaintext HTTP service detected'')) fs"
proof -
  have "\<not> blank_notice (closed_row\<lparr>ep_protocol := Some ''HTTP'', ep_scan_error := None\<rparr>)"
    by (simp add: blank_notice_def)
  then obtain fs where
    "evaluate_endpoints (\<lambda>_. None) 0 [8080] [closed_row\<lparr>ep_protocol := Some ''HTTP'', ep_scan_error := None\<rparr>] = Inr fs"
    using evaluate_iff [of "\<lambda>_. None" 0 "[8080]"] by fastforce
  with no_plaintext_on_tls_ports [OF this] show ?thesis by blast
qed

section \<open>Advice\<close>

lemma non_pfs_class: "classify_finding (proto_finding h p non_pfs_email_draft) = Some ''DH''"
  by code_simp

text \<open>The finding about elliptic-curve key exchange on mail (ECDHE below TLS 1.3) always carries the
  advice for finite-field Diffie-Hellman: the keyword DH is found inside ECDHE, and the text the
  evaluator wrote is replaced.\<close>

theorem ecdhe_finding_gets_dh_advice:
  "\<exists>f. build_finding h p non_pfs_email_draft = Inr f \<and>
     map_of remediation_catalog ''DH'' = Some (fd_recommendation f)"
proof -
  obtain f where f: "build_finding h p non_pfs_email_draft = Inr f"
    using build_finding_iff by fastforce
  moreover have "map_of remediation_catalog ''DH'' \<noteq> None" by (simp add: remediation_catalog_def)
  ultimately show ?thesis
    by (auto simp: build_finding_def Let_def non_pfs_class recommendation_for_def split: if_splits)
qed

end
