(* ===== verification/Roadmap_Properties.thy ===== *)
theory Roadmap_Properties
  imports Roadmap Scoring_Properties
begin

text \<open>
  What is on the roadmap: exactly the triggered items, the baseline items the minimum asks for and
  the governance item, without repetition and in order; and what the triggers share with the score.
\<close>

section \<open>The merge keeps new titles in order\<close>

definition keyed :: "candidate list \<Rightarrow> (string \<times> candidate) list" where
  "keyed cs = map (\<lambda>c. (re_title c, c)) cs"

lemma keyed_simps [simp]:
  "fst ` set (keyed cs) = re_title ` set cs" "length (keyed cs) = length cs" "map snd (keyed cs) = cs"
  "keyed (cs @ ds) = keyed cs @ keyed ds" "keyed [c] = [(re_title c, c)]" "keyed [] = []"
  by (simp_all add: keyed_def o_def image_image)

lemma add_new:
  assumes "re_title c \<notin> re_title ` set cs"
  shows "add_candidate c (keyed cs) = keyed (cs @ [c])"
proof -
  have "map_of (keyed cs) (re_title c) = None"
    using assms by (simp add: map_of_eq_None_iff)
  with assms show ?thesis by (simp add: add_candidate_def dict_put_new)
qed

lemma add_again:
  assumes "distinct (map re_title cs)" and "c \<in> set cs"
  shows "add_candidate c (keyed cs) = keyed cs"
proof -
  have "map_of (keyed cs) (re_title c) = Some c"
    using assms by (intro map_of_is_SomeI) (auto simp: keyed_def o_def)
  then show ?thesis by (simp add: add_candidate_def)
qed

lemma fold_add_new:
  "distinct (map re_title (cs @ ds)) \<Longrightarrow> fold add_candidate ds (keyed cs) = keyed (cs @ ds)"
proof (induction ds arbitrary: cs)
  case (Cons d ds)
  have "add_candidate d (keyed cs) = keyed (cs @ [d])"
    using Cons.prems by (intro add_new) (auto simp: image_iff)
  then show ?case using Cons.IH [of "cs @ [d]"] Cons.prems by simp
qed simp

lemma add_while_short_new:
  "distinct (map re_title (cs @ bs)) \<Longrightarrow>
   add_while_short m bs (keyed cs) = keyed (cs @ take (nat (m - int (length cs))) bs)"
proof (induction bs arbitrary: cs)
  case (Cons b bs)
  show ?case
  proof (cases "m \<le> int (length cs)")
    case False
    have "add_candidate b (keyed cs) = keyed (cs @ [b])"
      using Cons.prems by (intro add_new) (auto simp: image_iff)
    moreover have "nat (m - int (length cs)) = Suc (nat (m - int (length (cs @ [b]))))"
      using False by simp
    ultimately show ?thesis using Cons.IH [of "cs @ [b]"] Cons.prems False by simp
  qed simp
qed simp

section \<open>The chosen items\<close>

definition driver_titles :: "string list" where
  "driver_titles =
     [''Remove plaintext HTTP exposure'', ''Triage high-impact findings'', ''Replace expired certificates'',
      ''Increase scan coverage'', ''Classify unknown open services'', ''Renew near-expiry certificates'',
      ''Migrate self-signed certificates to managed PKI'', ''Disable legacy TLS versions'',
      ''Increase TLS enumeration coverage'', ''Plan post-quantum (PQC/hybrid) certificate adoption'',
      ''Standardize mTLS lifecycle operations'']"

definition triggered ::
    "(real \<Rightarrow> string) \<Rightarrow> (string \<Rightarrow> real option) \<Rightarrow> evidence \<Rightarrow> string list \<Rightarrow> candidate list" where
  "triggered ft tf e reasons = map snd (filter fst (driver_items ft tf e reasons))"

lemma driver_item_titles: "map (\<lambda>p. re_title (snd p)) (driver_items ft tf e reasons) = driver_titles"
  by (simp add: driver_items_def driver_titles_def new_candidate_def)

lemma title_facts:
  "distinct (driver_titles @ map re_title baseline)" "length driver_titles = 11" "length baseline = 3"
  by code_simp+

lemma triggered_titles:
  "distinct (map re_title (triggered ft tf e reasons))"
  "re_title ` set (triggered ft tf e reasons) \<subseteq> set driver_titles"
  "length (triggered ft tf e reasons) \<le> 11"
proof -
  have d: "distinct (map (\<lambda>p. re_title (snd p)) (driver_items ft tf e reasons))"
    using title_facts(1) by (simp add: driver_item_titles)
  show "distinct (map re_title (triggered ft tf e reasons))"
    using distinct_map_filter [OF d, of fst] by (simp add: triggered_def o_def)
  show "re_title ` set (triggered ft tf e reasons) \<subseteq> set driver_titles"
    by (auto simp: triggered_def driver_item_titles [symmetric, of ft tf e reasons])
  show "length (triggered ft tf e reasons) \<le> 11"
    using arg_cong [OF driver_item_titles [of ft tf e reasons], of length] title_facts(2)
    by (simp add: triggered_def) (metis length_filter_le)
qed

definition chosen :: "candidate list \<Rightarrow> int \<Rightarrow> candidate list" where
  "chosen ts m = ts @ take (min 2 (nat (m - int (length ts)))) baseline @ [governance_item]"

lemma baseline_last: "baseline = take 2 baseline @ [governance_item]"
  by (simp add: baseline_def)

lemma baseline_takes: "take n baseline = take (min 2 n) baseline @ (if n < 3 then [] else [governance_item])"
proof (cases "n < 3")
  case True
  then have "min 2 n = n" by simp
  with True show ?thesis by simp
next
  case False
  then show ?thesis using baseline_last title_facts(3) by (simp add: min_def)
qed

lemma triggered_baseline_distinct: "distinct (map re_title (triggered ft tf e reasons @ baseline))"
  using triggered_titles [of ft tf e reasons] title_facts(1) by auto

lemma chosen_titles: "distinct (map re_title (chosen (triggered ft tf e reasons) m))"
proof -
  let ?ts = "triggered ft tf e reasons"
  have all: "distinct (map re_title ?ts)" "distinct (map re_title baseline)"
    "set (map re_title ?ts) \<inter> set (map re_title baseline) = {}"
    using triggered_baseline_distinct [of ft tf e reasons] by simp_all
  let ?b = "take (min 2 (nat (m - int (length ?ts)))) baseline @ [governance_item]"
  have "distinct (map re_title ?b)" and "set (map re_title ?b) \<subseteq> set (map re_title baseline)"
    by (simp_all add: baseline_def governance_item_def new_candidate_def take_Cons' min_def)
  with all show ?thesis unfolding chosen_def by (simp add: disjoint_iff) blast
qed

lemma chosen_known:
  "re_title ` set (chosen (triggered ft tf e rs) m) \<subseteq> set driver_titles \<union> re_title ` set baseline"
  using triggered_titles(2) [of ft tf e rs] by (auto simp: chosen_def baseline_def dest!: in_set_takeD)

lemma starters_apart:
  "(set driver_titles \<union> re_title ` set baseline) \<inter> re_title ` set starter_plan = {}"
  "distinct (map re_title starter_plan)" "length starter_plan = 3"
  by (simp_all add: driver_titles_def baseline_def governance_item_def new_candidate_def starter_plan_def)

lemma starters_apart_take:
  "re_title ` set (chosen (triggered ft tf e rs) m) \<inter> re_title ` set (take n starter_plan) = {}"
  using chosen_known [of ft tf e rs m] starters_apart(1) image_mono [OF set_take_subset [of n starter_plan], of re_title]
  by blast

lemma chosen_candidates_eq:
  "chosen_candidates ft tf e reasons m = keyed (chosen (triggered ft tf e reasons) m)"
proof -
  let ?ts = "triggered ft tf e reasons" and ?n = "nat (m - int (length (triggered ft tf e reasons)))"
  have "fold add_candidate ?ts [] = keyed ?ts"
    using fold_add_new [of "[]" ?ts] triggered_titles(1) by simp
  then have short: "chosen_candidates ft tf e reasons m = add_governance m (keyed (?ts @ take ?n baseline))"
    using add_while_short_new [OF triggered_baseline_distinct]
    by (simp add: chosen_candidates_def triggered_def)
  show ?thesis
  proof (cases "?n < 3")
    case True
    have "re_title governance_item \<notin> re_title ` set (?ts @ take (min 2 ?n) baseline)"
      using chosen_titles [of ft tf e reasons m] by (auto simp: chosen_def)
    moreover from True have "take ?n baseline = take (min 2 ?n) baseline" by simp
    ultimately show ?thesis
      unfolding short add_governance_def chosen_def
      by (simp add: add_new map_of_eq_None_iff [THEN iffD2] image_Un flip: keyed_simps(4))
  next
    case False
    then have t: "?ts @ take ?n baseline = chosen ?ts m"
      by (simp add: baseline_takes [of ?n] chosen_def)
    have "add_candidate governance_item (keyed (chosen ?ts m)) = keyed (chosen ?ts m)"
      by (rule add_again [OF chosen_titles]) (simp add: chosen_def)
    then show ?thesis unfolding short t add_governance_def by simp
  qed
qed

section \<open>The finished roadmap\<close>

lemma add_starters_none: "m \<le> int (length items) \<Longrightarrow> add_starters m ss items = items"
  by (cases ss) simp_all

lemma add_starters_eq:
  "distinct (map re_title ss) \<Longrightarrow> re_title ` set ss \<inter> re_title ` set items = {} \<Longrightarrow>
   add_starters m ss items = items @ take (nat (m - int (length items))) ss"
proof (induction ss arbitrary: items)
  case (Cons s ss)
  show ?case
  proof (cases "m \<le> int (length items)")
    case False
    have "nat (m - int (length items)) = Suc (nat (m - int (length (items @ [s]))))"
      using False by simp
    moreover have "re_title ` set ss \<inter> re_title ` set (items @ [s]) = {}"
      using Cons.prems by (auto simp: image_iff)
    ultimately show ?thesis using Cons.IH [of "items @ [s]"] Cons.prems False by simp
  qed simp
qed simp

lemma entry_of_title [simp]: "re_title (entry_of c) = re_title c" "re_phase (entry_of c) = re_phase c"
  by (simp_all add: entry_of_def)

definition ordered_items :: "candidate list \<Rightarrow> int \<Rightarrow> int \<Rightarrow> roadmap_entry list" where
  "ordered_items ts m mx = map entry_of (take (nat mx) (sort_key candidate_key (chosen ts m)))"

lemma roadmap_items_eq:
  assumes "1 \<le> m" and "m \<le> mx"
  shows "rm_items (build_phased_roadmap ft tf e drivers m mx) =
    (let items = ordered_items (triggered ft tf e (driver_reasons drivers)) m mx in
     if endpoint_total e = 0 then items @ take (nat (m - int (length items))) starter_plan else items)"
proof -
  let ?ts = "triggered ft tf e (driver_reasons drivers)"
  have "set (take (nat mx) (sort_key candidate_key (chosen ?ts m))) \<subseteq> set (chosen ?ts m)"
    using set_take_subset [of "nat mx" "sort_key candidate_key (chosen ?ts m)"] by simp
  then have "re_title ` set (ordered_items ?ts m mx) \<subseteq> re_title ` set (chosen ?ts m)"
    by (simp add: ordered_items_def image_image image_mono)
  then have "re_title ` set starter_plan \<inter> re_title ` set (ordered_items ?ts m mx) = {}"
    using chosen_known [of ft tf e "driver_reasons drivers" m] starters_apart(1) by blast
  then have starters: "add_starters m starter_plan (ordered_items ?ts m mx)
      = ordered_items ?ts m mx @ take (nat (m - int (length (ordered_items ?ts m mx)))) starter_plan"
    by (rule add_starters_eq [OF starters_apart(2)])
  have "max 1 m = m" and "max m mx = mx" using assms by simp_all
  then have "rm_items (build_phased_roadmap ft tf e drivers m mx) =
      (let items = ordered_items ?ts m mx in
       if endpoint_total e = 0 \<and> int (length items) < m then add_starters m starter_plan items else items)"
    by (simp add: build_phased_roadmap_def Let_def chosen_candidates_eq ordered_items_def)
  then show ?thesis
    unfolding Let_def starters by simp
qed

text \<open>With the default sizes nothing is cut off.\<close>

lemma chosen_length: "length (chosen ts 6) = length ts + min 2 (6 - length ts) + 1"
  by (simp add: chosen_def title_facts(3) nat_diff_distrib' min_def)

lemma ordered_items_default:
  assumes "length ts \<le> 11"
  shows "ordered_items ts 6 12 = map entry_of (sort_key candidate_key (chosen ts 6))"
proof -
  have "length (chosen ts 6) \<le> 12"
    unfolding chosen_length using assms by (cases "length ts < 6") simp_all
  then show ?thesis by (simp add: ordered_items_def)
qed

lemma default_items:
  "rm_items (build_phased_roadmap ft tf e drivers 6 12) =
    (let ts = triggered ft tf e (driver_reasons drivers);
         items = map entry_of (sort_key candidate_key (chosen ts 6)) in
     if endpoint_total e = 0 then items @ take (6 - length (chosen ts 6)) starter_plan else items)"
  using roadmap_items_eq [of 6 12 ft tf e drivers]
  by (simp add: Let_def ordered_items_default [OF triggered_titles(3)] nat_diff_distrib')

section \<open>Which items are offered\<close>

definition offered :: "roadmap \<Rightarrow> string \<Rightarrow> bool" where
  "offered r title \<longleftrightarrow> list_ex (\<lambda>i. re_title i = title) (rm_items r)"

lemma offered_titles: "offered r title \<longleftrightarrow> title \<in> re_title ` set (rm_items r)"
  by (auto simp: offered_def list_ex_iff)

lemma default_entries:
  "set (rm_items (build_phased_roadmap ft tf e drivers 6 12)) =
     entry_of ` set (chosen (triggered ft tf e (driver_reasons drivers)) 6) \<union>
     (if endpoint_total e = 0
      then set (take (6 - length (chosen (triggered ft tf e (driver_reasons drivers)) 6)) starter_plan) else {})"
  by (simp add: default_items Let_def)

lemma default_titles:
  "offered (build_phased_roadmap ft tf e drivers 6 12) title \<longleftrightarrow>
     title \<in> re_title ` set (chosen (triggered ft tf e (driver_reasons drivers)) 6) \<or>
     (endpoint_total e = 0 \<and>
      title \<in> re_title ` set (take (6 - length (chosen (triggered ft tf e (driver_reasons drivers)) 6)) starter_plan))"
  unfolding offered_titles default_entries by (simp add: image_Un image_image)

lemma other_titles:
  "t \<in> set driver_titles \<Longrightarrow> t \<notin> re_title ` set (take n baseline @ [governance_item])"
  "t \<in> set driver_titles \<Longrightarrow> t \<notin> re_title ` set (take n starter_plan)"
proof -
  have b: "list_all (\<lambda>t. t \<notin> re_title ` set baseline \<and> t \<notin> re_title ` set starter_plan) driver_titles"
    by code_simp
  have "governance_item \<in> set baseline" by (simp add: baseline_def)
  then have "re_title ` set (take n baseline @ [governance_item]) \<subseteq> re_title ` set baseline"
    using set_take_subset [of n baseline] by auto
  with b show "t \<in> set driver_titles \<Longrightarrow> t \<notin> re_title ` set (take n baseline @ [governance_item])"
    by (auto simp: list_all_iff)
  show "t \<in> set driver_titles \<Longrightarrow> t \<notin> re_title ` set (take n starter_plan)"
    using b set_take_subset [of n starter_plan] by (auto simp: list_all_iff)
qed

lemma driver_offered:
  assumes "(b, c) \<in> set (driver_items ft tf e (driver_reasons drivers))"
  shows "offered (build_phased_roadmap ft tf e drivers 6 12) (re_title c) \<longleftrightarrow> b"
    and "entry_of c \<in> set (rm_items (build_phased_roadmap ft tf e drivers 6 12)) \<longleftrightarrow> b"
proof -
  let ?d = "driver_items ft tf e (driver_reasons drivers)" and ?r = "build_phased_roadmap ft tf e drivers 6 12"
  have d: "distinct (map (\<lambda>p. re_title (snd p)) ?d)"
    using title_facts(1) by (simp add: driver_item_titles)
  have title: "re_title c \<in> set driver_titles"
    using assms by (force simp: driver_item_titles [symmetric, of ft tf e "driver_reasons drivers"])
  have "re_title c \<in> re_title ` set (triggered ft tf e (driver_reasons drivers)) \<longleftrightarrow> b"
  proof
    assume "re_title c \<in> re_title ` set (triggered ft tf e (driver_reasons drivers))"
    then obtain c' where "(True, c') \<in> set ?d" and "re_title c' = re_title c"
      by (auto simp: triggered_def)
    then have "(True, c') = (b, c)"
      using inj_onD [OF distinct_map [THEN iffD1, OF d, THEN conjunct2], of "(True, c')" "(b, c)"] assms by simp
    then show b by simp
  next
    assume b
    with assms show "re_title c \<in> re_title ` set (triggered ft tf e (driver_reasons drivers))"
      by (force simp: triggered_def)
  qed
  then show off: "offered ?r (re_title c) \<longleftrightarrow> b"
    unfolding default_titles using other_titles [OF title] by (auto simp: chosen_def)
  show "entry_of c \<in> set (rm_items ?r) \<longleftrightarrow> b"
  proof
    assume "entry_of c \<in> set (rm_items ?r)"
    then show b using off by (force simp: offered_def list_ex_iff)
  next
    assume b
    then have "c \<in> set (triggered ft tf e (driver_reasons drivers))"
      using assms by (force simp: triggered_def)
    then show "entry_of c \<in> set (rm_items ?r)" by (simp add: default_entries chosen_def)
  qed
qed

text \<open>C24: the roadmap offers an item exactly when the evidence triggers it: at the default sizes no
  driver item is lost to the cut at twelve, displaced by a baseline item or offered without its
  trigger, and it appears with the text computed from the counters.\<close>

theorem roadmap_offers_what_is_triggered:
  assumes "(b, c) \<in> set (driver_items ft tf e (driver_reasons drivers))"
  shows "(offered (build_phased_roadmap ft tf e drivers 6 12) (re_title c) \<longleftrightarrow> b) \<and>
    (entry_of c \<in> set (rm_items (build_phased_roadmap ft tf e drivers 6 12)) \<longleftrightarrow> b)"
  using driver_offered [OF assms] by simp

theorem roadmap_offers_what_is_triggered_witness:
  "let e = [(''plaintext_http_count'', PyInt 2)]; c = snd (driver_items (\<lambda>_. []) (\<lambda>_. None) e [] ! 0) in
   (offered (build_phased_roadmap (\<lambda>_. []) (\<lambda>_. None) e [] 6 12) (re_title c) \<longleftrightarrow> True) \<and>
   (entry_of c \<in> set (rm_items (build_phased_roadmap (\<lambda>_. []) (\<lambda>_. None) e [] 6 12)) \<longleftrightarrow> True)"
  unfolding Let_def
proof (rule roadmap_offers_what_is_triggered)
  have "driver_reasons [] = []" by (simp add: driver_reasons_def)
  then show "(True, snd (driver_items (\<lambda>_. []) (\<lambda>_. None) [(''plaintext_http_count'', PyInt 2)] [] ! 0))
      \<in> set (driver_items (\<lambda>_. []) (\<lambda>_. None) [(''plaintext_http_count'', PyInt 2)] (driver_reasons []))"
    by (simp add: driver_items_def plaintext_total_def count_at_def dict_get_def as_int_def py_int_def)
qed

section \<open>Shape\<close>

lemma chosen_sorted_titles:
  "distinct (map re_title (map entry_of (sort_key candidate_key (chosen (triggered ft tf e rs) m))))"
  using chosen_titles [of ft tf e rs m] by (simp add: distinct_map inj_on_def)

lemma lex_fst: "p \<le> q \<Longrightarrow> fst p \<le> fst (q :: 'a::order \<times> 'b::order)"
  by (auto simp: less_eq_prod_def)

lemma sorted_by_phase: "sorted (map (\<lambda>i. phase_rank (re_phase i)) (map entry_of (sort_key candidate_key cs)))"
proof -
  have "sorted_wrt (\<lambda>a b. candidate_key a \<le> candidate_key b) (sort_key candidate_key cs)"
    using sorted_sort_key [of candidate_key cs] by (simp add: sorted_map)
  then have "sorted_wrt (\<lambda>a b. phase_rank (re_phase a) \<le> phase_rank (re_phase b)) (sort_key candidate_key cs)"
    by (rule sorted_wrt_mono_rel [rotated]) (auto simp: candidate_key_def dest: lex_fst)
  then show ?thesis by (simp add: sorted_map o_def)
qed

lemma count_phase: "count_list (map re_phase items) ph = length (filter (\<lambda>i. re_phase i = ph) items)"
  by (induction items) auto

lemma phase_counts_get:
  "list_all (\<lambda>ph. dict_get (phase_counts items) ph 0 = int (length (filter (\<lambda>i. re_phase i = ph) items)))
     [''NOW'', ''NEXT'', ''LATER'']"
  unfolding phase_counts_def bump_all_get count_phase by (simp add: dict_get_def)

lemma roadmap_counts: "rm_phase_counts (build_phased_roadmap ft tf e drivers m mx)
    = phase_counts (rm_items (build_phased_roadmap ft tf e drivers m mx))"
  by (simp add: build_phased_roadmap_def Let_def)

lemma roadmap_titles_distinct:
  "distinct (map re_title (rm_items (build_phased_roadmap ft tf e drivers 6 12)))"
proof -
  let ?ts = "triggered ft tf e (driver_reasons drivers)"
  let ?base = "map entry_of (sort_key candidate_key (chosen ?ts 6))" and ?n = "6 - length (chosen ?ts 6)"
  have "set (map re_title ?base) \<inter> set (map re_title (take ?n starter_plan)) = {}"
    using starters_apart_take [of ft tf e "driver_reasons drivers" 6 ?n] by (simp add: image_image)
  then show ?thesis
    using chosen_sorted_titles [of ft tf e "driver_reasons drivers" 6] starters_apart(2)
    by (simp add: default_items Let_def distinct_take flip: take_map)
qed

text \<open>C25: the shape of the default roadmap: no title appears twice, the governance item is always
  there, there are three to twelve items (fewer than six exactly when something was observed and
  fewer than three drivers fired), the phase counts count the items, and unless the scan was empty
  the items stand in phase order.\<close>

theorem roadmap_shape:
  "let r = build_phased_roadmap ft tf e drivers 6 12;
       fired = length (triggered ft tf e (driver_reasons drivers)) in
   distinct (map re_title (rm_items r)) \<and> offered r ''Establish crypto governance review'' \<and>
   rm_item_count r = length (rm_items r) \<and> 3 \<le> rm_item_count r \<and> rm_item_count r \<le> 12 \<and>
   (rm_item_count r < 6 \<longleftrightarrow> endpoint_total e \<noteq> 0 \<and> fired < 3) \<and>
   list_all (\<lambda>ph. dict_get (rm_phase_counts r) ph 0 = int (length (filter (\<lambda>i. re_phase i = ph) (rm_items r))))
     [''NOW'', ''NEXT'', ''LATER''] \<and>
   (endpoint_total e = 0 \<or> sorted (map (\<lambda>i. phase_rank (re_phase i)) (rm_items r)))"
proof -
  let ?r = "build_phased_roadmap ft tf e drivers 6 12" and ?ts = "triggered ft tf e (driver_reasons drivers)"
  let ?base = "map entry_of (sort_key candidate_key (chosen ?ts 6))" and ?n = "6 - length (chosen ?ts 6)"
  have items: "rm_items ?r = (if endpoint_total e = 0 then ?base @ take ?n starter_plan else ?base)"
    by (simp add: default_items Let_def)
  have "distinct (map re_title (rm_items ?r))" by (rule roadmap_titles_distinct)
  moreover have "offered ?r ''Establish crypto governance review''"
    by (simp add: default_titles chosen_def governance_item_def new_candidate_def)
  moreover have count: "rm_item_count ?r = length (rm_items ?r)"
    by (simp add: build_phased_roadmap_def Let_def)
  moreover have len: "length (rm_items ?r) =
      length (chosen ?ts 6) + (if endpoint_total e = 0 then min 3 (6 - length (chosen ?ts 6)) else 0)"
    by (simp add: items starters_apart(3))
  moreover have "3 \<le> length (rm_items ?r) \<and> length (rm_items ?r) \<le> 12 \<and>
      (length (rm_items ?r) < 6 \<longleftrightarrow> endpoint_total e \<noteq> 0 \<and> length ?ts < 3)"
    unfolding len chosen_length using triggered_titles(3) [of ft tf e "driver_reasons drivers"]
    by (auto simp: min_def)
  moreover have "list_all (\<lambda>ph. dict_get (rm_phase_counts ?r) ph 0
      = int (length (filter (\<lambda>i. re_phase i = ph) (rm_items ?r)))) [''NOW'', ''NEXT'', ''LATER'']"
    using phase_counts_get by (simp add: list_all_iff roadmap_counts)
  moreover have "endpoint_total e = 0 \<or> sorted (map (\<lambda>i. phase_rank (re_phase i)) (rm_items ?r))"
    using sorted_by_phase [of "chosen ?ts 6"] by (simp add: items)
  ultimately show ?thesis unfolding Let_def by simp
qed

section \<open>Agreement with the score\<close>

lemma count_curve_positive: "0 < count_curve n \<longleftrightarrow> 0 < n"
  by (auto simp: count_curve_def n_ref_def prevalence_curve_exponent_def)

text \<open>Two items fire exactly when the score is charged for what they repair: the post-quantum
  certificate item exactly when the key-type branch of the agility domain applies a penalty, and
  the scan coverage item exactly when the scan errors are charged, under any weights.\<close>

theorem roadmap_agrees_with_score:
  "(offered (build_phased_roadmap ft tf e drivers 6 12) ''Plan post-quantum (PQC/hybrid) certificate adoption''
      \<longleftrightarrow> key_type_impacts w e \<noteq> []) \<and>
   (offered (build_phased_roadmap ft tf e drivers 6 12) ''Increase scan coverage'' \<longleftrightarrow> 0 < scan_error_penalty e)"
proof -
  let ?d = "driver_items ft tf e (driver_reasons drivers)"
  have "?d ! 9 \<in> set ?d" "?d ! 3 \<in> set ?d" by (simp_all add: driver_items_def)
  then show ?thesis
    using driver_offered(1) [of "fst (?d ! 9)" "snd (?d ! 9)" ft tf e drivers]
      driver_offered(1) [of "fst (?d ! 3)" "snd (?d ! 3)" ft tf e drivers]
    by (simp add: driver_items_def new_candidate_def key_type_impacts_def cert_denom_def scan_error_penalty_def
        count_curve_positive scan_error_total_of_def)
qed

section \<open>Identity\<close>

text \<open>Every item of the roadmap has a slug, so that it can be persisted and followed, except
  the items of the starter plan, which are exactly the titles excluded on purpose and appear only
  when no endpoint was observed.\<close>

theorem roadmap_titles_have_slugs:
  "list_all (\<lambda>i. case slug_for_title (re_title i) of
         Some _ \<Rightarrow> True
       | None \<Rightarrow> re_title i \<in> set remediation_excluded_titles \<and> endpoint_total e = 0)
     (rm_items (build_phased_roadmap ft tf e drivers 6 12))"
proof -
  let ?ts = "triggered ft tf e (driver_reasons drivers)"
  have known: "list_all (\<lambda>t. slug_for_title t \<noteq> None) (driver_titles @ map re_title baseline)"
    "list_all (\<lambda>s. re_title s \<in> set remediation_excluded_titles) starter_plan"
    by code_simp+
  from known(1) chosen_known [of ft tf e "driver_reasons drivers" 6] have "slug_for_title (re_title c) \<noteq> None" if "c \<in> set (chosen ?ts 6)" for c
    using that by (auto simp: list_all_iff)
  then show ?thesis
    using known(2) by (fastforce simp: list_all_iff default_entries split: option.split dest!: in_set_takeD)
qed

end
