(* ===== verification/Remediation_Persist.thy ===== *)
theory Remediation_Persist
  imports Roadmap_Properties Evidence Compliance Remediation Closure
begin

text \<open>
  \<open>quirk/intelligence/remediation_persist.py\<close>, with \<open>compute_fingerprint\<close> of
  \<open>ticketing/base.py\<close>: one row per roadmap item and scan, and one row per fingerprint of a
  finding that constitutes it.

  The session runs with \<open>autoflush=False\<close>: rows added to it are invisible to queries until the
  next \<open>flush\<close> (which the insertion of an item performs) or the commit.  \<open>ps_pending\<close> holds
  them; a flush checks the unique constraints of the tables.  \<open>sha\<close> is the hexadecimal SHA-256
  digest of a text, \<open>ft\<close> and \<open>tf\<close> the texts of floats, as in \<open>Roadmap\<close>; the clock is read once.
\<close>

section \<open>Constants\<close>

definition slug_priority :: "(string \<times> int) list" where
  "slug_priority =
     [(''plaintext-http-exposure'', 10), (''high-impact-findings'', 20), (''expired-certificates'', 30),
      (''scan-reliability'', 40), (''unknown-open-services'', 50), (''near-expiry-certificates'', 60),
      (''self-signed-certificates'', 70), (''legacy-tls-versions'', 80), (''tls-enum-coverage'', 90),
      (''ecdsa-adoption-planning'', 100), (''mtls-lifecycle-operations'', 110),
      (''assign-owners-and-slas'', 900), (''automate-evidence-refresh'', 910),
      (''crypto-governance-review'', 920)]"

definition high_impact_severities :: "string list" where
  "high_impact_severities = [''HIGH'', ''CRITICAL'']"

section \<open>Fingerprints\<close>

definition fingerprint_title :: "string \<Rightarrow> string" where
  "fingerprint_title title = normalize_finding_title fingerprint_title_aliases title"

definition port_text :: "int option \<Rightarrow> string" where
  "port_text p = (case p of None \<Rightarrow> [] | Some n \<Rightarrow> if n = 0 then [] else int_str n)"

definition fingerprint_text :: "finding_row \<Rightarrow> string" where
  "fingerprint_text f =
     py_or_str (fi_host f) @ '':'' @ port_text (fi_port f) @ ''::'' @ fingerprint_title (py_or_str (fi_title f))"

definition compute_fingerprint :: "(string \<Rightarrow> string) \<Rightarrow> finding_row \<Rightarrow> string" where
  "compute_fingerprint sha f = sha (fingerprint_text f)"

section \<open>Constituents\<close>

definition select_constituent_findings :: "string \<Rightarrow> string list \<Rightarrow> finding_row list \<Rightarrow> finding_row list" where
  "select_constituent_findings kind titles fs =
     (if kind = ''fingerprint''
      then filter (\<lambda>f. fingerprint_title (py_or_str (fi_title f)) \<in> set (map fingerprint_title titles)) fs
      else if kind = ''severity''
      then filter (\<lambda>f. py_upper (py_or_str (fi_severity f)) \<in> set high_impact_severities \<and> \<not> score_neutral f) fs
      else [])"

definition constituency_of :: "string \<Rightarrow> string \<times> string list" where
  "constituency_of slug = dict_get remediation_constituency slug (''evidence_only'', [])"

definition constituents_of :: "string \<Rightarrow> finding_row list \<Rightarrow> finding_row list" where
  "constituents_of slug fs = (case constituency_of slug of (kind, titles) \<Rightarrow> select_constituent_findings kind titles fs)"

section \<open>The session\<close>

record persist_state =
  ps_db :: db
  ps_pending :: "item_fingerprint list"
  ps_counters :: counters

text \<open>The identifier of a row is assigned when it is written.\<close>

definition write_fp :: "item_fingerprint \<Rightarrow> db \<Rightarrow> db" where
  "write_fp r d = add_fp (r\<lparr>fp_id := fresh_fp_id d\<rparr>) d"

definition checked :: "db \<Rightarrow> db_error + db" where
  "checked d = (if constraints_ok d then Inr d else Inl IntegrityError)"

section \<open>One item\<close>

definition earliest_scan_run_id_for_slug :: "db \<Rightarrow> string \<Rightarrow> string \<Rightarrow> string" where
  "earliest_scan_run_id_for_slug d slug fallback =
     (case first_max (\<lambda>i. - it_created_at i) (filter (\<lambda>i. it_slug i = slug) (db_items d)) of
        None \<Rightarrow> fallback
      | Some i \<Rightarrow> if it_scan_run_id i \<noteq> [] then it_scan_run_id i else fallback)"

definition stored_item :: "db \<Rightarrow> string \<Rightarrow> string \<Rightarrow> remediation_item option" where
  "stored_item d scan slug = find (\<lambda>i. it_slug i = slug \<and> it_scan_run_id i = scan) (db_items d)"

definition refresh_item :: "nat \<Rightarrow> roadmap_entry \<Rightarrow> string \<Rightarrow> db \<Rightarrow> db" where
  "refresh_item i entry slug d =
     d\<lparr>db_items := map (\<lambda>r. if it_id r = i
         then r\<lparr>it_title := Some (re_title entry), it_phase := Some (re_phase entry),
                it_priority := map_of slug_priority slug, it_constituency := Some (fst (constituency_of slug))\<rparr>
         else r) (db_items d)\<rparr>"

definition new_item :: "int \<Rightarrow> string \<Rightarrow> roadmap_entry \<Rightarrow> string \<Rightarrow> string \<Rightarrow> db \<Rightarrow> remediation_item" where
  "new_item now scan entry slug st d =
     \<lparr>it_id = fresh_item_id d, it_slug = slug, it_scan_run_id = scan, it_title = Some (re_title entry),
      it_phase = Some (re_phase entry), it_priority = map_of slug_priority slug,
      it_constituency = Some (fst (constituency_of slug)), it_state = st,
      it_first_seen = Some (earliest_scan_run_id_for_slug d slug scan), it_created_at = now\<rparr>"

definition upsert_item ::
    "int \<Rightarrow> string \<Rightarrow> roadmap_entry \<Rightarrow> string \<Rightarrow> string \<Rightarrow> persist_state \<Rightarrow> db_error + nat \<times> persist_state" where
  "upsert_item now scan entry slug st s =
     (case stored_item (ps_db s) scan slug of
        Some row \<Rightarrow> Inr (it_id row, s\<lparr>ps_db := refresh_item (it_id row) entry slug (ps_db s)\<rparr>)
      | None \<Rightarrow>
          (let row = new_item now scan entry slug st (ps_db s) in
           bind_err (checked (fold write_fp (ps_pending s) (add_item row (ps_db s))))
             (\<lambda>d. Inr (it_id row, s\<lparr>ps_db := d, ps_pending := []\<rparr>))))"

definition existing_fingerprints :: "db \<Rightarrow> string \<Rightarrow> string \<Rightarrow> string list" where
  "existing_fingerprints d scan slug =
     map fp_fingerprint (filter (\<lambda>r. fp_scan_run_id r = scan \<and> fp_slug r = slug) (db_fps d))"

fun unseen_findings :: "(string \<Rightarrow> string) \<Rightarrow> finding_row list \<Rightarrow> string list \<Rightarrow> finding_row list" where
  "unseen_findings sha [] seen = []"
| "unseen_findings sha (f # fs) seen =
     (let fp = compute_fingerprint sha f in
      if fp \<in> set seen then unseen_findings sha fs seen else f # unseen_findings sha fs (fp # seen))"

definition fingerprint_row ::
    "(string \<Rightarrow> string) \<Rightarrow> int \<Rightarrow> string \<Rightarrow> string \<Rightarrow> nat \<Rightarrow> finding_row \<Rightarrow> item_fingerprint" where
  "fingerprint_row sha now scan slug i f =
     \<lparr>fp_id = 0, fp_item_id = Some i, fp_slug = slug, fp_scan_run_id = scan,
      fp_fingerprint = compute_fingerprint sha f, fp_host = fi_host f, fp_port = fi_port f,
      fp_title = fi_title f, fp_state = detected_item_state, fp_observed_at = now\<rparr>"

definition count_up :: "string \<Rightarrow> nat \<Rightarrow> counters \<Rightarrow> counters" where
  "count_up k n c = (if n = 0 then c else dict_put k (dict_get c k 0 + int n) c)"

definition persist_item ::
    "(string \<Rightarrow> string) \<Rightarrow> int \<Rightarrow> string \<Rightarrow> finding_row list \<Rightarrow> roadmap_entry \<Rightarrow> persist_state \<Rightarrow> db_error + persist_state" where
  "persist_item sha now scan findings entry s =
     (case slug_for_title (re_title entry) of
        None \<Rightarrow> Inr (s\<lparr>ps_counters := count_up ''skipped_findings'' 1 (ps_counters s)\<rparr>)
      | Some slug \<Rightarrow>
          (let cs = constituents_of slug findings in
           bind_err (upsert_item now scan entry slug (if cs \<noteq> [] then detected_item_state else default_item_state) s)
             (\<lambda>(i, s1).
                let new = map (fingerprint_row sha now scan slug i)
                            (unseen_findings sha cs (existing_fingerprints (ps_db s1) scan slug)) in
                Inr (s1\<lparr>ps_pending := ps_pending s1 @ new,
                        ps_counters := count_up ''fingerprints'' (length new)
                                         (count_up ''items'' 1 (ps_counters s1))\<rparr>))))"

section \<open>The snapshot\<close>

definition zero_snapshot :: counters where
  "zero_snapshot = [(''items'', 0), (''fingerprints'', 0), (''skipped_findings'', 0)]"

definition persist_entries ::
    "(string \<Rightarrow> string) \<Rightarrow> int \<Rightarrow> db \<Rightarrow> string \<Rightarrow> finding_row list \<Rightarrow> roadmap_entry list \<Rightarrow> db_error + db \<times> counters" where
  "persist_entries sha now d scan findings entries =
     bind_err (err_fold (persist_item sha now scan findings) entries
                 \<lparr>ps_db = d, ps_pending = [], ps_counters = zero_snapshot\<rparr>)
       (\<lambda>s. bind_err (checked (fold write_fp (ps_pending s) (ps_db s))) (\<lambda>d'. Inr (d', ps_counters s)))"

definition snapshot_roadmap ::
    "(real \<Rightarrow> string) \<Rightarrow> (string \<Rightarrow> real option) \<Rightarrow> scanned_endpoint list \<Rightarrow> finding_row list \<Rightarrow> roadmap" where
  "snapshot_roadmap ft tf eps findings =
     build_phased_roadmap ft tf (build_evidence_summary eps findings 30 None) [] 6 12"

definition persist_remediation_snapshot ::
    "(string \<Rightarrow> string) \<Rightarrow> (real \<Rightarrow> string) \<Rightarrow> (string \<Rightarrow> real option) \<Rightarrow> int \<Rightarrow> db \<Rightarrow> string \<Rightarrow> string \<Rightarrow>
     scanned_endpoint list \<Rightarrow> finding_row list option \<Rightarrow> db \<times> counters" where
  "persist_remediation_snapshot sha ft tf now d db_path scan eps findings =
     (if scan = [] \<or> db_path = [] then (d, zero_snapshot)
      else (let fs = (case findings of None \<Rightarrow> [] | Some fs \<Rightarrow> fs) in
            case persist_entries sha now d scan fs (rm_items (snapshot_roadmap ft tf eps fs)) of
              Inl _ \<Rightarrow> (d, zero_snapshot @ [(''failed'', 1)])
            | Inr r \<Rightarrow> r))"

end
