(* ===== verification/Persist_Properties.thy ===== *)
theory Persist_Properties
  imports Remediation_Persist Closure_Properties
begin

text \<open>
  The snapshot written at scan time: it refines a loop that writes every row at once, it never
  fails, it writes exactly the fingerprints of the constituents, and running it again changes
  nothing.
\<close>

section \<open>The loop that writes at once\<close>

definition write_item :: "int \<Rightarrow> string \<Rightarrow> roadmap_entry \<Rightarrow> string \<Rightarrow> string \<Rightarrow> db \<Rightarrow> nat \<times> db" where
  "write_item now scan entry slug st d =
     (case stored_item d scan slug of
        Some row \<Rightarrow> (it_id row, refresh_item (it_id row) entry slug d)
      | None \<Rightarrow> (fresh_item_id d, add_item (new_item now scan entry slug st d) d))"

definition new_rows ::
    "(string \<Rightarrow> string) \<Rightarrow> int \<Rightarrow> string \<Rightarrow> finding_row list \<Rightarrow> string \<Rightarrow> nat \<Rightarrow> db \<Rightarrow> item_fingerprint list" where
  "new_rows sha now scan findings slug i d =
     map (fingerprint_row sha now scan slug i)
       (unseen_findings sha (constituents_of slug findings) (existing_fingerprints d scan slug))"

definition first_state :: "string \<Rightarrow> finding_row list \<Rightarrow> string" where
  "first_state slug findings = (if constituents_of slug findings \<noteq> [] then detected_item_state else default_item_state)"

definition snapshot_item ::
    "(string \<Rightarrow> string) \<Rightarrow> int \<Rightarrow> string \<Rightarrow> finding_row list \<Rightarrow> roadmap_entry \<Rightarrow> db \<Rightarrow> db" where
  "snapshot_item sha now scan findings entry d =
     (case slug_for_title (re_title entry) of
        None \<Rightarrow> d
      | Some slug \<Rightarrow>
          (case write_item now scan entry slug (first_state slug findings) d of
             (i, d1) \<Rightarrow> fold write_fp (new_rows sha now scan findings slug i d1) d1))"

definition session_view :: "persist_state \<Rightarrow> db" where
  "session_view s = fold write_fp (ps_pending s) (ps_db s)"

section \<open>Rows\<close>

named_theorems row_simps \<open>what writing a row leaves alone\<close>

lemma write_fp_rows [row_simps]:
  "db_items (write_fp r d) = db_items d" "db_endpoints (write_fp r d) = db_endpoints d"
  "db_events (write_fp r d) = db_events d" "db_signatures (write_fp r d) = db_signatures d"
  "db_fps (write_fp r d) = db_fps d @ [r\<lparr>fp_id := fresh_fp_id d\<rparr>]"
  by (simp_all add: write_fp_def add_fp_def)

lemma fold_write_rows [row_simps]:
  "db_items (fold write_fp rs d) = db_items d" "db_endpoints (fold write_fp rs d) = db_endpoints d"
  "db_events (fold write_fp rs d) = db_events d" "db_signatures (fold write_fp rs d) = db_signatures d"
  by (induction rs arbitrary: d) (simp_all add: row_simps)

lemma fold_write_fps:
  "\<exists>ids. length ids = length rs \<and>
     db_fps (fold write_fp rs d) = db_fps d @ map (\<lambda>(r, i). r\<lparr>fp_id := i\<rparr>) (zip rs ids)"
proof (induction rs arbitrary: d)
  case (Cons r rs)
  obtain ids where "length ids = length rs"
    "db_fps (fold write_fp rs (write_fp r d)) =
       db_fps (write_fp r d) @ map (\<lambda>(r, i). r\<lparr>fp_id := i\<rparr>) (zip rs ids)"
    using Cons.IH by blast
  then show ?case by (intro exI [of _ "fresh_fp_id d # ids"]) (simp add: row_simps)
qed simp

lemma map_ids: "length ids = length rs \<Longrightarrow> (\<And>r i. g (r\<lparr>fp_id := i\<rparr>) = g r) \<Longrightarrow>
    map g (map (\<lambda>(r, i). r\<lparr>fp_id := i\<rparr>) (zip rs ids)) = map g rs"
  by (induction rs ids rule: list_induct2') simp_all

lemma filter_ids: "length ids = length rs \<Longrightarrow> (\<And>r i. P (r\<lparr>fp_id := i\<rparr>) = P r) \<Longrightarrow> (\<And>r i. g (r\<lparr>fp_id := i\<rparr>) = g r) \<Longrightarrow>
    map g (filter P (map (\<lambda>(r, i). r\<lparr>fp_id := i\<rparr>) (zip rs ids))) = map g (filter P rs)"
  by (induction rs ids rule: list_induct2') simp_all

lemma fold_write_filter:
  assumes "\<And>r i. P (r\<lparr>fp_id := i\<rparr>) = P r" and "\<And>r i. g (r\<lparr>fp_id := i\<rparr>) = g r"
  shows "map g (filter P (db_fps (fold write_fp rs d))) = map g (filter P (db_fps d)) @ map g (filter P rs)"
proof -
  obtain ids where "length ids = length rs"
    "db_fps (fold write_fp rs d) = db_fps d @ map (\<lambda>(r, i). r\<lparr>fp_id := i\<rparr>) (zip rs ids)"
    using fold_write_fps by blast
  then show ?thesis using filter_ids [of ids rs P g] assms by simp
qed

lemma fold_write_existing:
  "existing_fingerprints (fold write_fp rs d) scan slug =
     existing_fingerprints d scan slug
     @ map fp_fingerprint (filter (\<lambda>r. fp_scan_run_id r = scan \<and> fp_slug r = slug) rs)"
  unfolding existing_fingerprints_def by (rule fold_write_filter) simp_all

lemma item_commutes:
  "write_fp r (add_item row d) = add_item row (write_fp r d)"
  "write_fp r (refresh_item i entry slug d) = refresh_item i entry slug (write_fp r d)"
  by (simp_all add: write_fp_def add_fp_def add_item_def refresh_item_def fresh_fp_id_def)

lemma fold_item_commutes:
  "fold write_fp rs (add_item row d) = add_item row (fold write_fp rs d)"
  "fold write_fp rs (refresh_item i entry slug d) = refresh_item i entry slug (fold write_fp rs d)"
  by (induction rs arbitrary: d) (simp_all add: item_commutes)

lemma item_rows [row_simps]:
  "db_fps (add_item row d) = db_fps d" "db_fps (refresh_item i entry slug d) = db_fps d"
  by (simp_all add: add_item_def refresh_item_def)

lemma stored_write [row_simps]:
  "stored_item (fold write_fp rs d) scan slug = stored_item d scan slug"
  "new_item now scan entry slug st (fold write_fp rs d) = new_item now scan entry slug st d"
  "fresh_item_id (fold write_fp rs d) = fresh_item_id d"
  by (simp_all add: stored_item_def new_item_def earliest_scan_run_id_for_slug_def fresh_item_id_def row_simps)

lemma existing_item [row_simps]:
  "existing_fingerprints (add_item row d) scan slug = existing_fingerprints d scan slug"
  "existing_fingerprints (refresh_item i entry slug' d) scan slug = existing_fingerprints d scan slug"
  by (simp_all add: existing_fingerprints_def row_simps)

lemma write_item_fps [row_simps]:
  "db_fps (snd (write_item now scan entry slug st d)) = db_fps d"
  by (simp add: write_item_def row_simps split: option.split)

section \<open>Constraints are kept\<close>

lemma unseen_props:
  "distinct (map (compute_fingerprint sha) (unseen_findings sha fs seen))"
  "compute_fingerprint sha ` set (unseen_findings sha fs seen) = compute_fingerprint sha ` set fs - set seen"
proof (induction fs arbitrary: seen)
  case (Cons f fs)
  { case 1 then show ?case using Cons [of seen] Cons [of "compute_fingerprint sha f # seen"]
      by (simp add: Let_def) }
  { case 2 then show ?case using Cons [of seen] Cons [of "compute_fingerprint sha f # seen"]
      by (auto simp: Let_def) }
qed simp_all

lemma write_fp_ok:
  assumes "constraints_ok d" and "fp_fingerprint r \<notin> set (existing_fingerprints d (fp_scan_run_id r) (fp_slug r))"
  shows "constraints_ok (write_fp r d)"
  using assms fresh_fp_id_new [of _ d]
  by (fastforce simp: constraints_ok_def row_simps fp_key_def existing_fingerprints_def)

lemma fold_write_ok:
  assumes "constraints_ok d" and "distinct (map fp_fingerprint rs)"
    and "list_all (\<lambda>r. fp_scan_run_id r = scan \<and> fp_slug r = slug) rs"
    and "fp_fingerprint ` set rs \<inter> set (existing_fingerprints d scan slug) = {}"
  shows "constraints_ok (fold write_fp rs d)"
  using assms
proof (induction rs arbitrary: d)
  case (Cons r rs)
  have "constraints_ok (write_fp r d)" using Cons.prems by (intro write_fp_ok) auto
  moreover have "existing_fingerprints (write_fp r d) scan slug = existing_fingerprints d scan slug @ [fp_fingerprint r]"
    using Cons.prems(3) by (simp add: existing_fingerprints_def row_simps)
  ultimately show ?case using Cons.IH [of "write_fp r d"] Cons.prems by auto
qed simp

lemma new_rows_ok:
  assumes "constraints_ok d"
  shows "constraints_ok (fold write_fp (new_rows sha now scan findings slug i d) d)"
proof (rule fold_write_ok [OF assms])
  have m: "map fp_fingerprint (new_rows sha now scan findings slug i d) =
    map (compute_fingerprint sha) (unseen_findings sha (constituents_of slug findings) (existing_fingerprints d scan slug))"
    by (simp add: new_rows_def fingerprint_row_def)
  then show "distinct (map fp_fingerprint (new_rows sha now scan findings slug i d))"
    using unseen_props(1) by metis
  have "fp_fingerprint ` set (new_rows sha now scan findings slug i d) =
    compute_fingerprint sha ` set (constituents_of slug findings) - set (existing_fingerprints d scan slug)"
    using unseen_props(2) m by (metis list.set_map)
  then show "fp_fingerprint ` set (new_rows sha now scan findings slug i d) \<inter> set (existing_fingerprints d scan slug) = {}"
    by blast
qed (simp add: new_rows_def fingerprint_row_def list_all_iff)

lemma stored_item_None: "stored_item d scan slug = None \<longleftrightarrow> (slug, scan) \<notin> (\<lambda>r. (it_slug r, it_scan_run_id r)) ` set (db_items d)"
  by (auto simp: stored_item_def find_None_iff)

lemma stored_item_Some:
  "stored_item d scan slug = Some r \<Longrightarrow> r \<in> set (db_items d) \<and> it_slug r = slug \<and> it_scan_run_id r = scan"
  by (auto simp: stored_item_def dest: find_SomeD)

lemma add_item_ok:
  assumes "constraints_ok d" and "stored_item d scan slug = None"
  shows "constraints_ok (add_item (new_item now scan entry slug st d) d)"
  using assms fresh_item_id_new [of _ d]
  by (fastforce simp: constraints_ok_def add_item_def new_item_def stored_item_None)

lemma refresh_keys:
  "map it_id (db_items (refresh_item i entry slug d)) = map it_id (db_items d)"
  "map (\<lambda>r. (it_slug r, it_scan_run_id r)) (db_items (refresh_item i entry slug d)) =
     map (\<lambda>r. (it_slug r, it_scan_run_id r)) (db_items d)"
  by (simp_all add: refresh_item_def o_def if_distrib cong: if_cong)

lemma refresh_ok: "constraints_ok (refresh_item i entry slug d) = constraints_ok d"
  unfolding constraints_ok_def refresh_keys by (simp add: refresh_item_def)

lemma write_item_ok:
  assumes "constraints_ok d"
  shows "constraints_ok (snd (write_item now scan entry slug st d))"
  using assms by (simp add: write_item_def refresh_ok add_item_ok split: option.split)

lemma snapshot_item_ok:
  assumes "constraints_ok d"
  shows "constraints_ok (snapshot_item sha now scan findings entry d)"
proof (cases "slug_for_title (re_title entry)")
  case (Some slug)
  obtain i d1 where w: "write_item now scan entry slug (first_state slug findings) d = (i, d1)" by fastforce
  with write_item_ok [OF assms, of now scan entry slug "first_state slug findings"] have "constraints_ok d1" by simp
  from new_rows_ok [OF this] w Some show ?thesis by (simp add: snapshot_item_def)
qed (simp add: snapshot_item_def assms)

lemma snapshot_items_ok:
  "constraints_ok d \<Longrightarrow> constraints_ok (fold (snapshot_item sha now scan findings) entries d)"
  by (induction entries arbitrary: d) (simp_all add: snapshot_item_ok)

section \<open>Refinement\<close>

lemma slug_injective:
  assumes "slug_for_title t = Some s" and "slug_for_title u = Some s"
  shows "t = u"
proof -
  have "distinct (map snd remediation_kind_slugs)" by (simp add: remediation_kind_slugs_def)
  moreover have "(t, s) \<in> set remediation_kind_slugs" "(u, s) \<in> set remediation_kind_slugs"
    using assms by (simp_all add: slug_for_title_def map_of_SomeD)
  ultimately show ?thesis by (metis distinct_map inj_onD prod.inject snd_conv)
qed


lemma upsert_refines:
  assumes ok: "constraints_ok (session_view s)"
  obtains s1 where "upsert_item now scan entry slug st s = Inr (fst (write_item now scan entry slug st (session_view s)), s1)"
    and "session_view s1 = snd (write_item now scan entry slug st (session_view s))"
    and "set (ps_pending s1) \<subseteq> set (ps_pending s)" and "ps_counters s1 = ps_counters s"
proof (cases "stored_item (ps_db s) scan slug")
  case (Some row)
  then show thesis
    by (intro that [of "s\<lparr>ps_db := refresh_item (it_id row) entry slug (ps_db s)\<rparr>"])
      (simp_all add: upsert_item_def write_item_def session_view_def row_simps fold_item_commutes)
next
  case None
  let ?row = "new_item now scan entry slug st (ps_db s)"
  have "constraints_ok (add_item ?row (session_view s))"
    using add_item_ok [OF ok, of scan slug now entry st] None by (simp add: session_view_def row_simps)
  with None show thesis
    by (intro that [of "s\<lparr>ps_db := add_item ?row (session_view s), ps_pending := []\<rparr>"])
      (simp_all add: upsert_item_def write_item_def session_view_def row_simps fold_item_commutes checked_def
        Let_def new_item_def [of _ _ _ _ _ "ps_db s"])
qed

lemma existing_of_view:
  assumes "slug \<notin> fp_slug ` set (ps_pending s)"
  shows "existing_fingerprints (session_view s) scan slug = existing_fingerprints (ps_db s) scan slug"
proof -
  have "filter (\<lambda>r. fp_scan_run_id r = scan \<and> fp_slug r = slug) (ps_pending s) = []"
    using assms by (auto simp: filter_empty_conv)
  then show ?thesis by (simp add: session_view_def fold_write_existing)
qed

lemma persist_item_refines:
  assumes "constraints_ok (session_view s)"
    and "\<And>slug. slug_for_title (re_title entry) = Some slug \<Longrightarrow> slug \<notin> fp_slug ` set (ps_pending s)"
  obtains s1 where "persist_item sha now scan findings entry s = Inr s1"
    and "session_view s1 = snapshot_item sha now scan findings entry (session_view s)"
    and "fp_slug ` set (ps_pending s1) \<subseteq> fp_slug ` set (ps_pending s) \<union> set_option (slug_for_title (re_title entry))"
    and "dict_get (ps_counters s1) ''failed'' 0 = dict_get (ps_counters s) ''failed'' 0"
proof (cases "slug_for_title (re_title entry)")
  case None
  then show thesis
    by (intro that [of "s\<lparr>ps_counters := count_up ''skipped_findings'' 1 (ps_counters s)\<rparr>"])
      (simp_all add: persist_item_def snapshot_item_def session_view_def count_up_def dict_simps)
next
  case (Some slug)
  let ?st = "first_state slug findings"
  obtain s1 where up: "upsert_item now scan entry slug ?st s = Inr (fst (write_item now scan entry slug ?st (session_view s)), s1)"
    and v: "session_view s1 = snd (write_item now scan entry slug ?st (session_view s))"
    and p: "set (ps_pending s1) \<subseteq> set (ps_pending s)" and c: "ps_counters s1 = ps_counters s"
    using upsert_refines [OF assms(1)] by metis
  let ?i = "fst (write_item now scan entry slug ?st (session_view s))"
  have "slug \<notin> fp_slug ` set (ps_pending s1)" using assms(2) [OF Some] p by blast
  note e = existing_of_view [OF this, of scan]
  let ?new = "new_rows sha now scan findings slug ?i (session_view s1)"
  let ?s2 = "s1\<lparr>ps_pending := ps_pending s1 @ ?new, ps_counters := count_up ''fingerprints'' (length ?new)
      (count_up ''items'' 1 (ps_counters s1))\<rparr>"
  have "persist_item sha now scan findings entry s = Inr ?s2"
    using Some up e by (simp add: persist_item_def first_state_def new_rows_def Let_def)
  moreover have "session_view ?s2 = snapshot_item sha now scan findings entry (session_view s)"
    using Some v by (simp add: snapshot_item_def session_view_def case_prod_unfold)
  moreover have "fp_slug ` set (ps_pending ?s2) \<subseteq> fp_slug ` set (ps_pending s) \<union> set_option (slug_for_title (re_title entry))"
    using p Some by (auto simp: new_rows_def fingerprint_row_def)
  moreover have "dict_get (ps_counters ?s2) ''failed'' 0 = dict_get (ps_counters s) ''failed'' 0"
    using c by (simp add: count_up_def dict_simps)
  ultimately show thesis by (rule that)
qed

lemma entries_refine:
  assumes "constraints_ok (session_view s)" and "distinct (map re_title entries)"
    and "\<And>e slug. e \<in> set entries \<Longrightarrow> slug_for_title (re_title e) = Some slug \<Longrightarrow> slug \<notin> fp_slug ` set (ps_pending s)"
  shows "\<exists>s'. err_fold (persist_item sha now scan findings) entries s = Inr s' \<and>
    session_view s' = fold (snapshot_item sha now scan findings) entries (session_view s) \<and>
    dict_get (ps_counters s') ''failed'' 0 = dict_get (ps_counters s) ''failed'' 0"
  using assms
proof (induction entries arbitrary: s)
  case (Cons e es)
  obtain s1 where s1: "persist_item sha now scan findings e s = Inr s1"
    and v: "session_view s1 = snapshot_item sha now scan findings e (session_view s)"
    and p: "fp_slug ` set (ps_pending s1) \<subseteq> fp_slug ` set (ps_pending s) \<union> set_option (slug_for_title (re_title e))"
    and c: "dict_get (ps_counters s1) ''failed'' 0 = dict_get (ps_counters s) ''failed'' 0"
    using persist_item_refines [OF Cons.prems(1), of e] Cons.prems(3) by (metis list.set_intros(1))
  have "slug \<notin> fp_slug ` set (ps_pending s1)" if "x \<in> set es" "slug_for_title (re_title x) = Some slug" for x slug
  proof -
    have "re_title x \<noteq> re_title e" using imageI [OF that(1), of re_title] Cons.prems(2) by auto
    then have "slug_for_title (re_title e) \<noteq> Some slug" using slug_injective that(2) by metis
    with p Cons.prems(3) [of x slug] that show ?thesis by auto
  qed
  with Cons.IH [of s1] Cons.prems s1 v c show ?case by (simp add: snapshot_item_ok)
qed simp

lemma persist_refines:
  assumes "constraints_ok d" and "distinct (map re_title entries)"
  shows "\<exists>c. persist_entries sha now d scan findings entries =
      Inr (fold (snapshot_item sha now scan findings) entries d, c) \<and> dict_get c ''failed'' 0 = 0"
proof -
  let ?s = "\<lparr>ps_db = d, ps_pending = [], ps_counters = zero_snapshot\<rparr>"
  have v: "session_view ?s = d" by (simp add: session_view_def)
  obtain s' where "err_fold (persist_item sha now scan findings) entries ?s = Inr s'"
    "session_view s' = fold (snapshot_item sha now scan findings) entries d"
    "dict_get (ps_counters s') ''failed'' 0 = dict_get zero_snapshot ''failed'' 0"
    using entries_refine [of ?s entries sha now scan findings] assms v by auto
  moreover have "dict_get zero_snapshot ''failed'' 0 = 0" by code_simp
  ultimately show ?thesis
    using snapshot_items_ok [OF assms(1)] by (simp add: persist_entries_def checked_def session_view_def)
qed

section \<open>What one item changes\<close>

lemma snapshot_rows [row_simps]:
  "db_endpoints (snapshot_item sha now scan findings entry d) = db_endpoints d"
  "db_events (snapshot_item sha now scan findings entry d) = db_events d"
  "db_signatures (snapshot_item sha now scan findings entry d) = db_signatures d"
  by (simp_all add: snapshot_item_def write_item_def refresh_item_def add_item_def row_simps split: option.split prod.split)

lemma snapshot_fold_rows [row_simps]:
  "db_endpoints (fold (snapshot_item sha now scan findings) entries d) = db_endpoints d"
  "db_events (fold (snapshot_item sha now scan findings) entries d) = db_events d"
  "db_signatures (fold (snapshot_item sha now scan findings) entries d) = db_signatures d"
  by (induction entries arbitrary: d) (simp_all add: row_simps)

lemma snapshot_existing:
  "set (existing_fingerprints (snapshot_item sha now scan findings e d) scan' slug) =
     set (existing_fingerprints d scan' slug) \<union>
     (if scan' = scan \<and> slug_for_title (re_title e) = Some slug
      then compute_fingerprint sha ` set (constituents_of slug findings) else {})"
proof (cases "slug_for_title (re_title e)")
  case (Some s)
  obtain i d1 where w: "write_item now scan e s (first_state s findings) d = (i, d1)" by fastforce
  have same: "existing_fingerprints d1 k l = existing_fingerprints d k l" for k l
    using w write_item_fps [of now scan e s "first_state s findings" d] by (simp add: existing_fingerprints_def)
  let ?rs = "new_rows sha now scan findings s i d1"
  have rows: "fp_fingerprint ` set ?rs = compute_fingerprint sha ` set (constituents_of s findings) -
      set (existing_fingerprints d scan s)"
    using unseen_props(2) [of sha "constituents_of s findings" "existing_fingerprints d scan s"]
    by (simp add: new_rows_def fingerprint_row_def image_image same)
  have sel: "filter (\<lambda>r. fp_scan_run_id r = scan' \<and> fp_slug r = slug) ?rs = (if scan' = scan \<and> slug = s then ?rs else [])"
    by (auto simp: new_rows_def fingerprint_row_def filter_empty_conv)
  have "set (existing_fingerprints (snapshot_item sha now scan findings e d) scan' slug) =
      set (existing_fingerprints d scan' slug) \<union> (if scan' = scan \<and> slug = s then fp_fingerprint ` set ?rs else {})"
    using Some w by (auto simp: snapshot_item_def fold_write_existing same sel)
  with rows Some show ?thesis by auto
qed (simp add: snapshot_item_def)

lemma snapshots_existing:
  "set (existing_fingerprints (fold (snapshot_item sha now scan findings) entries d) scan' slug) =
     set (existing_fingerprints d scan' slug) \<union>
     (if scan' = scan \<and> (\<exists>e \<in> set entries. slug_for_title (re_title e) = Some slug)
      then compute_fingerprint sha ` set (constituents_of slug findings) else {})"
proof (induction entries arbitrary: d)
  case (Cons e es)
  show ?case
    by (cases "slug_for_title (re_title e) = Some slug")
      (simp_all add: Cons.IH snapshot_existing Un_assoc Un_absorb)
qed simp

text \<open>What one item leaves alone: the items of other scans, and every row the table of fingerprints had.\<close>

lemma filter_map_other:
  "(\<And>x. P (f x) = P x) \<Longrightarrow> (\<And>x. x \<in> set xs \<Longrightarrow> P x \<Longrightarrow> f x = x) \<Longrightarrow> filter P (map f xs) = filter P xs"
  by (induction xs) auto

lemma write_item_others:
  assumes "constraints_ok d"
  shows "filter (\<lambda>r. it_scan_run_id r \<noteq> scan) (db_items (snd (write_item now scan e slug st d))) =
    filter (\<lambda>r. it_scan_run_id r \<noteq> scan) (db_items d)"
proof (cases "stored_item d scan slug")
  case (Some row)
  note row = stored_item_Some [OF Some]
  have "it_scan_run_id r = scan" if "r \<in> set (db_items d)" "it_id r = it_id row" for r
    using that row assms by (auto simp: constraints_ok_def distinct_map inj_on_def)
  then have "filter (\<lambda>r. it_scan_run_id r \<noteq> scan) (db_items (refresh_item (it_id row) e slug d)) =
      filter (\<lambda>r. it_scan_run_id r \<noteq> scan) (db_items d)"
    unfolding refresh_item_def by (simp, intro filter_map_other) auto
  with Some show ?thesis by (simp add: write_item_def)
qed (simp add: write_item_def add_item_def new_item_def)

definition adds_rows_of :: "string \<Rightarrow> db \<Rightarrow> db \<Rightarrow> bool" where
  "adds_rows_of scan d d' \<longleftrightarrow>
     (\<exists>new. db_fps d' = db_fps d @ new \<and> list_all (\<lambda>r. fp_scan_run_id r = scan \<and> fp_state r = ''open'') new)"

lemma adds_rows_trans: "adds_rows_of scan d d' \<Longrightarrow> adds_rows_of scan d' d'' \<Longrightarrow> adds_rows_of scan d d''"
  unfolding adds_rows_of_def by (elim exE conjE) (intro exI, auto)

lemma write_adds_rows:
  "list_all (\<lambda>r. fp_scan_run_id r = scan \<and> fp_state r = ''open'') rs \<Longrightarrow> adds_rows_of scan d (fold write_fp rs d)"
proof (induction rs arbitrary: d)
  case (Cons r rs)
  have "adds_rows_of scan d (write_fp r d)" using Cons.prems by (simp add: adds_rows_of_def row_simps)
  with Cons.IH [of "write_fp r d"] Cons.prems show ?case using adds_rows_trans by simp
qed (simp add: adds_rows_of_def)

lemma snapshot_others:
  assumes "constraints_ok d"
  shows "filter (\<lambda>r. it_scan_run_id r \<noteq> scan) (db_items (snapshot_item sha now scan findings e d)) =
      filter (\<lambda>r. it_scan_run_id r \<noteq> scan) (db_items d)"
    and "adds_rows_of scan d (snapshot_item sha now scan findings e d)"
proof -
  have "filter (\<lambda>r. it_scan_run_id r \<noteq> scan) (db_items (snapshot_item sha now scan findings e d)) =
      filter (\<lambda>r. it_scan_run_id r \<noteq> scan) (db_items d) \<and> adds_rows_of scan d (snapshot_item sha now scan findings e d)"
  proof (cases "slug_for_title (re_title e)")
    case (Some slug)
    obtain i d1 where w: "write_item now scan e slug (first_state slug findings) d = (i, d1)" by fastforce
    have "adds_rows_of scan d1 (fold write_fp (new_rows sha now scan findings slug i d1) d1)"
      by (rule write_adds_rows) (simp add: new_rows_def fingerprint_row_def list_all_iff state_simps)
    moreover have "db_fps d1 = db_fps d"
      using w write_item_fps [of now scan e slug "first_state slug findings" d] by simp
    moreover have "filter (\<lambda>r. it_scan_run_id r \<noteq> scan) (db_items d1) = filter (\<lambda>r. it_scan_run_id r \<noteq> scan) (db_items d)"
      using w write_item_others [OF assms, of scan now e slug "first_state slug findings"] by simp
    ultimately show ?thesis using Some w by (simp add: snapshot_item_def row_simps adds_rows_of_def)
  qed (simp add: snapshot_item_def adds_rows_of_def)
  then show "filter (\<lambda>r. it_scan_run_id r \<noteq> scan) (db_items (snapshot_item sha now scan findings e d)) =
      filter (\<lambda>r. it_scan_run_id r \<noteq> scan) (db_items d)"
    and "adds_rows_of scan d (snapshot_item sha now scan findings e d)" by blast+
qed

lemma snapshots_others:
  "constraints_ok d \<Longrightarrow>
   filter (\<lambda>r. it_scan_run_id r \<noteq> scan) (db_items (fold (snapshot_item sha now scan findings) es d)) =
     filter (\<lambda>r. it_scan_run_id r \<noteq> scan) (db_items d) \<and>
   adds_rows_of scan d (fold (snapshot_item sha now scan findings) es d)"
proof (induction es arbitrary: d)
  case (Cons e es)
  then show ?case
    using Cons.IH [OF snapshot_item_ok [OF Cons.prems]] snapshot_others [OF Cons.prems] adds_rows_trans
    by (simp, blast)
qed (simp add: adds_rows_of_def)

section \<open>Stored items\<close>

definition refreshed :: "roadmap_entry \<Rightarrow> string \<Rightarrow> remediation_item \<Rightarrow> remediation_item" where
  "refreshed e slug r =
     r\<lparr>it_title := Some (re_title e), it_phase := Some (re_phase e),
       it_priority := map_of slug_priority slug, it_constituency := Some (fst (constituency_of slug))\<rparr>"

lemma find_map: "(\<And>x. P (f x) = P x) \<Longrightarrow> find P (map f xs) = map_option f (find P xs)"
  by (induction xs) auto

lemma find_append: "find P (xs @ ys) = (case find P xs of None \<Rightarrow> find P ys | Some x \<Rightarrow> Some x)"
  by (induction xs) auto

lemma stored_refresh:
  "stored_item (refresh_item i e s d) scan slug =
     map_option (\<lambda>r. if it_id r = i then refreshed e s r else r) (stored_item d scan slug)"
  unfolding stored_item_def refresh_item_def refreshed_def by (simp add: find_map)

lemma same_id:
  assumes "constraints_ok d" and "stored_item d scan s = Some r" and "stored_item d scan' s' = Some r'"
  shows "it_id r = it_id r' \<longleftrightarrow> r = r'"
  using assms stored_item_Some [OF assms(2)] stored_item_Some [OF assms(3)]
  by (auto simp: constraints_ok_def distinct_map inj_on_def)

lemma stored_other:
  assumes "constraints_ok d" and "slug_for_title (re_title e) \<noteq> Some slug"
  shows "stored_item (snapshot_item sha now scan findings e d) scan slug = stored_item d scan slug"
proof (cases "slug_for_title (re_title e)")
  case (Some s)
  then have ne: "s \<noteq> slug" using assms(2) by auto
  have "stored_item (snd (write_item now scan e s st d)) scan slug = stored_item d scan slug" for st
  proof (cases "stored_item d scan s")
    case None
    with ne show ?thesis
      by (simp add: write_item_def stored_item_def add_item_def new_item_def find_append split: option.split)
  next
    case r: (Some r)
    have "(if it_id r' = it_id r then refreshed e s r' else r') = r'" if "stored_item d scan slug = Some r'" for r'
      using same_id [OF assms(1) that r] stored_item_Some [OF r] stored_item_Some [OF that] ne by auto
    with r show ?thesis
      by (cases "stored_item d scan slug") (simp_all add: write_item_def stored_refresh)
  qed
  with Some show ?thesis by (simp add: snapshot_item_def row_simps split: prod.split) (metis snd_conv)
qed (simp add: snapshot_item_def)

definition written :: "int \<Rightarrow> string \<Rightarrow> roadmap_entry \<Rightarrow> string \<Rightarrow> string \<Rightarrow> db \<Rightarrow> remediation_item" where
  "written now scan e slug st d =
     (case stored_item d scan slug of None \<Rightarrow> new_item now scan e slug st d | Some r \<Rightarrow> refreshed e slug r)"

lemma stored_own:
  assumes "slug_for_title (re_title e) = Some slug"
  shows "stored_item (snapshot_item sha now scan findings e d) scan slug =
    Some (written now scan e slug (first_state slug findings) d)"
proof -
  have "stored_item (snd (write_item now scan e slug st d)) scan slug = Some (written now scan e slug st d)" for st
  proof (cases "stored_item d scan slug")
    case None
    then show ?thesis
      by (simp add: written_def write_item_def stored_item_def add_item_def find_append) (simp add: new_item_def)
  qed (simp add: written_def write_item_def stored_refresh)
  with assms show ?thesis by (simp add: snapshot_item_def row_simps split: prod.split) (metis snd_conv)
qed

section \<open>Running it again\<close>

text \<open>The row and the fingerprints of an entry are in the database as the snapshot would write
  them.\<close>

definition settled_entry ::
    "(string \<Rightarrow> string) \<Rightarrow> string \<Rightarrow> finding_row list \<Rightarrow> roadmap_entry \<Rightarrow> db \<Rightarrow> bool" where
  "settled_entry sha scan findings e d \<longleftrightarrow>
     (case slug_for_title (re_title e) of
        None \<Rightarrow> True
      | Some slug \<Rightarrow>
          (case stored_item d scan slug of None \<Rightarrow> False | Some r \<Rightarrow> refreshed e slug r = r) \<and>
          compute_fingerprint sha ` set (constituents_of slug findings) \<subseteq> set (existing_fingerprints d scan slug))"

lemma settled_again:
  assumes ok: "constraints_ok d" and "settled_entry sha scan findings e d"
  shows "snapshot_item sha now scan findings e d = d"
proof (cases "slug_for_title (re_title e)")
  case (Some slug)
  with assms(2) obtain r where r: "stored_item d scan slug = Some r" and same: "refreshed e slug r = r"
    and fps: "compute_fingerprint sha ` set (constituents_of slug findings) \<subseteq> set (existing_fingerprints d scan slug)"
    by (auto simp: settled_entry_def split: option.splits)
  have id: "x = r" if "x \<in> set (db_items d)" "it_id x = it_id r" for x
    using that stored_item_Some [OF r] ok by (auto simp: constraints_ok_def distinct_map inj_on_def)
  have "map (\<lambda>x. if it_id x = it_id r then refreshed e slug x else x) (db_items d) = db_items d"
    using id same by (intro map_idI) auto
  then have "refresh_item (it_id r) e slug d = d"
    unfolding refresh_item_def refreshed_def by simp
  moreover have "compute_fingerprint sha ` set (unseen_findings sha (constituents_of slug findings)
      (existing_fingerprints d scan slug)) = {}"
    using fps by (simp add: unseen_props(2))
  then have "unseen_findings sha (constituents_of slug findings) (existing_fingerprints d scan slug) = []"
    by simp
  ultimately show ?thesis
    using Some r by (simp add: snapshot_item_def write_item_def new_rows_def)
qed (simp add: snapshot_item_def)

lemma written_refreshed: "refreshed e slug (written now scan e slug st d) = written now scan e slug st d"
  by (cases "stored_item d scan slug") (simp_all add: written_def refreshed_def new_item_def)

lemma settled_after: "settled_entry sha scan findings e (snapshot_item sha now scan findings e d)"
proof (cases "slug_for_title (re_title e)")
  case (Some slug)
  then show ?thesis
    by (simp add: settled_entry_def stored_own snapshot_existing written_refreshed)
qed (simp add: settled_entry_def)

lemma settled_kept:
  assumes "constraints_ok d" and "settled_entry sha scan findings e d" and "re_title e \<noteq> re_title e'"
  shows "settled_entry sha scan findings e (snapshot_item sha now scan findings e' d)"
proof (cases "slug_for_title (re_title e)")
  case (Some slug)
  then have "slug_for_title (re_title e') \<noteq> Some slug" using slug_injective assms(3) by metis
  with assms Some show ?thesis by (simp add: settled_entry_def stored_other snapshot_existing)
qed (simp add: settled_entry_def)

lemma settled_kept_all:
  "constraints_ok d \<Longrightarrow> settled_entry sha scan findings e d \<Longrightarrow> re_title e \<notin> re_title ` set es \<Longrightarrow>
   settled_entry sha scan findings e (fold (snapshot_item sha now scan findings) es d)"
  by (induction es arbitrary: d) (simp_all add: settled_kept snapshot_item_ok)

lemma all_settled:
  "constraints_ok d \<Longrightarrow> distinct (map re_title es) \<Longrightarrow>
   list_all (\<lambda>e. settled_entry sha scan findings e (fold (snapshot_item sha now scan findings) es d)) es"
  by (induction es arbitrary: d) (simp_all add: settled_kept_all settled_after snapshot_item_ok)

lemma settled_fold:
  "constraints_ok d \<Longrightarrow> list_all (\<lambda>e. settled_entry sha scan findings e d) es \<Longrightarrow>
   fold (snapshot_item sha now scan findings) es d = d"
  by (induction es) (simp_all add: settled_again)

lemma snapshot_idem:
  assumes "constraints_ok d" and "distinct (map re_title es)"
  shows "fold (snapshot_item sha now' scan findings) es (fold (snapshot_item sha now scan findings) es d) =
    fold (snapshot_item sha now scan findings) es d"
  by (rule settled_fold [OF snapshot_items_ok [OF assms(1)] all_settled [OF assms]])

lemma stored_after_fold:
  assumes "constraints_ok d" and "distinct (map re_title es)" and "e \<in> set es"
    and "slug_for_title (re_title e) = Some slug"
  shows "stored_item (fold (snapshot_item sha now scan findings) es d) scan slug =
    Some (refreshed e slug (case stored_item d scan slug of
       Some r \<Rightarrow> r | None \<Rightarrow> new_item now scan e slug (first_state slug findings)
          (fold (snapshot_item sha now scan findings) (takeWhile (\<lambda>x. x \<noteq> e) es) d)))"
  using assms(1-3)
proof (induction es arbitrary: d)
  case (Cons x xs)
  have kept: "stored_item (fold (snapshot_item sha now scan findings) xs d') scan slug = stored_item d' scan slug"
    if "constraints_ok d'" "re_title e \<notin> re_title ` set xs" for d'
    using that
  proof (induction xs arbitrary: d')
    case (Cons y ys)
    have "slug_for_title (re_title y) \<noteq> Some slug" using Cons.prems assms(4) slug_injective by fastforce
    with Cons show ?case by (simp add: stored_other snapshot_item_ok)
  qed simp
  show ?case
  proof (cases "x = e")
    case True
    with Cons.prems kept [OF snapshot_item_ok [OF Cons.prems(1)]] show ?thesis
      by (simp add: stored_own [OF assms(4)] written_refreshed)
         (simp add: written_def refreshed_def new_item_def split: option.split)
  next
    case False
    with Cons.prems have e: "e \<in> set xs" by simp
    then have "re_title x \<noteq> re_title e" using imageI [OF e, of re_title] Cons.prems(2) by auto
    then have "slug_for_title (re_title x) \<noteq> Some slug" using assms(4) slug_injective by metis
    with Cons.IH [OF snapshot_item_ok [OF Cons.prems(1)]] Cons.prems e False show ?thesis
      by (cases "stored_item d scan slug") (simp_all add: stored_other)
  qed
qed simp

section \<open>Properties of the snapshot\<close>

abbreviation given :: "finding_row list option \<Rightarrow> finding_row list" where
  "given findings \<equiv> (case findings of None \<Rightarrow> [] | Some fs \<Rightarrow> fs)"

definition ideal_snapshot ::
    "(string \<Rightarrow> string) \<Rightarrow> (real \<Rightarrow> string) \<Rightarrow> (string \<Rightarrow> real option) \<Rightarrow> int \<Rightarrow> string \<Rightarrow> scanned_endpoint list \<Rightarrow>
     finding_row list \<Rightarrow> db \<Rightarrow> db" where
  "ideal_snapshot sha ft tf now scan eps fs d =
     fold (snapshot_item sha now scan fs) (rm_items (snapshot_roadmap ft tf eps fs)) d"

lemma snapshot_distinct: "distinct (map re_title (rm_items (snapshot_roadmap ft tf eps fs)))"
  unfolding snapshot_roadmap_def by (rule roadmap_titles_distinct)

lemma persist_is_ideal:
  assumes "constraints_ok d" and "scan \<noteq> []" and "db_path \<noteq> []"
  obtains c where "persist_remediation_snapshot sha ft tf now d db_path scan eps findings =
      (ideal_snapshot sha ft tf now scan eps (given findings) d, c)" and "dict_get c ''failed'' 0 = 0"
  using persist_refines [OF assms(1) snapshot_distinct, of sha now scan "given findings" ft tf eps "given findings"] assms
  by (auto simp: persist_remediation_snapshot_def ideal_snapshot_def Let_def)

lemma ideal_ok: "constraints_ok d \<Longrightarrow> constraints_ok (ideal_snapshot sha ft tf now scan eps fs d)"
  by (simp add: ideal_snapshot_def snapshot_items_ok)

text \<open>C19: refinement.  The snapshot queries the tables through a session that does not show it its own
  unflushed rows, and checks the constraints only at a flush; it has the same effect as a loop that
  writes every row at once, keeps the unique constraints, and never fails.\<close>

theorem snapshot_refines_immediate_writes:
  assumes "constraints_ok d" and "scan \<noteq> []" and "db_path \<noteq> []"
  shows "\<exists>c. persist_remediation_snapshot sha ft tf now d db_path scan eps findings =
      (ideal_snapshot sha ft tf now scan eps (given findings) d, c) \<and> dict_get c ''failed'' 0 = 0 \<and>
      constraints_ok (ideal_snapshot sha ft tf now scan eps (given findings) d)"
  using persist_is_ideal [OF assms] ideal_ok [OF assms(1)] by metis

text \<open>C20: the fingerprints of a scan after the snapshot are those it had and those of the findings that
  constitute an offered item, whatever the order and the duplicates of the findings.  Nothing else
  changes in the tables it shares with other scans: every row of the table of fingerprints stays as
  it was, state included, and the rows added to it are open rows of this scan; the items of the
  other scans are the rows they were; the endpoints, the signatures and the history of closures are
  untouched.\<close>

theorem snapshot_writes_the_constituents:
  assumes "constraints_ok d" and "scan \<noteq> []" and "db_path \<noteq> []"
    and "persist_remediation_snapshot sha ft tf now d db_path scan eps findings = (d', c)"
  shows "(fp \<in> set (existing_fingerprints d' scan' slug) \<longleftrightarrow>
      fp \<in> set (existing_fingerprints d scan' slug) \<or>
      scan' = scan \<and> (\<exists>e \<in> set (rm_items (snapshot_roadmap ft tf eps (given findings))).
        slug_for_title (re_title e) = Some slug) \<and>
      fp \<in> compute_fingerprint sha ` set (constituents_of slug (given findings))) \<and>
    take (length (db_fps d)) (db_fps d') = db_fps d \<and>
    list_all (\<lambda>r. fp_scan_run_id r = scan \<and> fp_state r = ''open'') (drop (length (db_fps d)) (db_fps d')) \<and>
    filter (\<lambda>r. it_scan_run_id r \<noteq> scan) (db_items d') = filter (\<lambda>r. it_scan_run_id r \<noteq> scan) (db_items d) \<and>
    db_endpoints d' = db_endpoints d \<and> db_events d' = db_events d \<and> db_signatures d' = db_signatures d"
proof -
  have d': "d' = ideal_snapshot sha ft tf now scan eps (given findings) d"
    using persist_is_ideal [OF assms(1-3)] assms(4) by (metis prod.inject)
  obtain new where "db_fps d' = db_fps d @ new" "list_all (\<lambda>r. fp_scan_run_id r = scan \<and> fp_state r = ''open'') new"
    and "filter (\<lambda>r. it_scan_run_id r \<noteq> scan) (db_items d') = filter (\<lambda>r. it_scan_run_id r \<noteq> scan) (db_items d)"
    using snapshots_others [OF assms(1)] unfolding d' ideal_snapshot_def adds_rows_of_def by blast
  then show ?thesis by (auto simp: d' ideal_snapshot_def snapshots_existing row_simps)
qed

text \<open>After the snapshot every offered item with a slug has its row for the scan, with the phase and
  title of the roadmap; a new row is open exactly when a finding constitutes it and otherwise not
  observed, and a row the scan already had keeps its state, its first scan and its creation time.\<close>

theorem snapshot_item_states:
  assumes "constraints_ok d" and "scan \<noteq> []" and "db_path \<noteq> []"
    and "persist_remediation_snapshot sha ft tf now d db_path scan eps findings = (d', c)"
    and "e \<in> set (rm_items (snapshot_roadmap ft tf eps (given findings)))"
    and "slug_for_title (re_title e) = Some slug"
  shows "\<exists>row. stored_item d' scan slug = Some row \<and> it_title row = Some (re_title e) \<and>
    it_phase row = Some (re_phase e) \<and>
    (case stored_item d scan slug of
       None \<Rightarrow> it_state row = (if constituents_of slug (given findings) \<noteq> [] then ''open'' else ''not_observed'')
     | Some r \<Rightarrow> it_state row = it_state r \<and> it_first_seen row = it_first_seen r \<and>
         it_created_at row = it_created_at r)"
proof -
  have "d' = ideal_snapshot sha ft tf now scan eps (given findings) d"
    using persist_is_ideal [OF assms(1-3)] assms(4) by (metis prod.inject)
  with stored_after_fold [OF assms(1) snapshot_distinct assms(5,6)]
  show ?thesis
    by (auto simp: ideal_snapshot_def refreshed_def written_def new_item_def first_state_def state_simps
        split: option.split)
qed

text \<open>Running the snapshot of the same scan again, at any later time, changes nothing.\<close>

theorem snapshot_is_idempotent:
  assumes "constraints_ok d" and "scan \<noteq> []" and "db_path \<noteq> []"
    and "persist_remediation_snapshot sha ft tf now d db_path scan eps findings = (d', c)"
  shows "fst (persist_remediation_snapshot sha ft tf now' d' db_path scan eps findings) = d'"
proof -
  have d': "d' = ideal_snapshot sha ft tf now scan eps (given findings) d"
    using persist_is_ideal [OF assms(1-3)] assms(4) by (metis prod.inject)
  have "fst (persist_remediation_snapshot sha ft tf now' d' db_path scan eps findings) =
      ideal_snapshot sha ft tf now' scan eps (given findings) d'"
    using persist_is_ideal [OF ideal_ok [OF assms(1)] assms(2,3)] unfolding d' by (metis fst_conv)
  also have "\<dots> = d'"
    unfolding d' ideal_snapshot_def by (rule snapshot_idem [OF assms(1) snapshot_distinct])
  finally show ?thesis .
qed

section \<open>Witnesses\<close>

definition no_rows :: db where
  "no_rows = \<lparr>db_endpoints = [], db_items = [], db_fps = [], db_events = [], db_signatures = []\<rparr>"

definition http_finding :: finding_row where
  "http_finding = \<lparr>fi_title = Some ''Plaintext HTTP service detected'', fi_host = Some ''h'', fi_port = Some 80,
     fi_severity = Some ''HIGH'', fi_category = None\<rparr>"

definition snapshot_of :: "db \<Rightarrow> db \<times> counters" where
  "snapshot_of d = persist_remediation_snapshot (\<lambda>t. t) (\<lambda>_. []) (\<lambda>_. None) 1 d ''db'' ''A'' [] (Some [http_finding])"

lemma no_rows_ok: "constraints_ok no_rows"
  by (simp add: constraints_ok_def no_rows_def)

lemma governance_offered:
  "entry_of governance_item \<in> set (rm_items (snapshot_roadmap ft tf eps fs))"
  by (simp add: snapshot_roadmap_def default_entries chosen_def)

theorem snapshot_refines_immediate_writes_witness:
  "\<exists>c. snapshot_of no_rows =
      (ideal_snapshot (\<lambda>t. t) (\<lambda>_. []) (\<lambda>_. None) 1 ''A'' [] (given (Some [http_finding])) no_rows, c) \<and>
      dict_get c ''failed'' 0 = 0 \<and>
      constraints_ok (ideal_snapshot (\<lambda>t. t) (\<lambda>_. []) (\<lambda>_. None) 1 ''A'' [] (given (Some [http_finding])) no_rows)"
  unfolding snapshot_of_def
  by (rule snapshot_refines_immediate_writes [OF no_rows_ok]) simp_all

text \<open>A database that holds a closed row and an item of an earlier scan.\<close>

definition earlier_rows :: db where
  "earlier_rows = no_rows\<lparr>
     db_items := [\<lparr>it_id = 0, it_slug = ''plaintext-http-exposure'', it_scan_run_id = ''Z'', it_title = None,
       it_phase = None, it_priority = None, it_constituency = None, it_state = ''closed'', it_first_seen = None,
       it_created_at = 0\<rparr>],
     db_fps := [\<lparr>fp_id = 0, fp_item_id = Some 0, fp_slug = ''plaintext-http-exposure'', fp_scan_run_id = ''Z'',
       fp_fingerprint = ''h:80::Plaintext HTTP service detected'', fp_host = None, fp_port = None, fp_title = None,
       fp_state = ''closed'', fp_observed_at = 0\<rparr>]\<rparr>"

lemma earlier_rows_ok: "constraints_ok earlier_rows"
  by (simp add: constraints_ok_def earlier_rows_def no_rows_def)

theorem snapshot_writes_the_constituents_witness:
  "case snapshot_of earlier_rows of (d', c) \<Rightarrow>
    (''h:80::Plaintext HTTP service detected'' \<in> set (existing_fingerprints d' ''A'' ''plaintext-http-exposure'') \<longleftrightarrow>
      ''h:80::Plaintext HTTP service detected'' \<in> set (existing_fingerprints earlier_rows ''A'' ''plaintext-http-exposure'') \<or>
      ''A'' = ''A'' \<and> (\<exists>e \<in> set (rm_items (snapshot_roadmap (\<lambda>_. []) (\<lambda>_. None) [] (given (Some [http_finding])))).
        slug_for_title (re_title e) = Some ''plaintext-http-exposure'') \<and>
      ''h:80::Plaintext HTTP service detected'' \<in>
        compute_fingerprint (\<lambda>t. t) ` set (constituents_of ''plaintext-http-exposure'' (given (Some [http_finding])))) \<and>
    take (length (db_fps earlier_rows)) (db_fps d') = db_fps earlier_rows \<and>
    list_all (\<lambda>r. fp_scan_run_id r = ''A'' \<and> fp_state r = ''open'') (drop (length (db_fps earlier_rows)) (db_fps d')) \<and>
    filter (\<lambda>r. it_scan_run_id r \<noteq> ''A'') (db_items d') = filter (\<lambda>r. it_scan_run_id r \<noteq> ''A'') (db_items earlier_rows) \<and>
    db_endpoints d' = db_endpoints earlier_rows \<and> db_events d' = db_events earlier_rows \<and>
    db_signatures d' = db_signatures earlier_rows"
  unfolding snapshot_of_def
  by (rule case_prodI2, rule snapshot_writes_the_constituents [OF earlier_rows_ok]) simp_all

theorem snapshot_item_states_witness:
  "case snapshot_of no_rows of (d', c) \<Rightarrow>
    \<exists>row. stored_item d' ''A'' ''crypto-governance-review'' = Some row \<and>
      it_title row = Some (re_title (entry_of governance_item)) \<and>
      it_phase row = Some (re_phase (entry_of governance_item)) \<and>
      (case stored_item no_rows ''A'' ''crypto-governance-review'' of
         None \<Rightarrow> it_state row = (if constituents_of ''crypto-governance-review'' (given (Some [http_finding])) \<noteq> []
                                then ''open'' else ''not_observed'')
       | Some r \<Rightarrow> it_state row = it_state r \<and> it_first_seen row = it_first_seen r \<and>
           it_created_at row = it_created_at r)"
proof (rule case_prodI2)
  fix d' c
  assume "snapshot_of no_rows = (d', c)"
  note run = this [unfolded snapshot_of_def]
  have slug: "slug_for_title (re_title (entry_of governance_item)) = Some ''crypto-governance-review''" by code_simp
  show "\<exists>row. stored_item d' ''A'' ''crypto-governance-review'' = Some row \<and>
      it_title row = Some (re_title (entry_of governance_item)) \<and>
      it_phase row = Some (re_phase (entry_of governance_item)) \<and>
      (case stored_item no_rows ''A'' ''crypto-governance-review'' of
         None \<Rightarrow> it_state row = (if constituents_of ''crypto-governance-review'' (given (Some [http_finding])) \<noteq> []
                                then ''open'' else ''not_observed'')
       | Some r \<Rightarrow> it_state row = it_state r \<and> it_first_seen row = it_first_seen r \<and>
           it_created_at row = it_created_at r)"
    by (rule snapshot_item_states [OF no_rows_ok _ _ run governance_offered slug]) simp_all
qed

theorem snapshot_is_idempotent_witness:
  "case snapshot_of no_rows of (d', c) \<Rightarrow> fst (snapshot_of d') = d'"
proof (rule case_prodI2)
  fix d' c
  assume "snapshot_of no_rows = (d', c)"
  note run = this [unfolded snapshot_of_def]
  show "fst (snapshot_of d') = d'"
    unfolding snapshot_of_def by (rule snapshot_is_idempotent [OF no_rows_ok _ _ run]) simp_all
qed

end
