(* ===== verification/Ip_Address.thy ===== *)
theory Ip_Address
  imports Prelude "HOL-Library.Word"
begin

text \<open>
  The part of Python's \<open>ipaddress\<close> module the address guard of \<open>quirk/util/url_allowlist.py\<close>
  uses (the tables are those of CPython 3.11): addresses, their texts and the address classes.  An
  IPv6 address carries its zone identifier, which takes part in equality.
\<close>

unbundle bit_operations_syntax

type_synonym ipv4 = "32 word"
type_synonym ipv6 = "128 word"

datatype ipaddr = V4 ipv4 | V6 ipv6 "string option"

section \<open>Reading an address\<close>

definition parse_octet :: "string \<Rightarrow> int option" where
  "parse_octet s =
     (if s \<noteq> [] \<and> list_all is_digit s \<and> length s \<le> 3 \<and> \<not> (s \<noteq> ''0'' \<and> hd s = CHR ''0'') \<and> digits_value s \<le> 255
      then Some (int (digits_value s)) else None)"

fun opt_map :: "('a \<Rightarrow> 'b option) \<Rightarrow> 'a list \<Rightarrow> 'b list option" where
  "opt_map f [] = Some []"
| "opt_map f (x # xs) =
     (case f x of None \<Rightarrow> None | Some y \<Rightarrow> (case opt_map f xs of None \<Rightarrow> None | Some ys \<Rightarrow> Some (y # ys)))"

definition big_endian :: "int \<Rightarrow> int list \<Rightarrow> int" where
  "big_endian base ds = fold (\<lambda>d n. n * base + d) ds 0"

definition parse_ipv4 :: "string \<Rightarrow> ipv4 option" where
  "parse_ipv4 s =
     (let octets = py_split CHR ''.'' s in
      if length octets = 4 then map_option (\<lambda>ds. word_of_int (big_endian 256 ds)) (opt_map parse_octet octets) else None)"

definition hex_digit :: "char \<Rightarrow> int option" where
  "hex_digit c =
     (let n = int (char_code c) in
      if 48 \<le> n \<and> n \<le> 57 then Some (n - 48)
      else if 65 \<le> n \<and> n \<le> 70 then Some (n - 55)
      else if 97 \<le> n \<and> n \<le> 102 then Some (n - 87)
      else None)"

definition parse_hextet :: "string \<Rightarrow> int option" where
  "parse_hextet s =
     (if s = [] \<or> 4 < length s then None else map_option (big_endian 16) (opt_map hex_digit s))"

definition hex_char :: "int \<Rightarrow> char" where
  "hex_char d = ''0123456789abcdef'' ! nat d"

definition hex_quad :: "int \<Rightarrow> string" where
  "hex_quad n = map hex_char [n div 4096, n div 256 mod 16, n div 16 mod 16, n mod 16]"

text \<open>The parts of the text between colons; a dotted suffix is rewritten as two groups (of four
  digits, where Python leaves leading zeros out).\<close>

definition ipv6_parts :: "string \<Rightarrow> string list option" where
  "ipv6_parts s =
     (let parts = py_split CHR '':'' s in
      if length parts < 3 then None
      else if CHR ''.'' \<in> set (last parts)
      then map_option (\<lambda>v. butlast parts @ [hex_quad (uint (drop_bit 16 v)), hex_quad (uint (v AND mask 16))])
             (parse_ipv4 (last parts))
      else Some parts)"

text \<open>The groups before the \<open>::\<close>, the number of groups it stands for, and the groups after it.\<close>

definition ipv6_groups :: "string list \<Rightarrow> (string list \<times> nat \<times> string list) option" where
  "ipv6_groups parts =
     (let n = length parts; at_start = (hd parts = []); at_end = (last parts = []) in
      if 9 < n then None
      else (case filter (\<lambda>i. parts ! i = []) [1..<n - 1] of
              [] \<Rightarrow> if n = 8 \<and> \<not> at_start \<and> \<not> at_end then Some (parts, 0, []) else None
            | [k] \<Rightarrow>
                (let hi = (if at_start then k - 1 else k); lo = (if at_end then n - k - 2 else n - k - 1) in
                 if at_start \<and> hi \<noteq> 0 \<or> at_end \<and> lo \<noteq> 0 \<or> 8 < hi + lo + 1 then None
                 else Some (take hi parts, 8 - (hi + lo), drop (n - lo) parts))
            | _ \<Rightarrow> None))"

definition ipv6_value :: "string \<Rightarrow> ipv6 option" where
  "ipv6_value s =
     (case ipv6_parts s of
        None \<Rightarrow> None
      | Some parts \<Rightarrow>
          (case ipv6_groups parts of
             None \<Rightarrow> None
           | Some (hi, skipped, lo) \<Rightarrow>
               (case (opt_map parse_hextet hi, opt_map parse_hextet lo) of
                  (Some a, Some b) \<Rightarrow> Some (word_of_int (big_endian 65536 (a @ replicate skipped 0 @ b)))
                | _ \<Rightarrow> None)))"

text \<open>\<open>partition\<close> of a text at the first separator.\<close>

definition before_char :: "char \<Rightarrow> string \<Rightarrow> string" where
  "before_char c s = takeWhile (\<lambda>x. x \<noteq> c) s"

definition after_char :: "char \<Rightarrow> string \<Rightarrow> string" where
  "after_char c s = tl (dropWhile (\<lambda>x. x \<noteq> c) s)"

definition parse_ipv6 :: "string \<Rightarrow> ipaddr option" where
  "parse_ipv6 s =
     (let zone = after_char CHR ''%'' s in
      if CHR ''/'' \<in> set s then None
      else if CHR ''%'' \<notin> set s then map_option (\<lambda>v. V6 v None) (ipv6_value s)
      else if zone = [] \<or> CHR ''%'' \<in> set zone then None
      else map_option (\<lambda>v. V6 v (Some zone)) (ipv6_value (before_char CHR ''%'' s)))"

definition ip_address :: "string \<Rightarrow> ipaddr option" where
  "ip_address s = (case parse_ipv4 s of Some v \<Rightarrow> Some (V4 v) | None \<Rightarrow> parse_ipv6 s)"

section \<open>Networks\<close>

definition in_network :: "'a::len word \<Rightarrow> 'a word \<times> nat \<Rightarrow> bool" where
  "in_network a net \<longleftrightarrow> drop_bit (LENGTH('a) - snd net) a = drop_bit (LENGTH('a) - snd net) (fst net)"

text \<open>A network written by the leading bits of its addresses and their number.\<close>

definition leading :: "'a::len word \<Rightarrow> nat \<Rightarrow> 'a word \<times> nat" where
  "leading p len = (push_bit (LENGTH('a) - len) p, len)"

definition private_ipv4 :: "(ipv4 \<times> nat) list" where
  "private_ipv4 =
     [leading 0 8, leading 10 8, leading 127 8, leading 0xA9FE 16, leading 0xAC1 12, leading 0xC00000 24,
      (0xC00000AA, 31), leading 0xC00002 24, leading 0xC0A8 16, leading 0x6309 15, leading 0xC63364 24,
      leading 0xCB0071 24, leading 15 4, leading 0xFFFFFFFF 32]"

definition public_ipv4_exceptions :: "(ipv4 \<times> nat) list" where
  "public_ipv4_exceptions = [leading 0xC0000009 32, leading 0xC000000A 32]"

definition private_ipv6 :: "(ipv6 \<times> nat) list" where
  "private_ipv6 =
     [leading 1 128, leading 0 128, leading 0xFFFF 96, leading 0x64FF9B0001 48, leading 0x0100000000000000 64,
      leading 0x100080 23, leading 0x20010DB8 32, leading 0x2002 16, leading 0x7E 7, leading 0x3FA 10]"

definition public_ipv6_exceptions :: "(ipv6 \<times> nat) list" where
  "public_ipv6_exceptions =
     [leading 0x20010001000000000000000000000001 128, leading 0x20010001000000000000000000000002 128,
      leading 0x20010003 32, leading 0x200100040112 48, leading 0x2001002 28, leading 0x2001003 28]"

definition reserved_ipv6 :: "(ipv6 \<times> nat) list" where
  "reserved_ipv6 =
     [leading 0 8, leading 1 8, leading 1 7, leading 1 6, leading 1 5, leading 1 4, leading 2 3, leading 3 3,
      leading 4 3, leading 5 3, leading 6 3, leading 14 4, leading 30 5, leading 62 6, leading 0x1FC 9]"

definition is_loopback :: "ipaddr \<Rightarrow> bool" where
  "is_loopback ip = (case ip of V4 a \<Rightarrow> in_network a (leading 127 8) | V6 a _ \<Rightarrow> a = 1)"

definition is_link_local :: "ipaddr \<Rightarrow> bool" where
  "is_link_local ip = (case ip of V4 a \<Rightarrow> in_network a (leading 0xA9FE 16) | V6 a _ \<Rightarrow> in_network a (leading 0x3FA 10))"

definition is_reserved :: "ipaddr \<Rightarrow> bool" where
  "is_reserved ip =
     (case ip of V4 a \<Rightarrow> in_network a (leading 15 4) | V6 a _ \<Rightarrow> list_ex (in_network a) reserved_ipv6)"

definition ipv4_is_private :: "ipv4 \<Rightarrow> bool" where
  "ipv4_is_private a \<longleftrightarrow> list_ex (in_network a) private_ipv4 \<and> \<not> list_ex (in_network a) public_ipv4_exceptions"

section \<open>Addresses inside addresses\<close>

definition low_half :: "ipv6 \<Rightarrow> ipv4" where
  "low_half a = ucast a"

definition ipv4_mapped :: "ipv6 \<Rightarrow> ipv4 option" where
  "ipv4_mapped a = (if drop_bit 32 a = 0xFFFF then Some (low_half a) else None)"

definition sixtofour :: "ipv6 \<Rightarrow> ipv4 option" where
  "sixtofour a = (if drop_bit 112 a = 0x2002 then Some (low_half (drop_bit 80 a)) else None)"

definition teredo :: "ipv6 \<Rightarrow> (ipv4 \<times> ipv4) option" where
  "teredo a =
     (if drop_bit 96 a = 0x20010000 then Some (low_half (drop_bit 64 a), low_half (NOT a)) else None)"

definition is_private :: "ipaddr \<Rightarrow> bool" where
  "is_private ip =
     (case ip of
        V4 a \<Rightarrow> ipv4_is_private a
      | V6 a _ \<Rightarrow>
          (case ipv4_mapped a of
             Some v \<Rightarrow> ipv4_is_private v
           | None \<Rightarrow> list_ex (in_network a) private_ipv6 \<and> \<not> list_ex (in_network a) public_ipv6_exceptions))"

section \<open>Sample texts\<close>

lemma reads_ipv4: "ip_address ''169.254.169.254'' = Some (V4 0xA9FEA9FE)"
  by code_simp

lemma reads_leading_zero: "ip_address ''010.0.0.1'' = None"
  by code_simp

lemma reads_mapped: "ip_address ''::ffff:169.254.169.254'' = Some (V6 0xFFFFA9FEA9FE None)"
  by code_simp

lemma reads_zone: "ip_address ''fd00:ec2::254%eth0'' = Some (V6 0xFD000EC2000000000000000000000254 (Some ''eth0''))"
  by code_simp

end
