(* ===== verification/Scope_Persist.thy ===== *)
theory Scope_Persist
  imports Remediation_Persist Ip_Address
begin

text \<open>
  \<open>quirk/intelligence/scope_signature.py\<close>, the writing half: the seven fields that say what a
  scan covered, their digest, and the row of the scan; with the registry of optional extras of
  \<open>util/optional_extra.py\<close>, and the end of a scan in \<open>run_scan.py\<close>, where the snapshot, the
  signature and the closure are written one after the other.

  \<open>sha\<close> is the hexadecimal SHA-256 digest of a text.  Which modules can be imported and which
  programs are on the path is the \<open>environment\<close>; \<open>sensors\<close> is the column of the sensor table.
\<close>

section \<open>Optional extras\<close>

record optional_extra =
  ex_name :: string
  ex_modules :: "string list"
  ex_binary :: "string option"

definition extras_registry :: "optional_extra list" where
  "extras_registry =
     [\<lparr>ex_name = ''identity'', ex_modules = [''impacket''], ex_binary = None\<rparr>,
      \<lparr>ex_name = ''db'', ex_modules = [''psycopg2'', ''pymysql''], ex_binary = None\<rparr>,
      \<lparr>ex_name = ''cloud'', ex_modules = [''googleapiclient'', ''kubernetes'', ''hvac''], ex_binary = None\<rparr>,
      \<lparr>ex_name = ''dashboard'', ex_modules = [''fastapi'', ''uvicorn'', ''playwright''], ex_binary = None\<rparr>,
      \<lparr>ex_name = ''nmap'', ex_modules = [], ex_binary = Some ''nmap''\<rparr>,
      \<lparr>ex_name = ''cbom'', ex_modules = [''jsonschema'', ''referencing''], ex_binary = None\<rparr>,
      \<lparr>ex_name = ''tickets'', ex_modules = [''jira''], ex_binary = None\<rparr>]"

record environment =
  en_importable :: "string \<Rightarrow> bool"   \<comment> \<open>\<open>find_spec(m) is not None\<close>\<close>
  en_on_path :: "string \<Rightarrow> bool"      \<comment> \<open>\<open>shutil.which(b) is not None\<close>\<close>

definition is_extra_available :: "environment \<Rightarrow> string \<Rightarrow> bool" where
  "is_extra_available env extra =
     (case find (\<lambda>e. ex_name e = extra) extras_registry of
        None \<Rightarrow> False
      | Some e \<Rightarrow>
          (if \<not> list_all (en_importable env) (ex_modules e) then False
           else (case ex_binary e of None \<Rightarrow> True | Some b \<Rightarrow> en_on_path env b)))"

section \<open>Canonical JSON\<close>

text \<open>\<open>json.dumps(payload, sort_keys=True, separators=(",", ":"))\<close>: text outside printable ASCII is
  escaped.\<close>

definition quotation_mark :: char where
  "quotation_mark = char_of (34 :: nat)"

definition reverse_solidus :: char where
  "reverse_solidus = char_of (92 :: nat)"

definition json_char :: "char \<Rightarrow> string" where
  "json_char c =
     (let n = char_code c in
      if n = 34 then [reverse_solidus, quotation_mark]
      else if n = 92 then [reverse_solidus, reverse_solidus]
      else if n = 10 then [reverse_solidus, CHR ''n'']
      else if n = 13 then [reverse_solidus, CHR ''r'']
      else if n = 9 then [reverse_solidus, CHR ''t'']
      else if n = 12 then [reverse_solidus, CHR ''f'']
      else if n = 8 then [reverse_solidus, CHR ''b'']
      else if 32 \<le> n \<and> n \<le> 126 then [c]
      else [reverse_solidus, CHR ''u''] @ hex_quad (int n))"

definition json_string :: "string \<Rightarrow> string" where
  "json_string s = [quotation_mark] @ concat (map json_char s) @ [quotation_mark]"

definition json_list :: "string list \<Rightarrow> string" where
  "json_list ts = ''['' @ join_with (CHR '','') (map json_string ts) @ '']''"

text \<open>An object whose values are already written.\<close>

definition json_object :: "(string \<times> string) list \<Rightarrow> string" where
  "json_object kvs =
     ''{'' @ join_with (CHR '','') (map (\<lambda>(k, v). json_string k @ '':'' @ v) (sort_key fst kvs)) @ ''}''"

section \<open>The configuration of a scan\<close>

record scan_targets =
  tg_fqdns :: "string list"
  tg_cidrs :: "string list"
  tg_include_ips :: "string list"
  tg_exclude_ips :: "string list"

record scan_config = scope_cfg +
  cfg_nmap_port_scope :: "string option"
  cfg_ports_tls :: "int list"
  cfg_profile :: "string option"
  cfg_broker_credentials :: "string list"    \<comment> \<open>the hosts that have some\<close>
  cfg_snmp_v3_credentials :: "string list"
  cfg_pg_scanner_user :: "string option"
  cfg_mysql_scanner_user :: "string option"
  cfg_aws_profile :: "string option"
  cfg_azure_subscription_id :: "string option"
  cfg_gcp_project_id :: "string option"
  cfg_targets :: "scan_targets option"

section \<open>The signature\<close>

definition clean_targets :: "string list \<Rightarrow> string list" where
  "clean_targets vs = sort (remdups (map (\<lambda>v. py_lower (py_strip v)) (filter (\<lambda>v. py_strip v \<noteq> []) vs)))"

definition compute_target_set_digest :: "(string \<Rightarrow> string) \<Rightarrow> scan_config \<Rightarrow> string" where
  "compute_target_set_digest sha cfg =
     (let get = (\<lambda>f. case cfg_targets cfg of None \<Rightarrow> [] | Some t \<Rightarrow> f t) in
      sha (json_object
        [(''fqdns'', json_list (clean_targets (get tg_fqdns))),
         (''cidrs'', json_list (clean_targets (get tg_cidrs))),
         (''include_ips'', json_list (clean_targets (get tg_include_ips))),
         (''exclude_ips'', json_list (clean_targets (get tg_exclude_ips)))]))"

record scope_fields =
  sf_version :: string
  sf_port_scope :: string
  sf_profile :: string
  sf_extras_present :: "string list"
  sf_credentials_present :: "string list"
  sf_sensor_set :: "string list"
  sf_target_set_digest :: string

definition credentials_present :: "scan_config \<Rightarrow> string list" where
  "credentials_present cfg =
     sort (concat
       [if cfg_broker_credentials cfg \<noteq> [] then [''broker''] else [],
        if cfg_snmp_v3_credentials cfg \<noteq> [] then [''snmp_v3''] else [],
        if truthy_text (cfg_pg_scanner_user cfg) then [''postgres''] else [],
        if truthy_text (cfg_mysql_scanner_user cfg) then [''mysql''] else [],
        if truthy_text (cfg_aws_profile cfg) then [''aws''] else [],
        if truthy_text (cfg_azure_subscription_id cfg) then [''azure''] else [],
        if truthy_text (cfg_gcp_project_id cfg) then [''gcp''] else []])"

definition build_scope_signature ::
    "(string \<Rightarrow> string) \<Rightarrow> environment \<Rightarrow> string list \<Rightarrow> scan_config \<Rightarrow> scope_fields" where
  "build_scope_signature sha env sensors cfg =
     \<lparr>sf_version = scope_signature_version,
      sf_port_scope = (if truthy_text (cfg_nmap_port_scope cfg) then py_or_str (cfg_nmap_port_scope cfg)
                       else join_with (CHR '','') (map int_str (sort (cfg_ports_tls cfg)))),
      sf_profile = py_or_str (cfg_profile cfg),
      sf_extras_present = sort (filter (is_extra_available env) (map ex_name extras_registry)),
      sf_credentials_present = credentials_present cfg,
      sf_sensor_set = sort sensors,
      sf_target_set_digest = compute_target_set_digest sha cfg\<rparr>"

definition compute_signature_digest :: "(string \<Rightarrow> string) \<Rightarrow> scope_fields \<Rightarrow> string" where
  "compute_signature_digest sha sig =
     sha (json_object
       [(''signature_version'', json_string (sf_version sig)),
        (''port_scope'', json_string (sf_port_scope sig)),
        (''profile'', json_string (sf_profile sig)),
        (''extras_present'', json_list (sf_extras_present sig)),
        (''credentials_present'', json_list (sf_credentials_present sig)),
        (''sensor_set'', json_list (sf_sensor_set sig)),
        (''target_set_digest'', json_string (sf_target_set_digest sig))])"

section \<open>The row\<close>

text \<open>The columns a writer sets on a row, new or found; the lists are stored as JSON.\<close>

definition signed_row ::
    "scope_fields \<Rightarrow> (string \<times> pyval) list \<Rightarrow> string \<Rightarrow> int \<Rightarrow> scope_signature \<Rightarrow> scope_signature" where
  "signed_row sig health digest now row =
     row\<lparr>sg_version := Some (sf_version sig), sg_port_scope := Some (sf_port_scope sig),
         sg_profile := Some (sf_profile sig), sg_extras_present := sf_extras_present sig,
         sg_credentials_present := sf_credentials_present sig, sg_sensor_set := sf_sensor_set sig,
         sg_target_set_digest := Some (sf_target_set_digest sig),
         sg_probe_health := Some (PyDict health), sg_digest := digest, sg_created_at := now\<rparr>"

definition blank_signature :: "string \<Rightarrow> scope_signature" where
  "blank_signature scan =
     \<lparr>sg_scan_run_id = scan, sg_version = None, sg_port_scope = None, sg_profile = None,
      sg_extras_present = [], sg_credentials_present = [], sg_sensor_set = [],
      sg_target_set_digest = None, sg_probe_health = None, sg_digest = [], sg_created_at = 0\<rparr>"

definition persist_scope_signature ::
    "(string \<Rightarrow> string) \<Rightarrow> environment \<Rightarrow> string list \<Rightarrow> int \<Rightarrow> db \<Rightarrow> string \<Rightarrow> string \<Rightarrow> scan_config \<Rightarrow>
     scanned_endpoint list \<Rightarrow> string list \<Rightarrow> db \<times> string option" where
  "persist_scope_signature sha env sensors now d db_path scan cfg eps timings =
     (if scan = [] \<or> db_path = [] then (d, None)
      else
        (let sig = build_scope_signature sha env sensors cfg;
             health = assess_probe_health (scope_cfg.truncate cfg) (map crypto_endpoint.truncate eps) timings;
             digest = compute_signature_digest sha sig in
         case bind_err (one_or_none (signatures_of d scan))
                (\<lambda>existing. checked
                  (case existing of
                     Some _ \<Rightarrow> d\<lparr>db_signatures := map (\<lambda>s. if sg_scan_run_id s = scan
                                  then signed_row sig health digest now s else s) (db_signatures d)\<rparr>
                   | None \<Rightarrow> d\<lparr>db_signatures := db_signatures d
                                  @ [signed_row sig health digest now (blank_signature scan)]\<rparr>)) of
           Inl _ \<Rightarrow> (d, None)
         | Inr d' \<Rightarrow> (d', Some digest)))"

section \<open>The end of a scan\<close>

text \<open>Every step is skipped without a scan or a database, closure also when the snapshot failed.
  Each step reads the clock for itself.\<close>

record scan_clock =
  at_snapshot :: int
  at_signature :: int
  at_closure :: int

definition scan_bookkeeping ::
    "(string \<Rightarrow> string) \<Rightarrow> (real \<Rightarrow> string) \<Rightarrow> (string \<Rightarrow> real option) \<Rightarrow> environment \<Rightarrow> string list \<Rightarrow> scan_clock \<Rightarrow>
     db \<Rightarrow> string \<Rightarrow> string \<Rightarrow> scan_config \<Rightarrow> scanned_endpoint list \<Rightarrow> finding_row list option \<Rightarrow> string list \<Rightarrow>
     db \<times> counters option" where
  "scan_bookkeeping sha ft tf env sensors clock d db_path scan cfg eps findings timings =
     (if scan = [] \<or> db_path = [] then (d, None)
      else
        (case persist_remediation_snapshot sha ft tf (at_snapshot clock) d db_path scan eps findings of
           (d1, c1) \<Rightarrow>
             (case persist_scope_signature sha env sensors (at_signature clock) d1 db_path scan cfg eps timings of
                (d2, _) \<Rightarrow>
                  (if dict_get c1 ''failed'' 0 \<noteq> 0 then (d2, None)
                   else (case compute_closure (at_closure clock) d2 db_path scan of (d3, c3) \<Rightarrow> (d3, Some c3))))))"

end
