(* ===== verification/Bookkeeping_Properties.thy ===== *)
theory Bookkeeping_Properties
  imports Persist_Properties Scope_Persist
begin

text \<open>
  The end of a scan as a whole: the snapshot, the scope signature and the closure, one after the
  other on the same database.
\<close>

section \<open>The signature row\<close>

text \<open>The row the scan gets, whatever row it had.\<close>

definition signature_of_scan ::
    "(string \<Rightarrow> string) \<Rightarrow> environment \<Rightarrow> string list \<Rightarrow> int \<Rightarrow> string \<Rightarrow> scan_config \<Rightarrow> scanned_endpoint list \<Rightarrow>
     string list \<Rightarrow> scope_signature" where
  "signature_of_scan sha env sensors now scan cfg eps timings =
     (let sig = build_scope_signature sha env sensors cfg in
      signed_row sig (assess_probe_health (scope_cfg.truncate cfg) (map crypto_endpoint.truncate eps) timings)
        (compute_signature_digest sha sig) now (blank_signature scan))"

lemma signed_row_own:
  "sg_scan_run_id s = scan \<Longrightarrow> signed_row sig h g now s = signed_row sig h g now (blank_signature scan)"
  by (simp add: signed_row_def blank_signature_def)

lemma signed_row_id [simp]: "sg_scan_run_id (signed_row sig h g now s) = sg_scan_run_id s"
  by (simp add: signed_row_def)

definition replaced :: "scope_signature \<Rightarrow> scope_signature list \<Rightarrow> scope_signature list" where
  "replaced row rows = map (\<lambda>s. if sg_scan_run_id s = sg_scan_run_id row then row else s) rows"

lemma replaced_ids: "map sg_scan_run_id (replaced row rows) = map sg_scan_run_id rows"
  by (induction rows) (simp_all add: replaced_def)

lemma replaced_others:
  "filter (\<lambda>s. sg_scan_run_id s \<noteq> sg_scan_run_id row) (replaced row rows) =
   filter (\<lambda>s. sg_scan_run_id s \<noteq> sg_scan_run_id row) rows"
  by (induction rows) (simp_all add: replaced_def)

lemma replaced_absent: "sg_scan_run_id row \<notin> sg_scan_run_id ` set rows \<Longrightarrow>
    filter (\<lambda>s. sg_scan_run_id s = sg_scan_run_id row) (replaced row rows) = []"
  by (induction rows) (auto simp: replaced_def)

lemma replaced_own:
  "distinct (map sg_scan_run_id rows) \<Longrightarrow> sg_scan_run_id row \<in> sg_scan_run_id ` set rows \<Longrightarrow>
   filter (\<lambda>s. sg_scan_run_id s = sg_scan_run_id row) (replaced row rows) = [row]"
proof (induction rows)
  case (Cons s rows)
  show ?case
  proof (cases "sg_scan_run_id s = sg_scan_run_id row")
    case True
    with Cons.prems(1) have "sg_scan_run_id row \<notin> sg_scan_run_id ` set rows" by simp
    from replaced_absent [OF this] True show ?thesis by (simp add: replaced_def)
  next
    case False
    with Cons.prems have "sg_scan_run_id row \<in> sg_scan_run_id ` set rows" by auto
    with Cons.IH Cons.prems(1) False show ?thesis by (simp add: replaced_def)
  qed
qed simp

definition with_signature :: "scope_signature \<Rightarrow> db \<Rightarrow> db" where
  "with_signature row d =
     d\<lparr>db_signatures := (if sg_scan_run_id row \<in> sg_scan_run_id ` set (db_signatures d)
                          then replaced row (db_signatures d) else db_signatures d @ [row])\<rparr>"

lemma with_signature_ok: "constraints_ok d \<Longrightarrow> constraints_ok (with_signature row d)"
  by (simp add: constraints_ok_def with_signature_def replaced_ids)

lemma with_signature_own:
  assumes "constraints_ok d"
  shows "signatures_of (with_signature row d) (sg_scan_run_id row) = [row]"
proof -
  have d: "distinct (map sg_scan_run_id (db_signatures d))" using assms by (simp add: constraints_ok_def)
  show ?thesis
  proof (cases "sg_scan_run_id row \<in> sg_scan_run_id ` set (db_signatures d)")
    case True
    with replaced_own [OF d] show ?thesis by (simp add: signatures_of_def with_signature_def)
  next
    case False
    then have "filter (\<lambda>s. sg_scan_run_id s = sg_scan_run_id row) (db_signatures d) = []"
      by (metis (mono_tags, lifting) filter_empty_conv image_eqI)
    with False show ?thesis by (simp add: signatures_of_def with_signature_def)
  qed
qed

lemma with_signature_others:
  "filter (\<lambda>s. sg_scan_run_id s \<noteq> sg_scan_run_id row) (db_signatures (with_signature row d)) =
   filter (\<lambda>s. sg_scan_run_id s \<noteq> sg_scan_run_id row) (db_signatures d)"
  by (simp add: with_signature_def replaced_others)

text \<open>Writing the signature never fails: it updates the row the scan has or adds one.\<close>

lemma signature_id [simp]: "sg_scan_run_id (signature_of_scan sha env sensors now scan cfg eps timings) = scan"
  by (simp add: signature_of_scan_def Let_def blank_signature_def)

lemma replaced_signed:
  "map (\<lambda>s. if sg_scan_run_id s = scan then signed_row sig h g now s else s) rows =
   replaced (signed_row sig h g now (blank_signature scan)) rows"
proof -
  have "(if sg_scan_run_id s = scan then signed_row sig h g now s else s) =
      (if sg_scan_run_id s = sg_scan_run_id (blank_signature scan)
       then signed_row sig h g now (blank_signature scan) else s)" for s
    using signed_row_own [of s scan] by (simp add: blank_signature_def)
  then show ?thesis by (simp add: replaced_def)
qed

lemma no_signatures: "scan \<notin> sg_scan_run_id ` set (db_signatures d) \<Longrightarrow> signatures_of d scan = []"
  by (auto simp: signatures_of_def filter_empty_conv)

lemma signatures_present:
  assumes "constraints_ok d" and "scan \<in> sg_scan_run_id ` set (db_signatures d)"
  shows "\<exists>s. one_or_none (signatures_of d scan) = Inr (Some s)"
proof -
  have "signatures_of d scan \<noteq> []"
    using assms(2) unfolding signatures_of_def by (auto simp: filter_empty_conv)
  then have "one_or_none (signatures_of d scan) \<noteq> Inr None"
    by (simp add: one_or_none_def split: list.split)
  with signatures_returns [OF assms(1), of scan] show ?thesis by (metis option.exhaust)
qed

lemma signature_written:
  assumes "constraints_ok d" and "scan \<noteq> []" and "db_path \<noteq> []"
  shows "persist_scope_signature sha env sensors now d db_path scan cfg eps timings =
    (with_signature (signature_of_scan sha env sensors now scan cfg eps timings) d,
     Some (compute_signature_digest sha (build_scope_signature sha env sensors cfg)))"
proof -
  let ?row = "signature_of_scan sha env sensors now scan cfg eps timings"
  note ok = with_signature_ok [OF assms(1), of ?row]
  show ?thesis
  proof (cases "scan \<in> sg_scan_run_id ` set (db_signatures d)")
    case True
    then have "with_signature ?row d = d\<lparr>db_signatures := replaced ?row (db_signatures d)\<rparr>"
      by (simp add: with_signature_def)
    moreover obtain s where "one_or_none (signatures_of d scan) = Inr (Some s)"
      using signatures_present [OF assms(1) True] by blast
    ultimately show ?thesis
      using assms(2,3) ok
      by (simp add: persist_scope_signature_def Let_def replaced_signed checked_def signature_of_scan_def)
  next
    case False
    then have "with_signature ?row d = d\<lparr>db_signatures := db_signatures d @ [?row]\<rparr>"
      by (simp add: with_signature_def)
    moreover have "one_or_none (signatures_of d scan) = Inr None"
      using False by (simp add: no_signatures one_or_none_def)
    ultimately show ?thesis
      using assms(2,3) ok
      by (simp add: persist_scope_signature_def Let_def checked_def signature_of_scan_def)
  qed
qed

section \<open>Properties\<close>

text \<open>C21: the bookkeeping at the end of a scan always goes through to the closure.  On a database that
  meets its constraints, whatever the configuration, the extras installed, the sensors, the rows,
  the findings and the phases that ran: the snapshot and the signature are written and the closure
  runs on them to its end, the constraints hold afterwards, the scan has exactly one signature, the
  one of this configuration and these rows (a resumed scan's earlier row is overwritten), and the
  signatures of the other scans are the rows they were.\<close>

theorem bookkeeping_always_closes:
  assumes "constraints_ok d" and "scan \<noteq> []" and "db_path \<noteq> []"
  shows "\<exists>d' c. scan_bookkeeping sha ft tf env sensors clock d db_path scan cfg eps findings timings = (d', Some c) \<and>
    constraints_ok d' \<and>
    signatures_of d' scan = [signature_of_scan sha env sensors (at_signature clock) scan cfg eps timings] \<and>
    filter (\<lambda>s. sg_scan_run_id s \<noteq> scan) (db_signatures d') = filter (\<lambda>s. sg_scan_run_id s \<noteq> scan) (db_signatures d) \<and>
    closure_body (at_closure clock)
      (with_signature (signature_of_scan sha env sensors (at_signature clock) scan cfg eps timings)
        (ideal_snapshot sha ft tf (at_snapshot clock) scan eps (given findings) d)) scan = Inr (d', c)"
proof -
  let ?row = "signature_of_scan sha env sensors (at_signature clock) scan cfg eps timings"
  let ?d1 = "ideal_snapshot sha ft tf (at_snapshot clock) scan eps (given findings) d"
  let ?d2 = "with_signature ?row ?d1"
  obtain c1 where "persist_remediation_snapshot sha ft tf (at_snapshot clock) d db_path scan eps findings = (?d1, c1)"
    and "dict_get c1 ''failed'' 0 = 0"
    using persist_is_ideal [OF assms] by blast
  moreover note ok = ideal_ok [OF assms(1), of sha ft tf "at_snapshot clock" scan eps "given findings"]
  moreover obtain d' c where run: "closure_body (at_closure clock) ?d2 scan = Inr (d', c)"
    and ok': "constraints_ok d'" and ext: "db_extends scan ?d2 d'"
    using closure_body_total [OF with_signature_ok [OF ok]] by blast
  ultimately have "scan_bookkeeping sha ft tf env sensors clock d db_path scan cfg eps findings timings = (d', Some c)"
    using assms(2,3) by (simp add: scan_bookkeeping_def signature_written compute_closure_def)
  moreover have "db_signatures d' = db_signatures ?d2" using ext by (simp add: db_extends_def)
  then have "signatures_of d' scan = [?row]"
    and "filter (\<lambda>s. sg_scan_run_id s \<noteq> scan) (db_signatures d') = filter (\<lambda>s. sg_scan_run_id s \<noteq> scan) (db_signatures ?d1)"
    using with_signature_own [OF ok, of ?row] with_signature_others [of ?row ?d1] by (simp_all add: signatures_of_def)
  ultimately show ?thesis using run ok' by (auto simp: ideal_snapshot_def row_simps)
qed

section \<open>Witness\<close>

definition sample_config :: scan_config where
  "sample_config = \<lparr>cfg_enabled = (\<lambda>_. False), cfg_tls_enum_mode = ''deep'', cfg_nmap_port_scope = None,
     cfg_ports_tls = [8443, 443], cfg_profile = Some ''standard'', cfg_broker_credentials = [],
     cfg_snmp_v3_credentials = [''10.0.0.1''], cfg_pg_scanner_user = None, cfg_mysql_scanner_user = None,
     cfg_aws_profile = None, cfg_azure_subscription_id = None, cfg_gcp_project_id = None,
     cfg_targets = Some \<lparr>tg_fqdns = ['' B.example'', ''a.example'', ''A.example''], tg_cidrs = [],
       tg_include_ips = [''10.0.0.2''], tg_exclude_ips = []\<rparr>\<rparr>"

definition bare_environment :: environment where
  "bare_environment = \<lparr>en_importable = (\<lambda>m. m = ''jira''), en_on_path = (\<lambda>_. True)\<rparr>"

lemma sample_scope:
  "sort (filter (is_extra_available bare_environment) (map ex_name extras_registry)) = [''nmap'', ''tickets'']"
  "credentials_present sample_config = [''snmp_v3'']"
  "clean_targets [''  B.example'', ''a.example'', ''A.example'', '' ''] = [''a.example'', ''b.example'']"
     apply code_simp
   apply code_simp
  apply code_simp
  done

theorem bookkeeping_always_closes_witness:
  "\<exists>d' c. scan_bookkeeping (\<lambda>t. t) (\<lambda>_. []) (\<lambda>_. None) bare_environment [''s1''] \<lparr>at_snapshot = 1, at_signature = 2, at_closure = 3\<rparr>
      earlier_rows ''db'' ''A'' sample_config [] (Some [http_finding]) [''tls_scanning''] = (d', Some c) \<and>
    constraints_ok d' \<and>
    signatures_of d' ''A'' = [signature_of_scan (\<lambda>t. t) bare_environment [''s1''] 2 ''A'' sample_config [] [''tls_scanning'']] \<and>
    filter (\<lambda>s. sg_scan_run_id s \<noteq> ''A'') (db_signatures d') = filter (\<lambda>s. sg_scan_run_id s \<noteq> ''A'') (db_signatures earlier_rows) \<and>
    closure_body 3
      (with_signature (signature_of_scan (\<lambda>t. t) bare_environment [''s1''] 2 ''A'' sample_config [] [''tls_scanning''])
        (ideal_snapshot (\<lambda>t. t) (\<lambda>_. []) (\<lambda>_. None) 1 ''A'' [] (given (Some [http_finding])) earlier_rows)) ''A'' = Inr (d', c)"
  using bookkeeping_always_closes [OF earlier_rows_ok, of "''A''" "''db''" "\<lambda>t. t" "\<lambda>_. []" "\<lambda>_. None" bare_environment
      "[''s1'']" "\<lparr>at_snapshot = 1, at_signature = 2, at_closure = 3\<rparr>" sample_config "[]" "Some [http_finding]" "[''tls_scanning'']"]
  by simp

end
