(* ===== verification/Key_Reuse.thy ===== *)
theory Key_Reuse
  imports Best_Per_Key
begin

text \<open>
  \<open>quirk/intelligence/key_reuse.py\<close>: the clusters of TLS rows that present one public key, and the
  queries of \<open>quirk/models_util.py\<close> over the hardware inventory.  A row holds the columns of
  \<open>CryptoEndpoint\<close> (\<open>HardwareDevice\<close>) these modules read; a table is the list of its rows in id order.
  Text compares by character, as SQLite's default collation does.
\<close>

section \<open>Clusters\<close>

record key_row =
  kr_host :: string
  kr_port :: int
  kr_protocol :: "string option"
  kr_scan_run_id :: "string option"
  kr_issuer :: "string option"
  kr_spki :: "string option"
  kr_subject :: "string option"
  kr_pubkey_alg :: "string option"
  kr_pubkey_size :: "int option"

record key_cluster =
  kc_fingerprint :: string
  kc_member_count :: nat
  kc_subject :: "string option"
  kc_pubkey_alg :: "string option"
  kc_pubkey_size :: "int option"
  kc_members :: "(string \<times> int) list"

record key_reuse =
  ku_clusters :: "key_cluster list"
  ku_fingerprinted :: nat
  ku_total :: nat

definition tls_rows :: "string option \<Rightarrow> key_row list \<Rightarrow> key_row list" where
  "tls_rows scope rows =
     filter (\<lambda>r. kr_protocol r = Some ''TLS'' \<and> (scope = None \<or> kr_scan_run_id r = scope)) rows"

definition presenting :: "string option \<Rightarrow> key_row list \<Rightarrow> string \<Rightarrow> key_row list" where
  "presenting scope rows fp =
     sort_key (\<lambda>r. (kr_host r, kr_port r)) (filter (\<lambda>r. kr_spki r = Some fp) (tls_rows scope rows))"

text \<open>\<open>GROUP BY cert_spki_fingerprint HAVING COUNT(*) >= 2\<close>, most members first.\<close>

definition reused_fingerprints :: "string option \<Rightarrow> key_row list \<Rightarrow> string list" where
  "reused_fingerprints scope rows =
     (let fps = List.map_filter kr_spki (tls_rows scope rows) in
      sort_key (\<lambda>fp. (- int (count_list fps fp), fp)) (filter (\<lambda>fp. 2 \<le> count_list fps fp) (remdups fps)))"

definition cluster_of :: "string option \<Rightarrow> key_row list \<Rightarrow> string \<Rightarrow> key_cluster" where
  "cluster_of scope rows fp =
     (let members = presenting scope rows fp; identity = hd members in
      \<lparr>kc_fingerprint = fp, kc_member_count = length members, kc_subject = kr_subject identity,
       kc_pubkey_alg = kr_pubkey_alg identity, kc_pubkey_size = kr_pubkey_size identity,
       kc_members = map (\<lambda>r. (kr_host r, kr_port r)) members\<rparr>)"

definition compute_key_reuse_clusters :: "string option \<Rightarrow> key_row list \<Rightarrow> key_reuse" where
  "compute_key_reuse_clusters scope rows =
     \<lparr>ku_clusters = map (cluster_of scope rows) (reused_fingerprints scope rows),
      ku_fingerprinted = length (filter (\<lambda>r. kr_spki r \<noteq> None) (tls_rows scope rows)),
      ku_total = length (tls_rows scope rows)\<rparr>"

section \<open>The hardware inventory\<close>

record hardware_row =
  hw_id :: nat
  hw_host :: string
  hw_port :: int
  hw_vendor :: string
  hw_model :: "string option"
  hw_pqc_status :: string
  hw_scanned_at :: int
  hw_probe_status :: "string option"
  hw_bridge_evidence :: "string option"

definition succeeded :: "'a hardware_row_scheme \<Rightarrow> bool" where
  "succeeded d \<longleftrightarrow> hw_probe_status d = Some ''success''"

definition hw_key :: "'a hardware_row_scheme \<Rightarrow> string \<times> int" where
  "hw_key d = (hw_host d, hw_port d)"

text \<open>The query of both functions: a row joins when its time is the latest time of the good rows of its key.
  The outer query does not ask that the row itself is good.\<close>

definition at_latest_good :: "('a hardware_row_scheme \<Rightarrow> bool) \<Rightarrow> 'a hardware_row_scheme list \<Rightarrow> 'a hardware_row_scheme \<Rightarrow> bool" where
  "at_latest_good good rows d \<longleftrightarrow>
     list_ex (\<lambda>x. good x \<and> hw_key x = hw_key d \<and> hw_scanned_at x = hw_scanned_at d) rows \<and>
     list_all (\<lambda>x. good x \<and> hw_key x = hw_key d \<longrightarrow> hw_scanned_at x \<le> hw_scanned_at d) rows"

definition keep_highest_id ::
    "'a hardware_row_scheme \<Rightarrow> ((string \<times> int) \<times> 'a hardware_row_scheme) list \<Rightarrow> ((string \<times> int) \<times> 'a hardware_row_scheme) list" where
  "keep_highest_id d by_key =
     (case map_of by_key (hw_key d) of
        None \<Rightarrow> dict_put (hw_key d) d by_key
      | Some old \<Rightarrow> if hw_id old < hw_id d then dict_put (hw_key d) d by_key else by_key)"

definition one_per_key :: "('a hardware_row_scheme \<Rightarrow> bool) \<Rightarrow> 'a hardware_row_scheme list \<Rightarrow> 'a hardware_row_scheme list" where
  "one_per_key good rows = map snd (fold keep_highest_id (filter (at_latest_good good rows) rows) [])"

definition latest_successful_hardware_devices :: "'a hardware_row_scheme list \<Rightarrow> 'a hardware_row_scheme list" where
  "latest_successful_hardware_devices rows = one_per_key succeeded rows"

definition newest_first :: "'a hardware_row_scheme list \<Rightarrow> 'a hardware_row_scheme list" where
  "newest_first ds = sort_key (\<lambda>d. (- hw_scanned_at d, - int (hw_id d))) ds"

definition recent_successful_hardware_rows ::
    "'a hardware_row_scheme list \<Rightarrow> string \<Rightarrow> int \<Rightarrow> nat \<Rightarrow> 'a hardware_row_scheme list" where
  "recent_successful_hardware_rows rows host port limit =
     take limit (newest_first (filter (\<lambda>d. hw_host d = host \<and> hw_port d = port \<and> succeeded d) rows))"

definition vendor_fleet_snapshot ::
    "'a hardware_row_scheme list \<Rightarrow> string \<Rightarrow> nat \<Rightarrow> 'a hardware_row_scheme list" where
  "vendor_fleet_snapshot rows vendor limit =
     take limit (newest_first (one_per_key (\<lambda>d. succeeded d \<and> hw_vendor d = vendor) rows))"

section \<open>One row per device\<close>

abbreviation later_id :: "'a hardware_row_scheme \<Rightarrow> 'a hardware_row_scheme \<Rightarrow> bool" where
  "later_id a b \<equiv> hw_id b < hw_id a"

interpretation devices: best_per_key hw_key later_id
  by unfold_locales auto

lemma keep_highest_best: "fold keep_highest_id ds m = fold (keep_best hw_key later_id) ds m"
  by (induction ds arbitrary: m) (simp_all add: keep_highest_id_def keep_best_def)

lemma latest_good_exists:
  assumes "d \<in> set rows" and "good d"
  obtains x where "x \<in> set rows" and "good x" and "hw_key x = hw_key d" and "at_latest_good good rows x"
proof -
  let ?same = "filter (\<lambda>x. good x \<and> hw_key x = hw_key d) rows"
  have "finite (hw_scanned_at ` set ?same)" "hw_scanned_at ` set ?same \<noteq> {}" using assms by auto
  then have "Max (hw_scanned_at ` set ?same) \<in> hw_scanned_at ` set ?same" by (rule Max_in)
  then obtain x where x: "x \<in> set rows" "good x" "hw_key x = hw_key d"
    "hw_scanned_at x = Max (hw_scanned_at ` set ?same)"
    by auto
  have "hw_scanned_at y \<le> hw_scanned_at x" if "y \<in> set rows" "good y" "hw_key y = hw_key x" for y
    unfolding x(4) using that x(3) by (intro Max_ge) auto
  with x(1-3) show thesis
    by (intro that [of x]) (auto simp: at_latest_good_def list_all_iff list_ex_iff)
qed

lemma one_per_key:
  "distinct (map hw_key (one_per_key good rows))"
  "hw_key ` set (one_per_key good rows) = hw_key ` {d \<in> set rows. good d}"
  "d \<in> set (one_per_key good rows) \<Longrightarrow> d \<in> set rows \<and> at_latest_good good rows d \<and>
     (\<forall>x \<in> set rows. hw_key x = hw_key d \<longrightarrow> hw_scanned_at x = hw_scanned_at d \<longrightarrow> hw_id x \<le> hw_id d)"
proof -
  let ?new = "filter (at_latest_good good rows) rows"
  show "distinct (map hw_key (one_per_key good rows))"
    unfolding one_per_key_def keep_highest_best by (rule devices.kept_distinct)
  have "hw_key ` set (one_per_key good rows) = hw_key ` set ?new"
    unfolding one_per_key_def keep_highest_best using devices.kept_keys [of ?new] by (simp only: set_map)
  also have "\<dots> = hw_key ` {d \<in> set rows. good d}"
  proof (intro equalityI subsetI)
    fix k assume "k \<in> hw_key ` set ?new"
    then show "k \<in> hw_key ` {d \<in> set rows. good d}"
      by (auto simp: at_latest_good_def list_ex_iff image_iff)
  next
    fix k assume "k \<in> hw_key ` {d \<in> set rows. good d}"
    then obtain d where "d \<in> set rows" "good d" "k = hw_key d" by blast
    then obtain x where "x \<in> set rows" "hw_key x = k" "at_latest_good good rows x"
      using latest_good_exists [of d rows good] by metis
    then show "k \<in> hw_key ` set ?new" by force
  qed
  finally show "hw_key ` set (one_per_key good rows) = hw_key ` {d \<in> set rows. good d}" .
  assume "d \<in> set (one_per_key good rows)"
  then have d: "d \<in> snd ` set (fold (keep_best hw_key later_id) ?new [])"
    by (simp add: one_per_key_def keep_highest_best)
  have mem: "d \<in> set rows" and at: "at_latest_good good rows d" using devices.kept_best(1) [OF d] by simp_all
  have "hw_id x \<le> hw_id d" if x: "x \<in> set rows" "hw_key x = hw_key d" "hw_scanned_at x = hw_scanned_at d" for x
  proof -
    have "at_latest_good good rows x" using at x by (simp add: at_latest_good_def)
    then show ?thesis using devices.kept_best(2) [OF d, of x] x by (auto simp: not_less)
  qed
  with mem at show "d \<in> set rows \<and> at_latest_good good rows d \<and>
     (\<forall>x \<in> set rows. hw_key x = hw_key d \<longrightarrow> hw_scanned_at x = hw_scanned_at d \<longrightarrow> hw_id x \<le> hw_id d)"
    by blast
qed

text \<open>A failed probe of the same second as the last good one displaces it when its id is higher.\<close>

definition good_then_failed :: "hardware_row list" where
  "good_then_failed =
     [\<lparr>hw_id = 1, hw_host = ''a'', hw_port = 161, hw_vendor = ''Acme'', hw_model = None, hw_pqc_status = ''supported'',
       hw_scanned_at = 7, hw_probe_status = Some ''success'', hw_bridge_evidence = None\<rparr>,
      \<lparr>hw_id = 2, hw_host = ''a'', hw_port = 161, hw_vendor = ''Unknown'', hw_model = None, hw_pqc_status = ''unknown'',
       hw_scanned_at = 7, hw_probe_status = Some ''failed'', hw_bridge_evidence = None\<rparr>]"

lemma failed_probe_displaces:
  "map hw_probe_status (latest_successful_hardware_devices good_then_failed) = [Some ''failed'']"
  by code_simp

section \<open>Clusters of one key\<close>

lemma presenting_member:
  "r \<in> set (presenting scope rows fp) \<longleftrightarrow> r \<in> set (tls_rows scope rows) \<and> kr_spki r = Some fp"
  by (simp add: presenting_def)

lemma count_presenting: "count_list (List.map_filter kr_spki rs) fp = length (filter (\<lambda>r. kr_spki r = Some fp) rs)"
  by (induction rs) (auto simp: List.map_filter_def)

lemma reused_iff: "fp \<in> set (reused_fingerprints scope rows) \<longleftrightarrow> 2 \<le> length (presenting scope rows fp)"
proof -
  have "2 \<le> count_list fps fp \<Longrightarrow> fp \<in> set fps" for fps :: "string list"
    by (metis count_notin not_numeral_le_zero)
  then show ?thesis
    by (auto simp: reused_fingerprints_def Let_def presenting_def count_presenting)
qed

lemma reused_distinct: "distinct (reused_fingerprints scope rows)"
  by (simp add: reused_fingerprints_def Let_def)

end
