(* ===== verification/Hardware_Bridge.thy ===== *)
theory Hardware_Bridge
  imports Key_Reuse
begin

text \<open>
  \<open>quirk/cbom/bridge.py\<close>: pairs of a PQC-capable gateway and a legacy backend in one /24
  network, and their promotion from \<open>partial_only\<close> to \<open>upstream_mitigated\<close> by the ARP evidence of
  the gateway.  A device holds the keys of the dictionary the functions read; \<open>loads\<close> is
  \<open>json.loads\<close> (None when it raises).  Building the set of \<open>target_ip\<close> values raises a \<open>TypeError\<close> on
  a list or a dictionary, which nothing catches.  Hosts are addresses or names: a host with a superscript
  digit for an octet, on which \<open>int()\<close> raises, is outside the model.
\<close>

section \<open>Devices\<close>

record hw_device =
  hd_host :: string
  hd_pqc_status :: string
  hd_evidence :: "string option"
  hd_bridge_status :: "string option"

datatype bridge_error = UnhashableType

definition pqc_capable :: "string list" where
  "pqc_capable = [''partial'', ''supported'']"

definition legacy_status :: "string list" where
  "legacy_status = [''unsupported'', ''vendor-silent'', ''unknown'']"

definition is_capable :: "hw_device \<Rightarrow> bool" where
  "is_capable d \<longleftrightarrow> py_lower (hd_pqc_status d) \<in> set pqc_capable"

definition is_legacy :: "hw_device \<Rightarrow> bool" where
  "is_legacy d \<longleftrightarrow> py_lower (hd_pqc_status d) \<in> set legacy_status"

definition is_octet :: "string \<Rightarrow> bool" where
  "is_octet p \<longleftrightarrow> p \<noteq> [] \<and> list_all is_digit p \<and> digits_value p \<le> 255"

definition subnet_24 :: "string \<Rightarrow> string" where
  "subnet_24 ip =
     (let parts = py_split CHR ''.'' ip in
      if length parts = 4 \<and> list_all is_octet parts then join_with CHR ''.'' (take 3 parts) else ip)"

section \<open>Detection\<close>

definition same_subnet :: "hw_device list \<Rightarrow> hw_device \<Rightarrow> hw_device list" where
  "same_subnet ds d = filter (\<lambda>x. subnet_24 (hd_host x) = subnet_24 (hd_host d)) ds"

definition in_bridge :: "hw_device list \<Rightarrow> hw_device \<Rightarrow> bool" where
  "in_bridge ds d \<longleftrightarrow>
     (let group = same_subnet ds d in
      2 \<le> length group \<and> list_ex is_capable group \<and> list_ex is_legacy group \<and> (is_capable d \<or> is_legacy d))"

definition detect_crypto_bridges :: "hw_device list \<Rightarrow> hw_device list" where
  "detect_crypto_bridges ds =
     map (\<lambda>d. d\<lparr>hd_bridge_status := (if in_bridge ds d then Some ''partial_only'' else None)\<rparr>) ds"

section \<open>Evidence\<close>

definition hashable :: "pyval \<Rightarrow> bool" where
  "hashable v = (case v of PyList _ \<Rightarrow> False | PyDict _ \<Rightarrow> False | _ \<Rightarrow> True)"

definition target_values :: "pyval list \<Rightarrow> pyval list" where
  "target_values facts =
     List.map_filter (\<lambda>fact. case fact of PyDict m \<Rightarrow> Some (dict_get m ''target_ip'' PyNone) | _ \<Rightarrow> None) facts"

text \<open>The evidence of a gateway: None when it is skipped (absent, malformed, not a list).\<close>

definition fact_ips :: "(string \<Rightarrow> pyval option) \<Rightarrow> hw_device \<Rightarrow> bridge_error + pyval list option" where
  "fact_ips loads g =
     (if py_or_str (hd_evidence g) = [] then Inr None
      else (case loads (py_or_str (hd_evidence g)) of
              Some (PyList facts) \<Rightarrow>
                (if list_all hashable (target_values facts) then Inr (Some (target_values facts)) else Inl UnhashableType)
            | _ \<Rightarrow> Inr None))"

fun match_gateway ::
    "(string \<Rightarrow> pyval option) \<Rightarrow> bool \<Rightarrow> string \<Rightarrow> string list \<Rightarrow> hw_device list \<Rightarrow>
     bridge_error + (hw_device \<times> string) option" where
  "match_gateway loads own host legacy_ips [] = Inr None"
| "match_gateway loads own host legacy_ips (g # gs) =
     bind_err (fact_ips loads g)
       (\<lambda>found. case found of
          None \<Rightarrow> match_gateway loads own host legacy_ips gs
        | Some ips \<Rightarrow>
            if own then
              (let matched = filter (\<lambda>ip. PyStr ip \<in> set ips) legacy_ips in
               if hd_host g = host \<and> matched \<noteq> [] then Inr (Some (g, hd (sort matched)))
               else match_gateway loads own host legacy_ips gs)
            else if PyStr host \<in> set ips then Inr (Some (g, host))
            else match_gateway loads own host legacy_ips gs)"

definition bridge_group :: "hw_device list \<Rightarrow> hw_device \<Rightarrow> hw_device list" where
  "bridge_group ds d = filter (\<lambda>x. hd_bridge_status x = Some ''partial_only'') (same_subnet ds d)"

definition find_matching_gateway ::
    "(string \<Rightarrow> pyval option) \<Rightarrow> hw_device \<Rightarrow> hw_device list \<Rightarrow> bridge_error + (hw_device \<times> string) option" where
  "find_matching_gateway loads dev ds =
     (let gateways = filter is_capable (bridge_group ds dev);
          legacy_ips = map hd_host (filter is_legacy (bridge_group ds dev)) in
      if gateways = [] \<or> legacy_ips = [] then Inr None
      else match_gateway loads (is_capable dev) (hd_host dev) legacy_ips gateways)"

definition has_sufficient_evidence ::
    "(string \<Rightarrow> pyval option) \<Rightarrow> hw_device \<Rightarrow> hw_device list \<Rightarrow> bridge_error + bool" where
  "has_sufficient_evidence loads dev ds =
     bind_err (find_matching_gateway loads dev ds) (\<lambda>m. Inr (m \<noteq> None))"

definition promote :: "(string \<Rightarrow> pyval option) \<Rightarrow> hw_device list \<Rightarrow> hw_device \<Rightarrow> bridge_error + hw_device" where
  "promote loads ds d =
     (if hd_bridge_status d = Some ''partial_only''
      then bind_err (has_sufficient_evidence loads d ds)
             (\<lambda>b. Inr (if b then d\<lparr>hd_bridge_status := Some ''upstream_mitigated''\<rparr> else d))
      else Inr d)"

fun promote_all :: "(string \<Rightarrow> pyval option) \<Rightarrow> hw_device list \<Rightarrow> hw_device list \<Rightarrow> bridge_error + hw_device list" where
  "promote_all loads ds [] = Inr []"
| "promote_all loads ds (d # rest) =
     bind_err (promote loads ds d) (\<lambda>p. bind_err (promote_all loads ds rest) (\<lambda>ps. Inr (p # ps)))"

definition confirm_upstream_mitigation ::
    "(string \<Rightarrow> pyval option) \<Rightarrow> hw_device list \<Rightarrow> bridge_error + hw_device list" where
  "confirm_upstream_mitigation loads ds = promote_all loads ds ds"

section \<open>Evidence behind a promotion\<close>

text \<open>A gateway's own evidence names the backend.\<close>

definition names_backend :: "(string \<Rightarrow> pyval option) \<Rightarrow> hw_device \<Rightarrow> string \<Rightarrow> bool" where
  "names_backend loads g ip \<longleftrightarrow>
     (case fact_ips loads g of Inr (Some ips) \<Rightarrow> PyStr ip \<in> set ips | _ \<Rightarrow> False)"

lemma match_gateway_sound:
  assumes "match_gateway loads own host legacy_ips gs = Inr (Some (g, ip))"
  shows "g \<in> set gs \<and> names_backend loads g ip \<and>
    (if own then hd_host g = host \<and> ip \<in> set legacy_ips else ip = host)"
  using assms
proof (induction gs)
  case (Cons x gs)
  have hd_mem: "hd (sort (filter P xs)) \<in> set xs \<and> P (hd (sort (filter P xs)))"
    if "filter P xs \<noteq> []" for P and xs :: "string list"
  proof -
    have "sort (filter P xs) \<noteq> []" using that by (metis set_empty set_sort)
    then have "hd (sort (filter P xs)) \<in> set (sort (filter P xs))" by (rule hd_in_set)
    then show ?thesis by simp
  qed
  obtain found where f: "fact_ips loads x = Inr found"
    using Cons.prems by (cases "fact_ips loads x") auto
  show ?case
  proof (cases found)
    case None
    with f Cons show ?thesis by auto
  next
    case (Some ips)
    let ?m = "filter (\<lambda>ip. PyStr ip \<in> set ips) legacy_ips"
    show ?thesis
    proof (cases "own \<and> hd_host x = host \<and> ?m \<noteq> [] \<or> \<not> own \<and> PyStr host \<in> set ips")
      case True
      with f Some Cons.prems have "g = x" "ip = (if own then hd (sort ?m) else host)"
        by (auto simp: Let_def split: if_splits)
      with True f Some hd_mem [of "\<lambda>ip. PyStr ip \<in> set ips" legacy_ips] show ?thesis
        by (auto simp: names_backend_def)
    next
      case False
      with f Some Cons.prems have "match_gateway loads own host legacy_ips gs = Inr (Some (g, ip))"
        by (auto simp: Let_def split: if_splits)
      with Cons.IH show ?thesis by auto
    qed
  qed
qed simp

end
