(* ===== verification/Exposure_Map.thy ===== *)
theory Exposure_Map
  imports Hardware_Bridge
begin

text \<open>
  \<open>quirk/intelligence/exposure_map.py\<close>: nodes and edges of the exposure map, from shared keys, shared
  certificate authorities and confirmed hardware bridges.
\<close>

section \<open>Edges\<close>

record edge =
  eg_source :: string
  eg_target :: string
  eg_type :: string
  eg_evidence :: string

record node =
  nd_id :: string
  nd_label :: string
  nd_crown_jewel :: bool
  nd_type :: string

definition endpoint_id :: "string \<times> int \<Rightarrow> string" where
  "endpoint_id hp = fst hp @ '':'' @ int_str (snd hp)"

definition unordered :: "string \<Rightarrow> string \<Rightarrow> string \<times> string" where
  "unordered a b = (min a b, max a b)"

definition edge_pair :: "edge \<Rightarrow> string \<times> string" where
  "edge_pair e = unordered (eg_source e) (eg_target e)"

text \<open>The loop that skips pairs already drawn.\<close>

definition draw :: "edge \<Rightarrow> edge list \<times> (string \<times> string) list \<Rightarrow> edge list \<times> (string \<times> string) list" where
  "draw e acc =
     (case acc of (edges, seen) \<Rightarrow>
        if edge_pair e \<in> set seen then (edges, seen) else (edges @ [e], edge_pair e # seen))"

section \<open>Shared keys\<close>

fun ordered_pairs :: "'a list \<Rightarrow> ('a \<times> 'a) list" where
  "ordered_pairs [] = []"
| "ordered_pairs (x # xs) = map (Pair x) xs @ ordered_pairs xs"

definition key_reuse_edge :: "string \<Rightarrow> string \<times> string \<Rightarrow> edge" where
  "key_reuse_edge fp ab =
     \<lparr>eg_source = fst ab, eg_target = snd ab, eg_type = ''key_reuse'',
      eg_evidence = ''Key reuse: these endpoints share SPKI fingerprint '' @ take 12 fp
        @ ''. Source: Phase 191 key-reuse derivation.''\<rparr>"

definition cluster_edges :: "key_cluster \<Rightarrow> edge list" where
  "cluster_edges c =
     map (key_reuse_edge (kc_fingerprint c))
       (filter (\<lambda>(a, b). a \<noteq> b) (ordered_pairs (map endpoint_id (kc_members c))))"

definition derive_key_reuse_edges :: "string option \<Rightarrow> key_row list \<Rightarrow> edge list" where
  "derive_key_reuse_edges scope rows =
     fst (fold draw (concat (map cluster_edges (ku_clusters (compute_key_reuse_clusters scope rows)))) ([], []))"

section \<open>Shared certificate authorities\<close>

definition ca_node_id :: "string \<Rightarrow> string" where
  "ca_node_id issuer = ''ca:'' @ issuer"

definition ca_label :: "string \<Rightarrow> string" where
  "ca_label issuer =
     (case find (\<lambda>p. starts_with (py_upper p) ''CN='') (map py_strip (py_split CHR '','' issuer)) of
        None \<Rightarrow> issuer
      | Some part \<Rightarrow> if py_strip (drop 3 part) \<noteq> [] then py_strip (drop 3 part) else issuer)"

definition issued_rows :: "string option \<Rightarrow> key_row list \<Rightarrow> key_row list" where
  "issued_rows scope rows = filter (\<lambda>r. py_or_str (kr_issuer r) \<noteq> []) (tls_rows scope rows)"

definition dependants :: "string option \<Rightarrow> key_row list \<Rightarrow> string \<Rightarrow> string list" where
  "dependants scope rows issuer =
     sort (remdups (map (\<lambda>r. endpoint_id (kr_host r, kr_port r))
       (filter (\<lambda>r. kr_issuer r = Some issuer) (issued_rows scope rows))))"

definition issuers :: "string option \<Rightarrow> key_row list \<Rightarrow> string list" where
  "issuers scope rows =
     sort_key (\<lambda>i. (- int (length (dependants scope rows i)), i))
       (remdups (map (\<lambda>r. py_or_str (kr_issuer r)) (issued_rows scope rows)))"

definition hub_issuers :: "string option \<Rightarrow> key_row list \<Rightarrow> string list" where
  "hub_issuers scope rows = filter (\<lambda>i. 2 \<le> length (dependants scope rows i)) (issuers scope rows)"

definition ca_node :: "string \<Rightarrow> node" where
  "ca_node issuer = \<lparr>nd_id = ca_node_id issuer, nd_label = ca_label issuer, nd_crown_jewel = False, nd_type = ''ca''\<rparr>"

definition hub_edges :: "string option \<Rightarrow> key_row list \<Rightarrow> string \<Rightarrow> edge list" where
  "hub_edges scope rows issuer =
     map (\<lambda>m. \<lparr>eg_source = ca_node_id issuer, eg_target = m, eg_type = ''shared_ca'',
        eg_evidence = ''Shared certificate authority: '' @ nat_str (length (dependants scope rows issuer))
          @ '' endpoints present certificates issued by '' @ issuer
          @ [CHR ''.''] @ '' Compromise of this CA'' @ [CHR 0x27]
          @ ''s signing key allows forging a trusted certificate for every one of them.''\<rparr>)
       (dependants scope rows issuer)"

definition derive_shared_ca_edges :: "string option \<Rightarrow> key_row list \<Rightarrow> node list \<times> edge list" where
  "derive_shared_ca_edges scope rows =
     (map ca_node (hub_issuers scope rows), concat (map (hub_edges scope rows) (hub_issuers scope rows)))"

section \<open>Hardware bridges\<close>

definition device_label :: "string \<Rightarrow> string \<Rightarrow> string option \<Rightarrow> string" where
  "device_label host vendor model =
     (let parts = filter (\<lambda>p. p \<noteq> [] \<and> p \<noteq> ''Unknown'') [vendor, py_or_str model] in
      if parts \<noteq> [] then join_with CHR '' '' parts else host)"

definition bridge_device :: "hardware_row \<Rightarrow> hw_device" where
  "bridge_device d =
     \<lparr>hd_host = hw_host d, hd_pqc_status = (if hw_pqc_status d = [] then ''unknown'' else hw_pqc_status d),
      hd_evidence = hw_bridge_evidence d, hd_bridge_status = None\<rparr>"

definition last_with_host :: "hw_device list \<Rightarrow> string \<Rightarrow> hw_device option" where
  "last_with_host ds host = find (\<lambda>d. hd_host d = host) (rev ds)"

definition label_of :: "hardware_row list \<Rightarrow> string \<Rightarrow> string" where
  "label_of devices host =
     (case find (\<lambda>d. hw_host d = host) (rev devices) of
        None \<Rightarrow> host
      | Some d \<Rightarrow> device_label (hw_host d) (hw_vendor d) (hw_model d))"

definition bridge_edge :: "hardware_row list \<Rightarrow> string \<Rightarrow> hw_device \<times> string \<Rightarrow> edge" where
  "bridge_edge devices host m =
     (let gateway = hd_host (fst m); other = (if host = gateway then snd m else host) in
      \<lparr>eg_source = gateway, eg_target = other, eg_type = ''hardware_bridge'',
       eg_evidence = ''Confirmed hardware crypto-bridge: '' @ label_of devices gateway @ '' bridges '' @ gateway
         @ '' to '' @ other @ ''. Source: hardware inventory table.''\<rparr>)"

definition edge_of_device ::
    "(string \<Rightarrow> pyval option) \<Rightarrow> hardware_row list \<Rightarrow> hw_device list \<Rightarrow> hw_device \<Rightarrow> bridge_error + edge option" where
  "edge_of_device loads devices detected d =
     (if hd_bridge_status d \<noteq> Some ''upstream_mitigated'' then Inr None
      else (case last_with_host detected (hd_host d) of
              None \<Rightarrow> Inr None
            | Some pre \<Rightarrow> bind_err (find_matching_gateway loads pre detected)
                (\<lambda>m. Inr (map_option (bridge_edge devices (hd_host d)) m))))"

definition draw_device ::
    "(string \<Rightarrow> pyval option) \<Rightarrow> hardware_row list \<Rightarrow> hw_device list \<Rightarrow> hw_device \<Rightarrow>
     edge list \<times> (string \<times> string) list \<Rightarrow> bridge_error + edge list \<times> (string \<times> string) list" where
  "draw_device loads devices detected d acc =
     bind_err (edge_of_device loads devices detected d)
       (\<lambda>e. Inr (case e of None \<Rightarrow> acc | Some e \<Rightarrow> draw e acc))"

definition derive_hardware_bridge_edges ::
    "(string \<Rightarrow> pyval option) \<Rightarrow> hardware_row list \<Rightarrow> bridge_error + edge list" where
  "derive_hardware_bridge_edges loads hardware =
     (let devices = latest_successful_hardware_devices hardware;
          detected = detect_crypto_bridges (map bridge_device devices) in
      bind_err (confirm_upstream_mitigation loads detected)
        (\<lambda>confirmed. bind_err (err_fold (draw_device loads devices detected) confirmed ([], []))
           (\<lambda>acc. Inr (fst acc))))"

section \<open>The map\<close>

definition latest_scan_run_id :: "key_row list \<Rightarrow> string option" where
  "latest_scan_run_id rows =
     (case List.map_filter kr_scan_run_id rows of [] \<Rightarrow> None | i # is \<Rightarrow> Some (fold max is i))"

definition host_part :: "string \<Rightarrow> string" where
  "host_part i = (if CHR '':'' \<in> set i then rev (tl (dropWhile (\<lambda>c. c \<noteq> CHR '':'') (rev i))) else i)"

definition endpoint_node :: "string list \<Rightarrow> string \<Rightarrow> node" where
  "endpoint_node declared i =
     \<lparr>nd_id = i, nd_label = i, nd_crown_jewel = (host_part i \<in> set declared), nd_type = ''endpoint''\<rparr>"

definition edge_node_ids :: "string list \<Rightarrow> edge list \<Rightarrow> string list" where
  "edge_node_ids hubs edges =
     filter (\<lambda>i. i \<notin> set hubs) (first_occurrences (concat (map (\<lambda>e. [eg_source e, eg_target e]) edges)))"

definition derive_exposure_map ::
    "(string \<Rightarrow> pyval option) \<Rightarrow> key_row list \<Rightarrow> hardware_row list \<Rightarrow> string option \<Rightarrow> string option list \<Rightarrow>
     bridge_error + node list \<times> edge list" where
  "derive_exposure_map loads rows hardware scan crown_jewels =
     (let scope = (case scan of None \<Rightarrow> latest_scan_run_id rows | Some s \<Rightarrow> Some s);
          key_edges = derive_key_reuse_edges scope rows;
          (ca_nodes, ca_edges) = derive_shared_ca_edges scope rows in
      bind_err (derive_hardware_bridge_edges loads hardware)
        (\<lambda>hw_edges.
           let edges = key_edges @ ca_edges @ hw_edges;
               declared = filter (\<lambda>h. h \<noteq> []) (map (py_strip \<circ> py_or_str) crown_jewels) in
           Inr (ca_nodes @ map (endpoint_node declared) (edge_node_ids (map nd_id ca_nodes) edges), edges)))"

end
