(* ===== verification/Exposure_Properties.thy ===== *)
theory Exposure_Properties
  imports Exposure_Map
begin

text \<open>
  The exposure map is exact: an edge for every verified relation and for nothing else, no pair drawn
  twice, and nodes that are distinct and carry every edge.
\<close>

section \<open>Drawing\<close>

lemma draw_fold:
  assumes "distinct (map edge_pair es)"
  shows "\<exists>ds. fold draw cs (es, rev (map edge_pair es)) = (es @ ds, rev (map edge_pair (es @ ds))) \<and>
    distinct (map edge_pair (es @ ds)) \<and> set ds \<subseteq> set cs \<and>
    edge_pair ` set (es @ ds) = edge_pair ` set es \<union> edge_pair ` set cs"
  using assms
proof (induction cs arbitrary: es)
  case (Cons c cs)
  show ?case
  proof (cases "edge_pair c \<in> edge_pair ` set es")
    case True
    then have "draw c (es, rev (map edge_pair es)) = (es, rev (map edge_pair es))" by (simp add: draw_def)
    with Cons.IH [OF Cons.prems] True show ?thesis by auto
  next
    case False
    then have d: "draw c (es, rev (map edge_pair es)) = (es @ [c], rev (map edge_pair (es @ [c])))"
      by (simp add: draw_def)
    have "distinct (map edge_pair (es @ [c]))" using Cons.prems False by simp
    from Cons.IH [OF this] obtain ds where
      "fold draw cs (es @ [c], rev (map edge_pair (es @ [c]))) = ((es @ [c]) @ ds, rev (map edge_pair ((es @ [c]) @ ds)))"
      "distinct (map edge_pair ((es @ [c]) @ ds))" "set ds \<subseteq> set cs"
      "edge_pair ` set ((es @ [c]) @ ds) = edge_pair ` set (es @ [c]) \<union> edge_pair ` set cs" by blast
    with d show ?thesis by (intro exI [of _ "c # ds"]) auto
  qed
qed simp

lemma drawn:
  "distinct (map edge_pair (fst (fold draw cs ([], []))))" "set (fst (fold draw cs ([], []))) \<subseteq> set cs"
  "edge_pair ` set (fst (fold draw cs ([], []))) = edge_pair ` set cs"
  using draw_fold [of "[]" cs] by auto

section \<open>Shared keys\<close>

lemma unordered_eq: "unordered a b = unordered c d \<longleftrightarrow> a = c \<and> b = d \<or> a = d \<and> b = c"
  by (auto simp: unordered_def min_def max_def split: if_splits)

lemma ordered_pairs_members: "(a, b) \<in> set (ordered_pairs xs) \<Longrightarrow> a \<in> set xs \<and> b \<in> set xs"
  by (induction xs) auto

lemma ordered_pairs_all:
  "a \<in> set xs \<Longrightarrow> b \<in> set xs \<Longrightarrow> a \<noteq> b \<Longrightarrow> (a, b) \<in> set (ordered_pairs xs) \<or> (b, a) \<in> set (ordered_pairs xs)"
  by (induction xs) auto

lemma key_reuse_edge_fields [simp]:
  "edge_pair (key_reuse_edge fp ab) = unordered (fst ab) (snd ab)" "eg_type (key_reuse_edge fp ab) = ''key_reuse''"
  by (simp_all add: key_reuse_edge_def edge_pair_def)

lemma cluster_pairs:
  "p \<in> edge_pair ` set (cluster_edges c) \<longleftrightarrow>
   (\<exists>x \<in> set (kc_members c). \<exists>y \<in> set (kc_members c).
      endpoint_id x \<noteq> endpoint_id y \<and> p = unordered (endpoint_id x) (endpoint_id y))"
proof -
  let ?ids = "map endpoint_id (kc_members c)"
  have "p \<in> edge_pair ` set (cluster_edges c) \<longleftrightarrow>
      (\<exists>a b. (a, b) \<in> set (ordered_pairs ?ids) \<and> a \<noteq> b \<and> p = unordered a b)"
    by (force simp: cluster_edges_def image_iff)
  also have "\<dots> \<longleftrightarrow> (\<exists>a \<in> set ?ids. \<exists>b \<in> set ?ids. a \<noteq> b \<and> p = unordered a b)"
  proof
    assume "\<exists>a b. (a, b) \<in> set (ordered_pairs ?ids) \<and> a \<noteq> b \<and> p = unordered a b"
    then show "\<exists>a \<in> set ?ids. \<exists>b \<in> set ?ids. a \<noteq> b \<and> p = unordered a b"
      using ordered_pairs_members by metis
  next
    assume "\<exists>a \<in> set ?ids. \<exists>b \<in> set ?ids. a \<noteq> b \<and> p = unordered a b"
    then obtain a b where ab: "a \<in> set ?ids" "b \<in> set ?ids" "a \<noteq> b" "p = unordered a b" by blast
    then have "(a, b) \<in> set (ordered_pairs ?ids) \<or> (b, a) \<in> set (ordered_pairs ?ids)"
      using ordered_pairs_all by metis
    moreover have "unordered a b = unordered b a" by (simp add: unordered_eq)
    ultimately show "\<exists>a b. (a, b) \<in> set (ordered_pairs ?ids) \<and> a \<noteq> b \<and> p = unordered a b"
      using ab by metis
  qed
  finally show ?thesis by auto
qed

lemma cluster_members:
  "kc_members (cluster_of scope rows fp) = map (\<lambda>r. (kr_host r, kr_port r)) (presenting scope rows fp)"
  by (simp add: cluster_of_def Let_def)

text \<open>Two rows of one key with different addresses make the key a reused one.\<close>

lemma two_presenters:
  assumes "r \<in> set (tls_rows scope rows)" "s \<in> set (tls_rows scope rows)"
    and "kr_spki r = Some fp" "kr_spki s = Some fp" and "r \<noteq> s"
  shows "fp \<in> set (reused_fingerprints scope rows)"
proof -
  have "{r, s} \<subseteq> set (presenting scope rows fp)" using assms by (simp add: presenting_member)
  then have "card {r, s} \<le> length (presenting scope rows fp)"
    by (meson card_length card_mono finite_set le_trans)
  with assms(5) show ?thesis by (simp add: reused_iff)
qed

definition row_id :: "key_row \<Rightarrow> string" where
  "row_id r = endpoint_id (kr_host r, kr_port r)"

definition share_key :: "key_row \<Rightarrow> key_row \<Rightarrow> bool" where
  "share_key r s \<longleftrightarrow> kr_spki r \<noteq> None \<and> kr_spki r = kr_spki s"

text \<open>C26: the key-reuse edges are exact and never repeat: two endpoints are joined exactly when they are
  different and rows of the scan for them present one public key; no endpoint is joined to itself.\<close>

theorem key_reuse_edges_exact:
  "distinct (map edge_pair (derive_key_reuse_edges scope rows)) \<and>
   (unordered a b \<in> edge_pair ` set (derive_key_reuse_edges scope rows) \<longleftrightarrow>
      a \<noteq> b \<and> (\<exists>r \<in> set (tls_rows scope rows). \<exists>s \<in> set (tls_rows scope rows).
        share_key r s \<and> row_id r = a \<and> row_id s = b))"
proof
  let ?all = "concat (map cluster_edges (ku_clusters (compute_key_reuse_clusters scope rows)))"
  show "distinct (map edge_pair (derive_key_reuse_edges scope rows))"
    unfolding derive_key_reuse_edges_def by (rule drawn(1))
  have "unordered a b \<in> edge_pair ` set (derive_key_reuse_edges scope rows) \<longleftrightarrow>
      (\<exists>fp \<in> set (reused_fingerprints scope rows). unordered a b \<in> edge_pair ` set (cluster_edges (cluster_of scope rows fp)))"
    unfolding derive_key_reuse_edges_def drawn(3) by (auto simp: compute_key_reuse_clusters_def)
  also have "\<dots> \<longleftrightarrow> (\<exists>fp \<in> set (reused_fingerprints scope rows).
      \<exists>r \<in> set (presenting scope rows fp). \<exists>s \<in> set (presenting scope rows fp).
        row_id r \<noteq> row_id s \<and> unordered a b = unordered (row_id r) (row_id s))"
    unfolding cluster_pairs cluster_members by (simp add: row_id_def)
  also have "\<dots> \<longleftrightarrow> a \<noteq> b \<and> (\<exists>r \<in> set (tls_rows scope rows). \<exists>s \<in> set (tls_rows scope rows).
        share_key r s \<and> row_id r = a \<and> row_id s = b)"
  proof
    assume "\<exists>fp \<in> set (reused_fingerprints scope rows).
      \<exists>r \<in> set (presenting scope rows fp). \<exists>s \<in> set (presenting scope rows fp).
        row_id r \<noteq> row_id s \<and> unordered a b = unordered (row_id r) (row_id s)"
    then obtain fp r s where rs: "r \<in> set (presenting scope rows fp)" "s \<in> set (presenting scope rows fp)"
      "row_id r \<noteq> row_id s" "unordered a b = unordered (row_id r) (row_id s)" by blast
    then have "share_key r s" "share_key s r" by (simp_all add: presenting_member share_key_def)
    moreover have "r \<in> set (tls_rows scope rows)" "s \<in> set (tls_rows scope rows)"
      using rs by (simp_all add: presenting_member)
    moreover have "a = row_id r \<and> b = row_id s \<or> a = row_id s \<and> b = row_id r" using rs(4) by (simp add: unordered_eq)
    ultimately show "a \<noteq> b \<and> (\<exists>r \<in> set (tls_rows scope rows). \<exists>s \<in> set (tls_rows scope rows).
        share_key r s \<and> row_id r = a \<and> row_id s = b)"
      using rs(3) by metis
  next
    assume "a \<noteq> b \<and> (\<exists>r \<in> set (tls_rows scope rows). \<exists>s \<in> set (tls_rows scope rows).
        share_key r s \<and> row_id r = a \<and> row_id s = b)"
    then obtain r s fp where *: "a \<noteq> b" "r \<in> set (tls_rows scope rows)" "s \<in> set (tls_rows scope rows)"
      "kr_spki r = Some fp" "kr_spki s = Some fp" "row_id r = a" "row_id s = b"
      by (auto simp: share_key_def)
    then have "r \<noteq> s" by auto
    with * have "fp \<in> set (reused_fingerprints scope rows)" using two_presenters by blast
    moreover have "r \<in> set (presenting scope rows fp)" "s \<in> set (presenting scope rows fp)"
      using * by (simp_all add: presenting_member)
    ultimately show "\<exists>fp \<in> set (reused_fingerprints scope rows).
      \<exists>r \<in> set (presenting scope rows fp). \<exists>s \<in> set (presenting scope rows fp).
        row_id r \<noteq> row_id s \<and> unordered a b = unordered (row_id r) (row_id s)"
      using * by blast
  qed
  finally show "unordered a b \<in> edge_pair ` set (derive_key_reuse_edges scope rows) \<longleftrightarrow>
      a \<noteq> b \<and> (\<exists>r \<in> set (tls_rows scope rows). \<exists>s \<in> set (tls_rows scope rows).
        share_key r s \<and> row_id r = a \<and> row_id s = b)" .
qed

section \<open>Shared authorities\<close>

lemma in_dependants:
  "m \<in> set (dependants scope rows i) \<longleftrightarrow>
   (\<exists>r \<in> set (issued_rows scope rows). kr_issuer r = Some i \<and> row_id r = m)"
  by (auto simp: dependants_def row_id_def)

lemma in_issuers: "i \<in> set (issuers scope rows) \<longleftrightarrow> (\<exists>r \<in> set (issued_rows scope rows). kr_issuer r = Some i)"
proof -
  have "kr_issuer r = Some (py_or_str (kr_issuer r))" if "r \<in> set (issued_rows scope rows)" for r
    using that by (auto simp: issued_rows_def py_or_str_def split: option.splits)
  then have "i = py_or_str (kr_issuer r) \<longleftrightarrow> kr_issuer r = Some i" if "r \<in> set (issued_rows scope rows)" for r
    using that by (metis option.inject)
  then show ?thesis by (auto simp: issuers_def)
qed

lemma hub_issuer_iff: "i \<in> set (hub_issuers scope rows) \<longleftrightarrow> 2 \<le> length (dependants scope rows i)"
proof -
  have "i \<in> set (issuers scope rows)" if "2 \<le> length (dependants scope rows i)"
  proof -
    obtain m where "m \<in> set (dependants scope rows i)"
      using \<open>2 \<le> length (dependants scope rows i)\<close> by (cases "dependants scope rows i") auto
    then show ?thesis using in_dependants in_issuers by metis
  qed
  then show ?thesis by (auto simp: hub_issuers_def)
qed

lemma filter_conj_length: "length (filter (\<lambda>x. Q x \<and> P x) xs) \<le> length (filter P xs)"
  by (induction xs) auto

lemma dependants_rows:
  "length (dependants scope rows i) \<le> length (filter (\<lambda>r. kr_issuer r = Some i) (tls_rows scope rows))"
proof -
  have "length (dependants scope rows i) \<le> length (filter (\<lambda>r. kr_issuer r = Some i) (issued_rows scope rows))"
    unfolding dependants_def length_sort by (rule order_trans [OF length_remdups_leq]) simp
  also have "\<dots> \<le> length (filter (\<lambda>r. kr_issuer r = Some i) (tls_rows scope rows))"
    unfolding issued_rows_def filter_filter by (rule filter_conj_length)
  finally show ?thesis .
qed

lemma sum_by_issuer:
  "distinct is \<Longrightarrow> sum_list (map (\<lambda>i. length (filter (\<lambda>r. kr_issuer r = Some i) rs)) is) \<le> length rs"
proof (induction rs)
  case (Cons r rs)
  have "sum_list (map (\<lambda>i. length (filter (\<lambda>r. kr_issuer r = Some i) (r # rs))) is) =
      sum_list (map (\<lambda>i. (if kr_issuer r = Some i then 1 else 0) + length (filter (\<lambda>r. kr_issuer r = Some i) rs)) is)"
    by (rule arg_cong [of _ _ sum_list], rule map_cong) auto
  also have "\<dots> = sum_list (map (\<lambda>i. if kr_issuer r = Some i then 1 else 0) is)
      + sum_list (map (\<lambda>i. length (filter (\<lambda>r. kr_issuer r = Some i) rs)) is)"
    by (rule sum_list_addf)
  also have "sum_list (map (\<lambda>i. if kr_issuer r = Some i then 1 else 0 :: nat) is) \<le> 1"
    using Cons.prems by (induction "is") auto
  finally show ?case using Cons by simp
qed simp

text \<open>The authority edges are exact and few: a hub leads to an endpoint exactly when a row of the scan
  for it carries a certificate of that issuer and the issuer has at least two endpoints; there are
  never more edges than TLS rows, where joining all pairs would give a square.\<close>

theorem ca_hub_edges_exact:
  "((ca_node_id i, m) \<in> (\<lambda>e. (eg_source e, eg_target e)) ` set (snd (derive_shared_ca_edges scope rows)) \<longleftrightarrow>
      2 \<le> length (dependants scope rows i) \<and>
      (\<exists>r \<in> set (issued_rows scope rows). kr_issuer r = Some i \<and> row_id r = m)) \<and>
   length (snd (derive_shared_ca_edges scope rows)) \<le> length (tls_rows scope rows)"
proof
  have "(ca_node_id i, m) \<in> (\<lambda>e. (eg_source e, eg_target e)) ` set (snd (derive_shared_ca_edges scope rows)) \<longleftrightarrow>
      (\<exists>j \<in> set (hub_issuers scope rows). j = i \<and> m \<in> set (dependants scope rows j))"
    by (force simp: derive_shared_ca_edges_def hub_edges_def ca_node_id_def image_iff)
  then show "(ca_node_id i, m) \<in> (\<lambda>e. (eg_source e, eg_target e)) ` set (snd (derive_shared_ca_edges scope rows)) \<longleftrightarrow>
      2 \<le> length (dependants scope rows i) \<and>
      (\<exists>r \<in> set (issued_rows scope rows). kr_issuer r = Some i \<and> row_id r = m)"
    by (simp add: hub_issuer_iff in_dependants)
  have "length (snd (derive_shared_ca_edges scope rows)) =
      sum_list (map (\<lambda>i. length (dependants scope rows i)) (hub_issuers scope rows))"
    by (simp add: derive_shared_ca_edges_def hub_edges_def length_concat o_def)
  also have "\<dots> \<le> sum_list (map (\<lambda>i. length (filter (\<lambda>r. kr_issuer r = Some i) (tls_rows scope rows))) (hub_issuers scope rows))"
    by (rule sum_list_mono) (rule dependants_rows)
  also have "\<dots> \<le> length (tls_rows scope rows)"
    by (rule sum_by_issuer) (simp add: hub_issuers_def issuers_def)
  finally show "length (snd (derive_shared_ca_edges scope rows)) \<le> length (tls_rows scope rows)" .
qed

section \<open>Hardware bridges\<close>

lemma matching_sound:
  assumes "find_matching_gateway loads dev ds = Inr (Some (g, ip))"
  shows "g \<in> set ds \<and> is_capable g \<and> subnet_24 (hd_host g) = subnet_24 (hd_host dev) \<and>
    names_backend loads g ip \<and> subnet_24 ip = subnet_24 (hd_host dev) \<and>
    (hd_host g = hd_host dev \<or> ip = hd_host dev)"
proof -
  have m: "match_gateway loads (is_capable dev) (hd_host dev) (map hd_host (filter is_legacy (bridge_group ds dev)))
      (filter is_capable (bridge_group ds dev)) = Inr (Some (g, ip))"
    using assms by (auto simp: find_matching_gateway_def Let_def split: if_splits)
  show ?thesis
    using match_gateway_sound [OF m] by (auto simp: bridge_group_def same_subnet_def split: if_splits)
qed

definition proved_bridge :: "(string \<Rightarrow> pyval option) \<Rightarrow> hw_device list \<Rightarrow> edge \<Rightarrow> bool" where
  "proved_bridge loads ds e \<longleftrightarrow>
     list_ex (\<lambda>g. is_capable g \<and> hd_host g = eg_source e \<and> names_backend loads g (eg_target e)) ds \<and>
     subnet_24 (eg_source e) = subnet_24 (eg_target e)"

lemma device_edge_proved:
  assumes "edge_of_device loads devices ds d = Inr (Some e)"
  shows "proved_bridge loads ds e"
proof -
  obtain pre g ip where pre: "last_with_host ds (hd_host d) = Some pre"
    and m: "find_matching_gateway loads pre ds = Inr (Some (g, ip))" and e: "e = bridge_edge devices (hd_host d) (g, ip)"
    using assms by (auto simp: edge_of_device_def bind_err_Inr split: if_splits option.splits)
  have h: "hd_host pre = hd_host d"
    using find_SomeD [OF pre [unfolded last_with_host_def]] by simp
  have "eg_source e = hd_host g" "eg_target e = ip"
    using e matching_sound [OF m] h by (auto simp: bridge_edge_def Let_def)
  with matching_sound [OF m] show ?thesis
    by (auto simp: proved_bridge_def list_ex_iff)
qed

lemma draw_keeps:
  assumes "list_all P (fst acc)" and "P e"
  shows "list_all P (fst (draw e acc))"
  using assms by (auto simp: draw_def split: prod.split)

lemma bridge_edges_kept:
  assumes "err_fold (draw_device loads devices ds) xs ([], []) = Inr acc"
  shows "list_all (proved_bridge loads ds) (fst acc)"
proof (rule err_fold_invariant [OF assms, where P = "\<lambda>acc. list_all (proved_bridge loads ds) (fst acc)"])
  fix x s t
  assume s: "list_all (proved_bridge loads ds) (fst s)" and "draw_device loads devices ds x s = Inr t"
  then obtain found where found: "edge_of_device loads devices ds x = Inr found"
    and t: "t = (case found of None \<Rightarrow> s | Some e \<Rightarrow> draw e s)"
    by (auto simp: draw_device_def bind_err_Inr)
  show "list_all (proved_bridge loads ds) (fst t)"
  proof (cases found)
    case (Some e)
    with found have "proved_bridge loads ds e" using device_edge_proved by blast
    with draw_keeps [OF s] Some t show ?thesis by simp
  qed (use s t in simp)
qed simp

text \<open>C27: no bridge is inferred: every hardware edge leads from a PQC-capable gateway of the inventory to
  an address of its own /24 network that the gateway's own ARP evidence names; sharing a network
  is never enough.\<close>

theorem bridges_are_proved:
  assumes "derive_hardware_bridge_edges loads hardware = Inr edges"
  shows "list_all (proved_bridge loads
    (detect_crypto_bridges (map bridge_device (latest_successful_hardware_devices hardware)))) edges"
proof -
  let ?devices = "latest_successful_hardware_devices hardware"
  let ?ds = "detect_crypto_bridges (map bridge_device ?devices)"
  obtain confirmed acc where "err_fold (draw_device loads ?devices ?ds) confirmed ([], []) = Inr acc" "edges = fst acc"
    using assms by (auto simp: derive_hardware_bridge_edges_def Let_def bind_err_Inr)
  with bridge_edges_kept show ?thesis by blast
qed

section \<open>The whole map\<close>

lemma map_parts:
  assumes "derive_exposure_map loads rows hardware scan jewels = Inr (nodes, edges)"
  obtains declared scope where
    "nodes = map ca_node (hub_issuers scope rows) @
       map (endpoint_node declared) (edge_node_ids (map nd_id (map ca_node (hub_issuers scope rows))) edges)"
  using assms
  by (auto simp: derive_exposure_map_def derive_shared_ca_edges_def Let_def bind_err_Inr split: option.splits)

text \<open>C28: the map is a graph: node identifiers are distinct, every edge joins two of its nodes, and every
  endpoint node is on some edge.\<close>

theorem exposure_map_is_a_graph:
  assumes "derive_exposure_map loads rows hardware scan jewels = Inr (nodes, edges)"
  shows "distinct (map nd_id nodes) \<and>
    list_all (\<lambda>e. eg_source e \<in> nd_id ` set nodes \<and> eg_target e \<in> nd_id ` set nodes) edges \<and>
    list_all (\<lambda>n. nd_type n = ''ca'' \<or> list_ex (\<lambda>e. nd_id n = eg_source e \<or> nd_id n = eg_target e) edges) nodes"
proof -
  obtain declared scope where nodes: "nodes = map ca_node (hub_issuers scope rows) @
       map (endpoint_node declared) (edge_node_ids (map nd_id (map ca_node (hub_issuers scope rows))) edges)"
    using assms by (rule map_parts)
  let ?hubs = "map nd_id (map ca_node (hub_issuers scope rows))"
  have ids: "map nd_id nodes = ?hubs @ edge_node_ids ?hubs edges"
    by (simp add: nodes o_def endpoint_node_def)
  have "inj ca_node_id" by (auto simp: inj_def ca_node_id_def)
  then have "distinct ?hubs"
    by (simp add: o_def ca_node_def distinct_map hub_issuers_def issuers_def inj_on_def inj_def)
  then have "distinct (map nd_id nodes)"
    unfolding ids by (auto simp: edge_node_ids_def)
  moreover have on: "i \<in> set (edge_node_ids ?hubs edges) \<Longrightarrow> \<exists>e \<in> set edges. i = eg_source e \<or> i = eg_target e" for i
    by (auto simp: edge_node_ids_def)
  have all: "eg_source e \<in> nd_id ` set nodes \<and> eg_target e \<in> nd_id ` set nodes" if "e \<in> set edges" for e
  proof -
    have "set ?hubs \<union> {eg_source e, eg_target e} \<subseteq> set ?hubs \<union> set (edge_node_ids ?hubs edges)"
      using that by (auto simp: edge_node_ids_def)
    moreover have "nd_id ` set nodes = set ?hubs \<union> set (edge_node_ids ?hubs edges)"
      unfolding set_map [symmetric] ids by simp
    ultimately show ?thesis by blast
  qed
  moreover have "nd_type n = ''ca'' \<or> list_ex (\<lambda>e. nd_id n = eg_source e \<or> nd_id n = eg_target e) edges"
    if "n \<in> set nodes" for n
    using that on by (auto simp: nodes ca_node_def endpoint_node_def list_ex_iff)
  ultimately show ?thesis by (simp add: list_all_iff)
qed

section \<open>Witnesses\<close>

definition sample_hardware :: "hardware_row list" where
  "sample_hardware =
     [\<lparr>hw_id = 1, hw_host = ''10.0.0.1'', hw_port = 161, hw_vendor = ''Acme'', hw_model = None, hw_pqc_status = ''supported'',
       hw_scanned_at = 1, hw_probe_status = Some ''success'', hw_bridge_evidence = Some ''arp''\<rparr>,
      \<lparr>hw_id = 2, hw_host = ''10.0.0.2'', hw_port = 443, hw_vendor = ''Unknown'', hw_model = None, hw_pqc_status = ''unsupported'',
       hw_scanned_at = 1, hw_probe_status = Some ''success'', hw_bridge_evidence = None\<rparr>]"

definition sample_loads :: "string \<Rightarrow> pyval option" where
  "sample_loads t =
     (if t = ''arp'' then Some (PyList [PyDict [(''target_ip'', PyStr ''10.0.0.2'')]]) else None)"

lemma sample_bridge:
  "map (\<lambda>e. (eg_source e, eg_target e)) (case derive_hardware_bridge_edges sample_loads sample_hardware of Inl _ \<Rightarrow> [] | Inr es \<Rightarrow> es)
   = [(''10.0.0.1'', ''10.0.0.2'')]"
  by code_simp

lemma sample_bridges_run: "\<exists>e. derive_hardware_bridge_edges sample_loads sample_hardware = Inr [e]"
  using sample_bridge by (cases "derive_hardware_bridge_edges sample_loads sample_hardware") auto

theorem bridges_are_proved_witness:
  "\<exists>e. derive_hardware_bridge_edges sample_loads sample_hardware = Inr [e] \<and>
     list_all (proved_bridge sample_loads
       (detect_crypto_bridges (map bridge_device (latest_successful_hardware_devices sample_hardware)))) [e]"
  using sample_bridges_run bridges_are_proved by blast

theorem exposure_map_is_a_graph_witness:
  "\<exists>nodes edges. derive_exposure_map sample_loads [] sample_hardware None [Some ''10.0.0.2''] = Inr (nodes, edges) \<and>
    distinct (map nd_id nodes) \<and>
    list_all (\<lambda>e. eg_source e \<in> nd_id ` set nodes \<and> eg_target e \<in> nd_id ` set nodes) edges \<and>
    list_all (\<lambda>n. nd_type n = ''ca'' \<or> list_ex (\<lambda>e. nd_id n = eg_source e \<or> nd_id n = eg_target e) edges) nodes"
proof -
  obtain e where "derive_hardware_bridge_edges sample_loads sample_hardware = Inr [e]" using sample_bridges_run by blast
  then obtain nodes edges where run: "derive_exposure_map sample_loads [] sample_hardware None [Some ''10.0.0.2''] = Inr (nodes, edges)"
    by (simp add: derive_exposure_map_def Let_def case_prod_unfold)
  from exposure_map_is_a_graph [OF run] run show ?thesis by blast
qed

text \<open>The prefix of an authority's identifier does not keep it apart from an endpoint: a host named \<open>ca\<close>
  and an issuer written as a number share one.\<close>

lemma ca_and_endpoint_ids_collide: "ca_node_id ''443'' = endpoint_id (''ca'', 443)"
  by code_simp

end
