(* ===== verification/Url_Guard.thy ===== *)
theory Url_Guard
  imports Ip_Address
begin

text \<open>
  \<open>quirk/util/url_allowlist.py\<close>: the guard that decides whether a URL may be fetched, over a model of
  \<open>urllib.parse.urlparse\<close>.  The resolver \<open>socket.getaddrinfo\<close> is a parameter: None when it raises, else
  the address text of every entry (None when the entry has no text).  The environment is a parameter
  too.  A returned address is kept as the address whose text the code stores.
\<close>

section \<open>Parsing a URL\<close>

record url_parts =
  up_scheme :: string
  up_netloc :: string
  up_path :: string

definition is_alpha :: "char \<Rightarrow> bool" where
  "is_alpha c \<longleftrightarrow> (65 \<le> char_code c \<and> char_code c \<le> 90) \<or> (97 \<le> char_code c \<and> char_code c \<le> 122)"

definition is_scheme_char :: "char \<Rightarrow> bool" where
  "is_scheme_char c \<longleftrightarrow> is_alpha c \<or> is_digit c \<or> c \<in> set ''+-.''"

definition bracketed_host_ok :: "string \<Rightarrow> bool" where
  "bracketed_host_ok h \<longleftrightarrow>
     (if starts_with h ''v''
      then (let digits = takeWhile (\<lambda>c. hex_digit c \<noteq> None) (tl h); rest = drop (length digits) (tl h) in
            digits \<noteq> [] \<and> 2 \<le> length rest \<and> hd rest = CHR ''.'')
      else (case ip_address h of Some (V6 _ _) \<Rightarrow> True | _ \<Rightarrow> False))"

definition netloc_ok :: "string \<Rightarrow> bool" where
  "netloc_ok n \<longleftrightarrow>
     (CHR ''['' \<in> set n \<longleftrightarrow> CHR '']'' \<in> set n) \<and>
     \<not> (CHR ''['' \<in> set n \<and> \<not> bracketed_host_ok (before_char CHR '']'' (after_char CHR ''['' n)))"

definition uses_params :: "string list" where
  "uses_params =
     [[], ''ftp'', ''hdl'', ''prospero'', ''http'', ''imap'', ''https'', ''shttp'', ''rtsp'', ''rtsps'', ''rtspu'',
      ''sip'', ''sips'', ''mms'', ''sftp'', ''tel'']"

definition without_params :: "string \<Rightarrow> string" where
  "without_params path =
     (let tail = rev (takeWhile (\<lambda>c. c \<noteq> CHR ''/'') (rev path)) in
      take (length path - length tail) path @ before_char CHR '';'' tail)"

definition split_scheme :: "string \<Rightarrow> string \<times> string" where
  "split_scheme url =
     (let lead = before_char CHR '':'' url in
      if CHR '':'' \<in> set url \<and> lead \<noteq> [] \<and> is_alpha (hd lead) \<and> list_all is_scheme_char lead
      then (py_lower lead, after_char CHR '':'' url) else ([], url))"

definition split_netloc :: "string \<Rightarrow> string \<times> string" where
  "split_netloc rest =
     (if starts_with rest ''//''
      then (takeWhile (\<lambda>c. c \<notin> set ''/?#'') (drop 2 rest), dropWhile (\<lambda>c. c \<notin> set ''/?#'') (drop 2 rest))
      else ([], rest))"

text \<open>None when it raises \<open>ValueError\<close>.\<close>

definition urlparse :: "string \<Rightarrow> url_parts option" where
  "urlparse raw =
     (case split_scheme (filter (\<lambda>c. char_code c \<notin> {9, 10, 13}) (dropWhile (\<lambda>c. char_code c \<le> 32) raw)) of
        (scheme, rest) \<Rightarrow>
          (case split_netloc rest of
             (netloc, tail) \<Rightarrow>
               (let path = before_char CHR ''?'' (before_char CHR ''#'' tail) in
                if netloc_ok netloc
                then Some \<lparr>up_scheme = scheme, up_netloc = netloc,
                           up_path = (if scheme \<in> set uses_params then without_params path else path)\<rparr>
                else None)))"

definition host_info :: "string \<Rightarrow> string \<times> string" where
  "host_info netloc =
     (let info = rev (before_char CHR ''@'' (rev netloc)) in
      if CHR ''['' \<in> set info
      then (before_char CHR '']'' (after_char CHR ''['' info), after_char CHR '':'' (after_char CHR '']'' (after_char CHR ''['' info)))
      else (before_char CHR '':'' info, after_char CHR '':'' info))"

text \<open>The host in lower case up to a zone identifier; the empty text for None.\<close>

definition url_hostname :: "url_parts \<Rightarrow> string" where
  "url_hostname u =
     (let h = fst (host_info (up_netloc u)) in
      py_lower (before_char CHR ''%'' h) @ dropWhile (\<lambda>c. c \<noteq> CHR ''%'') h)"

datatype url_port_kind = BadPort | NoPort | Port nat

definition url_port :: "url_parts \<Rightarrow> url_port_kind" where
  "url_port u =
     (let p = snd (host_info (up_netloc u)) in
      if p = [] then NoPort
      else if list_all is_digit p \<and> int (digits_value p) \<le> 65535 then Port (digits_value p)
      else BadPort)"

section \<open>Results\<close>

datatype reason =
    NoReason | InternalIp | Loopback | LinkLocal | MetadataServiceIp | SchemePrefix | DnsFailure | ConsoleEndpoint

record validation =
  vr_ok :: bool
  vr_reason :: reason
  vr_preview :: string
  vr_resolved :: "ipaddr option"

definition reason_code :: "reason \<Rightarrow> string" where
  "reason_code r =
     (case r of
        NoReason \<Rightarrow> [] | InternalIp \<Rightarrow> ''internal_ip'' | Loopback \<Rightarrow> ''loopback'' | LinkLocal \<Rightarrow> ''link_local''
      | MetadataServiceIp \<Rightarrow> ''metadata_service_ip'' | SchemePrefix \<Rightarrow> ''scheme_prefix''
      | DnsFailure \<Rightarrow> ''dns_failure'' | ConsoleEndpoint \<Rightarrow> ''console_endpoint'')"

section \<open>The preview\<close>

text \<open>\<open>re.sub(r"//[^/@]*@", "//", s)\<close>: a match is found from the left and its text is not looked at again.
  A match at the start of the text gives what follows it.\<close>

definition userinfo_rest :: "string \<Rightarrow> string option" where
  "userinfo_rest s =
     (let rest = dropWhile (\<lambda>c. c \<notin> set ''/@'') (drop 2 s) in
      if starts_with s ''//'' \<and> starts_with rest ''@'' then Some (tl rest) else None)"

lemma userinfo_rest_shorter: "userinfo_rest s = Some r \<Longrightarrow> length r < length s"
proof -
  assume "userinfo_rest s = Some r"
  then have r: "r = tl (dropWhile (\<lambda>c. c \<notin> set ''/@'') (drop 2 s))" and "s \<noteq> []"
    by (auto simp: userinfo_rest_def Let_def starts_with_def split: if_splits)
  have "length r \<le> length s - 2"
    unfolding r using length_dropWhile_le [of "\<lambda>c. c \<notin> set ''/@''" "drop 2 s"] by (simp only: length_tl length_drop)
  with \<open>s \<noteq> []\<close> show ?thesis by (cases s) auto
qed

function strip_userinfo :: "string \<Rightarrow> string" where
  "strip_userinfo [] = []"
| "strip_userinfo (c # s) =
     (case userinfo_rest (c # s) of
        Some rest \<Rightarrow> ''//'' @ strip_userinfo rest
      | None \<Rightarrow> c # strip_userinfo s)"
  by pat_completeness auto

termination strip_userinfo
  by (relation "measure length") (auto dest: userinfo_rest_shorter)

definition is_control :: "char \<Rightarrow> bool" where
  "is_control c \<longleftrightarrow> char_code c < 32 \<or> char_code c = 127"

definition redact_url_preview :: "string \<Rightarrow> string" where
  "redact_url_preview raw =
     (let cleaned = strip_userinfo (filter (\<lambda>c. \<not> is_control c) raw) in
      take 32
        (case urlparse cleaned of
           None \<Rightarrow> cleaned
         | Some u \<Rightarrow>
             (let host = url_hostname u in
              if up_scheme u = [] \<or> host = [] then cleaned
              else (case url_port u of
                      BadPort \<Rightarrow> cleaned
                    | NoPort \<Rightarrow> up_scheme u @ ''://'' @ host @ up_path u
                    | Port p \<Rightarrow> up_scheme u @ ''://'' @ host @ '':'' @ nat_str p @ up_path u))))"

definition reject :: "string \<Rightarrow> reason \<Rightarrow> validation" where
  "reject url r = \<lparr>vr_ok = False, vr_reason = r, vr_preview = redact_url_preview url, vr_resolved = None\<rparr>"

section \<open>Addresses\<close>

definition metadata_ips :: "ipaddr list" where
  "metadata_ips =
     [V4 0xA9FEA9FE, V6 0xFD000EC2000000000000000000000254 None, V4 0x646464C8]"

definition metadata_hosts :: "string list" where
  "metadata_hosts = [''metadata.google.internal'', ''metadata'', ''metadata.goog'']"

definition strip_zone_id :: "string \<Rightarrow> string" where
  "strip_zone_id addr = before_char CHR ''%'' addr"

definition get_console_endpoint :: "(string \<Rightarrow> string option) \<Rightarrow> (string \<times> int) option" where
  "get_console_endpoint env =
     (let host = py_strip (py_or_str (env ''QUIRK_SERVE_HOST'')); port = py_strip (py_or_str (env ''QUIRK_SERVE_PORT'')) in
      if host = [] \<or> port = [] then None else map_option (Pair host) (py_int_of_string port))"

definition field_bits :: "ipv6 \<Rightarrow> nat \<Rightarrow> nat \<Rightarrow> ipv6" where
  "field_bits v first count = drop_bit (128 - first - count) v AND mask count"

definition rfc6052_layouts :: "(nat \<times> nat) list list" where
  "rfc6052_layouts = [[(48, 16), (72, 16)], [(56, 8), (72, 24)], [(72, 32)], [(96, 32)]]"

definition layout_ipv4 :: "ipv6 \<Rightarrow> (nat \<times> nat) list \<Rightarrow> ipv4" where
  "layout_ipv4 v layout =
     low_half (fold (\<lambda>(first, count) acc. push_bit count acc OR field_bits v first count) layout 0)"

definition embedded_ipv4s :: "ipaddr \<Rightarrow> ipv4 list" where
  "embedded_ipv4s ip =
     (case ip of
        V4 _ \<Rightarrow> []
      | V6 a _ \<Rightarrow> first_occurrences (
          (case ipv4_mapped a of None \<Rightarrow> [] | Some v \<Rightarrow> [v]) @
          (case sixtofour a of None \<Rightarrow> [] | Some v \<Rightarrow> [v]) @
          (case teredo a of None \<Rightarrow> [] | Some (server, client) \<Rightarrow> [server, client]) @
          (if in_network a (leading 0x64FF9B0000000000000000 96) \<or> in_network a (leading 0xFFFF0000 96) then [low_half a] else []) @
          (if in_network a (leading 0 96) \<and> 1 < a then [low_half a] else []) @
          (if in_network a (leading 0x64FF9B0001 48) then map (layout_ipv4 a) rfc6052_layouts else [])))"

definition candidates :: "ipaddr \<Rightarrow> ipaddr list" where
  "candidates ip = ip # map V4 (embedded_ipv4s ip)"

definition console_ips :: "(string \<Rightarrow> string option list option) \<Rightarrow> string \<Rightarrow> ipaddr list" where
  "console_ips resolve host =
     (case resolve host of
        None \<Rightarrow> []
      | Some entries \<Rightarrow>
          (case opt_map (ip_address \<circ> strip_zone_id) (List.map_filter id entries) of None \<Rightarrow> [] | Some ips \<Rightarrow> ips))
     @ (case ip_address host of None \<Rightarrow> [] | Some ip \<Rightarrow> [ip])"

definition at_console ::
    "(string \<Rightarrow> string option list option) \<Rightarrow> (string \<Rightarrow> string option) \<Rightarrow> nat \<Rightarrow> ipaddr \<Rightarrow> bool" where
  "at_console resolve env port ip \<longleftrightarrow>
     (case get_console_endpoint env of
        None \<Rightarrow> False
      | Some (host, console_port) \<Rightarrow>
          int port = console_port \<and> list_ex (\<lambda>c. c \<in> set (console_ips resolve host)) (candidates ip))"

definition classify_ip ::
    "(string \<Rightarrow> string option list option) \<Rightarrow> (string \<Rightarrow> string option) \<Rightarrow> bool \<Rightarrow> nat \<Rightarrow> ipaddr \<Rightarrow> reason option" where
  "classify_ip resolve env allow_internal port ip =
     (if list_ex (\<lambda>c. c \<in> set metadata_ips) (candidates ip) then Some MetadataServiceIp
      else if at_console resolve env port ip then Some ConsoleEndpoint
      else if allow_internal then None
      else if list_ex is_loopback (candidates ip) then Some Loopback
      else if list_ex is_link_local (candidates ip) then Some LinkLocal
      else if list_ex (\<lambda>c. is_private c \<or> is_reserved c) (candidates ip) then Some InternalIp
      else None)"

section \<open>The guard\<close>

text \<open>The addresses of a host; None is the rejection for a failed resolution.\<close>

definition host_addresses :: "(string \<Rightarrow> string option list option) \<Rightarrow> string \<Rightarrow> ipaddr list option" where
  "host_addresses resolve host =
     (case ip_address host of
        Some ip \<Rightarrow> Some [ip]
      | None \<Rightarrow>
          (case resolve host of
             None \<Rightarrow> None
           | Some entries \<Rightarrow>
               (case opt_map (ip_address \<circ> strip_zone_id) (List.map_filter id entries) of
                  None \<Rightarrow> None
                | Some ips \<Rightarrow> if ips = [] then None else Some ips)))"

definition effective_port :: "url_parts \<Rightarrow> nat option" where
  "effective_port u =
     (case url_port u of BadPort \<Rightarrow> None | Port p \<Rightarrow> Some p | NoPort \<Rightarrow> Some (if up_scheme u = ''https'' then 443 else 80))"

fun first_rejection :: "(ipaddr \<Rightarrow> reason option) \<Rightarrow> ipaddr list \<Rightarrow> reason option" where
  "first_rejection f [] = None"
| "first_rejection f (ip # ips) = (case f ip of None \<Rightarrow> first_rejection f ips | Some r \<Rightarrow> Some r)"

definition allowed_schemes :: "string list" where
  "allowed_schemes = [''http'', ''https'']"

datatype guard_error = UrlValueError

definition validate_external_url ::
    "(string \<Rightarrow> string option list option) \<Rightarrow> (string \<Rightarrow> string option) \<Rightarrow> bool \<Rightarrow> string \<Rightarrow> guard_error + validation" where
  "validate_external_url resolve env allow_internal url =
     (case urlparse url of
        None \<Rightarrow> Inl UrlValueError
      | Some u \<Rightarrow> Inr (
          let host = py_lower (url_hostname u) in
          if up_scheme u \<notin> set allowed_schemes then reject url SchemePrefix
          else if host \<in> set metadata_hosts then reject url MetadataServiceIp
          else (case host_addresses resolve host of
                  None \<Rightarrow> reject url DnsFailure
                | Some ips \<Rightarrow>
                    (case effective_port u of
                       None \<Rightarrow> reject url SchemePrefix
                     | Some port \<Rightarrow>
                         (case first_rejection (classify_ip resolve env allow_internal port) ips of
                            Some r \<Rightarrow> reject url r
                          | None \<Rightarrow> \<lparr>vr_ok = True, vr_reason = NoReason, vr_preview = [], vr_resolved = Some (hd ips)\<rparr>)))))"

end
