(* ===== verification/Url_Guard_Properties.thy ===== *)
theory Url_Guard_Properties
  imports Url_Guard
begin

text \<open>
  What the URL guard lets pass: no metadata service in any encapsulation, nothing internal unless
  asked for, and a clean preview of what it refuses.
\<close>

section \<open>Encapsulation\<close>

text \<open>The ways RFC 4291, 2765, 3056, 4380, 6052 and 8215 put an IPv4 address into an IPv6 address; the
  bits a form leaves free are those of the last two arguments.\<close>

datatype tunnel =
    Mapped | Compatible | Translated | SixToFour | TeredoServer | TeredoClient | Nat64 | Local48 | Local56 | Local64 | Local96

definition place :: "ipv6 \<Rightarrow> nat \<Rightarrow> ipv4 \<Rightarrow> ipv6 \<Rightarrow> ipv6" where
  "place p k v low = push_bit (k + 32) p OR push_bit k (ucast v) OR (low AND mask k)"

text \<open>The two parts of the address with the reserved octet between them.\<close>

definition place_split :: "ipv6 \<Rightarrow> nat \<Rightarrow> ipv4 \<Rightarrow> ipv6 \<Rightarrow> ipv6 \<Rightarrow> ipv6" where
  "place_split p n v u low =
     push_bit (64 + n) p OR push_bit 64 (ucast (drop_bit (32 - n) v)) OR push_bit 56 (u AND mask 8) OR
     push_bit (24 + n) (ucast v AND mask (32 - n)) OR (low AND mask (24 + n))"

definition encapsulate :: "tunnel \<Rightarrow> ipv4 \<Rightarrow> ipv6 \<Rightarrow> ipv6 \<Rightarrow> ipv6" where
  "encapsulate t v high low =
     (case t of
        Mapped \<Rightarrow> place 0xFFFF 0 v 0
      | Compatible \<Rightarrow> place 0 0 v 0
      | Translated \<Rightarrow> place 0xFFFF0000 0 v 0
      | SixToFour \<Rightarrow> place 0x2002 80 v low
      | TeredoServer \<Rightarrow> place 0x20010000 64 v low
      | TeredoClient \<Rightarrow> place (push_bit 64 0x20010000 OR (high AND mask 64)) 0 (NOT v) 0
      | Nat64 \<Rightarrow> place 0x64FF9B0000000000000000 0 v 0
      | Local48 \<Rightarrow> place_split 0x64FF9B0001 16 v high low
      | Local56 \<Rightarrow> place_split (push_bit 8 0x64FF9B0001 OR (low AND mask 8)) 8 v high low
      | Local64 \<Rightarrow> place (push_bit 24 0x64FF9B0001 OR (high AND mask 24)) 24 v low
      | Local96 \<Rightarrow> place (push_bit 48 0x64FF9B0001 OR (high AND mask 48)) 0 v 0)"

lemma low_half_eqI: "(\<And>n. n < 32 \<Longrightarrow> bit a n = bit v n) \<Longrightarrow> low_half a = v"
  by (auto simp: low_half_def bit_simps intro!: bit_word_eqI)

lemma placed_value: "k \<le> 96 \<Longrightarrow> low_half (drop_bit k (place p k v low)) = v"
  by (rule low_half_eqI) (auto simp: place_def bit_simps)

lemma placed_prefix: "k \<le> 96 \<Longrightarrow> drop_bit (k + 32) (place p k v low) = take_bit (96 - k) p"
  by (rule bit_word_eqI) (auto simp: place_def bit_simps dest: bit_imp_le_length)

lemma placed_not: "low_half (NOT (place p 0 (NOT v) low)) = v"
  by (rule low_half_eqI) (auto simp: place_def bit_simps)

lemma drop_more: "drop_bit (a + b) (w :: ipv6) = drop_bit b (drop_bit a w)"
  by (simp add: drop_bit_drop_bit add.commute)

lemma placed_low: "low_half (place p 0 v low) = v"
  using placed_value [of 0 p v low] by simp

lemma split_prefix:
  "n \<le> 32 \<Longrightarrow> drop_bit (64 + n) (place_split p n v u low) = take_bit (64 - n) p"
  by (rule bit_word_eqI) (auto simp: place_split_def bit_simps dest: bit_imp_le_length)

lemma split_value:
  assumes "n \<le> 32"
  shows "layout_ipv4 (place_split p n v u low) [(64 - n, n), (72, 32 - n)] = v"
  unfolding layout_ipv4_def
proof (rule low_half_eqI)
  fix m :: nat assume "m < 32"
  with assms show "bit (fold (\<lambda>(first, count) acc. push_bit count acc OR field_bits (place_split p n v u low) first count)
      [(64 - n, n), (72, 32 - n)] 0) m = bit v m"
    by (cases "m < 32 - n") (auto simp: place_split_def field_bits_def bit_simps dest: bit_imp_le_length)
qed

lemma at_72: "layout_ipv4 (place p 24 v low) [(72, 32)] = v"
  unfolding layout_ipv4_def
  by (rule low_half_eqI) (auto simp: place_def field_bits_def bit_simps)

lemma at_96: "layout_ipv4 (place p 0 v low) [(96, 32)] = v"
  unfolding layout_ipv4_def
  by (rule low_half_eqI) (auto simp: place_def field_bits_def bit_simps)

lemma leading_prefix: "n \<le> 128 \<Longrightarrow> in_network a (leading p n) \<longleftrightarrow> drop_bit (128 - n) a = take_bit n p" for a :: ipv6
proof -
  assume "n \<le> 128"
  then have "drop_bit (128 - n) (push_bit (128 - n) p) = take_bit n p"
    by (intro bit_word_eqI) (auto simp: bit_simps dest: bit_imp_le_length)
  then show ?thesis by (simp add: in_network_def leading_def)
qed

lemma free_prefix:
  "j + m \<le> 128 \<Longrightarrow> drop_bit j (take_bit (j + m) (push_bit j q OR (f AND mask j))) = take_bit m q" for q :: ipv6
  by (intro bit_word_eqI) (auto simp: bit_simps dest: bit_imp_le_length)

lemma placed_free_prefix:
  assumes "k + j + m = 96"
  shows "drop_bit (k + 32 + j) (place (push_bit j q OR (f AND mask j)) k v low) = take_bit m q"
proof -
  have "drop_bit (k + 32 + j) (place (push_bit j q OR (f AND mask j)) k v low)
      = drop_bit j (take_bit (j + m) (push_bit j q OR (f AND mask j)))"
    unfolding drop_more [of "k + 32" j] using placed_prefix [of k] assms by (metis add.assoc add_diff_cancel_left' le_add1)
  also have "\<dots> = take_bit m q" by (rule free_prefix) (use assms in simp)
  finally show ?thesis .
qed

lemma split_free_prefix:
  assumes "n + j + m = 64" and "n \<le> 32"
  shows "drop_bit (64 + n + j) (place_split (push_bit j q OR (f AND mask j)) n v u low) = take_bit m q"
proof -
  have "drop_bit (64 + n + j) (place_split (push_bit j q OR (f AND mask j)) n v u low)
      = drop_bit j (take_bit (j + m) (push_bit j q OR (f AND mask j)))"
    unfolding drop_more [of "64 + n" j] split_prefix [OF assms(2)] using assms(1) by (metis add.assoc add_diff_cancel_left')
  also have "\<dots> = take_bit m q" by (rule free_prefix) (use assms in simp)
  finally show ?thesis .
qed

text \<open>Every form is undone by the extraction.\<close>

lemma carried_in_fields:
  assumes "t \<in> {Mapped, SixToFour, TeredoServer, TeredoClient}"
  shows "v \<in> set (embedded_ipv4s (V6 (encapsulate t v high low) z))"
proof -
  consider "t = Mapped" | "t = SixToFour" | "t = TeredoServer" | "t = TeredoClient" using assms by blast
  then show ?thesis
  proof cases
    case 1
    then have "ipv4_mapped (encapsulate t v high low) = Some v"
      using placed_prefix [of 0 "0xFFFF" v 0] placed_low by (simp add: encapsulate_def ipv4_mapped_def)
    then show ?thesis by (simp add: embedded_ipv4s_def)
  next
    case 2
    then have "sixtofour (encapsulate t v high low) = Some v"
      using placed_prefix [of 80 "0x2002" v low] placed_value [of 80] by (simp add: encapsulate_def sixtofour_def)
    then show ?thesis by (simp add: embedded_ipv4s_def)
  next
    case 3
    then have "\<exists>client. teredo (encapsulate t v high low) = Some (v, client)"
      using placed_prefix [of 64 "0x20010000" v low] placed_value [of 64] by (simp add: encapsulate_def teredo_def)
    then show ?thesis by (auto simp: embedded_ipv4s_def)
  next
    case 4
    then have "\<exists>server. teredo (encapsulate t v high low) = Some (server, v)"
      using placed_free_prefix [of 0 64 32 "0x20010000" high "NOT v" 0] placed_not by (simp add: encapsulate_def teredo_def)
    then show ?thesis by (auto simp: embedded_ipv4s_def)
  qed
qed

lemma more_than_one: "1 < v \<Longrightarrow> low_half a = v \<Longrightarrow> 1 < a"
proof -
  assume v: "1 < v" "low_half a = v"
  have "unat v \<le> unat a" using v(2) by (auto simp: low_half_def unsigned_ucast_eq unsigned_take_bit_eq take_bit_eq_mod)
  with v(1) show ?thesis by (simp add: word_less_nat_alt)
qed

lemma carried_low:
  assumes "t \<in> {Compatible, Translated, Nat64}" and "1 < v"
  shows "v \<in> set (embedded_ipv4s (V6 (encapsulate t v high low) z))"
proof -
  have l: "low_half (place p 0 v 0) = v" "1 < place p 0 v 0" for p
    using placed_low more_than_one [OF assms(2)] by blast+
  have n: "in_network (place p 0 v 0) (leading p 96)" for p
    using placed_prefix [of 0 p v 0] by (simp add: leading_prefix)
  from assms(1) consider "t = Compatible" | "t = Translated" | "t = Nat64" by blast
  then show ?thesis
    using n [of 0] n [of "0xFFFF0000"] n [of "0x64FF9B0000000000000000"] l
    by cases (simp_all add: embedded_ipv4s_def encapsulate_def)
qed

lemma carried_local:
  assumes "t \<in> {Local48, Local56, Local64, Local96}"
  shows "v \<in> set (embedded_ipv4s (V6 (encapsulate t v high low) z))"
proof -
  let ?a = "encapsulate t v high low" and ?q = "0x64FF9B0001 :: ipv6"
  from assms consider "t = Local48" | "t = Local56" | "t = Local64" | "t = Local96" by blast
  then have "drop_bit 80 ?a = take_bit 48 ?q \<and> v \<in> set (map (layout_ipv4 ?a) rfc6052_layouts)"
  proof cases
    case 1
    then show ?thesis
      using split_prefix [of 16 ?q v high low] split_value [of 16 ?q v high low]
      by (simp add: encapsulate_def rfc6052_layouts_def)
  next
    case 2
    then show ?thesis
      using split_free_prefix [of 8 8 48 ?q low v high low] split_value [of 8 "push_bit 8 ?q OR (low AND mask 8)" v high low]
      by (simp add: encapsulate_def rfc6052_layouts_def)
  next
    case 3
    then show ?thesis
      using placed_free_prefix [of 24 24 48 ?q high v low] at_72
      by (simp add: encapsulate_def rfc6052_layouts_def)
  next
    case 4
    then show ?thesis
      using placed_free_prefix [of 0 48 48 ?q high v 0] at_96
      by (simp add: encapsulate_def rfc6052_layouts_def)
  qed
  then show ?thesis by (auto simp: embedded_ipv4s_def leading_prefix)
qed

lemma carried:
  assumes "1 < v"
  shows "v \<in> set (embedded_ipv4s (V6 (encapsulate t v high low) z))"
  using assms carried_in_fields [of t v high low z] carried_low [of t v high low z] carried_local [of t v high low z]
  by (cases t) simp_all

section \<open>Metadata services\<close>

definition metadata_ipv4s :: "ipv4 list" where
  "metadata_ipv4s = [0xA9FEA9FE, 0x646464C8]"

text \<open>C29: no encapsulation hides a metadata service: an IPv6 address that carries the address of one in
  any of the standard forms is refused as a metadata service, with internal targets allowed or not, whatever
  the free bits, the zone, the port and the console.\<close>

theorem tunnels_do_not_hide_metadata:
  "list_all (\<lambda>v. classify_ip resolve env allow_internal port (V6 (encapsulate t v high low) z) = Some MetadataServiceIp)
     metadata_ipv4s"
proof -
  have "classify_ip resolve env allow_internal port (V6 (encapsulate t v high low) z) = Some MetadataServiceIp"
    if v: "v \<in> set metadata_ipv4s" for v
  proof -
    from v have "1 < v" "V4 v \<in> set metadata_ips" by (auto simp: metadata_ipv4s_def metadata_ips_def)
    with carried have "list_ex (\<lambda>c. c \<in> set metadata_ips) (candidates (V6 (encapsulate t v high low) z))"
      by (auto simp: candidates_def list_ex_iff)
    then show ?thesis by (simp add: classify_ip_def)
  qed
  then show ?thesis by (simp add: list_all_iff)
qed

section \<open>What passes\<close>

definition metadata_free :: "ipaddr \<Rightarrow> bool" where
  "metadata_free ip \<longleftrightarrow> \<not> list_ex (\<lambda>c. c \<in> set metadata_ips) (candidates ip)"

definition public :: "ipaddr \<Rightarrow> bool" where
  "public ip \<longleftrightarrow>
     list_all (\<lambda>c. \<not> (is_loopback c \<or> is_link_local c \<or> is_private c \<or> is_reserved c)) (candidates ip)"

lemma classify_None:
  "classify_ip resolve env allow_internal port ip = None \<longleftrightarrow>
     metadata_free ip \<and> \<not> at_console resolve env port ip \<and> (allow_internal \<or> public ip)"
  by (auto simp: classify_ip_def metadata_free_def public_def list_ex_iff list_all_iff)

lemma first_rejection_None: "first_rejection f ips = None \<longleftrightarrow> list_all (\<lambda>ip. f ip = None) ips"
  by (induction ips) (auto split: option.split)

lemma opt_map_length: "opt_map f xs = Some ys \<Longrightarrow> length ys = length xs"
  by (induction xs arbitrary: ys) (auto split: option.splits)

lemma host_addresses_not_empty: "host_addresses resolve host = Some ips \<Longrightarrow> ips \<noteq> []"
  by (auto simp: host_addresses_def split: option.splits if_splits)

text \<open>Only a host written with a zone identifier has addresses with one: those of a resolver lose theirs.\<close>

definition zone_free :: "ipaddr \<Rightarrow> ipaddr" where
  "zone_free ip = (case ip of V4 a \<Rightarrow> V4 a | V6 a z \<Rightarrow> V6 a None)"

lemma parsed_zone_free: "CHR ''%'' \<notin> set s \<Longrightarrow> ip_address s = Some ip \<Longrightarrow> zone_free ip = ip"
  by (auto simp: ip_address_def parse_ipv6_def zone_free_def Let_def split: option.splits if_splits)

lemma stripped_zone_free: "(ip_address \<circ> strip_zone_id) s = Some ip \<Longrightarrow> zone_free ip = ip"
  by (rule parsed_zone_free [of "strip_zone_id s"]) (auto simp: strip_zone_id_def before_char_def dest: set_takeWhileD)

lemma opt_map_each: "opt_map f xs = Some ys \<Longrightarrow> (\<And>x y. f x = Some y \<Longrightarrow> P y) \<Longrightarrow> list_all P ys"
  by (induction xs arbitrary: ys) (auto split: option.splits)

lemma addresses_zone_free:
  assumes "host_addresses resolve host = Some ips" and "CHR ''%'' \<notin> set host"
  shows "list_all (\<lambda>ip. zone_free ip = ip) ips"
proof (cases "ip_address host")
  case (Some ip)
  with assms parsed_zone_free show ?thesis by (auto simp: host_addresses_def)
next
  case None
  then obtain entries where "opt_map (ip_address \<circ> strip_zone_id) (List.map_filter id entries) = Some ips"
    using assms(1) by (auto simp: host_addresses_def split: option.splits if_splits)
  then show ?thesis by (rule opt_map_each) (rule stripped_zone_free)
qed

text \<open>What a URL needs to pass: the addresses of its host, when it does.\<close>

definition passing_addresses ::
    "(string \<Rightarrow> string option list option) \<Rightarrow> (string \<Rightarrow> string option) \<Rightarrow> bool \<Rightarrow> url_parts \<Rightarrow> ipaddr list \<Rightarrow> bool" where
  "passing_addresses resolve env allow_internal u ips \<longleftrightarrow>
     up_scheme u \<in> {''http'', ''https''} \<and> py_lower (url_hostname u) \<notin> set metadata_hosts \<and>
     host_addresses resolve (py_lower (url_hostname u)) = Some ips \<and>
     (\<exists>port. effective_port u = Some port \<and>
        list_all (\<lambda>ip. metadata_free ip \<and> \<not> at_console resolve env port ip \<and> (allow_internal \<or> public ip)) ips)"

lemma guard_cases:
  assumes "urlparse url = Some u"
  shows "\<exists>r. validate_external_url resolve env allow_internal url = Inr r \<and>
    (if \<exists>ips. passing_addresses resolve env allow_internal u ips
     then vr_ok r \<and> vr_reason r = NoReason \<and>
       vr_resolved r = map_option hd (host_addresses resolve (py_lower (url_hostname u)))
     else \<not> vr_ok r \<and> \<not> vr_reason r = NoReason \<and> vr_resolved r = None)"
proof (cases "host_addresses resolve (py_lower (url_hostname u))")
  case None
  with assms show ?thesis by (simp add: validate_external_url_def reject_def Let_def passing_addresses_def)
next
  case ips: (Some ips)
  show ?thesis
  proof (cases "effective_port u")
    case None
    with assms ips show ?thesis by (simp add: validate_external_url_def reject_def Let_def passing_addresses_def)
  next
    case port: (Some port)
    have r: "r \<noteq> NoReason" if "first_rejection (classify_ip resolve env allow_internal port) xs = Some r" for xs r
      using that by (induction xs) (auto simp: classify_ip_def split: option.splits if_splits)
    show ?thesis
      using assms ips port r first_rejection_None [of "classify_ip resolve env allow_internal port" ips]
      by (cases "first_rejection (classify_ip resolve env allow_internal port) ips")
        (auto simp: validate_external_url_def reject_def Let_def classify_None allowed_schemes_def passing_addresses_def)
  qed
qed

text \<open>C30: the guard checks every address and fails closed.  A URL that cannot be parsed raises; any other is answered.
  It passes exactly when it has an allowed scheme, a host that is no metadata alias and that resolves, a readable
  port, and every address of the host, with those embedded in it, differs from the metadata services, is not the console itself,
  and is public unless internal targets are allowed; then the address returned for pinning is the first of the
  checked ones.  Otherwise it is refused with a reason and no address.  Unless the host is written with a
  percent sign, the comparison with the metadata services holds whatever the zone identifier, so none of their
  addresses passes; a host written with one is compared together with its zone identifier, and escapes
  (theorem zone_id_hides_metadata).\<close>

theorem guard_checks_every_address:
  "(case (urlparse url, validate_external_url resolve env allow_internal url) of
      (None, Inl e) \<Rightarrow> True
    | (Some u, Inr r) \<Rightarrow>
        (if \<exists>ips. passing_addresses resolve env allow_internal u ips
         then vr_ok r \<and> vr_reason r = NoReason \<and>
           (\<exists>ip ips. passing_addresses resolve env allow_internal u (ip # ips) \<and> vr_resolved r = Some ip \<and>
              (if CHR ''%'' \<in> set (py_lower (url_hostname u)) then True
               else list_all (\<lambda>ip. metadata_free (zone_free ip)) (ip # ips)))
         else \<not> vr_ok r \<and> \<not> vr_reason r = NoReason \<and> vr_resolved r = None)
    | _ \<Rightarrow> False)"
proof (cases "urlparse url")
  case (Some u)
  obtain r where r: "validate_external_url resolve env allow_internal url = Inr r"
    and cases: "if \<exists>ips. passing_addresses resolve env allow_internal u ips
     then vr_ok r \<and> vr_reason r = NoReason \<and>
       vr_resolved r = map_option hd (host_addresses resolve (py_lower (url_hostname u)))
     else \<not> vr_ok r \<and> \<not> vr_reason r = NoReason \<and> vr_resolved r = None"
    using guard_cases [OF Some] by blast
  show ?thesis
  proof (cases "\<exists>ips. passing_addresses resolve env allow_internal u ips")
    case True
    then obtain ips where pass: "passing_addresses resolve env allow_internal u ips" by blast
    then have host: "host_addresses resolve (py_lower (url_hostname u)) = Some ips"
      and free: "list_all metadata_free ips" by (auto simp: passing_addresses_def list_all_iff)
    obtain ip rest where ips: "ips = ip # rest" using host_addresses_not_empty [OF host] by (cases ips) auto
    have "list_all (\<lambda>ip. metadata_free (zone_free ip)) ips" if "CHR ''%'' \<notin> set (py_lower (url_hostname u))"
      using addresses_zone_free [OF host that] free by (simp add: list_all_iff)
    with pass True cases host ips show ?thesis
      unfolding Some r by (simp, blast)
  next
    case False
    with cases show ?thesis unfolding Some r by simp
  qed
qed (simp add: validate_external_url_def)

lemma zone_url:
  "urlparse ''http://[fd00:ec2::254%eth0]/'' = Some \<lparr>up_scheme = ''http'', up_netloc = ''[fd00:ec2::254%eth0]'', up_path = ''/''\<rparr>"
  "urlparse ''http://[fd00:ec2::254]/'' = Some \<lparr>up_scheme = ''http'', up_netloc = ''[fd00:ec2::254]'', up_path = ''/''\<rparr>"
  by code_simp+

lemma zone_host:
  "py_lower (url_hostname \<lparr>up_scheme = ''http'', up_netloc = ''[fd00:ec2::254%eth0]'', up_path = ''/''\<rparr>) = ''fd00:ec2::254%eth0''"
  "py_lower (url_hostname \<lparr>up_scheme = ''http'', up_netloc = ''[fd00:ec2::254]'', up_path = ''/''\<rparr>) = ''fd00:ec2::254''"
  by code_simp+

lemma zone_address:
  "ip_address ''fd00:ec2::254%eth0'' = Some (V6 0xFD000EC2000000000000000000000254 (Some ''eth0''))"
  "ip_address ''fd00:ec2::254'' = Some (V6 0xFD000EC2000000000000000000000254 None)"
  by code_simp+

lemma zone_port:
  "effective_port \<lparr>up_scheme = ''http'', up_netloc = ''[fd00:ec2::254%eth0]'', up_path = ''/''\<rparr> = Some 80"
  "effective_port \<lparr>up_scheme = ''http'', up_netloc = ''[fd00:ec2::254]'', up_path = ''/''\<rparr> = Some 80"
  by code_simp+

lemma zone_candidates:
  "candidates (V6 0xFD000EC2000000000000000000000254 z) = [V6 0xFD000EC2000000000000000000000254 z]"
proof -
  have "embedded_ipv4s (V6 0xFD000EC2000000000000000000000254 None) = []" by code_simp
  then show ?thesis by (simp add: candidates_def embedded_ipv4s_def)
qed

lemma no_console: "get_console_endpoint (\<lambda>_. None) = None"
  by code_simp

text \<open>A zone identifier on a literal address hides a metadata service from the check that is meant to be
  unconditional: with internal targets allowed, the AWS address with a zone passes and is returned for
  pinning, and the same address without one is refused.\<close>

theorem zone_id_hides_metadata:
  "validate_external_url resolve (\<lambda>_. None) True ''http://[fd00:ec2::254%eth0]/'' =
     Inr \<lparr>vr_ok = True, vr_reason = NoReason, vr_preview = [],
          vr_resolved = Some (V6 0xFD000EC2000000000000000000000254 (Some ''eth0''))\<rparr> \<and>
   validate_external_url resolve (\<lambda>_. None) True ''http://[fd00:ec2::254]/'' =
     Inr (reject ''http://[fd00:ec2::254]/'' MetadataServiceIp)"
proof -
  have "''http'' \<in> set allowed_schemes" "''fd00:ec2::254%eth0'' \<notin> set metadata_hosts" "''fd00:ec2::254'' \<notin> set metadata_hosts"
    by code_simp+
  moreover have "classify_ip resolve (\<lambda>_. None) True 80 (V6 0xFD000EC2000000000000000000000254 (Some ''eth0'')) = None"
    "classify_ip resolve (\<lambda>_. None) True 80 (V6 0xFD000EC2000000000000000000000254 None) = Some MetadataServiceIp"
    by (simp_all add: classify_ip_def zone_candidates at_console_def no_console metadata_ips_def)
  ultimately show ?thesis
    by (simp add: validate_external_url_def zone_url zone_host zone_address zone_port host_addresses_def)
qed

section \<open>The preview\<close>

lemma char_subsets:
  "set (before_char c s) \<subseteq> set s" "set (after_char c s) \<subseteq> set s" "set (takeWhile P s) \<subseteq> set s"
  "set (dropWhile P s) \<subseteq> set s" "set (tl s) \<subseteq> set s" "set (filter P s) \<subseteq> set s"
  by (auto simp: before_char_def after_char_def dest: set_takeWhileD set_dropWhileD list.set_sel(2) [rotated])
    (metis list.sel(2) list.set_sel(2) set_dropWhileD)+

lemma userinfo_rest_chars: "userinfo_rest s = Some r \<Longrightarrow> CHR ''/'' \<in> set s \<and> set r \<subseteq> set s"
proof -
  let ?rest = "dropWhile (\<lambda>c. c \<notin> set ''/@'') (drop 2 s)"
  assume r: "userinfo_rest s = Some r"
  have "set (tl ?rest) \<subseteq> set s"
    using char_subsets(5) [of ?rest] char_subsets(4) [of "\<lambda>c. c \<notin> set ''/@''" "drop 2 s"] set_drop_subset [of 2 s] by blast
  with r show ?thesis
    by (cases s) (auto simp: userinfo_rest_def Let_def starts_with_def split: if_splits)
qed

lemma strip_userinfo_chars: "set (strip_userinfo s) \<subseteq> set s"
proof (induction s rule: strip_userinfo.induct)
  case (2 c s)
  show ?case
  proof (cases "userinfo_rest (c # s)")
    case (Some r)
    with 2(2) [OF Some] userinfo_rest_chars [OF Some] show ?thesis by auto
  qed (use 2(1) in auto)
qed simp

lemma split_chars:
  "split_scheme url = (scheme, rest) \<Longrightarrow> set scheme \<subseteq> to_lower ` set url \<and> set rest \<subseteq> set url"
  "split_netloc rest = (netloc, tail) \<Longrightarrow> set netloc \<subseteq> set rest \<and> set tail \<subseteq> set rest"
proof -
  assume "split_scheme url = (scheme, rest)"
  then show "set scheme \<subseteq> to_lower ` set url \<and> set rest \<subseteq> set url"
    using image_mono [OF char_subsets(1) [of "CHR '':''" url], of to_lower] char_subsets(2) [of "CHR '':''" url]
    by (auto simp: split_scheme_def Let_def py_lower_def split: if_splits)
next
  assume "split_netloc rest = (netloc, tail)"
  then show "set netloc \<subseteq> set rest \<and> set tail \<subseteq> set rest"
    by (auto simp: split_netloc_def split: if_splits dest!: set_takeWhileD set_dropWhileD in_set_dropD)
qed

lemma without_params_chars: "set (without_params path) \<subseteq> set path"
  using char_subsets(1) [of "CHR '';''"] char_subsets(3) [of _ "rev path"]
  by (fastforce simp: without_params_def Let_def dest: in_set_takeD)

lemma urlparse_chars:
  assumes "urlparse raw = Some u"
  shows "set (up_netloc u) \<subseteq> set raw \<and> set (up_path u) \<subseteq> set raw \<and> set (up_scheme u) \<subseteq> to_lower ` set raw"
proof -
  let ?url = "filter (\<lambda>c. char_code c \<notin> {9, 10, 13}) (dropWhile (\<lambda>c. char_code c \<le> 32) raw)"
  obtain scheme rest where sp: "split_scheme ?url = (scheme, rest)" by fastforce
  obtain netloc tail where n: "split_netloc rest = (netloc, tail)" by fastforce
  let ?path = "before_char CHR ''?'' (before_char CHR ''#'' tail)"
  have u: "u = \<lparr>up_scheme = scheme, up_netloc = netloc,
      up_path = (if scheme \<in> set uses_params then without_params ?path else ?path)\<rparr>"
    using assms unfolding urlparse_def sp n prod.case Let_def by (cases "netloc_ok netloc") simp_all
  have sub: "set ?url \<subseteq> set raw" using char_subsets(4) by fastforce
  have "set scheme \<subseteq> to_lower ` set raw"
    using split_chars(1) [OF sp] image_mono [OF sub, of to_lower] by (meson order_trans)
  moreover have "set netloc \<subseteq> set raw" "set tail \<subseteq> set raw"
    using split_chars(1) [OF sp] split_chars(2) [OF n] sub by (meson order_trans)+
  moreover have "set ?path \<subseteq> set tail" using char_subsets(1) by (meson order_trans)
  moreover have "set (up_path u) \<subseteq> set ?path" using u without_params_chars [of ?path] by simp
  ultimately have "set (up_path u) \<subseteq> set raw" by (meson order_trans)
  with \<open>set scheme \<subseteq> to_lower ` set raw\<close> \<open>set netloc \<subseteq> set raw\<close> u show ?thesis by simp
qed

definition clean :: "string \<Rightarrow> bool" where
  "clean s \<longleftrightarrow> list_all (\<lambda>c. \<not> is_control c) s"

lemma clean_subset: "set a \<subseteq> set b \<Longrightarrow> clean b \<Longrightarrow> clean a"
  by (auto simp: clean_def list_all_iff)

lemma clean_lower: "set a \<subseteq> to_lower ` set b \<Longrightarrow> clean b \<Longrightarrow> clean a"
  by (fastforce simp: clean_def list_all_iff to_lower_def is_control_def is_upper_char_def)

lemma clean_digits: "clean (nat_str n)"
  using all_digits_nat_str [of n] by (auto simp: clean_def all_digits_def list_all_iff is_control_def is_digit_def)

lemma clean_append: "clean (a @ b) \<longleftrightarrow> clean a \<and> clean b" "clean (c # a) \<longleftrightarrow> \<not> is_control c \<and> clean a"
  by (simp_all add: clean_def)

lemma clean_host: "clean (up_netloc u) \<Longrightarrow> clean (url_hostname u)"
proof -
  assume c: "clean (up_netloc u)"
  have "set (fst (host_info n)) \<subseteq> set n" for n
  proof -
    define info where "info = rev (before_char CHR ''@'' (rev n))"
    have "set (fst (host_info n)) \<subseteq> set info"
    proof -
      have "set (before_char c (after_char d info)) \<subseteq> set info" for c d
        using char_subsets(1,2) by (meson order_trans)
      then show ?thesis using char_subsets(1) [of "CHR '':''" info]
        by (simp add: host_info_def Let_def info_def [symmetric])
    qed
    also have "\<dots> \<subseteq> set n" using char_subsets(1) [of "CHR ''@''" "rev n"] by (simp add: info_def)
    finally show ?thesis .
  qed
  with c have h: "clean (fst (host_info (up_netloc u)))" by (rule clean_subset [rotated])
  have "clean (py_lower (before_char CHR ''%'' (fst (host_info (up_netloc u)))))"
    by (rule clean_lower [OF _ h]) (use char_subsets(1) in \<open>auto simp: py_lower_def\<close>)
  moreover have "clean (dropWhile P (fst (host_info (up_netloc u))))" for P
    by (rule clean_subset [OF char_subsets(4) h])
  ultimately show ?thesis by (simp add: url_hostname_def Let_def clean_append)
qed

text \<open>Whatever is refused, the preview shown for it has at most 32 characters and no control character,
  so it cannot carry a terminal escape.\<close>

theorem previews_are_clean:
  "length (redact_url_preview raw) \<le> 32 \<and> list_all (\<lambda>c. 32 \<le> char_code c \<and> \<not> char_code c = 127) (redact_url_preview raw)"
proof -
  let ?c = "strip_userinfo (filter (\<lambda>c. \<not> is_control c) raw)"
  have "clean (filter (\<lambda>c. \<not> is_control c) raw)" by (simp add: clean_def list_all_iff)
  then have c: "clean ?c" using strip_userinfo_chars clean_subset by blast
  have parts: "clean (up_scheme u) \<and> clean (url_hostname u) \<and> clean (up_path u)" if "urlparse ?c = Some u" for u
    using urlparse_chars [OF that] clean_subset [OF _ c] clean_lower [OF _ c] clean_host by blast
  have "\<not> is_control CHR '':''" "\<not> is_control CHR ''/''" by code_simp+
  with c parts clean_digits have "clean (redact_url_preview raw)"
    unfolding redact_url_preview_def Let_def
    by (intro clean_subset [OF set_take_subset]) (auto simp: clean_append split: option.split url_port_kind.split)
  moreover have "length (redact_url_preview raw) \<le> 32" unfolding redact_url_preview_def Let_def by (simp only: length_take)
  ultimately show ?thesis by (simp add: clean_def is_control_def not_less)
qed

text \<open>Two shapes the pre-pass is meant to cover still show a part of the password, and a URL with an
  unbalanced bracket is not refused but raises.\<close>

lemma password_parts_are_shown:
  "redact_url_preview ''http://u:p@ss@h:x/'' = ''http://ss@h:x/''"
proof -
  have "filter (\<lambda>c. \<not> is_control c) ''http://u:p@ss@h:x/'' = ''http://u:p@ss@h:x/''" by code_simp
  moreover have "strip_userinfo ''http://u:p@ss@h:x/'' = ''http://ss@h:x/''"
    by (simp add: userinfo_rest_def starts_with_def)
  moreover have "map_option url_port (urlparse ''http://ss@h:x/'') = Some BadPort" by code_simp
  ultimately show ?thesis by (auto simp: redact_url_preview_def Let_def split: option.splits)
qed

lemma unbalanced_bracket_raises: "validate_external_url resolve env allow_internal ''http://['' = Inl UrlValueError"
proof -
  have "urlparse ''http://['' = None" by code_simp
  then show ?thesis by (simp add: validate_external_url_def)
qed

end
