(* ===== verification/Trends.thy ===== *)
theory Trends
  imports Findings_Pipeline
begin

text \<open>
  \<open>quirk/intelligence/trends.py\<close>: scan sessions and the comparison of two of them.  A stored row is
  an endpoint row with its \<open>scan_run_id\<close> (None for NULL); a table is the list of its rows in id order, and
  timestamps are microseconds.  Findings come from a deriver, by default \<open>derive_report_findings\<close>.  The
  transitions are sorted by host and port from a set; rows that differ in the protocol only follow the order
  of the current session here.
\<close>

section \<open>Sessions\<close>

record stored_row =
  sr_run_id :: "string option"
  sr_row :: scanned_endpoint

datatype session_key = Run string | Legacy int

definition millisecond :: "int \<Rightarrow> int" where
  "millisecond ts = ts - ts mod 1000"

definition session_of :: "string option \<Rightarrow> int \<Rightarrow> session_key" where
  "session_of run ts = (if py_or_str run \<noteq> [] then Run (py_or_str run) else Legacy (millisecond ts))"

definition note_earliest :: "stored_row \<Rightarrow> (session_key \<times> int) list \<Rightarrow> (session_key \<times> int) list" where
  "note_earliest r earliest =
     (case ep_scanned_at (sr_row r) of
        None \<Rightarrow> earliest
      | Some ts \<Rightarrow>
          (let key = session_of (sr_run_id r) ts in
           case map_of earliest key of
             None \<Rightarrow> dict_put key ts earliest
           | Some prev \<Rightarrow> if ts < prev then dict_put key ts earliest else earliest))"

definition list_session_timestamps :: "stored_row list \<Rightarrow> nat \<Rightarrow> int list" where
  "list_session_timestamps rows limit = take limit (rev (sort (map snd (fold note_earliest rows []))))"

definition fetch_session_endpoints :: "stored_row list \<Rightarrow> int \<Rightarrow> scanned_endpoint list" where
  "fetch_session_endpoints rows ts =
     (case List.map_filter sr_run_id (filter (\<lambda>r. ep_scanned_at (sr_row r) = Some ts) rows) of
        (c # run) # _ \<Rightarrow> map sr_row (filter (\<lambda>r. sr_run_id r = Some (c # run)) rows)
      | _ \<Rightarrow>
          map sr_row (filter (\<lambda>r. sr_run_id r = None \<and>
            (case ep_scanned_at (sr_row r) of None \<Rightarrow> False | Some t \<Rightarrow> millisecond ts \<le> t \<and> t < millisecond ts + 1000)) rows))"

section \<open>Severities\<close>

type_synonym trend_key = "string \<times> int \<times> string option"

definition severity_bucket :: "(string \<times> string) list" where
  "severity_bucket = [(''CRITICAL'', ''high''), (''HIGH'', ''high''), (''MEDIUM'', ''medium''), (''LOW'', ''low'')]"

definition trend_severity_rank :: "(string \<times> int) list" where
  "trend_severity_rank = [(''CRITICAL'', 0), (''HIGH'', 1), (''MEDIUM'', 2), (''LOW'', 3)]"

definition bucket_for_severity :: "string option \<Rightarrow> string option" where
  "bucket_for_severity sev = (case sev of None \<Rightarrow> None | Some s \<Rightarrow> map_of severity_bucket s)"

definition count_by_bucket :: "trend_key list \<Rightarrow> (trend_key \<times> string option) list \<Rightarrow> string \<Rightarrow> nat" where
  "count_by_bucket keys sev bucket =
     length (filter (\<lambda>k. bucket_for_severity (dict_get sev k None) = Some bucket) keys)"

definition trend_key :: "scanned_endpoint \<Rightarrow> trend_key" where
  "trend_key e = (ep_host e, ep_port e, ep_protocol e)"

record sample_finding =
  sf_host :: string
  sf_port :: int
  sf_protocol :: "string option"
  sf_severity :: "string option"

definition sample_of :: "scanned_endpoint \<Rightarrow> sample_finding" where
  "sample_of e = \<lparr>sf_host = ep_host e, sf_port = ep_port e, sf_protocol = ep_protocol e, sf_severity = ep_severity e\<rparr>"

definition trend_order :: "string option \<Rightarrow> int" where
  "trend_order sev = (case sev of None \<Rightarrow> 99 | Some s \<Rightarrow> dict_get trend_severity_rank s 99)"

definition sample_findings :: "scanned_endpoint list \<Rightarrow> trend_key list \<Rightarrow> sample_finding list" where
  "sample_findings eps keys =
     map sample_of (take 5 (sort_key (\<lambda>e. (trend_order (ep_severity e), ep_host e, ep_port e))
       (filter (\<lambda>e. trend_key e \<in> set keys) eps)))"

section \<open>Scores\<close>

datatype trend_error = Deriving eval_error | Banding band_error

definition score_for_session ::
    "(scanned_endpoint list \<Rightarrow> eval_error + finding_row list) \<Rightarrow> scanned_endpoint list \<Rightarrow> trend_error + int option" where
  "score_for_session derive eps =
     (if eps = [] then Inr None
      else (case derive eps of
              Inl e \<Rightarrow> Inl (Deriving e)
            | Inr fs \<Rightarrow>
                (case compute_readiness_score (build_evidence_summary eps fs 30 None) None [] of
                   Inl e \<Rightarrow> Inl (Banding e)
                 | Inr r \<Rightarrow> Inr (r_score r))))"

definition default_report_deriver ::
    "(string \<Rightarrow> pyval option) \<Rightarrow> int \<Rightarrow> int list \<Rightarrow> scanned_endpoint list \<Rightarrow> eval_error + finding_row list" where
  "default_report_deriver loads now designated eps =
     bind_err (derive_report_findings loads now designated eps) (\<lambda>fs. Inr (map row_of fs))"

section \<open>The report\<close>

record severity_transition =
  st_key :: trend_key
  st_previous :: "string option"
  st_current :: "string option"

record trend_report =
  tr_current_score :: "int option"
  tr_previous_score :: "int option"
  tr_score_delta :: "int option"
  tr_new :: "nat \<times> nat \<times> nat"
  tr_resolved :: "nat \<times> nat \<times> nat"
  tr_errors_new :: nat
  tr_errors_resolved :: nat
  tr_new_sample :: "sample_finding list"
  tr_resolved_sample :: "sample_finding list"
  tr_transitions :: "severity_transition list"
  tr_new_total :: nat
  tr_resolved_total :: nat

definition advisory_only_categories :: "string list" where
  "advisory_only_categories = [''missing_extra'', ''missing_binary'']"

definition counts_as_error :: "scanned_endpoint \<Rightarrow> bool" where
  "counts_as_error e \<longleftrightarrow>
     ep_scan_error e \<noteq> None \<and>
     (case ep_scan_error_category e of None \<Rightarrow> True | Some c \<Rightarrow> c \<notin> set advisory_only_categories)"

definition severities :: "scanned_endpoint list \<Rightarrow> (trend_key \<times> string option) list" where
  "severities eps = fold (\<lambda>e d. dict_put (trend_key e) (ep_severity e) d) eps []"

definition error_keys :: "scanned_endpoint list \<Rightarrow> trend_key list" where
  "error_keys eps = map trend_key (filter (\<lambda>e. ep_scan_error e \<noteq> None) eps)"

definition current_severities :: "scanned_endpoint list \<Rightarrow> (trend_key \<times> string option) list" where
  "current_severities current = severities (filter (\<lambda>e. ep_scan_error e = None) current)"

definition previous_severities ::
    "scanned_endpoint list \<Rightarrow> scanned_endpoint list \<Rightarrow> (trend_key \<times> string option) list" where
  "previous_severities current previous =
     severities (filter (\<lambda>e. ep_scan_error e = None \<and> trend_key e \<notin> set (error_keys current)) previous)"

definition buckets :: "trend_key list \<Rightarrow> (trend_key \<times> string option) list \<Rightarrow> nat \<times> nat \<times> nat" where
  "buckets keys sev =
     (count_by_bucket keys sev ''high'', count_by_bucket keys sev ''medium'', count_by_bucket keys sev ''low'')"

definition keys_minus :: "('k \<times> 'v) list \<Rightarrow> ('k \<times> 'v) list \<Rightarrow> 'k list" where
  "keys_minus a b = filter (\<lambda>k. k \<notin> set (map fst b)) (map fst a)"

definition transitions ::
    "(trend_key \<times> string option) list \<Rightarrow> (trend_key \<times> string option) list \<Rightarrow> severity_transition list" where
  "transitions cur prev =
     sort_key (\<lambda>t. (fst (st_key t), fst (snd (st_key t))))
       (map (\<lambda>(k, s). \<lparr>st_key = k, st_previous = dict_get prev k None, st_current = s\<rparr>)
         (filter (\<lambda>(k, s). k \<in> set (map fst prev) \<and> s \<noteq> dict_get prev k None) cur))"

definition score_delta :: "int option \<Rightarrow> int option \<Rightarrow> int option" where
  "score_delta cur prev =
     (case (cur, prev) of (Some c, Some p) \<Rightarrow> Some (c - p) | _ \<Rightarrow> None)"

definition single_session :: "int option \<Rightarrow> trend_report" where
  "single_session score =
     \<lparr>tr_current_score = score, tr_previous_score = None, tr_score_delta = None, tr_new = (0, 0, 0),
      tr_resolved = (0, 0, 0), tr_errors_new = 0, tr_errors_resolved = 0, tr_new_sample = [],
      tr_resolved_sample = [], tr_transitions = [], tr_new_total = 0, tr_resolved_total = 0\<rparr>"

definition compare_sessions ::
    "scanned_endpoint list \<Rightarrow> scanned_endpoint list \<Rightarrow> int option \<Rightarrow> int option \<Rightarrow> trend_report" where
  "compare_sessions current previous cs ps =
     (let cur = current_severities current; prev = previous_severities current previous;
          new_keys = keys_minus cur prev; resolved_keys = keys_minus prev cur;
          cur_err = length (filter counts_as_error current); prev_err = length (filter counts_as_error previous) in
      \<lparr>tr_current_score = cs, tr_previous_score = ps, tr_score_delta = score_delta cs ps,
       tr_new = buckets new_keys cur, tr_resolved = buckets resolved_keys prev,
       tr_errors_new = cur_err - prev_err, tr_errors_resolved = prev_err - cur_err,
       tr_new_sample = sample_findings current new_keys, tr_resolved_sample = sample_findings previous resolved_keys,
       tr_transitions = transitions cur prev,
       tr_new_total = length new_keys, tr_resolved_total = length resolved_keys\<rparr>)"

definition compute_trend_report ::
    "(scanned_endpoint list \<Rightarrow> eval_error + finding_row list) \<Rightarrow> int \<Rightarrow> int option \<Rightarrow> stored_row list \<Rightarrow>
     trend_error + trend_report" where
  "compute_trend_report derive current_ts previous_ts rows =
     (let current = fetch_session_endpoints rows current_ts in
      bind_err (score_for_session derive current)
        (\<lambda>cs. case previous_ts of
           None \<Rightarrow> Inr (single_session cs)
         | Some ts \<Rightarrow>
             (let previous = fetch_session_endpoints rows ts in
              bind_err (score_for_session derive previous) (\<lambda>ps. Inr (compare_sessions current previous cs ps)))))"

end
