(* ===== verification/Trend_Properties.thy ===== *)
theory Trend_Properties
  imports Trends
begin

text \<open>
  The trend report: exact sets of new and resolved endpoints, scores that are those of the reports, and
  sessions that are read back as they were listed.
\<close>

section \<open>Keys\<close>

definition answered :: "scanned_endpoint list \<Rightarrow> trend_key set" where
  "answered eps = trend_key ` {e \<in> set eps. ep_scan_error e = None}"

definition failed :: "scanned_endpoint list \<Rightarrow> trend_key set" where
  "failed eps = trend_key ` {e \<in> set eps. ep_scan_error e \<noteq> None}"

lemma severities_keys:
  "fst ` set (fold (\<lambda>e d. dict_put (trend_key e) (ep_severity e) d) eps d) = fst ` set d \<union> trend_key ` set eps"
  by (induction eps arbitrary: d) (auto simp: fst_dict_put)

lemma severities_distinct:
  "distinct (map fst d) \<Longrightarrow> distinct (map fst (fold (\<lambda>e d. dict_put (trend_key e) (ep_severity e) d) eps d))"
  by (induction eps arbitrary: d) (auto simp: distinct_dict_put)

lemma current_keys:
  "set (map fst (current_severities current)) = answered current" "distinct (map fst (current_severities current))"
  unfolding current_severities_def severities_def
  using severities_keys [of _ "[]"] severities_distinct [of "[]"] by (simp_all add: answered_def)

lemma set_error_keys: "set (error_keys eps) = failed eps"
  by (auto simp: error_keys_def failed_def)

lemma previous_keys:
  "set (map fst (previous_severities current previous)) = answered previous - failed current"
  "distinct (map fst (previous_severities current previous))"
  unfolding previous_severities_def severities_def
  using severities_keys [of _ "[]"] severities_distinct [of "[]"]
  by (simp_all add: set_error_keys) (auto simp: answered_def)

lemma keys_minus: "distinct (map fst a) \<Longrightarrow> distinct (keys_minus a b)"
  "set (keys_minus a b) = set (map fst a) - set (map fst b)"
  by (auto simp: keys_minus_def)

section \<open>Severities\<close>

text \<open>The severity a session gives an endpoint: that of its last row that answered.\<close>

definition severity_in :: "scanned_endpoint list \<Rightarrow> trend_key \<Rightarrow> string option" where
  "severity_in eps k =
     (case filter (\<lambda>e. trend_key e = k \<and> ep_scan_error e = None) (rev eps) of [] \<Rightarrow> None | e # _ \<Rightarrow> ep_severity e)"

lemma severities_lookup:
  "dict_get (severities eps) k None =
     (case filter (\<lambda>e. trend_key e = k) (rev eps) of [] \<Rightarrow> None | e # _ \<Rightarrow> ep_severity e)"
proof (induction eps rule: rev_induct)
  case (snoc e eps)
  then show ?case by (auto simp: severities_def dict_get_def map_of_dict_put)
qed (simp add: severities_def dict_get_def)

lemma current_lookup: "dict_get (current_severities current) k None = severity_in current k"
  by (simp add: current_severities_def severities_lookup severity_in_def rev_filter [symmetric] conj_commute)

lemma previous_lookup:
  assumes "k \<notin> failed current"
  shows "dict_get (previous_severities current previous) k None = severity_in previous k"
proof -
  have "filter (\<lambda>e. (ep_scan_error e = None \<and> trend_key e \<notin> set (error_keys current)) \<and> trend_key e = k) es =
      filter (\<lambda>e. trend_key e = k \<and> ep_scan_error e = None) es" for es
    using assms by (intro filter_cong) (auto simp: set_error_keys)
  then show ?thesis
    by (simp add: previous_severities_def severities_lookup severity_in_def rev_filter [symmetric] conj_commute)
qed

definition of_severity :: "trend_key set \<Rightarrow> scanned_endpoint list \<Rightarrow> string list \<Rightarrow> trend_key set" where
  "of_severity keys eps names = {k \<in> keys. severity_in eps k \<in> set (map Some names)}"

lemma bucket_names:
  "bucket_for_severity s = Some ''high'' \<longleftrightarrow> s \<in> set (map Some [''CRITICAL'', ''HIGH''])"
  "bucket_for_severity s = Some ''medium'' \<longleftrightarrow> s \<in> set (map Some [''MEDIUM''])"
  "bucket_for_severity s = Some ''low'' \<longleftrightarrow> s \<in> set (map Some [''LOW''])"
  by (auto simp: bucket_for_severity_def severity_bucket_def split: option.splits if_splits)

lemma bucket_count:
  assumes "distinct keys" and "\<And>k. k \<in> set keys \<Longrightarrow> dict_get sev k None = severity_in eps k"
    and "\<And>s. bucket_for_severity s = Some b \<longleftrightarrow> s \<in> set (map Some names)"
  shows "count_by_bucket keys sev b = card (of_severity (set keys) eps names)"
proof -
  have "filter (\<lambda>k. bucket_for_severity (dict_get sev k None) = Some b) keys =
      filter (\<lambda>k. severity_in eps k \<in> set (map Some names)) keys"
    using assms(2,3) by (intro filter_cong) simp_all
  then show ?thesis
    using distinct_card [of "filter (\<lambda>k. severity_in eps k \<in> set (map Some names)) keys"] assms(1)
    by (simp add: count_by_bucket_def of_severity_def)
qed

lemma buckets_exact:
  assumes "distinct keys" and "\<And>k. k \<in> set keys \<Longrightarrow> dict_get sev k None = severity_in eps k"
  shows "buckets keys sev =
    (card (of_severity (set keys) eps [''CRITICAL'', ''HIGH'']), card (of_severity (set keys) eps [''MEDIUM'']),
     card (of_severity (set keys) eps [''LOW'']))"
  unfolding buckets_def
  using bucket_count [OF assms bucket_names(1)] bucket_count [OF assms bucket_names(2)]
    bucket_count [OF assms bucket_names(3)]
  by simp

section \<open>Transitions\<close>

lemma distinct_items: "distinct (map fst d) \<Longrightarrow> (k, v) \<in> set d \<longleftrightarrow> k \<in> set (map fst d) \<and> dict_get d k None = v"
  by (force simp: dict_get_def)

lemma transitions_set:
  assumes "distinct (map fst cur)"
  shows "set (transitions cur prev) =
    (\<lambda>k. \<lparr>st_key = k, st_previous = dict_get prev k None, st_current = dict_get cur k None\<rparr>) `
      {k \<in> set (map fst cur) \<inter> set (map fst prev). dict_get cur k None \<noteq> dict_get prev k None}"
    (is "_ = ?t ` ?changed")
proof -
  have "set (transitions cur prev) =
      (\<lambda>(k, s). \<lparr>st_key = k, st_previous = dict_get prev k None, st_current = s\<rparr>) `
        {(k, s) \<in> set cur. k \<in> set (map fst prev) \<and> s \<noteq> dict_get prev k None}"
    by (auto simp: transitions_def)
  moreover have "{(k, s) \<in> set cur. k \<in> set (map fst prev) \<and> s \<noteq> dict_get prev k None} =
      (\<lambda>k. (k, dict_get cur k None)) ` ?changed"
    unfolding distinct_items [OF assms] by (auto simp del: set_map)
  ultimately show ?thesis by (simp add: image_image)
qed

lemma transitions_distinct:
  assumes "distinct (map fst cur)"
  shows "distinct (map st_key (transitions cur prev))"
proof -
  let ?ts = "map (\<lambda>(k, s). \<lparr>st_key = k, st_previous = dict_get prev k None, st_current = s\<rparr>)
    (filter (\<lambda>(k, s). k \<in> set (map fst prev) \<and> s \<noteq> dict_get prev k None) cur)"
  have keys: "map st_key ?ts = map fst (filter (\<lambda>(k, s). k \<in> set (map fst prev) \<and> s \<noteq> dict_get prev k None) cur)"
    by (simp add: case_prod_unfold)
  show ?thesis unfolding transitions_def distinct_map_sort keys by (rule distinct_map_filter [OF assms])
qed

lemma transitions_ordered:
  "sorted (map (\<lambda>t. (fst (st_key t), fst (snd (st_key t)))) (transitions cur prev))"
  unfolding transitions_def by (rule sorted_sort_key)

lemma sample_keys:
  "(\<lambda>s. (sf_host s, sf_port s, sf_protocol s)) ` set (sample_findings eps keys) \<subseteq> set keys"
  "length (sample_findings eps keys) \<le> 5"
proof -
  have "trend_key e \<in> set keys" if "e \<in> set (take 5 (sort_key f (filter (\<lambda>e. trend_key e \<in> set keys) eps)))" for e f
    using in_set_takeD [OF that] by simp
  then show "(\<lambda>s. (sf_host s, sf_port s, sf_protocol s)) ` set (sample_findings eps keys) \<subseteq> set keys"
    by (auto simp: sample_findings_def sample_of_def trend_key_def)
qed (simp add: sample_findings_def)

section \<open>The comparison\<close>

text \<open>C32: the trend between two sessions is exact.  An endpoint is new when it answered now, and before it did not
  answer or it also failed now; it is resolved when it answered before and neither answered nor failed now,
  so an endpoint a scan could not reach is never resolved.  The totals count these endpoints; the severities
  count, among them, those the session rates critical or high, medium, and low; the samples show at most five
  of them.  A transition is listed for exactly the endpoints that answered in both sessions, did not fail now and are rated
  differently, each once and by host and port, with the severity of either session.  (An endpoint with
  a good and a failed row in the current session counts as new even if the previous session had it: see
  flapping_endpoint_is_new.)\<close>

theorem trend_is_exact:
  "(let r = compare_sessions current previous cs ps;
        new_keys = answered current - (answered previous - failed current);
        resolved_keys = answered previous - failed current - answered current;
        counts = (\<lambda>keys eps. (card (of_severity keys eps [''CRITICAL'', ''HIGH'']), card (of_severity keys eps [''MEDIUM'']),
          card (of_severity keys eps [''LOW''])));
        key_of = (\<lambda>s. (sf_host s, sf_port s, sf_protocol s)) in
    tr_new_total r = card new_keys \<and> tr_resolved_total r = card resolved_keys \<and>
    tr_new r = counts new_keys current \<and> tr_resolved r = counts resolved_keys previous \<and>
    key_of ` set (tr_new_sample r) \<subseteq> new_keys \<and> length (tr_new_sample r) \<le> 5 \<and>
    key_of ` set (tr_resolved_sample r) \<subseteq> resolved_keys \<and> length (tr_resolved_sample r) \<le> 5 \<and>
    set (tr_transitions r) =
      (\<lambda>k. \<lparr>st_key = k, st_previous = severity_in previous k, st_current = severity_in current k\<rparr>) `
        {k \<in> (answered current \<inter> answered previous) - failed current. severity_in current k \<noteq> severity_in previous k} \<and>
    distinct (map st_key (tr_transitions r)) \<and>
    sorted (map (\<lambda>t. (fst (st_key t), fst (snd (st_key t)))) (tr_transitions r)))"
proof -
  let ?cur = "current_severities current" and ?prev = "previous_severities current previous"
  let ?r = "compare_sessions current previous cs ps"
  let ?new = "answered current - (answered previous - failed current)"
    and ?gone = "answered previous - failed current - answered current"
  have r: "tr_new_total ?r = length (keys_minus ?cur ?prev)" "tr_resolved_total ?r = length (keys_minus ?prev ?cur)"
    "tr_transitions ?r = transitions ?cur ?prev" "tr_new ?r = buckets (keys_minus ?cur ?prev) ?cur"
    "tr_resolved ?r = buckets (keys_minus ?prev ?cur) ?prev"
    "tr_new_sample ?r = sample_findings current (keys_minus ?cur ?prev)"
    "tr_resolved_sample ?r = sample_findings previous (keys_minus ?prev ?cur)"
    by (simp_all add: compare_sessions_def Let_def)
  have new: "set (keys_minus ?cur ?prev) = ?new" "distinct (keys_minus ?cur ?prev)"
    using keys_minus(1) [OF current_keys(2)] by (simp_all only: keys_minus(2) current_keys(1) previous_keys(1))
  have gone: "set (keys_minus ?prev ?cur) = ?gone" "distinct (keys_minus ?prev ?cur)"
    using keys_minus(1) [OF previous_keys(2)] by (simp_all only: keys_minus(2) current_keys(1) previous_keys(1))
  have "dict_get ?prev k None = severity_in previous k" if "k \<in> set (keys_minus ?prev ?cur)" for k
    using that gone(1) previous_lookup by blast
  note severities = buckets_exact [OF new(2), where eps = current, unfolded new(1), OF current_lookup]
    buckets_exact [OF gone(2) this, unfolded gone(1)]
  have "set (transitions ?cur ?prev) =
      (\<lambda>k. \<lparr>st_key = k, st_previous = dict_get ?prev k None, st_current = severity_in current k\<rparr>) `
        {k \<in> (answered current \<inter> answered previous) - failed current. severity_in current k \<noteq> dict_get ?prev k None}"
    unfolding transitions_set [OF current_keys(2)] current_lookup current_keys(1) previous_keys(1)
    by (intro arg_cong [of _ _ "image _"]) blast
  also have "\<dots> = (\<lambda>k. \<lparr>st_key = k, st_previous = severity_in previous k, st_current = severity_in current k\<rparr>) `
        {k \<in> (answered current \<inter> answered previous) - failed current. severity_in current k \<noteq> severity_in previous k}"
    by (intro image_cong Collect_cong) (use previous_lookup in auto)
  finally have changed: "set (transitions ?cur ?prev) = \<dots>" .
  have totals: "length (keys_minus ?cur ?prev) = card ?new" "length (keys_minus ?prev ?cur) = card ?gone"
    using distinct_card [OF new(2)] distinct_card [OF gone(2)] by (simp_all only: new(1) gone(1))
  note samples = sample_keys [of current "keys_minus ?cur ?prev", unfolded new(1)]
    sample_keys [of previous "keys_minus ?prev ?cur", unfolded gone(1)]
  show ?thesis
    unfolding Let_def r
    by (intro conjI totals severities samples changed transitions_distinct [OF current_keys(2)] transitions_ordered)
qed

text \<open>An endpoint with a good and a failed row in the current session is reported as new although the previous
  session had it: the failed row removes it from the previous side only.\<close>

lemma flapping_endpoint_is_new:
  assumes "trend_key e = trend_key f" "trend_key e = trend_key p" "ep_scan_error e = None" "ep_scan_error p = None" "ep_scan_error f \<noteq> None"
  shows "tr_new_total (compare_sessions [e, f] [p] cs ps) = 1"
  using assms by (simp add: compare_sessions_def Let_def current_severities_def previous_severities_def severities_def
      error_keys_def keys_minus_def)

section \<open>Scores\<close>

lemma score_range:
  assumes "compute_readiness_score e p ws = Inr r" and "r_score r = Some s"
  shows "0 \<le> s \<and> s \<le> 100"
proof (cases "assessed_scores (category_table (effective_weights p ws) e) = []")
  case True
  with compute_unassessed [OF True] assms show ?thesis by auto
next
  case False
  with compute_assessed [OF False] final_total_table_bounds [OF False, of e] assms show ?thesis by auto
qed

text \<open>The score a report on a session shows.\<close>

definition report_score ::
    "(string \<Rightarrow> pyval option) \<Rightarrow> int \<Rightarrow> int list \<Rightarrow> scanned_endpoint list \<Rightarrow> int option" where
  "report_score loads now designated eps =
     (case derive_report_findings loads now designated eps of
        Inl _ \<Rightarrow> None
      | Inr fs \<Rightarrow> (case compute_readiness_score (build_evidence_summary eps (map row_of fs) 30 None) None [] of
                    Inl _ \<Rightarrow> None | Inr r \<Rightarrow> r_score r))"

lemma session_score:
  assumes "eps = [] \<or> derive_report_findings loads now designated eps = Inr fs"
  shows "score_for_session (default_report_deriver loads now designated) eps =
    Inr (if eps = [] then None else report_score loads now designated eps)"
proof -
  obtain r where "compute_readiness_score (build_evidence_summary eps (map row_of fs) 30 None) None [] = Inr r"
    using compute_total by blast
  with assms show ?thesis
    by (auto simp: score_for_session_def default_report_deriver_def report_score_def)
qed

lemma report_score_range: "report_score loads now designated eps = Some s \<Longrightarrow> 0 \<le> s \<and> s \<le> 100"
  by (auto simp: report_score_def split: sum.splits dest: score_range)

text \<open>When the findings of two sessions can be derived, the trend report exists, its two scores are those
  of the reports on the sessions, and the change is their difference, between minus 100 and 100, present
  exactly when both sessions have a score.\<close>

theorem trend_scores_are_report_scores:
  assumes "fetch_session_endpoints rows t = c # cs" and "fetch_session_endpoints rows u = p # ps"
    and "derive_report_findings loads now designated (c # cs) = Inr fs"
    and "derive_report_findings loads now designated (p # ps) = Inr gs"
  shows "\<exists>r. compute_trend_report (default_report_deriver loads now designated) t (Some u) rows = Inr r \<and>
    tr_current_score r = report_score loads now designated (c # cs) \<and>
    tr_previous_score r = report_score loads now designated (p # ps) \<and>
    (case tr_score_delta r of
       None \<Rightarrow> tr_current_score r = None \<or> tr_previous_score r = None
     | Some d \<Rightarrow> - 100 \<le> d \<and> d \<le> 100 \<and>
         (\<exists>a b. tr_current_score r = Some a \<and> tr_previous_score r = Some b \<and> d = a - b))"
proof -
  let ?a = "report_score loads now designated (c # cs)" and ?b = "report_score loads now designated (p # ps)"
  have "compute_trend_report (default_report_deriver loads now designated) t (Some u) rows =
      Inr (compare_sessions (c # cs) (p # ps) ?a ?b)"
    using session_score [of "c # cs" loads now designated fs] session_score [of "p # ps" loads now designated gs] assms
    by (simp add: compute_trend_report_def Let_def)
  moreover have "tr_current_score (compare_sessions (c # cs) (p # ps) ?a ?b) = ?a"
    "tr_previous_score (compare_sessions (c # cs) (p # ps) ?a ?b) = ?b"
    "tr_score_delta (compare_sessions (c # cs) (p # ps) ?a ?b) = score_delta ?a ?b"
    by (simp_all add: compare_sessions_def Let_def)
  ultimately show ?thesis
    using report_score_range [of loads now designated "c # cs"] report_score_range [of loads now designated "p # ps"]
    by (cases ?a; cases ?b) (auto simp: score_delta_def)
qed

section \<open>Sessions\<close>

definition session_times :: "stored_row list \<Rightarrow> session_key \<Rightarrow> int set" where
  "session_times rows k =
     {t. \<exists>r \<in> set rows. ep_scanned_at (sr_row r) = Some t \<and> session_of (sr_run_id r) t = k}"

lemma session_times_snoc:
  "session_times (rows @ [r]) k = session_times rows k \<union>
     (case ep_scanned_at (sr_row r) of None \<Rightarrow> {} | Some t \<Rightarrow> if session_of (sr_run_id r) t = k then {t} else {})"
  by (auto simp: session_times_def split: option.split)

lemma earliest_of_session:
  "case map_of (fold note_earliest rows []) k of
     None \<Rightarrow> session_times rows k = {}
   | Some t \<Rightarrow> t \<in> session_times rows k \<and> (\<forall>u \<in> session_times rows k. t \<le> u)"
proof (induction rows rule: rev_induct)
  case Nil
  then show ?case by (simp add: session_times_def)
next
  case (snoc r rows)
  then show ?case
    by (cases "ep_scanned_at (sr_row r)")
      (auto simp: note_earliest_def session_times_snoc map_of_dict_put Let_def split: option.splits if_splits)
qed

definition session_rows :: "stored_row list \<Rightarrow> session_key \<Rightarrow> scanned_endpoint list" where
  "session_rows rows k =
     map sr_row (filter (\<lambda>r. case k of
         Run s \<Rightarrow> sr_run_id r = Some s
       | Legacy m \<Rightarrow> sr_run_id r = None \<and> (\<exists>t. ep_scanned_at (sr_row r) = Some t \<and> millisecond t = m)) rows)"

lemma millisecond_iff: "millisecond t = millisecond u \<longleftrightarrow> millisecond u \<le> t \<and> t < millisecond u + 1000"
proof -
  have "millisecond t = t div 1000 * 1000" for t by (simp add: millisecond_def minus_mod_eq_div_mult)
  then show ?thesis by auto
qed

lemma map_filter_const: "(\<And>x. x \<in> set xs \<Longrightarrow> f x = Some s) \<Longrightarrow> List.map_filter f xs = map (\<lambda>_. s) xs"
  by (induction xs) (auto simp: List.map_filter_def)

text \<open>A session is read back as it was listed: the timestamp that stands for a session, when no other
  session has a row of that time and no run identifier is empty, fetches exactly the rows of the session, all of
  them for a keyed run and those of its millisecond for rows older than the key.\<close>

theorem sessions_read_back:
  assumes "map_of (fold note_earliest rows []) k = Some t"
    and "\<forall>r \<in> set rows. ep_scanned_at (sr_row r) = Some t \<longrightarrow> session_of (sr_run_id r) t = k"
    and "\<forall>r \<in> set rows. sr_run_id r \<noteq> Some []"
  shows "fetch_session_endpoints rows t = session_rows rows k"
proof -
  let ?at = "filter (\<lambda>r. ep_scanned_at (sr_row r) = Some t) rows"
  have "t \<in> session_times rows k" using earliest_of_session [of rows k] assms(1) by simp
  then obtain r where r: "r \<in> set ?at" "session_of (sr_run_id r) t = k" by (auto simp: session_times_def)
  have all: "session_of (sr_run_id q) t = k" if "q \<in> set ?at" for q using that assms(2) by simp
  show ?thesis
  proof (cases k)
    case (Run s)
    then have s: "s \<noteq> []" "q \<in> set ?at \<Longrightarrow> sr_run_id q = Some s" for q
      using r(2) all [of q] by (auto simp: session_of_def py_or_str_def split: if_splits option.splits)
    then have "List.map_filter sr_run_id ?at = map (\<lambda>_. s) ?at"
      by (intro map_filter_const) blast
    moreover obtain q qs where "?at = q # qs" using r(1) by (cases ?at) auto
    ultimately show ?thesis
      using s(1) Run by (cases s) (simp_all add: fetch_session_endpoints_def session_rows_def)
  next
    case (Legacy m)
    then have m: "m = millisecond t" using r(2) by (auto simp: session_of_def split: if_splits)
    have "sr_run_id q = None" if "q \<in> set ?at" for q
      using all [OF that] that assms(3) Legacy by (auto simp: session_of_def py_or_str_def split: if_splits option.splits)
    then have "List.map_filter sr_run_id ?at = []" by (simp add: List.map_filter_def filter_empty_conv)
    then show ?thesis
      by (auto simp: fetch_session_endpoints_def session_rows_def Legacy m millisecond_iff split: option.splits
          intro!: arg_cong [of _ _ "map sr_row"] filter_cong)
  qed
qed

section \<open>Witnesses\<close>

definition two_runs :: "stored_row list" where
  "two_runs =
     [\<lparr>sr_run_id = Some ''A'', sr_row = closed_row\<rparr>,
      \<lparr>sr_run_id = Some ''B'', sr_row = closed_row\<lparr>ep_scanned_at := Some 5\<rparr>\<rparr>]"

lemma two_runs_fetched:
  "fetch_session_endpoints two_runs 0 = [closed_row]"
  "fetch_session_endpoints two_runs 5 = [closed_row\<lparr>ep_scanned_at := Some 5\<rparr>]"
  by (simp_all add: fetch_session_endpoints_def two_runs_def List.map_filter_def closed_row_def)

lemma closed_rows_readable:
  "\<exists>fs. derive_report_findings (\<lambda>_. None) 0 [] [closed_row] = Inr fs"
  "\<exists>fs. derive_report_findings (\<lambda>_. None) 0 [] [closed_row\<lparr>ep_scanned_at := Some 5\<rparr>] = Inr fs"
  using derived_iff [of "\<lambda>_. None" 0 "[]" "[closed_row]"]
    derived_iff [of "\<lambda>_. None" 0 "[]" "[closed_row\<lparr>ep_scanned_at := Some 5\<rparr>]"]
  by (auto simp: blank_notice_def codesign_readable_def closed_row_def)

theorem trend_scores_are_report_scores_witness:
  "\<exists>r. compute_trend_report (default_report_deriver (\<lambda>_. None) 0 []) 5 (Some 0) two_runs = Inr r \<and>
    tr_previous_score r = report_score (\<lambda>_. None) 0 [] [closed_row]"
proof -
  obtain fs gs where "derive_report_findings (\<lambda>_. None) 0 [] [closed_row\<lparr>ep_scanned_at := Some 5\<rparr>] = Inr fs"
    "derive_report_findings (\<lambda>_. None) 0 [] [closed_row] = Inr gs"
    using closed_rows_readable by blast
  from trend_scores_are_report_scores [OF two_runs_fetched(2,1) this] show ?thesis by blast
qed

theorem sessions_read_back_witness:
  "map_of (fold note_earliest two_runs []) (Run ''B'') = Some 5 \<and>
   fetch_session_endpoints two_runs 5 = session_rows two_runs (Run ''B'')"
proof -
  have "map_of (fold note_earliest two_runs []) (Run ''B'') = Some 5"
    by (simp add: two_runs_def note_earliest_def closed_row_def session_of_def py_or_str_def)
  moreover have "\<forall>r \<in> set two_runs. ep_scanned_at (sr_row r) = Some 5 \<longrightarrow> session_of (sr_run_id r) 5 = Run ''B''"
    "\<forall>r \<in> set two_runs. sr_run_id r \<noteq> Some []"
    by (simp_all add: two_runs_def closed_row_def session_of_def py_or_str_def)
  ultimately show ?thesis using sessions_read_back by blast
qed

end
