(* ===== verification/Confidence.thy ===== *)
theory Confidence
  imports Evidence_Counts
begin

text \<open>
  \<open>quirk/intelligence/confidence.py\<close>: how far a scan can be relied on, from its evidence.  \<open>tf\<close> is
  \<open>float()\<close> of a text (None when it raises).
\<close>

section \<open>Reading numbers\<close>

definition py_float :: "(string \<Rightarrow> real option) \<Rightarrow> pyval \<Rightarrow> real option" where
  "py_float tf v =
     (case v of
        PyBool b \<Rightarrow> Some (if b then 1 else 0)
      | PyInt n \<Rightarrow> Some (of_int n)
      | PyFloat x \<Rightarrow> Some x
      | PyStr s \<Rightarrow> tf s
      | _ \<Rightarrow> None)"

definition conf_float :: "(string \<Rightarrow> real option) \<Rightarrow> pyval \<Rightarrow> real" where
  "conf_float tf v = (case py_float tf v of None \<Rightarrow> 0 | Some x \<Rightarrow> x)"

definition conf_clamp :: "real \<Rightarrow> real \<Rightarrow> real \<Rightarrow> real" where
  "conf_clamp v lo hi = min hi (max lo v)"

definition conf_rating :: "int \<Rightarrow> string" where
  "conf_rating score =
     (if 85 \<le> score then ''HIGH'' else if 65 \<le> score then ''MEDIUM'' else if 40 \<le> score then ''LOW'' else ''VERY_LOW'')"

section \<open>Weights\<close>

definition confidence_weights :: "(string \<times> real) list" where
  "confidence_weights =
     [(''coverage_ratio'', 35 / 100), (''scan_error_ratio'', 30 / 100), (''unknown_ratio'', 15 / 100),
      (''tls_enum_coverage_ratio'', 20 / 100)]"

definition confidence_formula_version :: string where
  "confidence_formula_version = ''2.0.0''"

text \<open>A non-numeric override raises; unknown keys are kept and logged.\<close>

datatype confidence_error = NotNumeric string

definition override_weight ::
    "(string \<Rightarrow> real option) \<Rightarrow> string \<times> pyval \<Rightarrow> (string \<times> real) list \<Rightarrow> confidence_error + (string \<times> real) list" where
  "override_weight tf kv w =
     (case py_float tf (snd kv) of
        None \<Rightarrow> Inl (NotNumeric (fst kv))
      | Some x \<Rightarrow> Inr (dict_put (fst kv) (max 0 (min 1 x)) w))"

section \<open>The score\<close>

record factor =
  fc_value :: real
  fc_weight :: real
  fc_points :: real

record confidence =
  cf_score :: int
  cf_rating :: string
  cf_version :: string
  cf_factors :: "(string \<times> factor) list"

definition no_data :: "(string \<Rightarrow> real) \<Rightarrow> confidence" where
  "no_data w =
     \<lparr>cf_score = 0, cf_rating = ''NO_DATA'', cf_version = confidence_formula_version,
      cf_factors = map (\<lambda>k. (k, \<lparr>fc_value = 0, fc_weight = w k, fc_points = 0\<rparr>))
        [''coverage_ratio'', ''scan_error_ratio'', ''unknown_ratio'', ''tls_enum_coverage_ratio'']\<rparr>"

definition tls_enum_ratio :: "(string \<Rightarrow> real option) \<Rightarrow> evidence \<Rightarrow> real" where
  "tls_enum_ratio tf e =
     (let r = conf_float tf (dict_get e ''tls_enum_coverage_ratio'' (PyFloat (-1)));
          pct = conf_float tf (dict_get e ''tls_enum_coverage_pct'' (PyFloat (-1)));
          r' = (if r < 0 \<and> 0 \<le> pct then pct / 100 else r) in
      conf_clamp (if r' < 0 then 0 else r') 0 1)"

definition round2 :: "real \<Rightarrow> real" where
  "round2 x = of_int (py_round (x * 100)) / 100"

definition factor_of :: "real \<Rightarrow> real \<Rightarrow> real \<Rightarrow> factor" where
  "factor_of value weight points = \<lparr>fc_value = round4 value, fc_weight = round4 weight, fc_points = round2 points\<rparr>"

definition confidence_of :: "(string \<Rightarrow> real) \<Rightarrow> real \<Rightarrow> real \<Rightarrow> real \<Rightarrow> real \<Rightarrow> bool \<Rightarrow> confidence" where
  "confidence_of w coverage errors unknown enum has_tls =
     (let pc = 100 * w ''coverage_ratio'' * coverage;
          pe = 100 * w ''scan_error_ratio'' * (1 - errors);
          pu = 100 * w ''unknown_ratio'' * (1 - unknown);
          pt = (if has_tls then 100 * w ''tls_enum_coverage_ratio'' * enum else 0);
          score = py_round (conf_clamp (pc + pe + pu + pt) 0 100) in
      \<lparr>cf_score = score, cf_rating = conf_rating score, cf_version = confidence_formula_version,
       cf_factors =
         [(''coverage_ratio'', factor_of coverage (w ''coverage_ratio'') pc),
          (''scan_error_ratio'', factor_of errors (w ''scan_error_ratio'') pe),
          (''unknown_ratio'', factor_of unknown (w ''unknown_ratio'') pu),
          (''tls_enum_coverage_ratio'', factor_of enum (w ''tls_enum_coverage_ratio'') pt)]\<rparr>)"

definition conf_error_rate :: "(string \<Rightarrow> real option) \<Rightarrow> evidence \<Rightarrow> real" where
  "conf_error_rate tf e = conf_clamp (conf_float tf (dict_get (sub_mapping e ''scan_error'') ''rate'' (PyFloat 0))) 0 1"

definition compute_confidence ::
    "(string \<Rightarrow> real option) \<Rightarrow> evidence \<Rightarrow> (string \<times> pyval) list \<Rightarrow> confidence_error + confidence" where
  "compute_confidence tf e overrides =
     bind_err (err_fold (override_weight tf) overrides confidence_weights)
       (\<lambda>ws.
          let w = (\<lambda>k. dict_get ws k 0);
              endpoints = count_at (sub_mapping e ''totals'') ''endpoints'';
              protocols = sub_mapping e ''protocol_counts'';
              assessed = count_at e ''assessed_crypto_count'';
              assessable = count_at e ''assessable_endpoint_count'' in
          Inr (if endpoints = 0 \<or> assessable = 0 then no_data w
               else confidence_of w (conf_clamp (of_int assessed / of_int assessable) 0 1) (conf_error_rate tf e)
                 (conf_clamp (of_int (count_at protocols ''UNKNOWN'') / of_int endpoints) 0 1)
                 (tls_enum_ratio tf e) (0 < count_at protocols ''TLS'')))"

end
