(* ===== verification/Confidence_Properties.thy ===== *)
theory Confidence_Properties
  imports Confidence
begin

text \<open>Bounds of the confidence, what an override can do, and the confidence of a scan in terms of its rows.\<close>

section \<open>Weights and bounds\<close>

definition overrides_ok :: "(string \<times> real) list \<Rightarrow> bool" where
  "overrides_ok ws \<longleftrightarrow> list_all (\<lambda>(k, x). 0 \<le> x \<and> x \<le> 1) ws"

lemma overrides_ok_put: "overrides_ok ws \<Longrightarrow> 0 \<le> x \<Longrightarrow> x \<le> 1 \<Longrightarrow> overrides_ok (dict_put k x ws)"
  by (induction ws) (auto simp: overrides_ok_def)

lemma overrides_ok_get: "overrides_ok ws \<Longrightarrow> 0 \<le> dict_get ws k 0 \<and> dict_get ws k 0 \<le> 1"
  by (auto simp: overrides_ok_def dict_get_def list_all_iff split: option.split dest!: map_of_SomeD)

lemma overridden_ok:
  assumes "err_fold (override_weight tf) overrides confidence_weights = Inr ws"
  shows "overrides_ok ws"
proof (rule err_fold_invariant [OF assms, where P = overrides_ok])
  show "overrides_ok confidence_weights" by (simp add: overrides_ok_def confidence_weights_def)
  show "overrides_ok t" if "overrides_ok s" "override_weight tf x s = Inr t" for x s t
    using that by (auto simp: override_weight_def overrides_ok_put split: option.splits)
qed

lemma clamp_bounds: "0 \<le> conf_clamp x 0 1 \<and> conf_clamp x 0 1 \<le> 1"
  by (simp add: conf_clamp_def)

lemma confidence_of_range:
  "0 \<le> cf_score (confidence_of w c e u t b) \<and> cf_score (confidence_of w c e u t b) \<le> 100 \<and>
   cf_rating (confidence_of w c e u t b) = conf_rating (cf_score (confidence_of w c e u t b))"
proof -
  have "0 \<le> conf_clamp x 0 100 \<and> conf_clamp x 0 100 \<le> 100" for x by (simp add: conf_clamp_def)
  then have "0 \<le> py_round (conf_clamp x 0 100) \<and> py_round (conf_clamp x 0 100) \<le> 100" for x
    using py_round_bounds [of 0 "conf_clamp x 0 100" 100] by simp
  then show ?thesis by (simp add: confidence_of_def Let_def)
qed

text \<open>A better covered scan with fewer errors and unknowns has no lower confidence, under all weights.\<close>

lemma confidence_of_mono:
  assumes w: "\<And>k. 0 \<le> w k" and "c \<le> c'" "e' \<le> e" "u' \<le> u" "t \<le> t'"
  shows "cf_score (confidence_of w c e u t b) \<le> cf_score (confidence_of w c' e' u' t' b)"
proof -
  have "100 * w k * x \<le> 100 * w k * y" if "x \<le> y" for k x y
    using that w [of k] by (simp add: mult_left_mono)
  note m = this [of c c' "''coverage_ratio''"] this [of "1 - e" "1 - e'" "''scan_error_ratio''"]
    this [of "1 - u" "1 - u'" "''unknown_ratio''"] this [of t t' "''tls_enum_coverage_ratio''"]
  have "conf_clamp x 0 100 \<le> conf_clamp y 0 100" if "x \<le> y" for x y using that by (auto simp: conf_clamp_def)
  then show ?thesis
    using m assms by (auto simp: confidence_of_def Let_def intro!: py_round_mono add_mono)
qed

text \<open>C33: the confidence is total and bounded: it fails only on an override that is not a number; otherwise it
  is between 0 and 100, is labelled NO\_DATA with no points exactly when there is no endpoint or no
  assessable one, and is labelled by its own number else.\<close>

theorem confidence_bounded_and_labelled:
  "(case compute_confidence tf e overrides of
      Inl (NotNumeric k) \<Rightarrow> list_ex (\<lambda>kv. fst kv = k \<and> py_float tf (snd kv) = None) overrides
    | Inr c \<Rightarrow>
        list_all (\<lambda>kv. py_float tf (snd kv) \<noteq> None) overrides \<and> 0 \<le> cf_score c \<and> cf_score c \<le> 100 \<and>
        (if count_at (sub_mapping e ''totals'') ''endpoints'' = 0 \<or> count_at e ''assessable_endpoint_count'' = 0
         then cf_score c = 0 \<and> cf_rating c = ''NO_DATA'' \<and> list_all (\<lambda>f. fc_points (snd f) = 0) (cf_factors c)
         else cf_rating c = conf_rating (cf_score c)))"
proof -
  have fold: "case err_fold (override_weight tf) overrides ws of
      Inl (NotNumeric k) \<Rightarrow> list_ex (\<lambda>kv. fst kv = k \<and> py_float tf (snd kv) = None) overrides
    | Inr _ \<Rightarrow> list_all (\<lambda>kv. py_float tf (snd kv) \<noteq> None) overrides" for ws
  proof (induction overrides arbitrary: ws)
    case (Cons kv rest)
    show ?case
    proof (cases "py_float tf (snd kv)")
      case (Some x)
      with Cons [of "dict_put (fst kv) (max 0 (min 1 x)) ws"] show ?thesis
        by (auto simp: override_weight_def split: sum.splits confidence_error.splits)
    qed (simp add: override_weight_def)
  qed simp
  show ?thesis
  proof (cases "err_fold (override_weight tf) overrides confidence_weights")
    case (Inl er)
    with fold [of confidence_weights] show ?thesis by (simp add: compute_confidence_def)
  next
    case (Inr ws)
    with fold [of confidence_weights] confidence_of_range show ?thesis
      by (simp add: compute_confidence_def Let_def no_data_def)
  qed
qed

section \<open>The confidence of a scan\<close>

definition assessable_row :: "scanned_endpoint \<Rightarrow> bool" where
  "assessable_row e \<longleftrightarrow> \<not> is_unanswered_email_probe e \<and> \<not> proto_of e \<in> set non_asset_protocols"

lemma assessable_mark:
  "shows_weakness ref cutoff ''assessable_endpoint_count'' e \<longleftrightarrow> assessable_row e"
proof -
  have "''assessable_endpoint_count'' \<notin> set (certificate_marks ref cutoff e)"
    "''assessable_endpoint_count'' \<notin> set (protocol_marks [] e)"
    using certificate_once [of ref cutoff e] protocol_once [of "[]" e]
    by (auto simp: once_among_def certificate_names_def branch_names_def plain_counters_def)
  then show ?thesis
    by (simp add: shows_weakness_def assessable_row_def row_marks_def coverage_marks_def Let_def)
qed

lemma assessable_rows_counted:
  "count_at (build_evidence_summary eps fs days reference) ''assessable_endpoint_count''
     = int (length (filter assessable_row eps))"
proof -
  have "count_of (tally ref cutoff eps) ''assessable_endpoint_count'' = int (length (filter assessable_row eps))" for ref cutoff
  proof -
    have "shows_weakness ref cutoff ''assessable_endpoint_count'' = assessable_row" by (rule ext) (rule assessable_mark)
    moreover have "count_of empty_tally ''assessable_endpoint_count'' = 0" by code_simp
    ultimately show ?thesis
      unfolding tally_def by (subst count_of_tally) simp_all
  qed
  then show ?thesis
    by (simp add: build_evidence_summary_def Let_def count_at_def dict_get_def summary_lookups(1) as_int_def py_int_def)
qed

lemma endpoints_counted:
  "count_at (sub_mapping (build_evidence_summary eps fs days reference) ''totals'') ''endpoints'' = int (length eps)"
  by (simp add: build_evidence_summary_def Let_def summary_of_def sub_mapping_def count_at_def dict_get_def as_int_def py_int_def)

lemma no_tls_counted:
  assumes "list_all (\<lambda>e. proto_of e \<noteq> ''TLS'') eps"
  shows "dict_get (tl_protocols (foldl (count_endpoint ref cutoff) t eps)) ''TLS'' 0 = dict_get (tl_protocols t) ''TLS'' 0"
  using assms
proof (induction eps arbitrary: t)
  case (Cons e eps)
  from Cons.prems have "dict_get (tl_protocols (count_endpoint ref cutoff t e)) ''TLS'' 0 = dict_get (tl_protocols t) ''TLS'' 0"
    by (auto simp: count_endpoint_def bump_def dict_get_put)
  with Cons show ?case by simp
qed simp

lemma no_tls_read:
  assumes "list_all (\<lambda>e. proto_of e \<noteq> ''TLS'') eps"
  shows "count_at (sub_mapping (build_evidence_summary eps fs days reference) ''protocol_counts'') ''TLS'' = 0"
proof -
  have "dict_get (map (\<lambda>(k, n). (k, PyInt n)) c) ''TLS'' (PyInt 0) = PyInt (dict_get c ''TLS'' 0)" for c
    by (induction c) (auto simp: dict_get_def)
  moreover have "dict_get (tl_protocols empty_tally) ''TLS'' 0 = 0" by code_simp
  ultimately show ?thesis
    using no_tls_counted [OF assms]
    by (simp add: build_evidence_summary_def Let_def sub_mapping_def dict_get_def [of _ "''protocol_counts''"] summary_lookups(4)
        counts_dict_def count_at_def tally_def as_int_def py_int_def)
qed

lemma default_ceiling_without_tls:
  assumes "c \<le> 1" "0 \<le> e" "0 \<le> u"
  shows "cf_score (confidence_of (\<lambda>k. dict_get confidence_weights k 0) c e u t False) \<le> 80"
proof -
  have "conf_clamp (35 * c + 30 * (1 - e) + 15 * (1 - u)) 0 100 \<le> 80" using assms by (simp add: conf_clamp_def)
  then have "py_round (conf_clamp (35 * c + 30 * (1 - e) + 15 * (1 - u)) 0 100) \<le> 80"
    using py_round_mono [of _ 80] by fastforce
  then show ?thesis by (simp add: confidence_of_def Let_def confidence_weights_def dict_get_def)
qed

text \<open>The confidence of a scan follows its rows: there is no data exactly when no row is an assessable
  endpoint (advisories, closed ports and unanswered mail probes are none), and a scan without a TLS row never
  gets more than 80, for the points of the TLS enumeration are not given away.\<close>

theorem confidence_of_a_scan:
  "\<exists>c. compute_confidence tf (build_evidence_summary eps fs days reference) [] = Inr c \<and>
     (cf_rating c = ''NO_DATA'') = list_all (\<lambda>e. \<not> assessable_row e) eps \<and>
     (if list_all (\<lambda>e. \<not> proto_of e = ''TLS'') eps then cf_score c \<le> 80 else cf_score c \<le> 100)"
proof -
  let ?e = "build_evidence_summary eps fs days reference" and ?w = "\<lambda>k. dict_get confidence_weights k 0"
  let ?none = "list_all (\<lambda>e. \<not> assessable_row e) eps"
  define c where "c = (if ?none then no_data ?w else confidence_of ?w
      (conf_clamp (of_int (count_at ?e ''assessed_crypto_count'') / of_int (count_at ?e ''assessable_endpoint_count'')) 0 1)
      (conf_error_rate tf ?e)
      (conf_clamp (of_int (count_at (sub_mapping ?e ''protocol_counts'') ''UNKNOWN'') / of_int (int (length eps))) 0 1)
      (tls_enum_ratio tf ?e) (0 < count_at (sub_mapping ?e ''protocol_counts'') ''TLS''))"
  have "compute_confidence tf ?e [] = Inr c"
    by (auto simp: compute_confidence_def Let_def c_def assessable_rows_counted endpoints_counted filter_empty_conv list_all_iff)
  moreover have "(cf_rating c = ''NO_DATA'') = ?none"
  proof (cases ?none)
    case False
    then have "cf_rating c = conf_rating (cf_score c)" using confidence_of_range by (simp add: c_def)
    with False show ?thesis by (simp add: conf_rating_def)
  qed (simp add: c_def no_data_def)
  moreover have "cf_score c \<le> 100" using confidence_of_range by (auto simp: c_def no_data_def)
  moreover have "cf_score c \<le> 80" if "list_all (\<lambda>e. \<not> proto_of e = ''TLS'') eps"
  proof (cases ?none)
    case False
    have "count_at (sub_mapping ?e ''protocol_counts'') ''TLS'' = 0" using no_tls_read that by simp
    with False show ?thesis
      using default_ceiling_without_tls clamp_bounds by (simp add: c_def conf_error_rate_def)
  qed (simp add: c_def no_data_def)
  ultimately show ?thesis by auto
qed

end
