(* ===== verification/Targets.thy ===== *)
theory Targets
  imports Ip_Address
begin

text \<open>
  \<open>quirk/util/targets.py\<close>: the parser of target lists with its guard on target files, and the probe
  budget.  The file system is a parameter: canonical paths, sizes, numbers of lines and lines (None when the
  call raises).  \<open>ip_network\<close> is modelled after CPython's \<open>ipaddress\<close>.
\<close>

section \<open>Networks\<close>

text \<open>The prefix length a dotted netmask stands for, from its trailing zeros.\<close>

fun trailing_zeros :: "nat \<Rightarrow> ipv4 \<Rightarrow> nat" where
  "trailing_zeros 0 m = 0"
| "trailing_zeros (Suc n) m = (if bit m 0 then 0 else Suc (trailing_zeros n (drop_bit 1 m)))"

definition prefix_from_mask :: "ipv4 \<Rightarrow> nat option" where
  "prefix_from_mask m =
     (let tz = trailing_zeros 32 m in if drop_bit tz m = mask (32 - tz) then Some (32 - tz) else None)"

definition prefix_length :: "nat \<Rightarrow> string \<Rightarrow> nat option" where
  "prefix_length bits s =
     (if s \<noteq> [] \<and> list_all is_digit s \<and> digits_value s \<le> bits then Some (digits_value s) else None)"

definition ipv4_prefix :: "string \<Rightarrow> nat option" where
  "ipv4_prefix s =
     (case prefix_length 32 s of
        Some n \<Rightarrow> Some n
      | None \<Rightarrow>
          (case parse_ipv4 s of
             None \<Rightarrow> None
           | Some m \<Rightarrow> (case prefix_from_mask m of Some n \<Rightarrow> Some n | None \<Rightarrow> prefix_from_mask (NOT m))))"

datatype ip_net = Net4 nat | Net6 nat

text \<open>\<open>ip_network(s, strict=False)\<close>: the family and the prefix length; None when it raises.\<close>

definition ip_network :: "string \<Rightarrow> ip_net option" where
  "ip_network s =
     (case py_split CHR ''/'' s of
        [a] \<Rightarrow> (case ip_address a of None \<Rightarrow> None | Some (V4 _) \<Rightarrow> Some (Net4 32) | Some (V6 _ _) \<Rightarrow> Some (Net6 128))
      | [a, p] \<Rightarrow>
          (case ip_address a of
             None \<Rightarrow> None
           | Some (V4 _) \<Rightarrow> map_option Net4 (ipv4_prefix p)
           | Some (V6 _ _) \<Rightarrow> map_option Net6 (prefix_length 128 p))
      | _ \<Rightarrow> None)"

text \<open>The number of addresses \<open>hosts()\<close> yields.\<close>

definition host_count :: "ip_net \<Rightarrow> nat" where
  "host_count net =
     (case net of
        Net4 p \<Rightarrow> if 31 \<le> p then 2 ^ (32 - p) else 2 ^ (32 - p) - 2
      | Net6 p \<Rightarrow> if 127 \<le> p then 2 ^ (128 - p) else 2 ^ (128 - p) - 1)"

section \<open>Target files\<close>

record filesystem =
  fs_realpath :: "string \<Rightarrow> string"
  fs_cwd :: string
  fs_size :: "string \<Rightarrow> int option"
  fs_line_count :: "string \<Rightarrow> int option"
  fs_lines :: "string \<Rightarrow> string list option"

datatype target_error =
    PathTraversal string | PathNotAllowedPrefix string | TargetFileTooLarge string | TargetFileTooManyLines string
  | FileUnreadable string | InvalidTarget string | InvalidToken string

definition blocked_prefixes :: "string list" where
  "blocked_prefixes = [''/etc'', ''/proc'', ''/sys'', ''/dev'']"

definition max_file_size :: int where
  "max_file_size = 1048576"

definition max_line_count :: int where
  "max_line_count = 10000"

definition over :: "int option \<Rightarrow> int \<Rightarrow> bool" where
  "over n limit = (case n of None \<Rightarrow> False | Some k \<Rightarrow> limit < k)"

definition below_cwd :: "filesystem \<Rightarrow> string \<Rightarrow> bool" where
  "below_cwd fs path \<longleftrightarrow>
     starts_with (fs_realpath fs path) (fs_cwd fs @ ''/'') \<or> fs_realpath fs path = fs_cwd fs"

definition load_targets_file :: "filesystem \<Rightarrow> string \<Rightarrow> target_error + string" where
  "load_targets_file fs path =
     (case fs_lines fs path of
        None \<Rightarrow> Inl (FileUnreadable path)
      | Some lines \<Rightarrow>
          Inr (join_with CHR '','' (filter (\<lambda>l. l \<noteq> [] \<and> \<not> starts_with l ''#'') (map py_strip lines))))"

definition guarded_file :: "filesystem \<Rightarrow> string \<Rightarrow> target_error + string" where
  "guarded_file fs path =
     (if \<not> below_cwd fs path then Inl (PathTraversal path)
      else if list_ex (starts_with (fs_realpath fs path)) blocked_prefixes then Inl (PathNotAllowedPrefix path)
      else if over (fs_size fs path) max_file_size then Inl (TargetFileTooLarge path)
      else if over (fs_line_count fs path) max_line_count then Inl (TargetFileTooManyLines path)
      else load_targets_file fs path)"

section \<open>Tokens\<close>

definition alnum :: "char \<Rightarrow> bool" where
  "alnum c \<longleftrightarrow> is_digit c \<or> (65 \<le> char_code c \<and> char_code c \<le> 90) \<or> (97 \<le> char_code c \<and> char_code c \<le> 122)"

definition is_label :: "string \<Rightarrow> bool" where
  "is_label s \<longleftrightarrow>
     s \<noteq> [] \<and> length s \<le> 63 \<and> alnum (hd s) \<and> alnum (last s) \<and> list_all (\<lambda>c. alnum c \<or> c = CHR ''-'') s"

definition is_hostname :: "string \<Rightarrow> bool" where
  "is_hostname s \<longleftrightarrow> list_all is_label (py_split CHR ''.'' s)"

type_synonym targets = "string list \<times> string list"

definition add_host :: "string \<Rightarrow> targets \<Rightarrow> targets" where
  "add_host t acc = (fst acc @ [t], snd acc)"

definition route_token :: "string \<Rightarrow> targets \<Rightarrow> target_error + targets" where
  "route_token t acc =
     (if CHR ''/'' \<in> set t \<and> \<not> starts_with t ''@''
      then (if ip_network t = None then Inl (InvalidTarget t) else Inr (fst acc, snd acc @ [t]))
      else if starts_with t ''@'' \<or> is_hostname t \<or> ip_address t \<noteq> None then Inr (add_host t acc)
      else Inl (InvalidToken t))"

definition tokens :: "string \<Rightarrow> string list" where
  "tokens raw = filter (\<lambda>t. t \<noteq> []) (map py_strip (py_split CHR '','' raw))"

definition parse_file_tokens :: "string \<Rightarrow> target_error + targets" where
  "parse_file_tokens raw = err_fold route_token (tokens raw) ([], [])"

definition add_token_top :: "filesystem \<Rightarrow> string \<Rightarrow> targets \<Rightarrow> target_error + targets" where
  "add_token_top fs t acc =
     (if starts_with t ''@''
      then bind_err (guarded_file fs (tl t))
             (\<lambda>raw. bind_err (parse_file_tokens raw) (\<lambda>r. Inr (fst acc @ fst r, snd acc @ snd r)))
      else route_token t acc)"

definition parse_target_tokens :: "filesystem \<Rightarrow> bool \<Rightarrow> string \<Rightarrow> target_error + targets" where
  "parse_target_tokens fs in_file raw =
     (if in_file then parse_file_tokens raw else err_fold (add_token_top fs) (tokens raw) ([], []))"

section \<open>The probe budget\<close>

definition token_hosts :: "string \<Rightarrow> nat" where
  "token_hosts t =
     (if CHR ''/'' \<in> set t then (case ip_network t of None \<Rightarrow> 1 | Some net \<Rightarrow> host_count net) else 1)"

definition projected_probe_count :: "string list \<Rightarrow> int list \<Rightarrow> nat" where
  "projected_probe_count ts ports = sum_list (map token_hosts ts) * length ports"

text \<open>The answer of the operator is a parameter; without a terminal the scan goes on with a warning.\<close>

definition maybe_confirm_probe_budget :: "string list \<Rightarrow> int list \<Rightarrow> nat \<Rightarrow> bool \<Rightarrow> string \<Rightarrow> bool" where
  "maybe_confirm_probe_budget ts ports threshold is_tty answer =
     (if projected_probe_count ts ports \<le> threshold then True
      else if is_tty then py_lower (py_strip answer) \<in> {''y'', ''yes''}
      else True)"

text \<open>The configuration after the override: the two lists are replaced.\<close>

definition apply_targets_file_override :: "filesystem \<Rightarrow> string \<Rightarrow> target_error + targets" where
  "apply_targets_file_override fs path =
     bind_err (load_targets_file fs path) (parse_target_tokens fs False)"

section \<open>Texts that are split and joined\<close>

lemma split_append: "py_split sep (a @ sep # b) = py_split sep a @ py_split sep b"
proof (induction a)
  case (Cons c a)
  then show ?case by (cases "py_split sep a") auto
qed simp

lemma split_join: "ts \<noteq> [] \<Longrightarrow> py_split sep (join_with sep ts) = concat (map (py_split sep) ts)"
  by (induction sep ts rule: join_with.induct) (simp_all add: split_append)

lemma join_split: "join_with sep (py_split sep s) = s"
proof (induction s)
  case (Cons c s)
  obtain p ps where "py_split sep s = p # ps" by (cases "py_split sep s") auto
  with Cons show ?case by (cases ps) auto
qed simp

lemma tokens_join: "tokens (join_with CHR '','' ls) = concat (map tokens ls)"
proof (cases "ls = []")
  case False
  then show ?thesis by (simp add: tokens_def [abs_def] split_join map_concat filter_concat o_def)
qed (simp add: tokens_def py_strip_def)

section \<open>What an accepted list is\<close>

text \<open>A domain name: labels joined by dots, each of one to sixty-three letters, digits and hyphens, with no
  hyphen at either end.\<close>

definition dns_label :: "string \<Rightarrow> bool" where
  "dns_label s \<longleftrightarrow>
     0 < length s \<and> length s < 64 \<and> set s \<subseteq> {c. alnum c} \<union> {CHR ''-''} \<and>
     (\<forall>t. s \<noteq> CHR ''-'' # t \<and> s \<noteq> t @ ''-'')"

definition dns_name :: "string \<Rightarrow> bool" where
  "dns_name s \<longleftrightarrow> (\<exists>labels. labels \<noteq> [] \<and> list_all dns_label labels \<and> s = join_with CHR ''.'' labels)"

lemma no_hyphen: "\<not> alnum CHR ''-''"
  by (simp add: alnum_def is_digit_def char_code_def)

lemma no_dot: "dns_label s \<Longrightarrow> CHR ''.'' \<notin> set s"
  by (auto simp: dns_label_def alnum_def is_digit_def char_code_def)

lemma label_iff: "is_label s \<longleftrightarrow> dns_label s"
proof (cases s rule: rev_cases)
  case Nil
  then show ?thesis by (simp add: is_label_def dns_label_def)
next
  case (snoc t d)
  obtain c r where s: "s = c # r" by (cases s) (use snoc in auto)
  have "alnum (hd s) \<longleftrightarrow> c \<noteq> CHR ''-''" if "set s \<subseteq> {c. alnum c} \<union> {CHR ''-''}"
    using that no_hyphen s by auto
  moreover have "alnum (last s) \<longleftrightarrow> d \<noteq> CHR ''-''" if "set s \<subseteq> {c. alnum c} \<union> {CHR ''-''}"
    using that no_hyphen snoc by auto
  moreover have "(\<forall>t. s \<noteq> CHR ''-'' # t) \<longleftrightarrow> c \<noteq> CHR ''-''" using s by auto
  moreover have "(\<forall>t. s \<noteq> t @ ''-'') \<longleftrightarrow> d \<noteq> CHR ''-''" using snoc by auto
  moreover have "list_all (\<lambda>c. alnum c \<or> c = CHR ''-'') s \<longleftrightarrow> set s \<subseteq> {c. alnum c} \<union> {CHR ''-''}"
    by (auto simp: list_all_iff)
  moreover have "s \<noteq> []" using s by simp
  ultimately show ?thesis unfolding is_label_def dns_label_def all_conj_distrib by (auto simp: less_Suc_eq_le)
qed

lemma labels_iff: "list_all is_label ls \<longleftrightarrow> list_all dns_label ls"
  by (simp add: list_all_iff label_iff)

lemma hostname_iff: "is_hostname s \<longleftrightarrow> dns_name s"
proof
  assume "is_hostname s"
  then have "list_all dns_label (py_split CHR ''.'' s)" by (simp add: is_hostname_def labels_iff)
  then show "dns_name s" unfolding dns_name_def by (metis join_split py_split_not_Nil)
next
  assume "dns_name s"
  then obtain ls where ls: "ls \<noteq> []" "list_all dns_label ls" "s = join_with CHR ''.'' ls"
    unfolding dns_name_def by blast
  have "\<forall>l \<in> set ls. CHR ''.'' \<notin> set l" using ls(2) no_dot by (simp add: list_all_iff)
  from py_split_join [OF ls(1) this] have "py_split CHR ''.'' s = ls" by (simp only: ls(3))
  with ls(2) show "is_hostname s" by (simp add: is_hostname_def labels_iff)
qed

text \<open>A target as it may be typed: a network that can be read, or a domain name or an address.  In a file a text
  that starts with an at sign is taken as it stands.\<close>

definition typed_target :: "string \<Rightarrow> bool" where
  "typed_target t \<longleftrightarrow> (if CHR ''/'' \<in> set t then ip_network t \<noteq> None else dns_name t \<or> ip_address t \<noteq> None)"

definition listed_target :: "string \<Rightarrow> bool" where
  "listed_target t \<longleftrightarrow> starts_with t ''@'' \<or> typed_target t"

definition is_network_token :: "string \<Rightarrow> bool" where
  "is_network_token t \<longleftrightarrow> CHR ''/'' \<in> set t \<and> \<not> starts_with t ''@''"

text \<open>The tokens of a file: those of its lines, without blank lines and comments.\<close>

definition listed_in :: "filesystem \<Rightarrow> string \<Rightarrow> string list" where
  "listed_in fs path =
     (case fs_lines fs path of
        None \<Rightarrow> []
      | Some lines \<Rightarrow> concat (map tokens (filter (\<lambda>l. l \<noteq> [] \<and> \<not> starts_with l ''#'') (map py_strip lines))))"

text \<open>A file is read only below the working directory, outside the system directories, and within the limits.\<close>

definition admitted_file :: "filesystem \<Rightarrow> string \<Rightarrow> bool" where
  "admitted_file fs path \<longleftrightarrow>
     below_cwd fs path \<and> list_all (\<lambda>p. \<not> starts_with (fs_realpath fs path) p) blocked_prefixes \<and>
     \<not> over (fs_size fs path) max_file_size \<and> \<not> over (fs_line_count fs path) max_line_count \<and>
     fs_lines fs path \<noteq> None"

text \<open>Every token replaced by what it stands for.\<close>

definition all_targets :: "filesystem \<Rightarrow> string \<Rightarrow> string list" where
  "all_targets fs raw = concat (map (\<lambda>t. if starts_with t ''@'' then listed_in fs (tl t) else [t]) (tokens raw))"

lemma guarded_iff:
  "guarded_file fs path = Inr raw \<longleftrightarrow>
   admitted_file fs path \<and> load_targets_file fs path = Inr raw"
  by (auto simp: guarded_file_def admitted_file_def load_targets_file_def list_ex_iff list_all_iff split: option.splits)

lemma loaded_tokens: "load_targets_file fs path = Inr raw \<Longrightarrow> tokens raw = listed_in fs path"
  by (auto simp: load_targets_file_def listed_in_def tokens_join split: option.splits)

lemma route_cases:
  "route_token t acc =
     (if \<not> listed_target t then Inl (if is_network_token t then InvalidTarget t else InvalidToken t)
      else Inr (if is_network_token t then (fst acc, snd acc @ [t]) else (fst acc @ [t], snd acc)))"
  by (simp add: route_token_def listed_target_def typed_target_def is_network_token_def add_host_def hostname_iff)

lemma route_fold:
  "err_fold route_token ts acc =
     (case find (\<lambda>t. \<not> listed_target t) ts of
        Some t \<Rightarrow> Inl (if is_network_token t then InvalidTarget t else InvalidToken t)
      | None \<Rightarrow> Inr (fst acc @ filter (\<lambda>t. \<not> is_network_token t) ts, snd acc @ filter is_network_token ts))"
  by (induction ts arbitrary: acc) (simp_all add: route_cases split: option.split)

text \<open>The parser of a file loses and invents nothing: the tokens are split, in their order, into hosts and
  networks, and the first token that is neither is the one named in the error.\<close>

theorem file_tokens_are_routed:
  "parse_target_tokens fs True raw =
     (case find (\<lambda>t. \<not> listed_target t) (tokens raw) of
        Some t \<Rightarrow> Inl (if is_network_token t then InvalidTarget t else InvalidToken t)
      | None \<Rightarrow> Inr (filter (\<lambda>t. \<not> is_network_token t) (tokens raw), filter is_network_token (tokens raw)))"
  by (simp add: parse_target_tokens_def parse_file_tokens_def route_fold split: option.split)

definition good_token :: "filesystem \<Rightarrow> string \<Rightarrow> bool" where
  "good_token fs t \<longleftrightarrow>
     (if starts_with t ''@'' then admitted_file fs (tl t) \<and> list_all listed_target (listed_in fs (tl t))
      else typed_target t)"

definition stands_for :: "filesystem \<Rightarrow> string \<Rightarrow> string list" where
  "stands_for fs t = (if starts_with t ''@'' then listed_in fs (tl t) else [t])"

lemma file_parse:
  "parse_file_tokens raw = Inr r \<longleftrightarrow>
   list_all listed_target (tokens raw) \<and>
   r = (filter (\<lambda>t. \<not> is_network_token t) (tokens raw), filter is_network_token (tokens raw))"
proof (cases "find (\<lambda>t. \<not> listed_target t) (tokens raw)")
  case None
  then have "list_all listed_target (tokens raw)" by (auto simp: find_None_iff list_all_iff)
  with None show ?thesis by (auto simp: parse_file_tokens_def route_fold)
next
  case (Some t)
  then have "\<not> list_all listed_target (tokens raw)" using find_SomeD [OF Some] by (auto simp: list_all_iff)
  with Some show ?thesis by (simp add: parse_file_tokens_def route_fold)
qed

lemma top_iff:
  "add_token_top fs t acc = Inr acc' \<longleftrightarrow>
   good_token fs t \<and>
   acc' = (fst acc @ filter (\<lambda>t. \<not> is_network_token t) (stands_for fs t), snd acc @ filter is_network_token (stands_for fs t))"
proof (cases "starts_with t ''@''")
  case True
  have "\<exists>raw. load_targets_file fs (tl t) = Inr raw" if "admitted_file fs (tl t)"
    using that by (auto simp: admitted_file_def load_targets_file_def)
  then show ?thesis
    using True loaded_tokens
    by (fastforce simp: add_token_top_def good_token_def stands_for_def bind_err_Inr guarded_iff file_parse)
next
  case False
  then have "listed_target t = typed_target t" by (simp add: listed_target_def)
  with False show ?thesis
    by (auto simp: add_token_top_def good_token_def stands_for_def route_cases)
qed

lemma top_fold:
  "err_fold (add_token_top fs) ts acc = Inr r \<longleftrightarrow>
   list_all (good_token fs) ts \<and>
   r = (fst acc @ filter (\<lambda>t. \<not> is_network_token t) (concat (map (stands_for fs) ts)),
        snd acc @ filter is_network_token (concat (map (stands_for fs) ts)))"
  by (induction ts arbitrary: acc) (auto simp: bind_err_Inr top_iff)

text \<open>C34: exactly the clean target lists are accepted, and nothing is lost or invented.  A list is accepted with
  given hosts and networks if and only if every token typed is a domain name, an address or a network that can be
  read, or names a file that lies below the working directory, outside the system directories, within the size and
  line limits and readable, all of whose tokens are such targets again or opaque texts that start with an at sign
  (a file never names another); and the hosts and the networks are the tokens without and with a slash, each file
  replaced by its tokens, in their order.\<close>

theorem accepted_targets_are_valid:
  "parse_target_tokens fs False raw = Inr (hosts, cidrs) \<longleftrightarrow>
   list_all (\<lambda>t. if starts_with t ''@''
                 then admitted_file fs (tl t) \<and>
                   list_all (\<lambda>u. starts_with u ''@'' \<or> typed_target u) (listed_in fs (tl t))
                 else typed_target t) (tokens raw) \<and>
   hosts = filter (\<lambda>t. CHR ''/'' \<notin> set t \<or> starts_with t ''@'') (all_targets fs raw) \<and>
   cidrs = filter (\<lambda>t. CHR ''/'' \<in> set t \<and> \<not> starts_with t ''@'') (all_targets fs raw)"
  by (simp add: parse_target_tokens_def top_fold good_token_def [abs_def] listed_target_def [abs_def]
      stands_for_def [abs_def] is_network_token_def [abs_def] all_targets_def)

text \<open>A list that names a file, next to a network and an address; inside the file a token with an at sign is an
  opaque host, so files do not nest.  The override by a targets file parses its text as if it were typed, so
  there they do.\<close>

definition nested_files :: filesystem where
  "nested_files = \<lparr>fs_realpath = (\<lambda>p. ''/work/'' @ p), fs_cwd = ''/work'', fs_size = (\<lambda>_. Some 9), fs_line_count = (\<lambda>_. Some 1),
     fs_lines = (\<lambda>p. if p = ''outer'' then Some [''@inner''] else Some [''10.0.0.7''])\<rparr>"

lemma named_files_do_not_nest: "parse_target_tokens nested_files False ''@outer'' = Inr ([''@inner''], [])"
  by code_simp

lemma override_files_nest: "apply_targets_file_override nested_files ''outer'' = Inr ([''10.0.0.7''], [])"
  by code_simp

theorem accepted_targets_are_valid_witness:
  "parse_target_tokens nested_files False ''@outer, 10.0.0.0/24,::1,@list'' =
     Inr ([''@inner'', ''::1'', ''10.0.0.7''], [''10.0.0.0/24'']) \<and>
   list_all (\<lambda>t. if starts_with t ''@''
                 then admitted_file nested_files (tl t) \<and>
                   list_all (\<lambda>u. starts_with u ''@'' \<or> typed_target u) (listed_in nested_files (tl t))
                 else typed_target t) [''@outer'', ''10.0.0.0/24'', ''::1'', ''@list'']"
proof -
  have run: "parse_target_tokens nested_files False ''@outer, 10.0.0.0/24,::1,@list'' =
      Inr ([''@inner'', ''::1'', ''10.0.0.7''], [''10.0.0.0/24''])"
    and "tokens ''@outer, 10.0.0.0/24,::1,@list'' = [''@outer'', ''10.0.0.0/24'', ''::1'', ''@list'']"
    by code_simp+
  with run [unfolded accepted_targets_are_valid] run show ?thesis by (simp only:)
qed

section \<open>The budget\<close>

lemma probe_count_append:
  "projected_probe_count (xs @ ys) ports = projected_probe_count xs ports + projected_probe_count ys ports"
  by (simp add: projected_probe_count_def algebra_simps)

end
