(* ===== verification/Subprocess_Input.thy ===== *)
theory Subprocess_Input
  imports Prelude
begin

text \<open>
  \<open>quirk/util/subprocess_input.py\<close>: the validators of what is passed to semgrep and syft as an argument.
  \<open>realpath\<close> and \<open>isdir\<close> are parameters.
\<close>

datatype input_reason = Accepted | ShellMetachar | InputTraversal | NonexistentPath | InvalidImageRef | LeadingDash | PathShapedRef

record input_result =
  ir_ok :: bool
  ir_reason :: input_reason
  ir_preview :: string

definition is_metachar :: "char \<Rightarrow> bool" where
  "is_metachar c \<longleftrightarrow> c \<in> set '';|&$`<>*?()'' \<or> c = CHR 0x5C \<or> is_space c"

definition is_ref_start :: "char \<Rightarrow> bool" where
  "is_ref_start c \<longleftrightarrow> is_digit c \<or> (65 \<le> char_code c \<and> char_code c \<le> 90) \<or> (97 \<le> char_code c \<and> char_code c \<le> 122)"

definition is_ref_char :: "char \<Rightarrow> bool" where
  "is_ref_char c \<longleftrightarrow> is_ref_start c \<or> c \<in> set ''._-/:@''"

definition image_ref_shape :: "string \<Rightarrow> bool" where
  "image_ref_shape r \<longleftrightarrow> r \<noteq> [] \<and> is_ref_start (hd r) \<and> list_all is_ref_char (tl r) \<and> length r \<le> 255"

definition local_ref_prefixes :: "string list" where
  "local_ref_prefixes = [''dir:'', ''file:'', ''oci:'', ''docker-daemon:'', ''podman:'', ''docker-archive:'']"

definition truncate_preview :: "string \<Rightarrow> string" where
  "truncate_preview raw = take 32 (filter (\<lambda>c. \<not> (char_code c < 32 \<or> char_code c = 127)) raw)"

definition refused :: "string \<Rightarrow> input_reason \<Rightarrow> input_result" where
  "refused raw why = \<lparr>ir_ok = False, ir_reason = why, ir_preview = truncate_preview raw\<rparr>"

definition accepted :: input_result where
  "accepted = \<lparr>ir_ok = True, ir_reason = Accepted, ir_preview = []\<rparr>"

definition validate_repo_path :: "(string \<Rightarrow> string) \<Rightarrow> (string \<Rightarrow> bool) \<Rightarrow> string \<Rightarrow> input_result" where
  "validate_repo_path realpath isdir p =
     (if starts_with p ''-'' then refused p LeadingDash
      else if has_substring ''..'' p \<or> p = [] then refused p InputTraversal
      else if list_ex is_metachar p then refused p ShellMetachar
      else if has_substring ''..'' (realpath p) then refused p InputTraversal
      else if \<not> isdir (realpath p) then refused p NonexistentPath
      else accepted)"

definition first_segment :: "string \<Rightarrow> string" where
  "first_segment r = takeWhile (\<lambda>c. c \<noteq> CHR ''/'') r"

definition path_shaped :: "string \<Rightarrow> bool" where
  "path_shaped r \<longleftrightarrow>
     CHR ''/'' \<in> set r \<and> CHR ''.'' \<notin> set (first_segment r) \<and> CHR '':'' \<notin> set (first_segment r) \<and>
     first_segment r \<noteq> ''localhost''"

definition validate_image_ref :: "string \<Rightarrow> input_result" where
  "validate_image_ref r =
     (if starts_with r ''-'' then refused r LeadingDash
      else if list_ex (starts_with r) local_ref_prefixes then refused r InvalidImageRef
      else if list_ex is_metachar r then refused r ShellMetachar
      else if \<not> image_ref_shape r then refused r InvalidImageRef
      else if path_shaped r then refused r PathShapedRef
      else accepted)"

section \<open>Properties\<close>

lemma ref_chars_harmless: "is_ref_char c \<Longrightarrow> \<not> is_metachar c"
proof -
  have "\<not> is_metachar c" if "is_ref_start c"
    using that by (auto simp: is_ref_start_def is_metachar_def is_digit_def is_space_def char_code_def)
  moreover have "list_all (\<lambda>c. \<not> is_metachar c) ''._-/:@''" by code_simp
  ultimately show "is_ref_char c \<Longrightarrow> \<not> is_metachar c" by (auto simp: is_ref_char_def list_all_iff)
qed

definition harmless_argument :: "string \<Rightarrow> bool" where
  "harmless_argument s \<longleftrightarrow> s \<noteq> [] \<and> \<not> hd s = CHR ''-'' \<and> list_all (\<lambda>c. \<not> is_metachar c) s"

text \<open>An accepted path or image reference is a harmless argument: it is not empty, cannot be read as an
  option and holds no shell character; a path has no parent step before and after resolution and is a directory,
  a reference has the registry shape, no local scheme of the list and a first segment that names a host.\<close>

theorem accepted_arguments_are_harmless:
  "(ir_ok (validate_repo_path realpath isdir p) = (harmless_argument p \<and> \<not> has_substring ''..'' p \<and>
      \<not> has_substring ''..'' (realpath p) \<and> isdir (realpath p))) \<and>
   (ir_ok (validate_image_ref r) = (image_ref_shape r \<and> \<not> path_shaped r \<and>
      list_all (\<lambda>s. \<not> starts_with r s) local_ref_prefixes)) \<and>
   (if image_ref_shape r then harmless_argument r else True)"
proof (intro conjI)
  have dash: "starts_with s ''-'' \<longleftrightarrow> s \<noteq> [] \<and> hd s = CHR ''-''" for s
    by (cases s) (auto simp: starts_with_def)
  show "ir_ok (validate_repo_path realpath isdir p) = (harmless_argument p \<and> \<not> has_substring ''..'' p \<and>
      \<not> has_substring ''..'' (realpath p) \<and> isdir (realpath p))"
    by (auto simp: validate_repo_path_def refused_def accepted_def harmless_argument_def dash list_ex_iff list_all_iff)
  have shape: "harmless_argument r" if "image_ref_shape r"
  proof (cases r)
    case (Cons c cs)
    with that have "is_ref_char c" "list_all is_ref_char cs" "is_ref_start c"
      by (auto simp: image_ref_shape_def is_ref_char_def)
    moreover have "\<not> is_ref_start CHR ''-''" by code_simp
    ultimately show ?thesis using Cons ref_chars_harmless by (auto simp: harmless_argument_def list_all_iff)
  qed (use that in \<open>simp add: image_ref_shape_def\<close>)
  then show "if image_ref_shape r then harmless_argument r else True" by simp
  show "ir_ok (validate_image_ref r) = (image_ref_shape r \<and> \<not> path_shaped r \<and>
      list_all (\<lambda>s. \<not> starts_with r s) local_ref_prefixes)"
    using shape by (auto simp: validate_image_ref_def refused_def accepted_def harmless_argument_def dash list_ex_iff list_all_iff)
qed

text \<open>Local schemes of the scanners outside the list pass, so a file of the working directory can be named.\<close>

lemma local_archive_passes: "ir_ok (validate_image_ref ''oci-archive:x.tar'')"
  by code_simp

end
