(* ===== verification/Drift.thy ===== *)
theory Drift
  imports Key_Reuse
begin

text \<open>
  Hardware lifecycle drift: \<open>quirk/scanner/hw_cve.py\<close> (correlation with the table of vulnerabilities),
  \<open>quirk/scanner/hardware_tier.py\<close>, the EOL states of \<open>quirk/scanner/hardware_eol.py\<close> and
  \<open>quirk/scanner/hardware_drift.py\<close>.  Times are microseconds since 1970, dates are days since 1970;
  \<open>loads\<close> is \<open>json.loads\<close>.  The sets of hosts and vendors of a batch are run through in the order of the
  batch.  A database call that fails is outside the model; the one arithmetic failure, a retention
  window that reaches before the year 1, is an error.
\<close>

section \<open>Firmware\<close>

type_synonym firmware = "nat list"

text \<open>A decimal run after a fixed text, or 0 and the whole text.\<close>

definition numbered :: "string \<Rightarrow> string \<Rightarrow> nat \<times> string" where
  "numbered lead s =
     (let rest = drop (length lead) s; ds = takeWhile is_digit rest in
      if starts_with s lead \<and> ds \<noteq> [] then (digits_value ds, drop (length ds) rest) else (0, s))"

definition parenthesised :: "string \<Rightarrow> nat \<times> string" where
  "parenthesised s =
     (case numbered ''('' s of
        (n, CHR '')'' # rest) \<Rightarrow> if starts_with s ''('' then (n, rest) else (0, s)
      | _ \<Rightarrow> (0, s))"

definition alnum_char :: "char \<Rightarrow> bool" where
  "alnum_char c \<longleftrightarrow> is_digit c \<or> (65 \<le> char_code c \<and> char_code c \<le> 90) \<or> (97 \<le> char_code c \<and> char_code c \<le> 122)"

definition parse_firmware :: "string option \<Rightarrow> firmware option" where
  "parse_firmware raw =
     (let s = py_strip (py_or_str raw); major = takeWhile is_digit s; s1 = drop (length major) s;
          (minor, s2) = numbered ''.'' s1; (patch, s3) = numbered ''.'' s2; (build, s4) = numbered ''.'' s3;
          (release, s5) = numbered ''R'' s4; (rebuild, s6) = parenthesised s5;
          (service, s7) = numbered ''-S'' (dropWhile alnum_char s6) in
      if major \<noteq> [] \<and> s2 \<noteq> s1 \<and> s7 = []
      then Some [digits_value major, minor, patch, build, release, rebuild, service] else None)"

section \<open>Vulnerabilities\<close>

text \<open>Of an entry the texts for the reader (description, dates, address) are left out.\<close>

record cve_entry =
  cv_id :: string
  cv_severity :: string
  cv_affected_before :: "string option"

definition cve_table :: "((string \<times> string) \<times> cve_entry list) list" where
  "cve_table =
     [((''Schneider Electric'', ''M221''),
       [\<lparr>cv_id = ''CVE-2018-7789'', cv_severity = ''HIGH'', cv_affected_before = Some ''1.6.2.0''\<rparr>,
        \<lparr>cv_id = ''CVE-2018-7821'', cv_severity = ''HIGH'', cv_affected_before = Some ''1.10.0.0''\<rparr>]),
      ((''Cisco'', ''IOS''),
       [\<lparr>cv_id = ''CVE-2017-12240'', cv_severity = ''CRITICAL'', cv_affected_before = Some ''15.6''\<rparr>,
        \<lparr>cv_id = ''CVE-2016-6382'', cv_severity = ''HIGH'', cv_affected_before = Some ''15.6''\<rparr>]),
      ((''Juniper'', ''Junos''),
       [\<lparr>cv_id = ''CVE-2021-0283'', cv_severity = ''HIGH'', cv_affected_before = Some ''12.3R12-S19''\<rparr>]),
      ((''Johnson Controls'', ''Facility Explorer''),
       [\<lparr>cv_id = ''CVE-2017-16744'', cv_severity = ''HIGH'', cv_affected_before = None\<rparr>])]"

definition in_range :: "firmware \<Rightarrow> string \<Rightarrow> bool" where
  "in_range fw before = (case parse_firmware (Some before) of None \<Rightarrow> False | Some b \<Rightarrow> fw < b)"

definition cve_severity_order :: "(string \<times> int) list" where
  "cve_severity_order = [(''CRITICAL'', 0), (''HIGH'', 1), (''MEDIUM'', 2), (''LOW'', 3)]"

definition affects :: "firmware option \<Rightarrow> cve_entry \<Rightarrow> bool" where
  "affects fw e =
     (case cv_affected_before e of
        None \<Rightarrow> True
      | Some before \<Rightarrow> (case fw of None \<Rightarrow> False | Some v \<Rightarrow> in_range v before))"

record cve_match =
  cm_matches :: "cve_entry list"
  cm_confidence :: "string option"
  cm_attempted :: bool

definition correlate_device :: "string option \<Rightarrow> string option \<Rightarrow> string option \<Rightarrow> cve_match" where
  "correlate_device vendor model firmware =
     (let entries = (case (vendor, model) of (Some v, Some m) \<Rightarrow> dict_get cve_table (v, m) [] | _ \<Rightarrow> []);
          matched = filter (affects (parse_firmware firmware)) entries in
      \<lparr>cm_matches = sort_key (\<lambda>e. dict_get cve_severity_order (cv_severity e) 4) matched,
       cm_confidence =
         (if list_ex (\<lambda>e. cv_affected_before e \<noteq> None) matched then Some ''high''
          else if matched \<noteq> [] then Some ''medium'' else None),
       cm_attempted = True\<rparr>)"

section \<open>Devices\<close>

record device = hardware_row +
  dv_tier :: string
  dv_confidence :: string
  dv_bridge_confirmed_at :: "int option"
  dv_eol_date :: "int option"
  dv_modbus_firmware :: "string option"
  dv_bacnet_firmware :: "string option"
  dv_partial :: "bool option"

definition firmware_for_correlation :: "device \<Rightarrow> string option" where
  "firmware_for_correlation d =
     (if py_or_str (dv_modbus_firmware d) \<noteq> [] then dv_modbus_firmware d
      else if py_or_str (dv_bacnet_firmware d) \<noteq> [] then dv_bacnet_firmware d else None)"

definition tier_order :: "(string \<times> int) list" where
  "tier_order = [(''Tier 1'', 0), (''Tier 2'', 1), (''Tier 3'', 2), (''Tier N/A'', 3)]"

definition pqc_window_start :: int where
  "pqc_window_start = 21915"

definition or_unknown :: "string \<Rightarrow> string" where
  "or_unknown s = py_lower (if s = [] then ''unknown'' else s)"

definition assign_tier :: "device \<Rightarrow> string" where
  "assign_tier d =
     (let confidence = or_unknown (dv_confidence d); status = or_unknown (hw_pqc_status d) in
      if (case dv_eol_date d of None \<Rightarrow> False | Some e \<Rightarrow> e < pqc_window_start) then ''Tier N/A''
      else if confidence \<in> {''low'', ''unknown''} then (if status = ''supported'' then ''Tier 3'' else ''Tier 2'')
      else if status = ''supported'' then ''Tier 3''
      else if status = ''vendor-silent'' then (if confidence = ''high'' then ''Tier 3'' else ''Tier 2'')
      else if status = ''partial'' then ''Tier 2''
      else if status = ''unsupported'' then ''Tier 1''
      else ''Tier 2'')"

definition eol_state :: "int option \<Rightarrow> int \<Rightarrow> string option" where
  "eol_state eol today =
     (case eol of
        None \<Rightarrow> None
      | Some e \<Rightarrow> if e < today then Some ''passed'' else if e - today \<le> 365 then Some ''approaching'' else None)"

definition tier_direction :: "string option \<Rightarrow> string option \<Rightarrow> string" where
  "tier_direction old new =
     (case (Option.bind old (map_of tier_order), Option.bind new (map_of tier_order)) of
        (Some a, Some b) \<Rightarrow> if b = a then ''unchanged'' else if b < a then ''worsened'' else ''improved''
      | _ \<Rightarrow> ''unknown'')"

section \<open>The confirmation gate\<close>

text \<open>\<open>Counter(values).most_common(1)\<close>: the first of the most frequent values.\<close>

definition most_common :: "'a list \<Rightarrow> 'a option" where
  "most_common vs = find (\<lambda>v. list_all (\<lambda>w. count_list vs w \<le> count_list vs v) vs) vs"

definition confirmed_value :: "(device \<Rightarrow> string option) \<Rightarrow> nat \<Rightarrow> device list \<Rightarrow> string option" where
  "confirmed_value f n rows =
     (let vs = List.map_filter f rows in
      case most_common vs of None \<Rightarrow> None | Some v \<Rightarrow> if n \<le> count_list vs v then Some v else None)"

definition bridge_evidence_state :: "(string \<Rightarrow> pyval option) \<Rightarrow> device \<Rightarrow> string" where
  "bridge_evidence_state loads d =
     (if dv_bridge_confirmed_at d = None then ''no_evidence''
      else (case Option.bind (hw_bridge_evidence d) loads of
              Some (PyList (_ # _)) \<Rightarrow> ''evidence_present''
            | _ \<Rightarrow> ''no_evidence''))"

record drift_candidate =
  dc_type :: string
  dc_old :: "string option"
  dc_new :: "string option"

text \<open>A change of one tracked field: the newest reading is confirmed and an older one differs.\<close>

definition field_candidate :: "nat \<Rightarrow> device list \<Rightarrow> string \<times> (device \<Rightarrow> string option) \<Rightarrow> drift_candidate option" where
  "field_candidate n rows tf =
     (case confirmed_value (snd tf) n rows of
        None \<Rightarrow> None
      | Some v \<Rightarrow>
          if snd tf (hd rows) \<noteq> Some v then None
          else (case find (\<lambda>r. snd tf r \<noteq> Some v) (tl rows) of
                  None \<Rightarrow> None
                | Some r \<Rightarrow> Some \<lparr>dc_type = fst tf, dc_old = snd tf r, dc_new = Some v\<rparr>))"

definition tracked_fields :: "(string \<Rightarrow> pyval option) \<Rightarrow> int \<Rightarrow> (string \<times> (device \<Rightarrow> string option)) list" where
  "tracked_fields loads today =
     [(''tier_crossing'', \<lambda>d. Some (dv_tier d)),
      (''upstream_mitigated_change'', \<lambda>d. Some (bridge_evidence_state loads d)),
      (''eol_state_change'', \<lambda>d. eol_state (dv_eol_date d) today)]"

definition vendor_known :: "device \<Rightarrow> bool" where
  "vendor_known d \<longleftrightarrow> hw_vendor d \<noteq> [] \<and> hw_vendor d \<noteq> ''Unknown''"

definition cve_ids :: "device \<Rightarrow> string list" where
  "cve_ids d =
     (if vendor_known d
      then remdups (map cv_id (cm_matches (correlate_device (Some (hw_vendor d)) (hw_model d) (firmware_for_correlation d))))
      else [])"

definition cve_delta :: "device \<Rightarrow> device \<Rightarrow> string list" where
  "cve_delta prior cur =
     (if vendor_known prior \<and> vendor_known cur then filter (\<lambda>i. i \<notin> set (cve_ids prior)) (cve_ids cur) else [])"

definition cve_candidate :: "device list \<Rightarrow> drift_candidate list" where
  "cve_candidate rows =
     (case rows of
        cur # prior # _ \<Rightarrow>
          if cve_delta prior cur \<noteq> []
          then [\<lparr>dc_type = ''cve_delta'', dc_old = Some (nat_str (length (cve_ids prior))),
                 dc_new = Some (nat_str (length (cve_delta prior cur)))\<rparr>]
          else []
      | _ \<Rightarrow> [])"

definition compute_drift_candidates :: "(string \<Rightarrow> pyval option) \<Rightarrow> int \<Rightarrow> nat \<Rightarrow> device list \<Rightarrow> drift_candidate list" where
  "compute_drift_candidates loads today n rows =
     (if length rows < 2 then []
      else List.map_filter (field_candidate n rows) (tracked_fields loads today) @ cve_candidate rows)"

section \<open>The store\<close>

record drift_event =
  de_id :: nat
  de_host :: string
  de_port :: int
  de_type :: string
  de_old :: "string option"
  de_new :: "string option"
  de_detected_at :: int
  de_confirmed_at :: int
  de_partial :: bool

record vendor_event =
  ve_id :: nat
  ve_vendor :: string
  ve_old :: "string option"
  ve_new :: "string option"
  ve_detected_at :: int
  ve_confirmed_at :: int

record hw_store =
  hs_devices :: "device list"
  hs_events :: "drift_event list"
  hs_vendor_events :: "vendor_event list"

definition vendor_event_types :: "string list" where
  "vendor_event_types = [''pqc_status_change'']"

definition event_types :: "string list" where
  "event_types = [''tier_crossing'', ''upstream_mitigated_change'', ''cve_delta'', ''eol_state_change'']"

definition next_id :: "nat list \<Rightarrow> nat" where
  "next_id ids = Suc (fold max ids 0)"

text \<open>\<open>ORDER BY detected_at DESC, id DESC\<close>, first row.\<close>

definition latest_event :: "string \<Rightarrow> int \<Rightarrow> string \<Rightarrow> hw_store \<Rightarrow> drift_event option" where
  "latest_event host port ty s =
     (case sort_key (\<lambda>e. (- de_detected_at e, - int (de_id e)))
        (filter (\<lambda>e. de_host e = host \<and> de_port e = port \<and> de_type e = ty) (hs_events s)) of
        [] \<Rightarrow> None | e # _ \<Rightarrow> Some e)"

definition record_candidate :: "string \<Rightarrow> int \<Rightarrow> device \<Rightarrow> int \<Rightarrow> drift_candidate \<Rightarrow> hw_store \<Rightarrow> hw_store" where
  "record_candidate host port newest now c s =
     (if dc_type c \<notin> set event_types then s
      else if map_option de_new (latest_event host port (dc_type c) s) = Some (dc_new c) then s
      else s\<lparr>hs_events := hs_events s @
        [\<lparr>de_id = next_id (map de_id (hs_events s)), de_host = host, de_port = port, de_type = dc_type c,
          de_old = dc_old c, de_new = dc_new c, de_detected_at = hw_scanned_at newest, de_confirmed_at = now,
          de_partial = (dv_partial newest = Some True)\<rparr>]\<rparr>)"

definition reconcile_device_history ::
    "(string \<Rightarrow> pyval option) \<Rightarrow> int \<Rightarrow> int \<Rightarrow> nat \<Rightarrow> nat \<Rightarrow> string \<times> int \<Rightarrow> hw_store \<Rightarrow> hw_store" where
  "reconcile_device_history loads today now n m hp s =
     (let rows = recent_successful_hardware_rows (hs_devices s) (fst hp) (snd hp) m in
      fold (record_candidate (fst hp) (snd hp) (hd rows) now) (compute_drift_candidates loads today n rows) s)"

definition latest_vendor_event :: "string \<Rightarrow> hw_store \<Rightarrow> vendor_event option" where
  "latest_vendor_event vendor s =
     (case sort_key (\<lambda>e. (- ve_detected_at e, - int (ve_id e)))
        (filter (\<lambda>e. ve_vendor e = vendor) (hs_vendor_events s)) of
        [] \<Rightarrow> None | e # _ \<Rightarrow> Some e)"

definition reconcile_vendor_pqc_trend :: "int \<Rightarrow> nat \<Rightarrow> nat \<Rightarrow> string \<Rightarrow> hw_store \<Rightarrow> hw_store" where
  "reconcile_vendor_pqc_trend now n m vendor s =
     (let rows = vendor_fleet_snapshot (hs_devices s) vendor m in
      if length rows < 2 then s
      else (case field_candidate n rows (''pqc_status_change'', \<lambda>d. Some (hw_pqc_status d)) of
              None \<Rightarrow> s
            | Some c \<Rightarrow>
                if map_option ve_new (latest_vendor_event vendor s) = Some (dc_new c) then s
                else if dc_type c \<notin> set vendor_event_types then s
                else s\<lparr>hs_vendor_events := hs_vendor_events s @
                  [\<lparr>ve_id = next_id (map ve_id (hs_vendor_events s)), ve_vendor = vendor, ve_old = dc_old c,
                    ve_new = dc_new c, ve_detected_at = hw_scanned_at (hd rows), ve_confirmed_at = now\<rparr>]\<rparr>))"

section \<open>Retention and the batch\<close>

datatype drift_error = DateOverflow

definition day :: int where
  "day = 86400000000"

text \<open>Midnight of the first day a \<open>datetime\<close> can hold.\<close>

definition first_moment :: int where
  "first_moment = - 719162 * day"

definition purge_stale_hardware_history ::
    "pyval \<Rightarrow> int \<Rightarrow> (string \<times> int) list \<Rightarrow> hw_store \<Rightarrow> drift_error + nat \<times> hw_store" where
  "purge_stale_hardware_history retention now scope s =
     (case py_int retention of
        None \<Rightarrow> Inr (0, s)
      | Some days \<Rightarrow>
          if days \<le> 0 then Inr (0, s)
          else if now - days * day < first_moment then Inl DateOverflow
          else (let stale = (\<lambda>d. hw_key d \<in> set scope \<and> hw_scanned_at d < now - days * day) in
                Inr (length (filter stale (hs_devices s)),
                     s\<lparr>hs_devices := filter (\<lambda>d. \<not> stale d) (hs_devices s)\<rparr>)))"

definition add_device :: "device \<Rightarrow> hw_store \<Rightarrow> hw_store" where
  "add_device d s = s\<lparr>hs_devices := hs_devices s @ [d\<lparr>hw_id := next_id (map hw_id (hs_devices s))\<rparr>]\<rparr>"

definition default_n :: nat where
  "default_n = 2"

definition default_m :: nat where
  "default_m = 3"

text \<open>A failure is logged and changes nothing.\<close>

definition persist_and_reconcile ::
    "(string \<Rightarrow> pyval option) \<Rightarrow> int \<Rightarrow> int \<Rightarrow> pyval \<Rightarrow> device list \<Rightarrow> hw_store \<Rightarrow> nat \<times> hw_store" where
  "persist_and_reconcile loads today now retention devices s =
     (if devices = [] then (0, s)
      else (case purge_stale_hardware_history retention now (first_occurrences (map hw_key devices)) s of
              Inl _ \<Rightarrow> (0, s)
            | Inr (purged, s1) \<Rightarrow>
                (let s2 = fold add_device devices s1;
                     s3 = fold (reconcile_device_history loads today now default_n default_m)
                            (first_occurrences (map hw_key devices)) s2;
                     s4 = fold (reconcile_vendor_pqc_trend now default_n default_m)
                            (filter (\<lambda>v. v \<noteq> []) (first_occurrences (map hw_vendor devices))) s3 in
                 (purged, s4))))"

end
