(* ===== verification/Drift_Properties.thy ===== *)
theory Drift_Properties
  imports Drift
begin

text \<open>
  What a drift event rests on, why reconciling again adds nothing, and what the retention may delete.
\<close>

section \<open>The gate\<close>

lemma confirmed_reads:
  assumes "confirmed_value f n rows = Some v"
  shows "n \<le> length (filter (\<lambda>r. f r = Some v) rows)"
proof -
  have "count_list (List.map_filter f rows) v = length (filter (\<lambda>r. f r = Some v) rows)"
    by (induction rows) (auto simp: List.map_filter_def)
  with assms show ?thesis by (auto simp: confirmed_value_def Let_def split: option.splits if_splits)
qed

text \<open>A change of a field that the window supports.\<close>

definition supported_change :: "(device \<Rightarrow> string option) \<Rightarrow> nat \<Rightarrow> device list \<Rightarrow> string option \<Rightarrow> string option \<Rightarrow> bool" where
  "supported_change f n rows old new \<longleftrightarrow>
     f (hd rows) = new \<and> n \<le> length (filter (\<lambda>r. f r = new) rows) \<and> list_ex (\<lambda>r. f r = old) (tl rows) \<and> \<not> old = new"

lemma candidate_supported:
  assumes "field_candidate n rows (ty, f) = Some c"
  shows "dc_type c = ty \<and> supported_change f n rows (dc_old c) (dc_new c)"
proof -
  obtain v r where v: "confirmed_value f n rows = Some v" "f (hd rows) = Some v"
    and r: "find (\<lambda>r. f r \<noteq> Some v) (tl rows) = Some r" and c: "c = \<lparr>dc_type = ty, dc_old = f r, dc_new = Some v\<rparr>"
    using assms by (auto simp: field_candidate_def split: option.splits if_splits)
  from find_SomeD [OF r] confirmed_reads [OF v(1)] v(2) c show ?thesis
    by (auto simp: supported_change_def list_ex_iff)
qed

lemma field_candidate_type: "field_candidate n rows tf = Some c \<Longrightarrow> dc_type c = fst tf"
  using candidate_supported [of n rows "fst tf" "snd tf" c] by simp

lemma candidate_types: "c \<in> set (compute_drift_candidates loads today n rows) \<Longrightarrow> dc_type c \<in> set event_types"
  by (auto simp: compute_drift_candidates_def tracked_fields_def event_types_def cve_candidate_def List.map_filter_def
      split: if_splits list.splits option.splits dest!: field_candidate_type)

lemma map_filter_types:
  "map dc_type (List.map_filter (field_candidate n rows) tfs) = map fst (filter (\<lambda>tf. field_candidate n rows tf \<noteq> None) tfs)"
  by (induction tfs) (auto simp: List.map_filter_def field_candidate_type)

lemma cve_candidate_type: "c \<in> set (cve_candidate rows) \<Longrightarrow> dc_type c = ''cve_delta''"
  by (auto simp: cve_candidate_def split: list.splits if_splits)

lemma candidate_types_distinct: "distinct (map dc_type (compute_drift_candidates loads today n rows))"
proof -
  let ?fields = "List.map_filter (field_candidate n rows) (tracked_fields loads today)"
  have "distinct (map fst (tracked_fields loads today))" "''cve_delta'' \<notin> fst ` set (tracked_fields loads today)"
    by (simp_all add: tracked_fields_def)
  then have "distinct (map dc_type ?fields)" "''cve_delta'' \<notin> set (map dc_type ?fields)"
    unfolding map_filter_types by (auto simp: distinct_map_filter)
  moreover have "map dc_type (cve_candidate rows) \<in> {[], [''cve_delta'']}"
    by (simp add: cve_candidate_def split: list.splits)
  ultimately show ?thesis
    by (force simp: compute_drift_candidates_def dest: cve_candidate_type)
qed

section \<open>Events\<close>

text \<open>What one reconciliation of a device adds.\<close>

definition supported_event :: "(string \<Rightarrow> pyval option) \<Rightarrow> int \<Rightarrow> nat \<Rightarrow> device list \<Rightarrow> drift_event \<Rightarrow> bool" where
  "supported_event loads today n rows e \<longleftrightarrow>
     de_detected_at e = hw_scanned_at (hd rows) \<and>
     (list_ex (\<lambda>(ty, f). de_type e = ty \<and> supported_change f n rows (de_old e) (de_new e)) (tracked_fields loads today) \<or>
      de_type e = ''cve_delta'' \<and> list_ex (\<lambda>i. i \<notin> set (cve_ids (rows ! 1))) (cve_ids (rows ! 0)))"

lemma candidates_supported:
  assumes "c \<in> set (compute_drift_candidates loads today n rows)" and "de_type e = dc_type c" "de_old e = dc_old c"
    "de_new e = dc_new c" "de_detected_at e = hw_scanned_at (hd rows)"
  shows "supported_event loads today n rows e"
proof (cases "c \<in> set (cve_candidate rows)")
  case True
  then show ?thesis
    using assms by (auto simp: supported_event_def cve_candidate_def cve_delta_def filter_empty_conv list_ex_iff split: list.splits if_splits)
next
  case False
  then obtain tf where "tf \<in> set (tracked_fields loads today)" "field_candidate n rows tf = Some c"
    using assms(1) by (auto simp: compute_drift_candidates_def List.map_filter_def split: if_splits)
  with candidate_supported [of n rows "fst tf" "snd tf" c] assms show ?thesis
    by (auto simp: supported_event_def list_ex_iff)
qed

lemma record_candidate_cases:
  "record_candidate host port newest now c s = s \<or>
   (\<exists>e. record_candidate host port newest now c s = s\<lparr>hs_events := hs_events s @ [e]\<rparr> \<and> de_host e = host \<and> de_port e = port \<and>
      de_type e = dc_type c \<and> de_old e = dc_old c \<and> de_new e = dc_new c \<and> de_detected_at e = hw_scanned_at newest \<and>
      de_id e = next_id (map de_id (hs_events s)) \<and>
      \<not> map_option de_new (latest_event host port (dc_type c) s) = Some (dc_new c))"
proof (cases "dc_type c \<notin> set event_types \<or> map_option de_new (latest_event host port (dc_type c) s) = Some (dc_new c)")
  case True
  then show ?thesis by (auto simp: record_candidate_def)
next
  case False
  then show ?thesis by (intro disjI2 exI conjI) (auto simp: record_candidate_def)
qed

lemma recorded_events:
  "\<exists>new. fold (record_candidate host port newest now) cs s = s\<lparr>hs_events := hs_events s @ new\<rparr> \<and>
     (\<forall>e \<in> set new. de_host e = host \<and> de_port e = port \<and> de_detected_at e = hw_scanned_at newest \<and>
        (\<exists>c \<in> set cs. de_type e = dc_type c \<and> de_old e = dc_old c \<and> de_new e = dc_new c))"
proof (induction cs arbitrary: s)
  case (Cons c cs)
  show ?case
    using record_candidate_cases [of host port newest now c s]
  proof (elim disjE exE conjE)
    assume same: "record_candidate host port newest now c s = s"
    from Cons.IH [of s] obtain new where "fold (record_candidate host port newest now) cs s = s\<lparr>hs_events := hs_events s @ new\<rparr>"
      "\<forall>e \<in> set new. de_host e = host \<and> de_port e = port \<and> de_detected_at e = hw_scanned_at newest \<and>
        (\<exists>c \<in> set cs. de_type e = dc_type c \<and> de_old e = dc_old c \<and> de_new e = dc_new c)" by blast
    then show ?thesis using same by (intro exI [of _ new]) auto
  next
    fix e
    assume e: "record_candidate host port newest now c s = s\<lparr>hs_events := hs_events s @ [e]\<rparr>" "de_host e = host" "de_port e = port"
      "de_type e = dc_type c" "de_old e = dc_old c" "de_new e = dc_new c" "de_detected_at e = hw_scanned_at newest"
    from Cons.IH [of "s\<lparr>hs_events := hs_events s @ [e]\<rparr>"] obtain new where
      "fold (record_candidate host port newest now) cs (s\<lparr>hs_events := hs_events s @ [e]\<rparr>) = s\<lparr>hs_events := hs_events s @ e # new\<rparr>"
      "\<forall>e \<in> set new. de_host e = host \<and> de_port e = port \<and> de_detected_at e = hw_scanned_at newest \<and>
        (\<exists>c \<in> set cs. de_type e = dc_type c \<and> de_old e = dc_old c \<and> de_new e = dc_new c)" by auto
    then show ?thesis using e by (intro exI [of _ "e # new"]) auto
  qed
qed simp

text \<open>C35: no drift is invented: whatever the history, each event a reconciliation adds belongs to the device and
  to the time of its newest successful reading, and either names a value of a tracked field read by the newest
  row and at least twice in the window against a different older reading, or comes from vulnerabilities the
  newest firmware has and the one before it had not.\<close>

theorem drift_events_are_confirmed:
  "list_all (\<lambda>e. e \<in> set (hs_events s) \<or>
      de_host e = host \<and> de_port e = port \<and>
      supported_event loads today n (recent_successful_hardware_rows (hs_devices s) host port m) e)
    (hs_events (reconcile_device_history loads today now n m (host, port) s))"
proof -
  let ?rows = "recent_successful_hardware_rows (hs_devices s) host port m"
  obtain new where new: "hs_events (reconcile_device_history loads today now n m (host, port) s) = hs_events s @ new"
    "\<forall>e \<in> set new. de_host e = host \<and> de_port e = port \<and> de_detected_at e = hw_scanned_at (hd ?rows) \<and>
      (\<exists>c \<in> set (compute_drift_candidates loads today n ?rows). de_type e = dc_type c \<and> de_old e = dc_old c \<and> de_new e = dc_new c)"
    using recorded_events [of host port "hd ?rows" now "compute_drift_candidates loads today n ?rows" s]
    by (auto simp: reconcile_device_history_def Let_def)
  then have "supported_event loads today n ?rows e" if "e \<in> set new" for e
    using that candidates_supported by metis
  with new show ?thesis by (auto simp: list_all_iff)
qed

section \<open>Reconciling again\<close>

lemma fold_max_least: "a \<le> fold max ids a \<and> (i \<in> set ids \<longrightarrow> i \<le> fold max ids (a :: nat))"
proof (induction ids arbitrary: a)
  case (Cons x ids)
  show ?case using Cons.IH [of "max x a"] by auto
qed simp

lemma next_id_greater: "i \<in> set ids \<Longrightarrow> i < next_id ids"
  using fold_max_least [of 0 ids i] by (simp add: next_id_def)

lemma sort_key_snoc_least:
  "\<forall>x \<in> set xs. f a < f x \<Longrightarrow> sort_key f (xs @ [a]) = a # sort_key f xs"
  by (induction xs) auto

definition recent :: "string \<Rightarrow> int \<Rightarrow> int \<Rightarrow> hw_store \<Rightarrow> bool" where
  "recent host port t s \<longleftrightarrow>
     list_all (\<lambda>e. de_detected_at e \<le> t) (filter (\<lambda>e. de_host e = host \<and> de_port e = port) (hs_events s))"

definition settled :: "string \<Rightarrow> int \<Rightarrow> hw_store \<Rightarrow> drift_candidate \<Rightarrow> bool" where
  "settled host port s c \<longleftrightarrow>
     dc_type c \<notin> set event_types \<or> map_option de_new (latest_event host port (dc_type c) s) = Some (dc_new c)"

lemma latest_event_new:
  assumes "recent host port (de_detected_at e) s" and "de_id e = next_id (map de_id (hs_events s))"
    and "de_host e = host" "de_port e = port"
  shows "latest_event host port ty (s\<lparr>hs_events := hs_events s @ [e]\<rparr>) =
    (if de_type e = ty then Some e else latest_event host port ty s)"
proof (cases "de_type e = ty")
  case True
  let ?mine = "filter (\<lambda>e. de_host e = host \<and> de_port e = port \<and> de_type e = ty) (hs_events s)"
  let ?key = "\<lambda>e. (- de_detected_at e, - int (de_id e))"
  have "?key e < ?key x" if "x \<in> set ?mine" for x
  proof -
    have "de_id x < de_id e" using that assms(2) next_id_greater [of "de_id x" "map de_id (hs_events s)"] by auto
    moreover have "de_detected_at x \<le> de_detected_at e" using that assms(1) by (simp add: recent_def list_all_iff)
    ultimately show ?thesis by (auto simp: less_prod_def)
  qed
  then have "sort_key ?key (?mine @ [e]) = e # sort_key ?key ?mine" by (intro sort_key_snoc_least) blast
  with True assms(3,4) show ?thesis by (simp add: latest_event_def)
qed (simp add: latest_event_def)

lemma settled_same [simp]: "settled host port s c \<Longrightarrow> record_candidate host port newest now c s = s"
  by (auto simp: settled_def record_candidate_def)

lemma recorded_settles:
  assumes "recent host port (hw_scanned_at newest) s"
  shows "settled host port (record_candidate host port newest now c s) c"
    "recent host port (hw_scanned_at newest) (record_candidate host port newest now c s)"
    "settled host port s c' \<Longrightarrow> dc_type c' \<noteq> dc_type c \<Longrightarrow> settled host port (record_candidate host port newest now c s) c'"
proof -
  show "settled host port (record_candidate host port newest now c s) c"
  proof (cases "settled host port s c")
    case False
    with assms show ?thesis by (simp add: settled_def record_candidate_def latest_event_new)
  qed simp
  show "recent host port (hw_scanned_at newest) (record_candidate host port newest now c s)"
    using assms by (simp add: record_candidate_def recent_def)
  show "settled host port (record_candidate host port newest now c s) c'"
    if "settled host port s c'" "dc_type c' \<noteq> dc_type c"
    using that assms by (simp add: settled_def record_candidate_def latest_event_new)
qed

lemma all_kinds_settled:
  "recent host port (hw_scanned_at newest) s \<Longrightarrow> distinct (map dc_type cs) \<Longrightarrow> \<forall>c \<in> set earlier. settled host port s c \<Longrightarrow>
   \<forall>c \<in> set earlier. dc_type c \<notin> dc_type ` set cs \<Longrightarrow>
   c \<in> set earlier \<union> set cs \<Longrightarrow> settled host port (fold (record_candidate host port newest now) cs s) c"
proof (induction cs arbitrary: s earlier)
  case (Cons c' cs)
  let ?s = "record_candidate host port newest now c' s"
  have "settled host port ?s d" if "d \<in> set (c' # earlier)" for d
    using that Cons.prems recorded_settles(1,3) [OF Cons.prems(1)] by (cases "d = c'") auto
  moreover have "\<forall>d \<in> set (c' # earlier). dc_type d \<notin> dc_type ` set cs" using Cons.prems by auto
  ultimately show ?case
    using Cons.IH [of ?s "c' # earlier"] Cons.prems recorded_settles(2) [OF Cons.prems(1)] by auto
qed simp

lemma fold_settled: "\<forall>c \<in> set cs. settled host port s c \<Longrightarrow> fold (record_candidate host port newest now) cs s = s"
  by (induction cs) auto

lemma recorded_devices [simp]: "hs_devices (fold (record_candidate host port newest now) cs s) = hs_devices s"
proof (induction cs arbitrary: s)
  case (Cons c cs)
  then show ?case by (simp add: record_candidate_def)
qed simp

text \<open>The day enters only through the end-of-life state of the readings in the window.\<close>

lemma same_states_same_candidates:
  assumes "list_all (\<lambda>d. eol_state (dv_eol_date d) today' = eol_state (dv_eol_date d) today) rows"
  shows "compute_drift_candidates loads today' n rows = compute_drift_candidates loads today n rows"
proof (cases "length rows < 2")
  case False
  then obtain d ds where rows: "rows = d # ds" by (cases rows) auto
  have "field_candidate n rows (ty, f) = field_candidate n rows (ty, g)"
    if "\<forall>r \<in> set rows. f r = g r" for ty and f g :: "device \<Rightarrow> string option"
  proof -
    have "List.map_filter f xs = List.map_filter g xs" if "\<forall>r \<in> set xs. f r = g r" for xs
      using that by (induction xs) (simp_all split: option.split)
    with that have "List.map_filter f rows = List.map_filter g rows" by blast
    moreover have "find (\<lambda>r. f r \<noteq> v) ds = find (\<lambda>r. g r \<noteq> v) ds" for v
      using that rows by (intro find_cong) auto
    moreover have "find (\<lambda>r. f r \<noteq> v) ds = Some r \<Longrightarrow> f r = g r" for v r
      using that rows find_SomeD by fastforce
    ultimately show ?thesis
      using that rows by (auto simp: field_candidate_def confirmed_value_def split: option.split)
  qed
  from this [of "\<lambda>d. eol_state (dv_eol_date d) today'" "\<lambda>d. eol_state (dv_eol_date d) today" "''eol_state_change''"]
  show ?thesis
    using assms by (simp add: compute_drift_candidates_def tracked_fields_def List.map_filter_def list_all_iff)
qed (simp add: compute_drift_candidates_def)

text \<open>C36: reconciling a device again writes nothing, at whatever later time, as long as no new reading has come in and two
  conditions hold: no event of the device is dated after its newest reading in the window, and, when the second
  run falls on another day, no reading of the window has moved to another end-of-life state in between.
  Both are needed: the order of events is that of their dates, and the passing of a day can by itself
  make a change of the end-of-life state (lemma new_day_new_event).\<close>

theorem reconciling_again_adds_nothing:
  assumes "case recent_successful_hardware_rows (hs_devices s) host port m of
      [] \<Rightarrow> True | newest # _ \<Rightarrow> recent host port (hw_scanned_at newest) s"
    and "list_all (\<lambda>d. eol_state (dv_eol_date d) today' = eol_state (dv_eol_date d) today)
      (recent_successful_hardware_rows (hs_devices s) host port m)"
  shows "reconcile_device_history loads today' later n m (host, port) (reconcile_device_history loads today now n m (host, port) s)
    = reconcile_device_history loads today now n m (host, port) s"
proof -
  let ?rows = "recent_successful_hardware_rows (hs_devices s) host port m"
  let ?cs = "compute_drift_candidates loads today n ?rows"
  let ?s = "fold (record_candidate host port (hd ?rows) now) ?cs s"
  have "\<forall>c \<in> set ?cs. settled host port ?s c"
  proof (cases ?rows)
    case Nil
    then show ?thesis by (simp add: compute_drift_candidates_def)
  next
    case (Cons d ds)
    then show ?thesis
      using all_kinds_settled [of host port "hd ?rows" s ?cs "[]"] assms(1) candidate_types_distinct by fastforce
  qed
  then show ?thesis
    by (simp add: reconcile_device_history_def Let_def fold_settled same_states_same_candidates [OF assms(2)])
qed

section \<open>Retention\<close>

text \<open>What the retention may delete: rows of the devices of the batch, older than a positive number of days; any
  other setting deletes nothing, and the events stay.\<close>

theorem retention_is_scoped:
  "case purge_stale_hardware_history retention now scope s of
     Inl _ \<Rightarrow> True
   | Inr (deleted, s') \<Rightarrow>
       s' = s\<lparr>hs_devices := hs_devices s'\<rparr> \<and> deleted + length (hs_devices s') = length (hs_devices s) \<and>
       (case py_int retention of
          None \<Rightarrow> s' = s
        | Some days \<Rightarrow>
            if days \<le> 0 then s' = s
            else hs_devices s' = filter (\<lambda>d. \<not> (hw_key d \<in> set scope \<and> hw_scanned_at d < now - days * day)) (hs_devices s))"
proof -
  have "length (filter (\<lambda>d. P d \<and> Q d) ds) + length (filter (\<lambda>d. P d \<longrightarrow> \<not> Q d) ds) = length ds"
    for P Q :: "device \<Rightarrow> bool" and ds
    using sum_length_filter_compl [of "\<lambda>d. P d \<and> Q d" ds] by simp
  then show ?thesis by (simp add: purge_stale_hardware_history_def Let_def split: option.split)
qed

section \<open>Two histories\<close>

definition m221 :: "nat \<Rightarrow> int \<Rightarrow> string \<Rightarrow> string \<Rightarrow> device" where
  "m221 i time tier firmware =
     \<lparr>hw_id = i, hw_host = ''plc'', hw_port = 502, hw_vendor = ''Schneider Electric'', hw_model = Some ''M221'',
      hw_pqc_status = ''unsupported'', hw_scanned_at = time, hw_probe_status = Some ''success'', hw_bridge_evidence = None,
      dv_tier = tier, dv_confidence = ''high'', dv_bridge_confirmed_at = None, dv_eol_date = None,
      dv_modbus_firmware = Some firmware, dv_bacnet_firmware = None, dv_partial = None\<rparr>"

lemma m221_fields [simp]:
  "hw_id (m221 i t ti f) = i" "hw_host (m221 i t ti f) = ''plc''" "hw_port (m221 i t ti f) = 502"
  "hw_vendor (m221 i t ti f) = ''Schneider Electric''" "hw_scanned_at (m221 i t ti f) = t" "succeeded (m221 i t ti f)"
  "dv_tier (m221 i t ti f) = ti" "bridge_evidence_state loads (m221 i t ti f) = ''no_evidence''"
  "dv_eol_date (m221 i t ti f) = None" "vendor_known (m221 i t ti f)" "dv_partial (m221 i t ti f) = None"
  by (simp_all add: m221_def succeeded_def bridge_evidence_state_def vendor_known_def)

lemma m221_cves [simp]:
  "cve_ids (m221 i t ti ''1.11.0.0'') = []"
  "cve_ids (m221 i t ti ''1.7.0.0'') = [''CVE-2018-7821'']"
  "cve_ids (m221 i t ti ''1.5.0.0'') = [''CVE-2018-7789'', ''CVE-2018-7821'']"
  by (code_simp)+

lemmas window_defs = tracked_fields_def field_candidate_def confirmed_value_def most_common_def List.map_filter_def

text \<open>One deviating reading between two equal ones is reported as a change, with nothing but that reading behind the
  old value.\<close>

lemma single_flake_is_drift:
  "compute_drift_candidates loads today default_n
     [m221 3 30 ''Tier 2'' f, m221 2 20 ''Tier 1'' f, m221 1 10 ''Tier 2'' f] =
   [\<lparr>dc_type = ''tier_crossing'', dc_old = Some ''Tier 1'', dc_new = Some ''Tier 2''\<rparr>]"
proof -
  have same: "cve_ids (m221 i t ti f) = cve_ids (m221 i' t' ti' f)" for i t ti i' t' ti'
    by (simp add: cve_ids_def m221_def vendor_known_def firmware_for_correlation_def)
  have "cve_delta (m221 i t ti f) (m221 i' t' ti' f) = []" for i t ti i' t' ti'
    using same [of i t ti i' t' ti'] by (simp add: cve_delta_def)
  then show ?thesis
    by (simp add: compute_drift_candidates_def cve_candidate_def window_defs default_n_def eol_state_def)
qed

definition downgraded :: "drift_event list \<Rightarrow> device list \<Rightarrow> hw_store" where
  "downgraded es ds = \<lparr>hs_devices = ds, hs_events = es, hs_vendor_events = []\<rparr>"

lemma later_vulnerability_unreported:
  "let d1 = m221 1 10 ''Tier 1'' ''1.11.0.0''; d2 = m221 2 20 ''Tier 1'' ''1.7.0.0''; d3 = m221 3 30 ''Tier 1'' ''1.5.0.0'';
       s = reconcile_device_history loads today 21 2 3 (''plc'', 502) (downgraded [] [d1, d2]);
       s' = reconcile_device_history loads today 31 2 3 (''plc'', 502) (downgraded (hs_events s) [d1, d2, d3]) in
   map de_type (hs_events s) = [''cve_delta''] \<and> cve_delta d2 d3 = [''CVE-2018-7789''] \<and> hs_events s' = hs_events s"
  by (simp add: reconcile_device_history_def downgraded_def recent_successful_hardware_rows_def newest_first_def
      compute_drift_candidates_def cve_candidate_def cve_delta_def window_defs eol_state_def
      record_candidate_def latest_event_def event_types_def nat_str.simps)

theorem reconciling_again_adds_nothing_witness:
  "let s = downgraded [] [m221 1 10 ''Tier 1'' ''1.11.0.0'', m221 2 20 ''Tier 1'' ''1.7.0.0''];
       r = \<lambda>today now. reconcile_device_history (\<lambda>_. None) today now 2 3 (''plc'', 502) in r 9 40 (r 0 30 s) = r 0 30 s"
  unfolding Let_def
  by (rule reconciling_again_adds_nothing)
    (simp_all add: recent_def downgraded_def eol_state_def recent_successful_hardware_rows_def newest_first_def)

text \<open>Three readings, the oldest with an earlier end-of-life date: on the day that date has passed the same readings
  make a change, although the device was not read again.\<close>

definition dated :: "nat \<Rightarrow> int \<Rightarrow> int \<Rightarrow> device" where
  "dated i time eol = (m221 i time ''Tier 1'' ''1.11.0.0'')\<lparr>dv_eol_date := Some eol\<rparr>"

lemma new_day_new_event:
  "let rows = [dated 3 30 100, dated 2 20 100, dated 1 10 50] in
   map dc_type (compute_drift_candidates (\<lambda>_. None) 40 2 rows) = [] \<and>
   map dc_type (compute_drift_candidates (\<lambda>_. None) 60 2 rows) = [''eol_state_change'']"
  by code_simp

text \<open>A retention that reaches back before the year 1 loses the batch.\<close>

lemma retention_overflow_loses_batch:
  "persist_and_reconcile loads today (20000 * day) (PyInt 800000) devices s = (0, s)"
  by (simp add: persist_and_reconcile_def purge_stale_hardware_history_def py_int_def first_moment_def day_def)

end
