(* ===== verification/Merge.thy ===== *)
theory Merge
  imports Trends
begin

text \<open>
  \<open>quirk/merge/scan.py\<close>: one result over the latest view of every sensor.  A stored endpoint is a row
  with its id, its sensor and the payload it came with; times are microseconds.  The findings deriver is an
  argument; the files of the CBOM are a parameter (\<open>artifacts\<close>: the two paths; that they can be built is
  assumed), as is the text of a
  time (\<open>stamp\<close>).
\<close>

section \<open>Tables\<close>

record sensor_endpoint =
  se_id :: nat
  se_sensor :: "string option"
  se_payload :: "string option"
  se_row :: scanned_endpoint

record sensor =
  sn_id :: string
  sn_enrolled_at :: "int option"
  sn_last_push_at :: "int option"
  sn_cadence_minutes :: "int option"

record sensor_push =
  sp_id :: nat
  sp_payload :: string
  sp_sensor :: string
  sp_received_at :: int

record coverage_warning =
  cw_missing :: "string list"
  cw_reason :: string

record merge_run =
  mr_scan_id :: string
  mr_merged_at :: int
  mr_endpoint_count :: nat
  mr_sensor_count :: nat
  mr_score :: "int option"
  mr_warning :: "coverage_warning option"

record merge_store =
  ms_rows :: "sensor_endpoint list"
  ms_pushes :: "sensor_push list"
  ms_sensors :: "sensor list"
  ms_runs :: "merge_run list"

section \<open>Coverage\<close>

definition minute :: int where
  "minute = 60000000"

definition session_bracket :: int where
  "session_bracket = 5 * minute"

definition default_stale_days :: int where
  "default_stale_days = 30"

definition overdue :: "int \<Rightarrow> int \<Rightarrow> sensor \<Rightarrow> bool" where
  "overdue now stale_days s =
     (let stale = stale_days * 1440 * minute in
      case sn_last_push_at s of
        None \<Rightarrow> (case sn_enrolled_at s of None \<Rightarrow> True | Some e \<Rightarrow> now - e \<le> stale)
      | Some t \<Rightarrow>
          now - t \<le> stale \<and>
          t + 2 * ((case sn_cadence_minutes s of None \<Rightarrow> 1440 | Some m \<Rightarrow> m) * minute) < now)"

definition multiplication_sign :: string where
  "multiplication_sign = [char_of (195 :: nat), char_of (151 :: nat)]"

fun comma_joined :: "string list \<Rightarrow> string" where
  "comma_joined [] = []"
| "comma_joined [s] = s"
| "comma_joined (s # ss) = s @ '', '' @ comma_joined ss"

definition build_coverage_warning :: "sensor list \<Rightarrow> int \<Rightarrow> int \<Rightarrow> coverage_warning option" where
  "build_coverage_warning sensors now stale_days =
     (let missing = map sn_id (filter (overdue now stale_days) sensors) in
      if missing = [] then None
      else Some \<lparr>cw_missing = missing,
        cw_reason = nat_str (length missing) @ '' enrolled sensor(s) have not pushed within 2'' @ multiplication_sign
          @ '' their expected cadence: '' @ comma_joined missing\<rparr>)"

section \<open>The union\<close>

text \<open>The payload of the last push of each sensor, by time of receipt and id.\<close>

definition latest_payloads :: "sensor_push list \<Rightarrow> (string \<times> string) list" where
  "latest_payloads pushes =
     fold (\<lambda>p. dict_put (sp_sensor p) (sp_payload p)) (sort_key (\<lambda>p. (sp_sensor p, sp_received_at p, sp_id p)) pushes) []"

definition of_sensor :: "string option \<Rightarrow> sensor_endpoint list \<Rightarrow> sensor_endpoint list" where
  "of_sensor s rows = filter (\<lambda>r. se_sensor r = s) rows"

text \<open>The rows of one sensor (None: the local rows) within the bracket before its latest time.\<close>

definition in_bracket :: "sensor_endpoint list \<Rightarrow> sensor_endpoint \<Rightarrow> bool" where
  "in_bracket rows r =
     (case (List.map_filter (\<lambda>x. ep_scanned_at (se_row x)) rows, ep_scanned_at (se_row r)) of
        (t # ts, Some u) \<Rightarrow> fold max ts t - session_bracket \<le> u \<and> u \<le> fold max ts t
      | _ \<Rightarrow> False)"

definition sensor_view :: "sensor_push list \<Rightarrow> sensor_endpoint list \<Rightarrow> string \<Rightarrow> sensor_endpoint list" where
  "sensor_view pushes rows s =
     (let mine = of_sensor (Some s) rows in
      if list_ex (\<lambda>r. se_payload r \<noteq> None) mine
      then (case map_of (latest_payloads pushes) s of
              None \<Rightarrow> []
            | Some pid \<Rightarrow> sort_key se_id (filter (\<lambda>r. se_payload r = Some pid) mine))
      else sort_key se_id (filter (in_bracket mine) mine))"

definition local_view :: "sensor_endpoint list \<Rightarrow> sensor_endpoint list" where
  "local_view rows = sort_key se_id (filter (in_bracket (of_sensor None rows)) (of_sensor None rows))"

definition assemble_union :: "sensor_push list \<Rightarrow> sensor_endpoint list \<Rightarrow> sensor_endpoint list" where
  "assemble_union pushes rows =
     concat (map (sensor_view pushes rows) (sort (remdups (List.map_filter se_sensor rows)))) @ local_view rows"

section \<open>The merge\<close>

datatype merge_error = MergeDeriving eval_error | MergeBanding band_error

record merge_result =
  mg_scan_id :: string
  mg_score :: "int option"
  mg_rating :: "string option"
  mg_subscores :: "(string \<times> int option) list"
  mg_drivers :: "(string \<times> int) list"
  mg_warning :: "coverage_warning option"
  mg_endpoint_count :: nat
  mg_sensor_count :: nat
  mg_artifacts :: "string option \<times> string option"

definition no_endpoints :: coverage_warning where
  "no_endpoints = \<lparr>cw_missing = [],
     cw_reason = ''No endpoints found '' @ em_dash @ '' no sensors enrolled and no local scan data.''\<rparr>"

definition persist_run :: "int \<Rightarrow> merge_result \<Rightarrow> merge_store \<Rightarrow> merge_store" where
  "persist_run now g s =
     s\<lparr>ms_runs := ms_runs s @
       [\<lparr>mr_scan_id = mg_scan_id g, mr_merged_at = now, mr_endpoint_count = mg_endpoint_count g,
         mr_sensor_count = mg_sensor_count g, mr_score = mg_score g, mr_warning = mg_warning g\<rparr>]\<rparr>"

definition merge_scan ::
    "(int \<Rightarrow> string) \<Rightarrow> (scanned_endpoint list \<Rightarrow> string option \<times> string option) \<Rightarrow>
     (scanned_endpoint list \<Rightarrow> eval_error + finding_row list) \<Rightarrow> int \<Rightarrow> int \<Rightarrow> string \<Rightarrow> (string \<times> real) list \<Rightarrow>
     merge_store \<Rightarrow> merge_error + merge_result \<times> merge_store" where
  "merge_scan stamp artifacts derive now stale_days profile weights s =
     (let eps = map se_row (assemble_union (ms_pushes s) (ms_rows s));
          warning = build_coverage_warning (ms_sensors s) now stale_days in
      if eps = []
      then (let g = \<lparr>mg_scan_id = stamp now, mg_score = None, mg_rating = None, mg_subscores = [], mg_drivers = [],
                     mg_warning = Some (case warning of None \<Rightarrow> no_endpoints | Some w \<Rightarrow> w), mg_endpoint_count = 0,
                     mg_sensor_count = length (ms_sensors s), mg_artifacts = (None, None)\<rparr> in
            Inr (g, persist_run now g s))
      else (case derive eps of
              Inl e \<Rightarrow> Inl (MergeDeriving e)
            | Inr fs \<Rightarrow>
                (case compute_readiness_score (build_evidence_summary eps fs 30 None) (Some profile) weights of
                   Inl e \<Rightarrow> Inl (MergeBanding e)
                 | Inr r \<Rightarrow>
                     (let g = \<lparr>mg_scan_id = stamp now, mg_score = r_score r, mg_rating = Some (r_rating r),
                               mg_subscores = r_subscores r, mg_drivers = r_drivers r, mg_warning = warning,
                               mg_endpoint_count = length eps, mg_sensor_count = length (ms_sensors s),
                               mg_artifacts = artifacts eps\<rparr> in
                      Inr (g, persist_run now g s)))))"

end
