(* ===== verification/Merge_Properties.thy ===== *)
theory Merge_Properties
  imports Merge Trend_Properties
begin

text \<open>
  What the merged view holds, and that the merged score is the score of one report on that view.
\<close>

section \<open>The last push\<close>

abbreviation push_time :: "sensor_push \<Rightarrow> int \<times> nat" where
  "push_time p \<equiv> (sp_received_at p, sp_id p)"

definition latest_push :: "sensor_push list \<Rightarrow> sensor_push \<Rightarrow> bool" where
  "latest_push pushes p \<longleftrightarrow>
     p \<in> set pushes \<and> list_all (\<lambda>q. push_time q \<le> push_time p) (filter (\<lambda>q. sp_sensor q = sp_sensor p) pushes)"

lemma fold_put_last:
  "map_of (fold (\<lambda>p. dict_put (f p) (g p)) ps d) k =
     (case rev (filter (\<lambda>p. f p = k) ps) of [] \<Rightarrow> map_of d k | p # _ \<Rightarrow> Some (g p))"
  by (induction ps arbitrary: d) (auto simp: dict_simps split: list.splits)

lemma sorted_last: "sorted (map f xs) \<Longrightarrow> q \<in> set xs \<Longrightarrow> f q \<le> f (last xs)"
  by (induction xs rule: rev_induct) (auto simp: sorted_append)

definition pushes_of :: "string \<Rightarrow> sensor_push list \<Rightarrow> sensor_push list" where
  "pushes_of s pushes = filter (\<lambda>p. sp_sensor p = s) (sort_key (\<lambda>p. (sp_sensor p, sp_received_at p, sp_id p)) pushes)"

lemma set_pushes_of [simp]: "set (pushes_of s pushes) = {p \<in> set pushes. sp_sensor p = s}"
  by (auto simp: pushes_of_def)

lemma last_push_of: "pushes_of s pushes \<noteq> [] \<Longrightarrow> last (pushes_of s pushes) \<in> set pushes \<and> sp_sensor (last (pushes_of s pushes)) = s"
  using last_in_set [of "pushes_of s pushes"] by simp

lemma last_push_greatest:
  assumes "q \<in> set pushes" and "sp_sensor q = s"
  shows "push_time q \<le> push_time (last (pushes_of s pushes))"
proof -
  let ?key = "\<lambda>p. (sp_sensor p, sp_received_at p, sp_id p)"
  have "sorted (map ?key (pushes_of s pushes))" by (simp add: pushes_of_def sorted_filter)
  moreover have mem: "q \<in> set (pushes_of s pushes)" using assms by simp
  ultimately have "?key q \<le> ?key (last (pushes_of s pushes))" by (rule sorted_last)
  moreover have "sp_sensor (last (pushes_of s pushes)) = s" using mem last_push_of [of s pushes] by fastforce
  ultimately show ?thesis using assms by (simp add: less_eq_prod_def)
qed

lemma latest_push_iff:
  assumes "distinct (map sp_id pushes)" and "p \<in> set pushes"
  shows "latest_push pushes p \<longleftrightarrow> p = last (pushes_of (sp_sensor p) pushes)"
proof
  let ?l = "last (pushes_of (sp_sensor p) pushes)"
  have "p \<in> set (pushes_of (sp_sensor p) pushes)" using assms(2) by simp
  then have "pushes_of (sp_sensor p) pushes \<noteq> []" by fastforce
  then have l: "?l \<in> set pushes" "sp_sensor ?l = sp_sensor p" using last_push_of by blast+
  assume "latest_push pushes p"
  then have "push_time ?l \<le> push_time p" using l by (simp add: latest_push_def list_all_iff)
  with last_push_greatest [OF assms(2) refl] have "push_time p = push_time ?l" by (rule antisym)
  then have "sp_id p = sp_id ?l" by simp
  with assms l(1) show "p = ?l" by (auto simp: distinct_map inj_on_def)
next
  assume p: "p = last (pushes_of (sp_sensor p) pushes)"
  have "push_time q \<le> push_time p" if "q \<in> set pushes" "sp_sensor q = sp_sensor p" for q
    using last_push_greatest [OF that] p by simp
  with assms(2) show "latest_push pushes p" by (simp add: latest_push_def list_all_iff)
qed

lemma latest_payload:
  "map_of (latest_payloads pushes) s =
     (if pushes_of s pushes = [] then None else Some (sp_payload (last (pushes_of s pushes))))"
  unfolding latest_payloads_def fold_put_last pushes_of_def [symmetric]
  by (cases "pushes_of s pushes" rule: rev_cases) auto

lemma list_ex_unique:
  "l \<in> set xs \<Longrightarrow> Q l \<Longrightarrow> (\<And>p. p \<in> set xs \<Longrightarrow> Q p \<Longrightarrow> p = l) \<Longrightarrow> list_ex (\<lambda>p. Q p \<and> R p) xs \<longleftrightarrow> R l"
  unfolding list_ex_iff by blast

lemma latest_payload_iff:
  assumes "distinct (map sp_id pushes)"
  shows "map_of (latest_payloads pushes) s = Some pid \<longleftrightarrow>
    list_ex (\<lambda>p. latest_push pushes p \<and> sp_sensor p = s \<and> sp_payload p = pid) pushes"
proof (cases "pushes_of s pushes = []")
  case True
  have "\<not> (p \<in> set pushes \<and> sp_sensor p = s)" for p
    using set_pushes_of [of s pushes] unfolding True by auto
  then have "\<not> list_ex (\<lambda>p. latest_push pushes p \<and> sp_sensor p = s \<and> sp_payload p = pid) pushes"
    unfolding list_ex_iff by blast
  with True show ?thesis by (simp add: latest_payload)
next
  case False
  let ?l = "last (pushes_of s pushes)"
  have l: "?l \<in> set pushes" "sp_sensor ?l = s" using last_push_of [OF False] by auto
  then have lp: "latest_push pushes ?l" using latest_push_iff [OF assms] by simp
  have unique: "p = ?l" if "p \<in> set pushes" "latest_push pushes p" "sp_sensor p = s" for p
    using latest_push_iff [OF assms that(1)] that by simp
  have "list_ex (\<lambda>p. (latest_push pushes p \<and> sp_sensor p = s) \<and> sp_payload p = pid) pushes \<longleftrightarrow> sp_payload ?l = pid"
    by (rule list_ex_unique) (use l lp unique in blast)+
  then show ?thesis using False by (simp add: latest_payload conj_assoc)
qed

section \<open>The view\<close>

text \<open>Which rows count: of a sensor that sends payloads those of its last push, of any other sensor, and of the
  console itself, those of the five minutes before its latest row.\<close>

definition recent_among :: "sensor_endpoint list \<Rightarrow> sensor_endpoint \<Rightarrow> bool" where
  "recent_among rows r \<longleftrightarrow>
     (case ep_scanned_at (se_row r) of
        None \<Rightarrow> False
      | Some u \<Rightarrow>
          list_all (\<lambda>x. case ep_scanned_at (se_row x) of None \<Rightarrow> True | Some t \<Rightarrow> t \<le> u + session_bracket) rows)"

definition in_view :: "sensor_push list \<Rightarrow> sensor_endpoint list \<Rightarrow> sensor_endpoint \<Rightarrow> bool" where
  "in_view pushes rows r \<longleftrightarrow>
     (let mine = of_sensor (se_sensor r) rows in
      case se_sensor r of
        None \<Rightarrow> recent_among mine r
      | Some s \<Rightarrow>
          if list_ex (\<lambda>x. se_payload x \<noteq> None) mine
          then list_ex (\<lambda>p. latest_push pushes p \<and> sp_sensor p = s \<and> se_payload r = Some (sp_payload p)) pushes
          else recent_among mine r)"

lemma bracket_recent:
  assumes "r \<in> set rows"
  shows "in_bracket rows r \<longleftrightarrow> recent_among rows r"
proof (cases "ep_scanned_at (se_row r)")
  case (Some u)
  let ?ts = "List.map_filter (\<lambda>x. ep_scanned_at (se_row x)) rows"
  have u: "u \<in> set ?ts" using assms Some by (force simp: List.map_filter_def)
  then obtain t ts where ts: "?ts = t # ts" by (cases ?ts) auto
  have max: "fold max ts t = Max (set ?ts)" unfolding ts by (rule Max.set_eq_fold [symmetric])
  have "u \<le> Max (set ?ts)" using u by simp
  moreover have "Max (set ?ts) \<le> b \<longleftrightarrow> (\<forall>x \<in> set ?ts. x \<le> b)" for b
    using u by (subst Max_le_iff) auto
  moreover have "(\<forall>x \<in> set ?ts. x \<le> b) \<longleftrightarrow>
      list_all (\<lambda>x. case ep_scanned_at (se_row x) of None \<Rightarrow> True | Some t \<Rightarrow> t \<le> b) rows" for b
    by (induction rows) (auto simp: List.map_filter_def)
  ultimately show ?thesis
    using Some ts max by (simp add: in_bracket_def recent_among_def diff_le_eq)
qed (auto simp: in_bracket_def recent_among_def split: list.split)

lemma set_of_sensor [simp]: "set (of_sensor s rows) = {r \<in> set rows. se_sensor r = s}"
  by (auto simp: of_sensor_def)

lemma sensor_view_members:
  assumes "distinct (map sp_id pushes)"
  shows "set (sensor_view pushes rows s) = {r \<in> set rows. se_sensor r = Some s \<and> in_view pushes rows r}"
proof (cases "list_ex (\<lambda>x. se_payload x \<noteq> None) (of_sensor (Some s) rows)")
  case True
  have "set (sensor_view pushes rows s) =
      {r \<in> set rows. se_sensor r = Some s \<and> (\<exists>pid. map_of (latest_payloads pushes) s = Some pid \<and> se_payload r = Some pid)}"
    using True by (cases "map_of (latest_payloads pushes) s") (auto simp: sensor_view_def)
  also have "\<dots> = {r \<in> set rows. se_sensor r = Some s \<and> in_view pushes rows r}"
  proof -
    have "in_view pushes rows r \<longleftrightarrow>
        list_ex (\<lambda>p. latest_push pushes p \<and> sp_sensor p = s \<and> se_payload r = Some (sp_payload p)) pushes"
      if "se_sensor r = Some s" for r
      using True that by (simp add: in_view_def)
    then show ?thesis unfolding latest_payload_iff [OF assms] list_ex_iff by blast
  qed
  finally show ?thesis .
next
  case False
  then show ?thesis by (auto simp: sensor_view_def in_view_def Let_def bracket_recent)
qed

lemma local_view_members: "set (local_view rows) = {r \<in> set rows. se_sensor r = None \<and> in_view pushes rows r}"
  by (auto simp: local_view_def in_view_def Let_def bracket_recent)

lemma merged_view_members:
  assumes "distinct (map sp_id pushes)"
  shows "set (assemble_union pushes rows) = {r \<in> set rows. in_view pushes rows r}"
proof -
  have sensors: "set (List.map_filter se_sensor rows) = {s. \<exists>r \<in> set rows. se_sensor r = Some s}"
    by (induction rows) (auto simp: List.map_filter_def)
  have "set (assemble_union pushes rows) =
      (\<Union>s \<in> {s. \<exists>r \<in> set rows. se_sensor r = Some s}. set (sensor_view pushes rows s)) \<union> set (local_view rows)"
    by (simp add: assemble_union_def sensors)
  also have "\<dots> = {r \<in> set rows. in_view pushes rows r}"
  proof (rule set_eqI)
    fix r
    show "r \<in> (\<Union>s \<in> {s. \<exists>r \<in> set rows. se_sensor r = Some s}. set (sensor_view pushes rows s)) \<union> set (local_view rows)
      \<longleftrightarrow> r \<in> {r \<in> set rows. in_view pushes rows r}"
      by (cases "se_sensor r") (simp_all add: sensor_view_members [OF assms] local_view_members [of rows pushes], blast)
  qed
  finally show "set (assemble_union pushes rows) = {r \<in> set rows. in_view pushes rows r}" .
qed

text \<open>C37: the merged view is exact: a stored row is in it exactly when it came with the last push of its sensor, or,
  for the console and for sensors that never named a payload, when it is at most five minutes older than their
  latest row; no row is in it twice.\<close>

theorem merged_view_is_exact:
  assumes "distinct (map sp_id pushes)" and "distinct rows"
  shows "set (assemble_union pushes rows) = {r \<in> set rows. in_view pushes rows r} \<and> distinct (assemble_union pushes rows)"
proof
  show "set (assemble_union pushes rows) = {r \<in> set rows. in_view pushes rows r}" by (rule merged_view_members [OF assms(1)])
  have "distinct (sensor_view pushes rows s)" for s
    using assms(2) by (auto simp: sensor_view_def of_sensor_def Let_def split: option.split)
  moreover have "set (sensor_view pushes rows s) \<inter> set (concat (map (sensor_view pushes rows) ss)) = {}" if "s \<notin> set ss" for s ss
    using that by (auto simp: sensor_view_members [OF assms(1)])
  ultimately have "distinct (concat (map (sensor_view pushes rows) ss))" if "distinct ss" for ss
    using that by (induction ss) simp_all
  moreover have "distinct (local_view rows)" using assms(2) by (simp add: local_view_def of_sensor_def)
  ultimately show "distinct (assemble_union pushes rows)"
    by (auto simp: assemble_union_def sensor_view_members [OF assms(1)] local_view_members [of rows pushes])
qed

section \<open>A new push\<close>

lemma in_view_other:
  assumes "se_sensor r \<noteq> Some (sp_sensor p)" and "list_all (\<lambda>x. se_sensor x = Some (sp_sensor p)) new"
  shows "in_view (pushes @ [p]) (rows @ new) r \<longleftrightarrow> in_view pushes rows r"
proof -
  have same: "of_sensor (se_sensor r) (rows @ new) = of_sensor (se_sensor r) rows"
    using assms by (auto simp: of_sensor_def list_all_iff filter_empty_conv)
  have latest: "latest_push (pushes @ [p]) q \<longleftrightarrow> latest_push pushes q" if "sp_sensor q \<noteq> sp_sensor p" for q
    using that by (auto simp: latest_push_def)
  show ?thesis
  proof (cases "se_sensor r")
    case (Some s)
    then have "\<not> sp_sensor p = s" using assms(1) by simp
    then have "list_ex (\<lambda>q. latest_push (pushes @ [p]) q \<and> sp_sensor q = s \<and> se_payload r = Some (sp_payload q)) (pushes @ [p]) \<longleftrightarrow>
        list_ex (\<lambda>q. latest_push pushes q \<and> sp_sensor q = s \<and> se_payload r = Some (sp_payload q)) pushes"
      using latest unfolding list_ex_iff set_append by (metis Un_iff empty_iff insert_iff list.set(1) list.set(2))
    with Some same show ?thesis by (simp only: in_view_def Let_def option.case)
  qed (use same in \<open>simp add: in_view_def\<close>)
qed

lemma in_view_untagged:
  assumes "\<not> list_ex (\<lambda>r. se_payload r \<noteq> None) (of_sensor (Some (sp_sensor p)) rows)"
  shows "in_view (pushes @ [p]) rows r \<longleftrightarrow> in_view pushes rows r"
proof (cases "se_sensor r = Some (sp_sensor p)")
  case True
  with assms show ?thesis by (simp add: in_view_def)
next
  case False
  then show ?thesis using in_view_other [OF False, of "[]" pushes rows] by simp
qed

text \<open>C38: what a push changes in the merged view.  The push is later than every earlier push of its sensor, its
  payload is new, and its rows come with it.  If any row of the sensor, old or new, names a payload, the rows of the
  sensor in the view are exactly the rows of the push, all of them (none for an empty push), and the rows of the
  other sensors and of the console stay as they were.  If no row of the sensor names one (an empty push of a sensor
  all of whose rows predate payloads), the view stays as it was, old rows of the sensor included.\<close>

theorem push_replaces_its_sensor:
  assumes "distinct (map sp_id (pushes @ [p]))"
    and "latest_push (pushes @ [p]) p"
    and "list_all (\<lambda>r. se_sensor r = Some (sp_sensor p) \<and> se_payload r = Some (sp_payload p)) new"
    and "list_all (\<lambda>r. se_payload r \<noteq> Some (sp_payload p)) rows"
  shows "set (assemble_union (pushes @ [p]) (rows @ new)) =
    (if list_ex (\<lambda>r. se_payload r \<noteq> None) (of_sensor (Some (sp_sensor p)) (rows @ new))
     then set new \<union> {r \<in> set (assemble_union pushes rows). se_sensor r \<noteq> Some (sp_sensor p)}
     else set (assemble_union pushes rows))"
proof (cases "list_ex (\<lambda>r. se_payload r \<noteq> None) (of_sensor (Some (sp_sensor p)) (rows @ new))")
  case tagged: True
  have ids: "distinct (map sp_id pushes)" using assms(1) by auto
  have new: "list_all (\<lambda>x. se_sensor x = Some (sp_sensor p)) new" using assms(3) by (auto simp: list_all_iff)
  have "q = p" if "latest_push (pushes @ [p]) q" "sp_sensor q = sp_sensor p" for q
    using that assms(2) latest_push_iff [OF assms(1), of q] latest_push_iff [OF assms(1), of p]
    by (auto simp: latest_push_def)
  then have only: "list_ex (\<lambda>q. latest_push (pushes @ [p]) q \<and> sp_sensor q = sp_sensor p \<and> R q) (pushes @ [p]) \<longleftrightarrow> R p" for R
    using list_ex_unique [of p "pushes @ [p]" "\<lambda>q. latest_push (pushes @ [p]) q \<and> sp_sensor q = sp_sensor p" R] assms(2)
    by (simp add: conj_assoc)
  have mine: "in_view (pushes @ [p]) (rows @ new) r \<longleftrightarrow> se_payload r = Some (sp_payload p)"
    if "se_sensor r = Some (sp_sensor p)" for r
    using tagged that only [of "\<lambda>q. se_payload r = Some (sp_payload q)"] by (simp add: in_view_def)
  have "r \<in> set (assemble_union (pushes @ [p]) (rows @ new)) \<longleftrightarrow>
      r \<in> set new \<union> {r \<in> set (assemble_union pushes rows). se_sensor r \<noteq> Some (sp_sensor p)}" for r
  proof (cases "se_sensor r = Some (sp_sensor p)")
    case True
    then show ?thesis
      using mine [OF True] assms(3,4) merged_view_members [OF assms(1)] by (auto simp: list_all_iff)
  next
    case False
    then show ?thesis
      using in_view_other [OF False new, of pushes rows] merged_view_members [OF assms(1)] merged_view_members [OF ids]
        assms(3) by (auto simp: list_all_iff)
  qed
  with tagged show ?thesis by auto
next
  case False
  have "new = []"
  proof (cases new)
    case (Cons r rs)
    then show ?thesis using False assms(3) by (simp add: of_sensor_def)
  qed
  with False have "\<not> list_ex (\<lambda>r. se_payload r \<noteq> None) (of_sensor (Some (sp_sensor p)) rows)" by simp
  from in_view_untagged [OF this] have "in_view (pushes @ [p]) rows r \<longleftrightarrow> in_view pushes rows r" for r .
  moreover have "distinct (map sp_id pushes)" using assms(1) by auto
  ultimately have "set (assemble_union (pushes @ [p]) rows) = set (assemble_union pushes rows)"
    using merged_view_members [OF assms(1)] merged_view_members by simp
  with False \<open>new = []\<close> show ?thesis by simp
qed

section \<open>The merged score\<close>

text \<open>A merge whose findings can be derived always returns.  An empty view has no score, no rating and a coverage
  warning; any other view is scored once, as a whole, and the score is in range.  One run is recorded, with that
  score and the number of rows of the view, and the rows, pushes and sensors are left alone.\<close>

theorem merge_scores_the_whole_view:
  assumes "derive_report_findings loads now designated (map se_row (assemble_union (ms_pushes s) (ms_rows s))) = Inr fs"
  shows "\<exists>g s'. merge_scan stamp artifacts (default_report_deriver loads now designated) now days profile ws s = Inr (g, s') \<and>
    s' = s\<lparr>ms_runs := ms_runs s'\<rparr> \<and>
    map (\<lambda>r. (mr_score r, mr_endpoint_count r)) (ms_runs s') =
      map (\<lambda>r. (mr_score r, mr_endpoint_count r)) (ms_runs s) @
        [(mg_score g, length (assemble_union (ms_pushes s) (ms_rows s)))] \<and>
    (case map se_row (assemble_union (ms_pushes s) (ms_rows s)) of
       [] \<Rightarrow> mg_score g = None \<and> mg_rating g = None \<and> \<not> mg_warning g = None
     | e # es \<Rightarrow> \<exists>r. compute_readiness_score (build_evidence_summary (e # es) (map row_of fs) 30 None) (Some profile) ws = Inr r \<and>
         mg_score g = r_score r \<and> mg_rating g = Some (r_rating r) \<and>
         (case r_score r of None \<Rightarrow> True | Some n \<Rightarrow> 0 \<le> n \<and> n \<le> 100))"
proof (cases "map se_row (assemble_union (ms_pushes s) (ms_rows s))")
  case Nil
  then show ?thesis by (simp add: merge_scan_def persist_run_def Let_def)
next
  case (Cons e es)
  obtain r where r: "compute_readiness_score (build_evidence_summary (e # es) (map row_of fs) 30 None) (Some profile) ws = Inr r"
    using compute_total by blast
  moreover have "length (assemble_union (ms_pushes s) (ms_rows s)) = Suc (length es)"
    using Cons by (metis length_Cons length_map)
  moreover have "case r_score r of None \<Rightarrow> True | Some n \<Rightarrow> 0 \<le> n \<and> n \<le> 100"
    using score_range [OF r] by (simp split: option.split)
  ultimately show ?thesis
    using assms Cons by (simp add: merge_scan_def persist_run_def default_report_deriver_def Let_def)
qed

section \<open>Samples and limits\<close>

definition sample_push :: "nat \<Rightarrow> string \<Rightarrow> int \<Rightarrow> sensor_push" where
  "sample_push i payload t = \<lparr>sp_id = i, sp_payload = payload, sp_sensor = ''s'', sp_received_at = t\<rparr>"

definition sample_row :: "nat \<Rightarrow> string option \<Rightarrow> sensor_endpoint" where
  "sample_row i payload = \<lparr>se_id = i, se_sensor = Some ''s'', se_payload = payload, se_row = closed_row\<rparr>"

lemmas sample_defs = sample_push_def sample_row_def

theorem merged_view_is_exact_witness:
  "set (assemble_union [sample_push 3 ''a'' 5] [sample_row 7 (Some ''a'')]) =
     {r \<in> set [sample_row 7 (Some ''a'')]. in_view [sample_push 3 ''a'' 5] [sample_row 7 (Some ''a'')] r} \<and>
   distinct (assemble_union [sample_push 3 ''a'' 5] [sample_row 7 (Some ''a'')])"
  by (rule merged_view_is_exact) simp_all

theorem push_replaces_its_sensor_witness:
  "set (assemble_union ([sample_push 3 ''a'' 5] @ [sample_push 4 ''b'' 9]) ([sample_row 7 (Some ''a'')] @ [sample_row 8 (Some ''b'')])) =
   set [sample_row 8 (Some ''b'')] \<union>
     {r \<in> set (assemble_union [sample_push 3 ''a'' 5] [sample_row 7 (Some ''a'')]). se_sensor r \<noteq> Some (sp_sensor (sample_push 4 ''b'' 9))}"
  using push_replaces_its_sensor [of "[sample_push 3 ''a'' 5]" "sample_push 4 ''b'' 9" "[sample_row 8 (Some ''b'')]"
      "[sample_row 7 (Some ''a'')]"]
  by (simp add: sample_defs latest_push_def of_sensor_def)

definition sample_store :: merge_store where
  "sample_store = \<lparr>ms_rows = [sample_row 7 (Some ''a'')], ms_pushes = [sample_push 3 ''a'' 5], ms_sensors = [], ms_runs = []\<rparr>"

lemma sample_union: "assemble_union [sample_push 3 ''a'' 5] [sample_row 7 (Some ''a'')] = [sample_row 7 (Some ''a'')]"
  by (simp add: assemble_union_def sensor_view_def local_view_def latest_payloads_def of_sensor_def sample_defs List.map_filter_def)

theorem merge_scores_the_whole_view_witness:
  "\<exists>g s'. merge_scan (\<lambda>_. []) (\<lambda>_. (None, None)) (default_report_deriver (\<lambda>_. None) 0 []) 0 30 ''balanced'' [] sample_store = Inr (g, s') \<and>
     map (\<lambda>r. (mr_score r, mr_endpoint_count r)) (ms_runs s') = [(mg_score g, 1)]"
proof -
  have rows: "map se_row (assemble_union (ms_pushes sample_store) (ms_rows sample_store)) = [closed_row]"
    "length (assemble_union (ms_pushes sample_store) (ms_rows sample_store)) = 1" "ms_runs sample_store = []"
    by (simp_all add: sample_store_def sample_union) (simp_all add: sample_defs)
  obtain fs where "derive_report_findings (\<lambda>_. None) 0 [] (map se_row (assemble_union (ms_pushes sample_store) (ms_rows sample_store))) = Inr fs"
    using closed_rows_readable(1) unfolding rows by blast
  from merge_scores_the_whole_view [OF this, of "\<lambda>_. []" "\<lambda>_. (None, None)" 30 "''balanced''" "[]"] rows(2,3)
  show ?thesis by auto
qed

text \<open>A sensor due every fifteen days or less often is never reported: it counts as decommissioned first.\<close>

lemma slow_sensors_never_overdue:
  "sn_last_push_at s = Some t \<Longrightarrow> sn_cadence_minutes s = Some m \<Longrightarrow> 21600 \<le> m \<Longrightarrow> \<not> overdue now default_stale_days s"
  by (simp add: overdue_def minute_def default_stale_days_def)

text \<open>A sensor with rows from before payloads were recorded keeps them when its first recorded push is empty.\<close>

lemma empty_push_keeps_old_rows:
  "assemble_union [sample_push 3 ''a'' 5] [sample_row 7 None] = [sample_row 7 None]"
  by (simp add: assemble_union_def sensor_view_def local_view_def in_bracket_def of_sensor_def sample_defs List.map_filter_def
      closed_row_def session_bracket_def minute_def)

end
