(* ===== verification/Schedules.thy ===== *)
theory Schedules
  imports Targets
begin

text \<open>
  \<open>quirk/otics_cadence.py\<close> and the dispatch loop of \<open>quirk/cli/scheduler_cmd.py\<close>.  Times are
  microseconds; \<open>cron e t\<close> is \<open>croniter(e, t).get_next()\<close>, None when it raises, and \<open>path\<close> the text
  of a \<open>Path\<close> of parts.  A configuration is the dictionary its YAML parses to; that the files can be
  read and written, and that \<open>load_config\<close> takes them, is assumed.  Every reading of the clock is a reading of its own: a dispatch blocks until
  its process ends, so the later ones of an iteration may be hours after the first.  Log lines and the
  notifications after a run are outside.
\<close>

section \<open>The cadence floor\<close>

definition otics_min_interval_hours :: real where
  "otics_min_interval_hours = 168"

definition otics_connector_keys :: "string list" where
  "otics_connector_keys = [''enable_modbus'', ''enable_bacnet'']"

definition otics_cron_sample_count :: nat where
  "otics_cron_sample_count = 10"

type_synonym cron = "string \<Rightarrow> int \<Rightarrow> int option"

fun firings :: "cron \<Rightarrow> string \<Rightarrow> int \<Rightarrow> nat \<Rightarrow> int list option" where
  "firings cron e t 0 = Some []"
| "firings cron e t (Suc n) =
     (case cron e t of None \<Rightarrow> None | Some u \<Rightarrow> map_option ((#) u) (firings cron e u n))"

fun gaps_hours :: "int list \<Rightarrow> real list" where
  "gaps_hours (a # b # ts) = of_int (b - a) / 3600000000 # gaps_hours (b # ts)"
| "gaps_hours _ = []"

definition min_gap_hours :: "cron \<Rightarrow> string \<Rightarrow> int \<Rightarrow> nat \<Rightarrow> real option" where
  "min_gap_hours cron e base samples =
     (case map_option gaps_hours (firings cron e base samples) of
        Some (g # gs) \<Rightarrow> Some (fold min gs g)
      | _ \<Rightarrow> None)"

definition violates_otics_floor :: "cron \<Rightarrow> string \<Rightarrow> int \<Rightarrow> bool" where
  "violates_otics_floor cron e base =
     (case min_gap_hours cron e base otics_cron_sample_count of
        None \<Rightarrow> True | Some g \<Rightarrow> g < otics_min_interval_hours)"

type_synonym config = "(string \<times> pyval) list"

definition connectors_of :: "config \<Rightarrow> config option" where
  "connectors_of base = (case map_of base ''connectors'' of Some (PyDict c) \<Rightarrow> Some c | _ \<Rightarrow> None)"

definition connector_on :: "string \<Rightarrow> config \<Rightarrow> bool" where
  "connector_on key base =
     (case connectors_of base of None \<Rightarrow> False | Some c \<Rightarrow> py_truthy (dict_get c key PyNone))"

definition otics_enabled_in_config :: "config \<Rightarrow> bool" where
  "otics_enabled_in_config base \<longleftrightarrow> list_ex (\<lambda>key. connector_on key base) otics_connector_keys"

definition recurring_otics_opted_in :: "config \<Rightarrow> bool" where
  "recurring_otics_opted_in base \<longleftrightarrow> connector_on ''enable_recurring_otics'' base"

definition strip_otics_keys :: "config \<Rightarrow> string list \<times> config" where
  "strip_otics_keys base =
     (case connectors_of base of
        None \<Rightarrow> ([], base)
      | Some c \<Rightarrow>
          (filter (\<lambda>key. key \<in> fst ` set c) otics_connector_keys,
           dict_put ''connectors'' (PyDict (fold dict_del otics_connector_keys c)) base))"

section \<open>Tables\<close>

record schedule =
  sd_id :: nat
  sd_name :: string
  sd_cron :: string
  sd_target :: string
  sd_profile :: "string option"
  sd_enabled :: "bool option"
  sd_last_run_at :: "int option"
  sd_check_in :: "bool option"

record sched_run =
  su_id :: nat
  su_schedule_id :: nat
  su_dispatched_at :: int
  su_completed_at :: "int option"
  su_status :: string
  su_output_path :: "string option"

record sched_store =
  sc_schedules :: "schedule list"
  sc_runs :: "sched_run list"

section \<open>Recovery\<close>

definition stale_threshold :: int where
  "stale_threshold = 2 * 3600000000"

definition stale_run :: "int \<Rightarrow> sched_run \<Rightarrow> bool" where
  "stale_run now r \<longleftrightarrow> su_status r \<in> {''pending'', ''running''} \<and> su_dispatched_at r < now - stale_threshold"

definition interrupt :: "int \<Rightarrow> sched_run \<Rightarrow> sched_run" where
  "interrupt now r = r\<lparr>su_status := ''failed'', su_output_path := Some ''INTERRUPTED'', su_completed_at := Some now\<rparr>"

definition recover_stale_runs :: "int \<Rightarrow> sched_store \<Rightarrow> nat \<times> sched_store" where
  "recover_stale_runs now s =
     (length (filter (stale_run now) (sc_runs s)),
      s\<lparr>sc_runs := map (\<lambda>r. if stale_run now r then interrupt now r else r) (sc_runs s)\<rparr>)"

section \<open>The configuration of a run\<close>

datatype sched_error = ServerConfigUnreadable string | NotAMapping string

record server_security =
  ss_allow_internal_targets :: bool
  ss_trusted_targets :: "pyval list"
  ss_error :: "string option"

definition minimal_scan_config :: config where
  "minimal_scan_config =
     [(''assessment'', PyDict [(''name'', PyStr ''scheduled-scan''), (''data_classification'', PyStr ''internal''),
        (''report_owner'', PyStr ''quirk-scheduler''), (''timezone'', PyStr ''UTC'')]),
      (''scan'', PyDict [(''concurrency'', PyInt 10), (''ports_tls'', PyList [PyInt 443, PyInt 8443])]),
      (''targets'', PyDict [(''fqdns'', PyList []), (''cidrs'', PyList []), (''include_ips'', PyList []),
        (''exclude_ips'', PyList [])]),
      (''connectors'', PyDict []),
      (''output'', PyDict [(''directory'', PyStr ''output''), (''db_path'', PyStr ''quirk.db'')])]"

definition classify_target :: "string \<Rightarrow> string" where
  "classify_target target =
     (let t = py_strip target in
      if CHR ''/'' \<in> set t \<and> ip_network t \<noteq> None then ''cidrs''
      else if ip_address t \<noteq> None then ''include_ips'' else ''fqdns'')"

definition with_security :: "server_security \<Rightarrow> config \<Rightarrow> config" where
  "with_security sec base =
     (let trusted = (if ss_trusted_targets sec \<noteq> [] then [(''trusted_targets'', PyList (ss_trusted_targets sec))] else []);
          internal = (if ss_allow_internal_targets sec then [(''allow_internal_targets'', PyBool True)] else []) in
      if trusted @ internal = [] then base else dict_put ''security'' (PyDict (trusted @ internal)) base)"

definition base_config :: "server_security \<Rightarrow> config option \<Rightarrow> sched_error + config" where
  "base_config sec given =
     (case given of
        Some b \<Rightarrow> Inr b
      | None \<Rightarrow>
          if py_or_str (ss_error sec) \<noteq> [] then Inl (ServerConfigUnreadable (py_or_str (ss_error sec)))
          else Inr (with_security sec minimal_scan_config))"

definition fill_sections :: "config \<Rightarrow> config" where
  "fill_sections base = fold (\<lambda>(k, v) b. if map_of b k = None then dict_put k v b else b) minimal_scan_config base"

definition as_list :: "(pyval \<Rightarrow> string) \<Rightarrow> pyval \<Rightarrow> pyval list" where
  "as_list repr v = (if \<not> py_truthy v then [] else (case v of PyList xs \<Rightarrow> xs | _ \<Rightarrow> [PyStr (py_str repr v)]))"

definition inject_target :: "(pyval \<Rightarrow> string) \<Rightarrow> string \<Rightarrow> config \<Rightarrow> sched_error + config" where
  "inject_target repr t base =
     (if t = [] then Inr base
      else (case map_of base ''targets'' of
              Some (PyDict ts) \<Rightarrow>
                (let bucket = classify_target t; existing = as_list repr (dict_get ts bucket PyNone) in
                 Inr (dict_put ''targets''
                   (PyDict (dict_put bucket (PyList (if PyStr t \<in> set existing then existing else existing @ [PyStr t])) ts))
                   base))
            | _ \<Rightarrow> Inl (NotAMapping ''targets'')))"

definition otics_gate :: "cron \<Rightarrow> int \<Rightarrow> string \<Rightarrow> config \<Rightarrow> config" where
  "otics_gate cron now e base =
     (if otics_enabled_in_config base \<and> (\<not> recurring_otics_opted_in base \<or> violates_otics_floor cron e now)
      then snd (strip_otics_keys base) else base)"

definition strip_authenticated_mode :: "config \<Rightarrow> config" where
  "strip_authenticated_mode base =
     (case connectors_of base of
        None \<Rightarrow> base
      | Some c \<Rightarrow>
          if py_truthy (dict_get c ''enable_authenticated_mode'' PyNone)
          then dict_put ''connectors'' (PyDict (dict_put ''enable_authenticated_mode'' (PyBool False) c)) base else base)"

definition anchor_output :: "string \<Rightarrow> config \<Rightarrow> sched_error + config" where
  "anchor_output dir base =
     (case map_of base ''output'' of
        Some (PyDict out) \<Rightarrow> Inr (dict_put ''output'' (PyDict (dict_put ''directory'' (PyStr dir) out)) base)
      | _ \<Rightarrow> Inl (NotAMapping ''output''))"

definition materialize_scan_config ::
    "cron \<Rightarrow> (pyval \<Rightarrow> string) \<Rightarrow> int \<Rightarrow> server_security \<Rightarrow> schedule \<Rightarrow> config option \<Rightarrow> string \<Rightarrow> sched_error + config" where
  "materialize_scan_config cron repr now sec sched given dir =
     bind_err (base_config sec given)
       (\<lambda>b. bind_err (inject_target repr (py_strip (sd_target sched)) (fill_sections b))
         (\<lambda>b. anchor_output dir (strip_authenticated_mode (otics_gate cron now (sd_cron sched) b))))"

section \<open>Dispatch\<close>

definition plain_name_char :: "char \<Rightarrow> bool" where
  "plain_name_char c \<longleftrightarrow> alnum c \<or> c = CHR ''_'' \<or> c = CHR ''-''"

text \<open>A name of the safe shape; \<open>$\<close> also matches before a last line feed.\<close>

definition safe_name_shape :: "string \<Rightarrow> bool" where
  "safe_name_shape s \<longleftrightarrow>
     (let body = (if s \<noteq> [] \<and> char_code (last s) = 10 then butlast s else s) in
      1 \<le> length body \<and> length body \<le> 128 \<and> list_all plain_name_char body)"

definition safe_name :: "string \<Rightarrow> string" where
  "safe_name s = (if safe_name_shape s then s else ''unnamed'')"

definition build_scan_argv :: "string \<Rightarrow> schedule \<Rightarrow> string \<Rightarrow> string list" where
  "build_scan_argv python sched generated =
     [python, ''-m'', ''run_scan'', ''--config'', generated] @
     (if sd_check_in sched = Some True then [''--check-in'']
      else [''--profile'', if py_or_str (sd_profile sched) \<noteq> [] then py_or_str (sd_profile sched) else ''standard''])"

text \<open>The world of one schedule in an iteration: the readings of the clock (when its next run is computed, when its
  dispatch begins, when the cadence floor is checked, when the dispatch ends), the security settings of the server, the base of the
  output tree, the text of the time, and what becomes of the process (its exit code, None when it cannot be
  started).\<close>

record dispatch_env =
  dp_reading :: int
  dp_now :: int
  dp_gate :: int
  dp_done :: int
  dp_security :: server_security
  dp_output_base :: string
  dp_stamp :: "int \<Rightarrow> string"
  dp_exit :: "string list \<Rightarrow> int option"

record setting =
  st_cron :: cron
  st_repr :: "pyval \<Rightarrow> string"
  st_path :: "string list \<Rightarrow> string"
  st_python :: string
  st_config :: "config option"

definition fresh_run_id :: "sched_store \<Rightarrow> nat" where
  "fresh_run_id s = Suc (fold max (map su_id (sc_runs s)) 0)"

definition output_dir :: "setting \<Rightarrow> dispatch_env \<Rightarrow> schedule \<Rightarrow> string" where
  "output_dir g env sched =
     st_path g [dp_output_base env, ''scheduled'', safe_name (sd_name sched), dp_stamp env (dp_now env)]"

definition new_run :: "dispatch_env \<Rightarrow> schedule \<Rightarrow> string \<Rightarrow> int option \<Rightarrow> sched_store \<Rightarrow> sched_run" where
  "new_run env sched status completed s =
     \<lparr>su_id = fresh_run_id s, su_schedule_id = sd_id sched, su_dispatched_at = dp_now env, su_completed_at = completed,
      su_status = status, su_output_path = None\<rparr>"

definition add_run :: "sched_run \<Rightarrow> sched_store \<Rightarrow> sched_store" where
  "add_run r s = s\<lparr>sc_runs := sc_runs s @ [r]\<rparr>"

text \<open>Up to the commit before the process is started; the arguments of the process, when there is one.\<close>

definition begin_dispatch ::
    "setting \<Rightarrow> dispatch_env \<Rightarrow> schedule \<Rightarrow> sched_store \<Rightarrow> sched_error + (sched_run \<times> string list) option \<times> sched_store" where
  "begin_dispatch g env sched s =
     (let failed = (None, add_run (new_run env sched ''failed'' (Some (dp_done env)) s) s);
          dir = output_dir g env sched in
      if st_config g = None \<and> py_strip (sd_target sched) = [] then Inr failed
      else (case materialize_scan_config (st_cron g) (st_repr g) (dp_gate env) (dp_security env) sched (st_config g) dir of
              Inl (ServerConfigUnreadable why) \<Rightarrow> Inr failed
            | Inl e \<Rightarrow> Inl e
            | Inr cfg \<Rightarrow>
                (let run = new_run env sched ''running'' None s in
                 Inr (Some (run, build_scan_argv (st_python g) sched (st_path g [dir, ''scan-config.generated.yaml''])),
                      add_run run s))))"

definition finish_dispatch ::
    "setting \<Rightarrow> dispatch_env \<Rightarrow> schedule \<Rightarrow> sched_run \<Rightarrow> string list \<Rightarrow> sched_store \<Rightarrow> sched_store" where
  "finish_dispatch g env sched run argv s =
     s\<lparr>sc_runs := map (\<lambda>r. if su_id r = su_id run
         then r\<lparr>su_status := (if dp_exit env argv = Some 0 then ''completed'' else ''failed''),
                su_completed_at := Some (dp_done env), su_output_path := Some (output_dir g env sched)\<rparr> else r) (sc_runs s),
       sc_schedules := map (\<lambda>x. if sd_id x = sd_id sched then x\<lparr>sd_last_run_at := Some (dp_now env)\<rparr> else x)
         (sc_schedules s)\<rparr>"

definition dispatch_schedule :: "setting \<Rightarrow> dispatch_env \<Rightarrow> schedule \<Rightarrow> sched_store \<Rightarrow> sched_error + sched_store" where
  "dispatch_schedule g env sched s =
     bind_err (begin_dispatch g env sched s)
       (\<lambda>(started, s). Inr (case started of None \<Rightarrow> s | Some (run, argv) \<Rightarrow> finish_dispatch g env sched run argv s))"

text \<open>For a schedule that never ran \<open>_compute_next_run\<close> reads the clock itself.\<close>

definition compute_next_run :: "cron \<Rightarrow> int \<Rightarrow> schedule \<Rightarrow> int option" where
  "compute_next_run cron reading sched =
     cron (sd_cron sched) (case sd_last_run_at sched of Some t \<Rightarrow> t | None \<Rightarrow> reading - 120000000)"

definition is_due :: "cron \<Rightarrow> int \<Rightarrow> int \<Rightarrow> schedule \<Rightarrow> bool" where
  "is_due cron now reading sched =
     (case compute_next_run cron reading sched of None \<Rightarrow> False | Some t \<Rightarrow> t \<le> now)"

text \<open>One schedule of an iteration, after the ones before it have run.\<close>

definition visit_schedule ::
    "setting \<Rightarrow> dispatch_env \<Rightarrow> int \<Rightarrow> schedule \<Rightarrow> nat \<times> sched_store \<Rightarrow> sched_error + nat \<times> sched_store" where
  "visit_schedule g env now sched acc =
     (if is_due (st_cron g) now (dp_reading env) sched
      then bind_err (dispatch_schedule g env sched (snd acc)) (\<lambda>s. Inr (Suc (fst acc), s))
      else Inr acc)"

text \<open>One iteration; \<open>env\<close> is the world each schedule meets when its turn comes, \<open>now\<close> the clock at the start.\<close>

definition check_and_dispatch_due ::
    "setting \<Rightarrow> (schedule \<Rightarrow> dispatch_env) \<Rightarrow> int \<Rightarrow> sched_store \<Rightarrow> sched_error + nat \<times> sched_store" where
  "check_and_dispatch_due g env now s =
     err_fold (\<lambda>x. visit_schedule g (env x) now x) (filter (\<lambda>x. sd_enabled x = Some True) (sc_schedules s)) (0, s)"

end
