(* ===== verification/Schedule_Properties.thy ===== *)
theory Schedule_Properties
  imports Schedules
begin

text \<open>
  What a recurring run may do (authenticated mode, the cadence floor of OT/ICS probes, the target), that an iteration
  runs every due schedule once and leaves nothing unfinished, and what recovery does to the runs of a crashed scheduler.
\<close>

section \<open>Configurations\<close>

definition connectors_ok :: "config \<Rightarrow> bool" where
  "connectors_ok b \<longleftrightarrow> (case connectors_of b of None \<Rightarrow> True | Some c \<Rightarrow> dict_ok c)"

lemma connectors_of_put [simp]:
  "connectors_of (dict_put k v b) = (if k = ''connectors'' then (case v of PyDict c \<Rightarrow> Some c | _ \<Rightarrow> None) else connectors_of b)"
  by (simp add: connectors_of_def dict_simps split: pyval.split)

lemma connector_on_cong: "connectors_of b = connectors_of b' \<Longrightarrow> connector_on key b = connector_on key b'"
  by (simp add: connector_on_def)

lemma fill_sections_map:
  "map_of (fill_sections b) k = (case map_of b k of None \<Rightarrow> map_of minimal_scan_config k | Some v \<Rightarrow> Some v)"
proof -
  have "map_of (fold (\<lambda>(k, v) b. if map_of b k = None then dict_put k v b else b) xs b) k =
      (case map_of b k of None \<Rightarrow> map_of xs k | Some v \<Rightarrow> Some v)" for xs
  proof (induction xs arbitrary: b)
    case (Cons x xs)
    show ?case by (cases x; cases "map_of b (fst x)") (simp_all add: Cons.IH dict_simps split: option.split)
  qed (simp split: option.split)
  then show ?thesis by (simp add: fill_sections_def)
qed

lemma fill_connectors_ok: "connectors_ok b \<Longrightarrow> connectors_ok (fill_sections b)"
  by (auto simp: connectors_ok_def connectors_of_def fill_sections_map minimal_scan_config_def dict_ok_def
      split: option.splits pyval.splits)

lemma base_connectors_ok:
  assumes "base_config sec given = Inr b" and "case given of None \<Rightarrow> True | Some b \<Rightarrow> connectors_ok b"
  shows "connectors_ok b"
proof (cases given)
  case None
  have "connectors_ok minimal_scan_config"
    by (simp add: connectors_ok_def connectors_of_def minimal_scan_config_def dict_ok_def)
  then have "connectors_ok (with_security sec minimal_scan_config)"
    by (auto simp: with_security_def Let_def connectors_ok_def)
  with None assms(1) show ?thesis by (simp add: base_config_def split: if_splits)
next
  case (Some b')
  with assms show ?thesis by (simp add: base_config_def)
qed

lemma inject_connectors: "inject_target repr t b = Inr b' \<Longrightarrow> connectors_of b' = connectors_of b"
  by (auto simp: inject_target_def Let_def split: if_splits option.splits pyval.splits)

lemma anchor_connectors: "anchor_output dir b = Inr b' \<Longrightarrow> connectors_of b' = connectors_of b"
  by (auto simp: anchor_output_def split: option.splits pyval.splits)

lemma stripped_off:
  assumes "connectors_ok b"
  shows "\<not> otics_enabled_in_config (snd (strip_otics_keys b))"
    "connectors_ok (snd (strip_otics_keys b))"
proof -
  show "\<not> otics_enabled_in_config (snd (strip_otics_keys b))"
  proof (cases "connectors_of b")
    case (Some c)
    then have "dict_ok c" using assms by (simp add: connectors_ok_def)
    then show ?thesis
      using Some by (simp add: otics_enabled_in_config_def connector_on_def strip_otics_keys_def otics_connector_keys_def
          dict_get_def dict_simps py_truthy_def)
  qed (simp add: otics_enabled_in_config_def connector_on_def strip_otics_keys_def list_ex_iff)
  show "connectors_ok (snd (strip_otics_keys b))"
    using assms by (auto simp: connectors_ok_def strip_otics_keys_def otics_connector_keys_def dict_simps split: option.splits)
qed

lemma gate_connectors_ok: "connectors_ok b \<Longrightarrow> connectors_ok (otics_gate cron now e b)"
  by (simp add: otics_gate_def stripped_off)

lemma gated:
  assumes "connectors_ok b" and "otics_enabled_in_config (otics_gate cron now e b)"
  shows "recurring_otics_opted_in (otics_gate cron now e b) \<and> \<not> violates_otics_floor cron e now"
  using assms stripped_off(1) [OF assms(1)] by (auto simp: otics_gate_def split: if_splits)

lemma authenticated_stripped:
  "connector_on key (strip_authenticated_mode b) = (key \<noteq> ''enable_authenticated_mode'' \<and> connector_on key b)"
proof (cases "connectors_of b")
  case (Some c)
  then show ?thesis
    by (simp add: strip_authenticated_mode_def connector_on_def dict_simps) (auto simp: py_truthy_def)
qed (simp add: strip_authenticated_mode_def connector_on_def)

text \<open>C39: a recurring run is tame: whatever the configuration file and the settings of the server, the configuration it
  runs with never has authenticated mode on, and has Modbus or BACnet probing on only with the opt-in and a
  cadence whose smallest gap is known and at least a week.\<close>

theorem recurring_scans_are_tame:
  assumes "materialize_scan_config cron repr now sec sched given dir = Inr cfg"
    and "case given of None \<Rightarrow> True | Some b \<Rightarrow> connectors_ok b"
  shows "\<not> connector_on ''enable_authenticated_mode'' cfg \<and>
    (if otics_enabled_in_config cfg
     then recurring_otics_opted_in cfg \<and>
       (case min_gap_hours cron (sd_cron sched) now otics_cron_sample_count of None \<Rightarrow> False | Some g \<Rightarrow> 168 \<le> g)
     else True)"
proof -
  obtain b b' where b: "base_config sec given = Inr b" "inject_target repr (py_strip (sd_target sched)) (fill_sections b) = Inr b'"
    "anchor_output dir (strip_authenticated_mode (otics_gate cron now (sd_cron sched) b')) = Inr cfg"
    using assms(1) by (auto simp: materialize_scan_config_def bind_err_Inr)
  let ?b = "otics_gate cron now (sd_cron sched) b'"
  have ok: "connectors_ok b'"
    using fill_connectors_ok [OF base_connectors_ok [OF b(1) assms(2)]] inject_connectors [OF b(2)] by (simp add: connectors_ok_def)
  have on: "connector_on key cfg = (key \<noteq> ''enable_authenticated_mode'' \<and> connector_on key ?b)" for key
    using connector_on_cong [OF anchor_connectors [OF b(3)]] authenticated_stripped by simp
  have auth: "\<not> connector_on ''enable_authenticated_mode'' cfg" by (simp add: on)
  have same: "otics_enabled_in_config cfg = otics_enabled_in_config ?b" "recurring_otics_opted_in cfg = recurring_otics_opted_in ?b"
    by (simp_all add: otics_enabled_in_config_def recurring_otics_opted_in_def otics_connector_keys_def on)
  have "recurring_otics_opted_in ?b \<and> \<not> violates_otics_floor cron (sd_cron sched) now" if "otics_enabled_in_config ?b"
    using ok that by (rule gated)
  then show ?thesis
    using auth unfolding same
    by (cases "min_gap_hours cron (sd_cron sched) now otics_cron_sample_count")
      (auto simp: violates_otics_floor_def otics_min_interval_hours_def)
qed

lemma gates_keep:
  assumes "k \<noteq> ''connectors''"
  shows "map_of (strip_authenticated_mode x) k = map_of x k" "map_of (otics_gate cron now e x) k = map_of x k"
  using assms by (auto simp: strip_authenticated_mode_def otics_gate_def strip_otics_keys_def dict_simps split: option.split)

lemma materialized:
  assumes "map_of b ''targets'' = Some (PyDict ts)" and "map_of b ''output'' = None"
  shows "\<exists>cfg. materialize_scan_config cron repr now sec sched (Some b) dir = Inr cfg"
proof -
  have targets: "map_of (fill_sections b) ''targets'' = Some (PyDict ts)" using assms(1) by (simp add: fill_sections_map)
  obtain out where out: "map_of (fill_sections b) ''output'' = Some (PyDict out)"
    using assms(2) by (auto simp: fill_sections_map minimal_scan_config_def)
  have "\<exists>b'. inject_target repr (py_strip (sd_target sched)) (fill_sections b) = Inr b' \<and> map_of b' ''output'' = Some (PyDict out)"
    using out by (cases "py_strip (sd_target sched)") (simp_all add: inject_target_def targets Let_def dict_simps)
  then obtain b' where "inject_target repr (py_strip (sd_target sched)) (fill_sections b) = Inr b'"
    "map_of b' ''output'' = Some (PyDict out)" by blast
  then show ?thesis
    by (simp add: materialize_scan_config_def base_config_def anchor_output_def gates_keep)
qed

text \<open>A recurring run scans its target and keeps what the file scans: the target stands in the list its form asks for
  (networks, addresses or names), after the entries that were there, and the results go to the directory of the
  run.\<close>

theorem target_is_scanned:
  assumes "materialize_scan_config cron repr now sec sched (Some b) dir = Inr cfg"
    and "map_of b ''targets'' = Some (PyDict ts)" and "py_strip (sd_target sched) = c # cs"
  shows "(case map_of cfg ''targets'' of
      Some (PyDict ts') \<Rightarrow>
        (case map_of ts' (classify_target (c # cs)) of
           Some (PyList xs) \<Rightarrow>
             PyStr (c # cs) \<in> set xs \<and>
             (let old = as_list repr (dict_get ts (classify_target (c # cs)) PyNone) in take (length old) xs = old)
         | _ \<Rightarrow> False) \<and>
        list_all (\<lambda>k. k = classify_target (c # cs) \<or> map_of ts' k = map_of ts k) (map fst ts)
    | _ \<Rightarrow> False) \<and>
    (case map_of cfg ''output'' of Some (PyDict out) \<Rightarrow> map_of out ''directory'' = Some (PyStr dir) | _ \<Rightarrow> False)"
proof -
  have filled: "map_of (fill_sections b) ''targets'' = Some (PyDict ts)" using assms(2) by (simp add: fill_sections_map)
  obtain b' where b': "inject_target repr (c # cs) (fill_sections b) = Inr b'"
    "anchor_output dir (strip_authenticated_mode (otics_gate cron now (sd_cron sched) b')) = Inr cfg"
    using assms(1,3) by (auto simp: materialize_scan_config_def base_config_def bind_err_Inr)
  have "map_of cfg ''targets'' = map_of (strip_authenticated_mode (otics_gate cron now (sd_cron sched) b')) ''targets''"
    "case map_of cfg ''output'' of Some (PyDict out) \<Rightarrow> map_of out ''directory'' = Some (PyStr dir) | _ \<Rightarrow> False"
    using b'(2) by (auto simp: anchor_output_def dict_simps split: option.splits pyval.splits)
  then have cfg: "map_of cfg ''targets'' = map_of b' ''targets''"
    "case map_of cfg ''output'' of Some (PyDict out) \<Rightarrow> map_of out ''directory'' = Some (PyStr dir) | _ \<Rightarrow> False"
    by (simp_all add: gates_keep)
  show ?thesis
    using cfg(2) b'(1) unfolding cfg(1)
    by (auto simp: inject_target_def filled Let_def dict_simps list_all_iff)
qed

section \<open>An iteration\<close>

definition finished :: "sched_run \<Rightarrow> bool" where
  "finished r \<longleftrightarrow> su_status r \<in> {''completed'', ''failed''} \<and> su_completed_at r \<noteq> None"

lemma fresh_run: "r \<in> set (sc_runs s) \<Longrightarrow> su_id r < fresh_run_id s"
proof -
  have bound: "a \<le> fold max ids a \<and> (i \<in> set ids \<longrightarrow> i \<le> fold max ids (a :: nat))" for ids a i
  proof (induction ids arbitrary: a)
    case (Cons x ids)
    show ?case using Cons.IH [of "max x a"] by auto
  qed simp
  assume "r \<in> set (sc_runs s)"
  then show ?thesis using bound [of 0 "map su_id (sc_runs s)" "su_id r"] by (simp add: fresh_run_id_def)
qed

lemma only_the_new_run:
  assumes "su_id r = fresh_run_id s"
  shows "map (\<lambda>x. if su_id x = su_id r then f x else x) (sc_runs s @ [r]) = sc_runs s @ [f r]"
proof -
  have "map (\<lambda>x. if su_id x = su_id r then f x else x) (sc_runs s) = sc_runs s"
    by (rule map_idI) (use fresh_run assms in force)
  then show ?thesis by simp
qed

text \<open>What one dispatch does to the tables: one finished run, and the time of the run when the process was due to start.
  It raises only when the configuration of the run cannot be built.\<close>

definition marked_run :: "dispatch_env \<Rightarrow> schedule \<Rightarrow> schedule \<Rightarrow> schedule" where
  "marked_run env sched x = (if sd_id x = sd_id sched then x\<lparr>sd_last_run_at := Some (dp_now env)\<rparr> else x)"

definition run_of :: "dispatch_env \<Rightarrow> schedule \<Rightarrow> sched_run \<Rightarrow> bool" where
  "run_of env sched r \<longleftrightarrow> su_schedule_id r = sd_id sched \<and> su_dispatched_at r = dp_now env \<and> finished r"

lemma dispatched:
  assumes "dispatch_schedule g env sched s = Inr s'"
  shows "\<exists>r. sc_runs s' = sc_runs s @ [r] \<and> run_of env sched r \<and>
    (sc_schedules s' = sc_schedules s \<or> sc_schedules s' = map (marked_run env sched) (sc_schedules s))"
proof -
  obtain started t where b: "begin_dispatch g env sched s = Inr (started, t)"
    and s': "s' = (case started of None \<Rightarrow> t | Some (run, argv) \<Rightarrow> finish_dispatch g env sched run argv t)"
    using assms by (auto simp: dispatch_schedule_def bind_err_Inr)
  consider "started = None" "t = add_run (new_run env sched ''failed'' (Some (dp_done env)) s) s"
    | argv where "started = Some (new_run env sched ''running'' None s, argv)" "t = add_run (new_run env sched ''running'' None s) s"
    using b by (auto simp: begin_dispatch_def Let_def split: if_splits sum.splits sched_error.splits)
  then show ?thesis
  proof cases
    case 1
    then show ?thesis by (simp add: s' add_run_def new_run_def finished_def run_of_def)
  next
    case 2
    let ?r = "new_run env sched ''running'' None s"
    let ?f = "\<lambda>r. r\<lparr>su_status := (if dp_exit env argv = Some 0 then ''completed'' else ''failed''),
                su_completed_at := Some (dp_done env), su_output_path := Some (output_dir g env sched)\<rparr>"
    have "sc_runs s' = sc_runs s @ [?f ?r]"
      using 2 only_the_new_run [of ?r s ?f] by (simp add: s' finish_dispatch_def add_run_def new_run_def)
    moreover have "sc_schedules s' = map (marked_run env sched) (sc_schedules s)"
      using 2 by (simp add: s' finish_dispatch_def add_run_def marked_run_def [abs_def])
    ultimately show ?thesis by (simp add: new_run_def finished_def run_of_def)
  qed
qed

definition unbuildable :: "setting \<Rightarrow> dispatch_env \<Rightarrow> schedule \<Rightarrow> sched_error \<Rightarrow> bool" where
  "unbuildable g env sched e \<longleftrightarrow>
     (\<exists>section. e = NotAMapping section) \<and>
     materialize_scan_config (st_cron g) (st_repr g) (dp_gate env) (dp_security env) sched (st_config g)
       (output_dir g env sched) = Inl e"

lemma dispatch_raises: "dispatch_schedule g env sched s = Inl e \<Longrightarrow> unbuildable g env sched e"
  by (cases e) (auto simp: dispatch_schedule_def begin_dispatch_def unbuildable_def Let_def bind_err_def
      split: if_splits sum.splits sched_error.splits)

text \<open>The schedules an iteration runs, each judged by the clock when its turn comes.\<close>

definition runs_now :: "setting \<Rightarrow> (schedule \<Rightarrow> dispatch_env) \<Rightarrow> int \<Rightarrow> schedule \<Rightarrow> bool" where
  "runs_now g env now x \<longleftrightarrow> sd_enabled x = Some True \<and> is_due (st_cron g) now (dp_reading (env x)) x"

definition marked_by :: "(schedule \<Rightarrow> dispatch_env) \<Rightarrow> schedule list \<Rightarrow> schedule \<Rightarrow> schedule \<Rightarrow> bool" where
  "marked_by env xs x x' \<longleftrightarrow> x' = x \<or> (\<exists>y \<in> set xs. sd_id y = sd_id x \<and> x' = x\<lparr>sd_last_run_at := Some (dp_now (env y))\<rparr>)"

lemma marked_by_trans:
  assumes "list_all2 (marked_by env xs) s t" and "list_all2 (marked_by env ys) t u"
  shows "list_all2 (marked_by env (xs @ ys)) s u"
proof (rule list_all2_trans [OF _ assms])
  show "marked_by env (xs @ ys) a c" if "marked_by env xs a b" "marked_by env ys b c" for a b c
    using that by (auto simp: marked_by_def)
qed

lemma visit_due:
  "is_due (st_cron g) now (dp_reading env) x \<Longrightarrow>
   visit_schedule g env now x (n, s) = bind_err (dispatch_schedule g env x s) (\<lambda>s. Inr (Suc n, s))"
  by (simp add: visit_schedule_def)

lemma visits:
  assumes "err_fold (\<lambda>x. visit_schedule g (env x) now x) xs (n, s) = Inr (n', s')"
  shows "\<exists>new. sc_runs s' = sc_runs s @ new \<and> n' = n + length new \<and>
    list_all2 (\<lambda>x r. run_of (env x) x r) (filter (\<lambda>x. is_due (st_cron g) now (dp_reading (env x)) x) xs) new \<and>
    list_all2 (marked_by env (filter (\<lambda>x. is_due (st_cron g) now (dp_reading (env x)) x) xs)) (sc_schedules s) (sc_schedules s')"
  using assms
proof (induction xs arbitrary: n s)
  case Nil
  then show ?case by (simp add: marked_by_def list_all2_refl)
next
  case (Cons x xs)
  let ?due = "\<lambda>x. is_due (st_cron g) now (dp_reading (env x)) x"
  show ?case
  proof (cases "?due x")
    case False
    with Cons show ?thesis by (simp add: visit_schedule_def)
  next
    case True
    then obtain t where t: "dispatch_schedule g (env x) x s = Inr t"
      "err_fold (\<lambda>x. visit_schedule g (env x) now x) xs (Suc n, t) = Inr (n', s')"
      using Cons.prems by (auto simp: visit_due bind_err_Inr)
    obtain r where r: "sc_runs t = sc_runs s @ [r]" "run_of (env x) x r"
      and marks: "sc_schedules t = sc_schedules s \<or> sc_schedules t = map (marked_run (env x) x) (sc_schedules s)"
      using dispatched [OF t(1)] by blast
    obtain new where new: "sc_runs s' = sc_runs t @ new" "n' = Suc n + length new"
      "list_all2 (\<lambda>x r. run_of (env x) x r) (filter ?due xs) new"
      "list_all2 (marked_by env (filter ?due xs)) (sc_schedules t) (sc_schedules s')"
      using Cons.IH [OF t(2)] by blast
    have "list_all2 (marked_by env [x]) (sc_schedules s) (sc_schedules t)"
      using marks
    proof
      assume "sc_schedules t = map (marked_run (env x) x) (sc_schedules s)"
      then show ?thesis by (simp add: list_all2_map2 list_all2_same marked_by_def marked_run_def)
    qed (simp add: list_all2_same marked_by_def)
    from marked_by_trans [OF this new(4)] r new True show ?thesis by (intro exI [of _ "r # new"]) simp
  qed
qed

lemma visits_raise:
  "err_fold (\<lambda>x. visit_schedule g (env x) now x) xs acc = Inl e \<Longrightarrow>
   \<exists>x \<in> set xs. is_due (st_cron g) now (dp_reading (env x)) x \<and> unbuildable g (env x) x e"
proof (induction xs arbitrary: acc)
  case (Cons x xs)
  show ?case
  proof (cases "visit_schedule g (env x) now x acc")
    case (Inl e')
    with Cons.prems have "is_due (st_cron g) now (dp_reading (env x)) x" "dispatch_schedule g (env x) x (snd acc) = Inl e"
      by (auto simp: visit_schedule_def bind_err_def split: if_splits sum.splits)
    with dispatch_raises show ?thesis by auto
  next
    case (Inr acc')
    with Cons show ?thesis by auto
  qed
qed simp

text \<open>C40: an iteration of the scheduler runs exactly what is due.  Each enabled schedule is judged when its turn comes,
  after the processes of the ones before it have ended: due is one whose next firing, counted from its last
  run or, if it never ran, from two minutes before the clock at that moment, is not after the start of the
  iteration.  Either the iteration ends; then the due schedules have run once each, in the order of the table, and no
  other, each run is finished (completed or failed, with its time), the runs recorded before are not
  touched, and a schedule changes only in the time of its last run, to the start of that run.  Or it is cut short by an error;
  then the configuration file of some due schedule has a section for the targets or the output that is no mapping.
  That the files can be read and written, and that load_config takes them, is part of the model.\<close>

theorem iteration_runs_what_is_due:
  "case check_and_dispatch_due g env now s of
     Inr (n, s') \<Rightarrow>
       (\<exists>new. sc_runs s' = sc_runs s @ new \<and> n = length new \<and>
          list_all2 (\<lambda>x r. su_schedule_id r = sd_id x \<and> su_dispatched_at r = dp_now (env x) \<and> finished r)
            (filter (runs_now g env now) (sc_schedules s)) new) \<and>
       list_all2 (\<lambda>x x'. x' = x \<or>
           (\<exists>y \<in> set (filter (runs_now g env now) (sc_schedules s)).
              sd_id y = sd_id x \<and> x' = x\<lparr>sd_last_run_at := Some (dp_now (env y))\<rparr>))
         (sc_schedules s) (sc_schedules s')
   | Inl e \<Rightarrow>
       (\<exists>x \<in> set (filter (runs_now g env now) (sc_schedules s)). (\<exists>section. e = NotAMapping section) \<and>
          materialize_scan_config (st_cron g) (st_repr g) (dp_gate (env x)) (dp_security (env x)) x (st_config g)
            (output_dir g (env x) x) = Inl e)"
proof -
  let ?enabled = "filter (\<lambda>x. sd_enabled x = Some True) (sc_schedules s)"
  have due: "filter (runs_now g env now) (sc_schedules s) =
      filter (\<lambda>x. is_due (st_cron g) now (dp_reading (env x)) x) ?enabled"
    by (simp add: runs_now_def [abs_def] conj_commute)
  show ?thesis
  proof (cases "check_and_dispatch_due g env now s")
    case (Inl e)
    then have "err_fold (\<lambda>x. visit_schedule g (env x) now x) ?enabled (0, s) = Inl e"
      by (simp add: check_and_dispatch_due_def)
    from visits_raise [OF this] have "\<exists>x \<in> set (filter (runs_now g env now) (sc_schedules s)). unbuildable g (env x) x e"
      unfolding due by auto
    with Inl show ?thesis by (simp only: sum.case unbuildable_def)
  next
    case (Inr r)
    obtain n s' where r: "r = (n, s')" by (cases r)
    from Inr have "err_fold (\<lambda>x. visit_schedule g (env x) now x) ?enabled (0, s) = Inr (n, s')"
      by (simp add: check_and_dispatch_due_def r)
    from visits [OF this, folded due] obtain new where new: "sc_runs s' = sc_runs s @ new" "n = length new"
        "list_all2 (\<lambda>x r. run_of (env x) x r) (filter (runs_now g env now) (sc_schedules s)) new"
      and "list_all2 (marked_by env (filter (runs_now g env now) (sc_schedules s))) (sc_schedules s) (sc_schedules s')"
      by auto
    note marks = this(4) [unfolded marked_by_def]
    have "\<exists>new. sc_runs s' = sc_runs s @ new \<and> n = length new \<and>
        list_all2 (\<lambda>x r. su_schedule_id r = sd_id x \<and> su_dispatched_at r = dp_now (env x) \<and> finished r)
          (filter (runs_now g env now) (sc_schedules s)) new"
      using new unfolding run_of_def by blast
    then show ?thesis unfolding Inr r sum.case prod.case using marks by (rule conjI)
  qed
qed

text \<open>Recovery fails exactly the stale runs, in place, and leaves none.\<close>

lemma recovery:
  assumes "recover_stale_runs now s = (n, s')"
  shows "n = length (filter (stale_run now) (sc_runs s))" "sc_schedules s' = sc_schedules s"
    "list_all2 (\<lambda>r r'. if stale_run now r then finished r' \<and> su_status r' = ''failed'' \<and> su_id r' = su_id r else r' = r)
      (sc_runs s) (sc_runs s')"
    "\<not> list_ex (stale_run now) (sc_runs s')"
  using assms
  by (auto simp: recover_stale_runs_def list_all2_conv_all_nth interrupt_def finished_def stale_run_def list_ex_iff)

section \<open>Samples and limits\<close>

definition every_week :: cron where
  "every_week e t = Some (t + 168 * 3600000000)"

definition every_midnight :: cron where
  "every_midnight e t = Some ((t div 86400000000 + 1) * 86400000000)"

definition open_security :: server_security where
  "open_security = \<lparr>ss_allow_internal_targets = False, ss_trusted_targets = [], ss_error = None\<rparr>"

definition plant_schedule :: schedule where
  "plant_schedule = \<lparr>sd_id = 3, sd_name = ''plant'', sd_cron = ''weekly'', sd_target = ''10.0.0.7'', sd_profile = None,
     sd_enabled = Some True, sd_last_run_at = None, sd_check_in = None\<rparr>"

definition plant_config :: config where
  "plant_config = [(''connectors'', PyDict [(''enable_modbus'', PyBool True), (''enable_authenticated_mode'', PyBool True)]),
     (''targets'', PyDict [(''fqdns'', PyList [PyStr ''a.example''])])]"

text \<open>A schedule that never ran is not due at once, only within two minutes of a firing time; when the dispatches before it
  take longer than that, it is not due at all in this iteration.\<close>

lemma first_run_waits: "\<not> is_due every_midnight (12 * 3600000000) (12 * 3600000000) plant_schedule"
  by (simp add: is_due_def compute_next_run_def every_midnight_def plant_schedule_def)

lemma late_turn_is_skipped:
  "is_due every_midnight (24 * 3600000000) (24 * 3600000000) plant_schedule"
  "\<not> is_due every_midnight (24 * 3600000000) (24 * 3600000000 + 180000000) plant_schedule"
  by (simp_all add: is_due_def compute_next_run_def every_midnight_def plant_schedule_def)

text \<open>A dispatch that fails before the process starts leaves the schedules as they are, so the schedule is due again in the
  next iteration, and one more failed run is recorded each time.\<close>

lemma unstartable_stays_due:
  assumes "st_config g = None" and "py_strip (sd_target sched) = []"
  shows "\<exists>r. dispatch_schedule g env sched s = Inr (s\<lparr>sc_runs := sc_runs s @ [r]\<rparr>) \<and> su_status r = ''failed''"
  using assms by (intro exI [of _ "new_run env sched ''failed'' (Some (dp_done env)) s"])
    (simp add: dispatch_schedule_def begin_dispatch_def add_run_def new_run_def)

lemma plant_materialized:
  "\<exists>cfg. materialize_scan_config cron repr now sec sched (Some plant_config) dir = Inr cfg"
  by (rule materialized) (simp_all add: plant_config_def)

theorem recurring_scans_are_tame_witness:
  "\<exists>cfg. materialize_scan_config every_week (\<lambda>_. []) 0 open_security plant_schedule (Some plant_config) ''out'' = Inr cfg \<and>
    \<not> connector_on ''enable_authenticated_mode'' cfg"
proof -
  obtain cfg where "materialize_scan_config every_week (\<lambda>_. []) 0 open_security plant_schedule (Some plant_config) ''out'' = Inr cfg"
    using plant_materialized by blast
  moreover have "case Some plant_config of None \<Rightarrow> True | Some b \<Rightarrow> connectors_ok b"
    by (simp add: plant_config_def connectors_ok_def connectors_of_def dict_ok_def)
  ultimately show ?thesis using recurring_scans_are_tame by blast
qed

theorem target_is_scanned_witness:
  "\<exists>cfg. materialize_scan_config every_week (\<lambda>_. []) 0 open_security plant_schedule (Some plant_config) ''out'' = Inr cfg \<and>
    (case map_of cfg ''output'' of Some (PyDict out) \<Rightarrow> map_of out ''directory'' = Some (PyStr ''out'') | _ \<Rightarrow> False)"
proof -
  obtain cfg where "materialize_scan_config every_week (\<lambda>_. []) 0 open_security plant_schedule (Some plant_config) ''out'' = Inr cfg"
    using plant_materialized by blast
  moreover have "map_of plant_config ''targets'' = Some (PyDict [(''fqdns'', PyList [PyStr ''a.example''])])"
    "py_strip (sd_target plant_schedule) = CHR ''1'' # ''0.0.0.7''"
    by (simp add: plant_config_def, code_simp)
  ultimately show ?thesis using target_is_scanned by blast
qed

definition plant_setting :: setting where
  "plant_setting = \<lparr>st_cron = (\<lambda>e t. Some (t + 60000000)), st_repr = (\<lambda>_. []), st_path = concat, st_python = ''python'',
     st_config = Some plant_config\<rparr>"

definition plant_env :: dispatch_env where
  "plant_env = \<lparr>dp_reading = 60, dp_now = 61, dp_gate = 62, dp_done = 90, dp_security = open_security,
     dp_output_base = ''out'', dp_stamp = (\<lambda>_. ''t''), dp_exit = (\<lambda>_. Some 0)\<rparr>"

theorem iteration_runs_what_is_due_witness:
  "\<exists>n s'. check_and_dispatch_due plant_setting (\<lambda>_. plant_env) 60 \<lparr>sc_schedules = [plant_schedule], sc_runs = []\<rparr> = Inr (n, s') \<and>
    map su_schedule_id (sc_runs s') = [3]"
proof -
  let ?s = "\<lparr>sc_schedules = [plant_schedule], sc_runs = []\<rparr>"
  have due: "filter (runs_now plant_setting (\<lambda>_. plant_env) 60) (sc_schedules ?s) = [plant_schedule]"
    by (simp add: runs_now_def is_due_def compute_next_run_def plant_setting_def plant_schedule_def plant_env_def)
  have none: "materialize_scan_config (st_cron plant_setting) (st_repr plant_setting) (dp_gate plant_env)
      (dp_security plant_env) plant_schedule (st_config plant_setting) (output_dir plant_setting plant_env plant_schedule) \<noteq> Inl e" for e
    using plant_materialized by (metis plant_setting_def setting.select_convs(5) Inl_not_Inr)
  have run: "case check_and_dispatch_due plant_setting (\<lambda>_. plant_env) 60 ?s of
     Inr (n, s') \<Rightarrow>
       (\<exists>new. sc_runs s' = sc_runs ?s @ new \<and> n = length new \<and>
          list_all2 (\<lambda>x r. su_schedule_id r = sd_id x \<and> su_dispatched_at r = dp_now plant_env \<and> finished r)
            (filter (runs_now plant_setting (\<lambda>_. plant_env) 60) (sc_schedules ?s)) new) \<and>
       list_all2 (\<lambda>x x'. x' = x \<or>
           (\<exists>y \<in> set (filter (runs_now plant_setting (\<lambda>_. plant_env) 60) (sc_schedules ?s)).
              sd_id y = sd_id x \<and> x' = x\<lparr>sd_last_run_at := Some (dp_now plant_env)\<rparr>))
         (sc_schedules ?s) (sc_schedules s')
   | Inl e \<Rightarrow>
       (\<exists>x \<in> set (filter (runs_now plant_setting (\<lambda>_. plant_env) 60) (sc_schedules ?s)). (\<exists>section. e = NotAMapping section) \<and>
          materialize_scan_config (st_cron plant_setting) (st_repr plant_setting) (dp_gate plant_env)
            (dp_security plant_env) x (st_config plant_setting) (output_dir plant_setting plant_env x) = Inl e)"
    by (rule iteration_runs_what_is_due)
  show ?thesis
  proof (cases "check_and_dispatch_due plant_setting (\<lambda>_. plant_env) 60 ?s")
    case (Inl e)
    with run none show ?thesis unfolding due by simp
  next
    case (Inr r)
    with run show ?thesis unfolding due by (cases r) (auto simp: list_all2_Cons1 plant_schedule_def)
  qed
qed

end
