(* ===== verification/Spec2Isabelle.thy ===== *)
theory Spec2Isabelle
  imports Scoring_Properties Evidence_Counts Closure_Properties Burndown Score_Lift Qramm Siem_Formatter Port_Spec Rate_Limits
    Findings_Agreement Roadmap_Properties Bookkeeping_Properties Exposure_Properties Url_Guard_Properties
    Trend_Properties Confidence_Properties Targets Subprocess_Input Drift_Properties
    Merge_Properties Schedule_Properties
begin

text \<open>
  QU.I.R.K. scans an estate for cryptography, turns what the scanners saw into evidence counters
  and findings, scores the estate's quantum readiness, keeps a remediation roadmap whose items are
  closed only by verification against a later scan, and publishes the result (reports, a
  dashboard, CEF events).  This library models the decision logic of \<open>src/quirk\<close> and proves
  what makes it correct.  Network input and output, rendering and the user interface are outside.
  Each property is stated under its number (C1, C2, ...) in the theory of its component.

  Parts, in the order of the imports.

  \<open>Prelude\<close>: Python values and the standard library operations the code uses (\<open>int()\<close>,
  \<open>round()\<close>, truth and \<open>or\<close>, case mapping, \<open>strip\<close>, \<open>split\<close>, dictionaries as
  association lists in insertion order), errors as the left summand, a fold that stops at the
  first error.

  Scoring: \<open>Severity_Bands\<close> (\<open>severity_bands.py\<close>); \<open>Score_Weights\<close>, \<open>Scoring\<close>
  (\<open>intelligence/scoring.py\<close>: the tables and helpers, then \<open>compute_readiness_score\<close> from
  the counters to the result dictionary, one definition per domain); \<open>Scoring_Facts\<close> (bounds,
  ceilings), \<open>Scoring_Monotone\<close> (the weakness order and one monotonicity lemma per domain,
  over the response-curve locale), \<open>Scoring_Properties\<close>.  \<open>Score_Lift\<close>
  (\<open>intelligence/score_lift.py\<close>): the mutators of the roadmap items, each shown to give
  evidence that is at least as weak as the original, so that the order of \<open>Scoring_Monotone\<close>
  carries over to the projections.

  Evidence: \<open>Weak_Crypto\<close> (\<open>util/weak_crypto.py\<close> and the title bridge of
  \<open>dashboard/api/finding_title_bridge.py\<close>), \<open>Evidence\<close> (\<open>intelligence/evidence.py\<close>: the
  loop over the scanned rows as the left fold of \<open>count_endpoint\<close>, one list of increments per
  protocol branch, then the mapping the scoring reads).  \<open>Evidence_Properties\<close> composes the
  evidence with the score (rows that say nothing, scans that reached nothing, more findings),
  \<open>Evidence_Counts\<close> shows that the counters are numbers of rows.

  Closure: \<open>Models\<close> (the five tables of \<open>models.py\<close> with their unique constraints and
  query shapes), \<open>Scope_Signature\<close> (\<open>intelligence/scope_signature.py\<close>, probe families and
  their health, with the registry contract as a locale), \<open>Remediation\<close> (vocabulary and
  progress), \<open>Closure\<close> (\<open>intelligence/closure.py\<close>, every function; \<open>compute_closure\<close>
  is the verdict on a prior row, the first loop, the resurfacing loop, the item rollup, the commit
  and the exception guard).  \<open>Closure_Facts\<close> and \<open>Closure_Loops\<close> hold the invariants of
  the loops (the history is only extended; what the first loop may do), \<open>Closure_Exact\<close>,
  \<open>Closure_Resurface\<close> and \<open>Closure_Rollup\<close> the exact effect of each loop in terms of the
  stored rows, \<open>Closure_Runs\<close> composes them, \<open>Closure_Properties\<close> states the claims with
  a sample database as witness.

  Deadlines: \<open>Classifier\<close> (\<open>cbom/classifier.py\<close> and \<open>scanner/pqc_deadlines.py\<close>, the
  CycloneDX enumeration as a datatype), \<open>Burndown\<close> (\<open>intelligence/burndown.py\<close>).

  Findings: \<open>Compliance\<close> (\<open>compliance/__init__.py\<close>: references and the title normaliser),
  \<open>Finding_Texts\<close>, \<open>Findings_Evaluator\<close> and \<open>Findings_Services\<close>
  (\<open>engine/findings_evaluator.py\<close>: the text of every finding, then one list of drafts per row and evaluator,
  the chokepoint that builds a finding, deduplication and postprocessing).  \<open>Best_Per_Key\<close> is the
  locale of the loop that keeps the best entry of a key, interpreted in \<open>Findings_Dedup\<close> and the
  roadmap.  \<open>Findings_Properties\<close> says when the evaluators return, \<open>Findings_Dedup\<close> what is kept,
  \<open>Findings_Agreement\<close> where the findings and the counters of the evidence agree, and
  \<open>Findings_Pipeline\<close> composes rows, findings, evidence, score and the executive content.

  Reports: \<open>Content_Model\<close> (\<open>reports/content_model.py\<close>) and \<open>Content_Properties\<close> (the
  congruence guard never fires); \<open>Confidence\<close> and \<open>Confidence_Properties\<close>
  (\<open>intelligence/confidence.py\<close>); \<open>Trends\<close> and \<open>Trend_Properties\<close>
  (\<open>intelligence/trends.py\<close>: exact sets, severities and transitions, scores that are those of the reports).

  The roadmap and the end of a scan: \<open>Roadmap\<close>, \<open>Roadmap_Properties\<close>
  (\<open>intelligence/roadmap.py\<close>); \<open>Remediation_Persist\<close>
  (\<open>intelligence/remediation_persist.py\<close>, with the session that does not show its own unflushed rows) and
  \<open>Persist_Properties\<close> (refinement of a loop that writes at once, what is written, idempotence);
  \<open>Scope_Persist\<close> (the writing half of \<open>intelligence/scope_signature.py\<close>, the extras of
  \<open>util/optional_extra.py\<close>, and the sequence of snapshot, signature and closure in \<open>run_scan.py\<close>)
  and \<open>Bookkeeping_Properties\<close>, which composes the three.

  Exposure: \<open>Key_Reuse\<close>, \<open>Hardware_Bridge\<close>, \<open>Exposure_Map\<close>, \<open>Exposure_Properties\<close>
  (\<open>intelligence/key_reuse.py\<close>, \<open>models_util.py\<close>, \<open>cbom/bridge.py\<close>,
  \<open>intelligence/exposure_map.py\<close>).  Hardware history: \<open>Drift\<close>, \<open>Drift_Properties\<close>
  (\<open>scanner/hw_cve.py\<close>, \<open>hardware_tier.py\<close>, \<open>hardware_eol.py\<close>,
  \<open>hardware_drift.py\<close>).

  Several scans and sensors: \<open>Merge\<close>, \<open>Merge_Properties\<close> (\<open>merge/scan.py\<close>);
  \<open>Schedules\<close>, \<open>Schedule_Properties\<close> (\<open>otics_cadence.py\<close>,
  \<open>cli/scheduler_cmd.py\<close>: the configuration of a recurring run, dispatch, one iteration with a clock
  reading per schedule, recovery).

  Guards on input: \<open>Ip_Address\<close> (the part of Python's \<open>ipaddress\<close> the code relies on),
  \<open>Url_Guard\<close>, \<open>Url_Guard_Properties\<close> (\<open>util/url_allowlist.py\<close>), \<open>Targets\<close>
  (\<open>util/targets.py\<close>), \<open>Port_Spec\<close> (\<open>util/port_spec.py\<close>), \<open>Subprocess_Input\<close>
  (\<open>util/subprocess_input.py\<close>).

  Self-contained components: \<open>Qramm\<close> (\<open>qramm/scoring.py\<close>,
  \<open>qramm/assessment_state.py\<close>, the row status of \<open>dashboard/api/routes/qramm.py\<close>),
  \<open>Siem_Formatter\<close> (\<open>siem/formatter.py\<close>, with a reader of the CEF format as
  specification), \<open>Rate_Limits\<close> (\<open>dashboard/api/middleware/rate_limit.py\<close> and
  \<open>engine/rate_limiter.py\<close>, step functions with the reachable states as inductive predicates, and the
  waiting loop of \<open>acquire\<close> with the draws of other threads during each wait).

  Modelling choices.  Floats are reals; the headline of the score is proved insensitive to
  rounding errors below a tenth, and its weights are small decimals.  Strings are lists of
  256-code characters, so text outside Latin-1 is not covered, and case mapping and digits are those of ASCII; the dash
  in the disclosure is its three UTF-8 bytes.  Python integers are unbounded; addresses are words of
  32 and 128 bits.  A JSON text column of the closure tables is the value it parses to.  Timestamps are
  integers.  One clock reading serves a whole computation, except where a blocking call lies
  between two readings: the end of a scan and the dispatch loop have one reading per step.  The session
  runs without autoflush: queries see the database as it was when the
  computation began, objects see the changes made in memory, and the model keeps both.  Failures of the
  database itself (a file that cannot be opened or written) are outside.  Python
  sets are lists without regard to order where the code only tests membership; the slugs of the
  item rollup are visited in one fixed order.  A lock makes each request one step.

  Parameters stand for what is not in the repository: the text Python gives to floats, lists and
  dictionaries and the reading of floats, where they reach the output; SHA-256; \<open>json.loads\<close>;
  the resolver, the environment variables, importable modules and programs on the path; the file system
  (canonical paths, sizes, lines); the times a cron expression fires; the exit of a process; the files of
  the bill of materials.  The models of \<open>urlparse\<close> and \<open>ipaddress\<close> follow CPython 3.11.

  No fuel is used.  Every loop of the modelled code but one runs over a finite list or consumes its text
  (\<open>strip_userinfo\<close>, by the length); the waiting loop of \<open>acquire\<close> may go on for ever, so it is a
  partial function into an option, and C31 says exactly when it returns.

  Not modelled: the network scanners and connectors with their third-party libraries; configuration files,
  profiles and the wizard; the scan driver (but for the end of a scan) and the command line; enrolment and ingestion of
  sensors; notifications, transports and ticket channels; HTTP clients and credentials; the dashboard beyond the two
  pieces above; rendering of reports; the CBOM builder, which assembles objects of a library; the
  acceptance-test runner; migrations.
\<close>

end
